(* ===== verification/Prelude.thy ===== *)
theory Prelude
  imports Main "HOL-Library.Word" "HOL-Library.Monad_Syntax"
begin

text \<open>
  Shared vocabulary of the development.

  The Rust sources use fixed-width integers, \<open>Result\<close> values with the \<open>?\<close> operator, byte
  vectors and big-endian integer encodings. This theory fixes how these are represented:
  integers are words, a \<open>Result\<close> is a sum with the error on the left, a byte vector is a list
  of 8-bit words. It holds the generic lemmas on them and the collections of rules that the
  component theories extend.
\<close>

section \<open>Collections of rules\<close>

named_theorems result_simps \<open>inversion of chains of fallible steps\<close>
named_theorems codec_simps \<open>decoding what the encoders produce\<close>

section \<open>Machine integers\<close>

type_synonym u8 = "8 word"
type_synonym u16 = "16 word"
type_synonym u32 = "32 word"
type_synonym u64 = "64 word"
type_synonym bytes = "u8 list"

text \<open>\<open>u64::checked_add\<close> and \<open>u64::saturating_add\<close>.\<close>

definition checked_add :: "'a::len word \<Rightarrow> 'a word \<Rightarrow> 'a word option" where
  "checked_add a b = (if unat a + unat b < 2 ^ LENGTH('a) then Some (a + b) else None)"

definition saturating_add :: "'a::len word \<Rightarrow> 'a word \<Rightarrow> 'a word" where
  "saturating_add a b = (if unat a + unat b < 2 ^ LENGTH('a) then a + b else - 1)"

lemma unat_plus_no_overflow:
  fixes a b :: "'a::len word"
  assumes "unat a + unat b < 2 ^ LENGTH('a)"
  shows "unat (a + b) = unat a + unat b"
  using assms by (simp add: unat_word_ariths)

lemma checked_add_Some_iff:
  fixes a b c :: "'a::len word"
  shows "checked_add a b = Some c \<longleftrightarrow> unat c = unat a + unat b"
proof
  assume "checked_add a b = Some c"
  then show "unat c = unat a + unat b"
    by (auto simp: checked_add_def unat_plus_no_overflow split: if_splits)
next
  assume c: "unat c = unat a + unat b"
  have "unat c < 2 ^ LENGTH('a)" by simp
  with c have lt: "unat a + unat b < 2 ^ LENGTH('a)" by simp
  then have "a + b = c" using c by (simp add: word_unat_eq_iff unat_plus_no_overflow)
  with lt show "checked_add a b = Some c" by (simp add: checked_add_def)
qed

lemma checked_add_None_iff:
  fixes a b :: "'a::len word"
  shows "checked_add a b = None \<longleftrightarrow> 2 ^ LENGTH('a) \<le> unat a + unat b"
  by (auto simp: checked_add_def not_less)

lemma unat_saturating_add:
  fixes a b :: "'a::len word"
  shows "unat (saturating_add a b) = min (unat a + unat b) (2 ^ LENGTH('a) - 1)"
  by (auto simp: saturating_add_def unat_plus_no_overflow unsigned_minus_1_eq_mask mask_eq_exp_minus_1 min_def)

lemma less_saturating_add_iff:
  fixes a b c :: "'a::len word"
  shows "saturating_add a b < c \<longleftrightarrow> unat a + unat b < unat c"
proof -
  have "unat c < 2 ^ LENGTH('a)" by simp
  then have "unat c \<le> 2 ^ LENGTH('a) - 1" by linarith
  then show ?thesis by (auto simp: word_less_nat_alt unat_saturating_add)
qed

section \<open>Results\<close>

type_synonym ('a, 'e) result = "'e + 'a"

abbreviation Ok :: "'a \<Rightarrow> ('a, 'e) result" where
  "Ok \<equiv> Inr"

abbreviation Err :: "'e \<Rightarrow> ('a, 'e) result" where
  "Err \<equiv> Inl"

text \<open>The \<open>?\<close> operator: go on with the value, or return the error.\<close>

definition and_then :: "('a, 'e) result \<Rightarrow> ('a \<Rightarrow> ('b, 'e) result) \<Rightarrow> ('b, 'e) result" where
  "and_then r f = (case r of Inl e \<Rightarrow> Inl e | Inr x \<Rightarrow> f x)"

definition map_err :: "('e \<Rightarrow> 'f) \<Rightarrow> ('a, 'e) result \<Rightarrow> ('a, 'f) result" where
  "map_err f r = (case r of Inl e \<Rightarrow> Inl (f e) | Inr x \<Rightarrow> Inr x)"

definition ok_or :: "'a option \<Rightarrow> 'e \<Rightarrow> ('a, 'e) result" where
  "ok_or x e = (case x of None \<Rightarrow> Inl e | Some y \<Rightarrow> Inr y)"

definition is_err :: "('a, 'e) result \<Rightarrow> bool" where
  "is_err r = (case r of Inl _ \<Rightarrow> True | Inr _ \<Rightarrow> False)"

text \<open>\<open>Option::or\<close>: the first value, or else the second.\<close>

definition opt_or :: "'a option \<Rightarrow> 'a option \<Rightarrow> 'a option" where
  "opt_or x y = (case x of None \<Rightarrow> y | Some _ \<Rightarrow> x)"

definition unwrap_or :: "'a option \<Rightarrow> 'a \<Rightarrow> 'a" where
  "unwrap_or x d = (case x of None \<Rightarrow> d | Some y \<Rightarrow> y)"

lemma and_then_simps [simp]:
  "and_then (Inr x) f = f x"
  "and_then (Inl e) f = Inl e"
  by (simp_all add: and_then_def)

lemma map_err_simps [simp]:
  "map_err g (Inr x) = Inr x"
  "map_err g (Inl e) = Inl (g e)"
  by (simp_all add: map_err_def)

lemma ok_or_simps [simp]:
  "ok_or (Some x) e = Inr x"
  "ok_or None e = Inl e"
  by (simp_all add: ok_or_def)

lemma is_err_simps [simp]:
  "\<not> is_err (Inr x)"
  "is_err (Inl e)"
  by (simp_all add: is_err_def)

lemma opt_or_simps [simp]:
  "opt_or (Some x) y = Some x"
  "opt_or None y = y"
  by (simp_all add: opt_or_def)

lemma unwrap_or_simps [simp]:
  "unwrap_or (Some x) d = x"
  "unwrap_or None d = d"
  by (simp_all add: unwrap_or_def)

lemma and_then_eq_Ok [result_simps]:
  "and_then r f = Inr y \<longleftrightarrow> (\<exists>x. r = Inr x \<and> f x = Inr y)"
  by (cases r) auto

lemma and_then_eq_Err [result_simps]:
  "and_then r f = Inl e \<longleftrightarrow> r = Inl e \<or> (\<exists>x. r = Inr x \<and> f x = Inl e)"
  by (cases r) auto

lemma map_err_eq_Ok [result_simps]: "map_err g r = Inr y \<longleftrightarrow> r = Inr y"
  by (cases r) auto

lemma map_err_eq_Err [result_simps]: "map_err g r = Inl e \<longleftrightarrow> (\<exists>d. r = Inl d \<and> e = g d)"
  by (cases r) auto

lemma ok_or_eq_Ok [result_simps]: "ok_or x e = Inr y \<longleftrightarrow> x = Some y"
  by (cases x) auto

lemma ok_or_eq_Err [result_simps]: "ok_or x e = Inl d \<longleftrightarrow> x = None \<and> d = e"
  by (cases x) auto

lemma not_is_err_iff [result_simps]: "\<not> is_err r \<longleftrightarrow> (\<exists>x. r = Inr x)"
  by (cases r) auto

lemma not_Err_unit [simp]: "(\<forall>e. a \<noteq> Inl e) \<longleftrightarrow> a = Inr ()"
  by (cases a) auto

section \<open>Big-endian encodings\<close>

text \<open>
  \<open>nat_to_be n k\<close> is the \<open>n\<close>-byte big-endian representation of \<open>k\<close>, the value of
  \<open>to_be_bytes\<close> on an integer of \<open>n\<close> bytes; \<open>nat_from_be\<close> reads it back.
\<close>

fun nat_to_be :: "nat \<Rightarrow> nat \<Rightarrow> bytes" where
  "nat_to_be 0 k = []"
| "nat_to_be (Suc n) k = nat_to_be n (k div 256) @ [word_of_nat (k mod 256)]"

definition nat_from_be :: "bytes \<Rightarrow> nat" where
  "nat_from_be bs = foldl (\<lambda>a b. a * 256 + unat b) 0 bs"

lemma nat_to_be_numeral [simp]:
  "nat_to_be (numeral n) k = nat_to_be (pred_numeral n) (k div 256) @ [word_of_nat (k mod 256)]"
  by (subst numeral_eq_Suc) (simp only: nat_to_be.simps)

lemma unat_u8_less: "unat (b :: u8) < 256"
proof -
  have "unat b < 2 ^ LENGTH(8)" by (rule unsigned_less)
  then show ?thesis by simp
qed

lemma length_nat_to_be [simp]: "length (nat_to_be n k) = n"
  by (induction n arbitrary: k) auto

lemma nat_from_be_simps [simp]:
  "nat_from_be [] = 0"
  "nat_from_be (bs @ [b]) = nat_from_be bs * 256 + unat b"
  by (simp_all add: nat_from_be_def)

lemma nat_from_be_to_be: "nat_from_be (nat_to_be n k) = k mod 256 ^ n"
proof (induction n arbitrary: k)
  case 0
  then show ?case by simp
next
  case (Suc n)
  have "unat (word_of_nat (k mod 256) :: u8) = k mod 256"
    by (simp add: unat_of_nat)
  then have "nat_from_be (nat_to_be (Suc n) k) = (k div 256) mod 256 ^ n * 256 + k mod 256"
    by (simp add: Suc.IH)
  also have "\<dots> = k mod (256 * 256 ^ n)"
    by (simp add: mod_mult2_eq mult.commute)
  finally show ?case by simp
qed

lemma nat_from_be_less: "nat_from_be bs < 256 ^ length bs"
proof (induction bs rule: rev_induct)
  case Nil
  then show ?case by simp
next
  case (snoc b bs)
  have "unat b < 256" by (rule unat_u8_less)
  moreover have "nat_from_be bs + 1 \<le> 256 ^ length bs" using snoc.IH by simp
  then have "(nat_from_be bs + 1) * 256 \<le> 256 ^ length bs * 256" by (rule mult_le_mono1)
  ultimately show ?case by simp
qed

lemma nat_to_be_from_be: "nat_to_be (length bs) (nat_from_be bs) = bs"
proof (induction bs rule: rev_induct)
  case Nil
  then show ?case by simp
next
  case (snoc b bs)
  have b: "unat b < 256" by (rule unat_u8_less)
  then have "(nat_from_be bs * 256 + unat b) div 256 = nat_from_be bs"
    and "(nat_from_be bs * 256 + unat b) mod 256 = unat b" by simp_all
  with snoc.IH show ?case by simp
qed

end
