(* ===== verification/Rust_Str.thy ===== *)
theory Rust_Str
  imports Prelude
begin

text \<open>
  Rust strings, and the operations of the standard library on them that the helper uses.

  A \<open>String\<close> is a vector of UTF-8 code units, so it is a HOL \<open>string\<close> whose characters are
  those code units; \<open>as_bytes\<close> exposes them and \<open>from_utf8\<close> is the checked way back.
  \<open>str::trim\<close> removes the characters of the Unicode property White_Space, which are listed
  here by their UTF-8 encodings.
\<close>

section \<open>Bytes and UTF-8\<close>

definition byte_of_char :: "char \<Rightarrow> u8" where
  "byte_of_char c = word_of_nat (of_char c)"

definition char_of_byte :: "u8 \<Rightarrow> char" where
  "char_of_byte b = char_of (unat b)"

definition as_bytes :: "string \<Rightarrow> bytes" where
  "as_bytes s = map byte_of_char s"

definition str_of_bytes :: "bytes \<Rightarrow> string" where
  "str_of_bytes bs = map char_of_byte bs"

lemma char_of_byte_of_char [simp]: "char_of_byte (byte_of_char c) = c"
  by (simp add: char_of_byte_def byte_of_char_def unat_of_nat)

lemma byte_of_char_of_byte [simp]: "byte_of_char (char_of_byte b) = b"
proof -
  have "unat b mod 256 = unat b" using unat_u8_less [of b] by simp
  then show ?thesis by (simp add: char_of_byte_def byte_of_char_def)
qed

lemma str_of_bytes_as_bytes [simp]: "str_of_bytes (as_bytes s) = s"
  by (simp add: str_of_bytes_def as_bytes_def comp_def)

lemma as_bytes_str_of_bytes [simp]: "as_bytes (str_of_bytes bs) = bs"
  by (simp add: str_of_bytes_def as_bytes_def comp_def)

lemma length_as_bytes [simp]: "length (as_bytes s) = length s"
  by (simp add: as_bytes_def)

lemma as_bytes_inject [simp]: "as_bytes s = as_bytes t \<longleftrightarrow> s = t"
  by (metis str_of_bytes_as_bytes)

text \<open>
  \<open>core::str::from_utf8\<close>: the well-formed sequences of the Unicode standard. \<open>cont\<close> is a
  continuation byte in a given range.
\<close>

definition between :: "nat \<Rightarrow> nat \<Rightarrow> u8 \<Rightarrow> bool" where
  "between lo hi b \<longleftrightarrow> lo \<le> unat b \<and> unat b \<le> hi"

definition cont :: "u8 \<Rightarrow> bool" where
  "cont = between 0x80 0xBF"

fun utf8_valid :: "bytes \<Rightarrow> bool" where
  "utf8_valid [] = True"
| "utf8_valid (a # bs) =
    (if unat a < 0x80 then utf8_valid bs
     else case bs of
       [] \<Rightarrow> False
     | b # cs \<Rightarrow>
        if between 0xC2 0xDF a \<and> cont b then utf8_valid cs
        else case cs of
          [] \<Rightarrow> False
        | c # ds \<Rightarrow>
           if cont c \<and>
              (a = 0xE0 \<and> between 0xA0 0xBF b \<or> between 0xE1 0xEC a \<and> cont b \<or>
               a = 0xED \<and> between 0x80 0x9F b \<or> between 0xEE 0xEF a \<and> cont b)
           then utf8_valid ds
           else case ds of
             [] \<Rightarrow> False
           | d # es \<Rightarrow>
              cont c \<and> cont d \<and>
              (a = 0xF0 \<and> between 0x90 0xBF b \<or> between 0xF1 0xF3 a \<and> cont b \<or>
               a = 0xF4 \<and> between 0x80 0x8F b) \<and>
              utf8_valid es)"

definition from_utf8 :: "bytes \<Rightarrow> string option" where
  "from_utf8 bs = (if utf8_valid bs then Some (str_of_bytes bs) else None)"

definition is_ascii :: "char \<Rightarrow> bool" where
  "is_ascii c \<longleftrightarrow> of_char c < (128 :: nat)"

lemma unat_byte_of_char: "unat (byte_of_char c) = of_char c"
  by (simp add: byte_of_char_def unat_of_nat)

lemma utf8_valid_ascii: "list_all is_ascii s \<Longrightarrow> utf8_valid (as_bytes s)"
  by (induction s) (auto simp: as_bytes_def is_ascii_def unat_byte_of_char)

lemma from_utf8_ascii: "list_all is_ascii s \<Longrightarrow> from_utf8 (as_bytes s) = Some s"
  by (simp add: from_utf8_def utf8_valid_ascii)

section \<open>Trimming\<close>

definition white_space :: "nat list list" where
  "white_space =
    [[0x09], [0x0A], [0x0B], [0x0C], [0x0D], [0x20], [0xC2, 0x85], [0xC2, 0xA0],
     [0xE1, 0x9A, 0x80],
     [0xE2, 0x80, 0x80], [0xE2, 0x80, 0x81], [0xE2, 0x80, 0x82], [0xE2, 0x80, 0x83],
     [0xE2, 0x80, 0x84], [0xE2, 0x80, 0x85], [0xE2, 0x80, 0x86], [0xE2, 0x80, 0x87],
     [0xE2, 0x80, 0x88], [0xE2, 0x80, 0x89], [0xE2, 0x80, 0x8A],
     [0xE2, 0x80, 0xA8], [0xE2, 0x80, 0xA9], [0xE2, 0x80, 0xAF], [0xE2, 0x81, 0x9F],
     [0xE3, 0x80, 0x80]]"

text \<open>How many code units of \<open>s\<close> the first matching pattern takes; 0 when none matches.\<close>

definition ws_prefix :: "nat list list \<Rightarrow> string \<Rightarrow> nat" where
  "ws_prefix pats s =
    (case find (\<lambda>p. take (length p) (map of_char s) = p) pats of
       None \<Rightarrow> 0 | Some p \<Rightarrow> length p)"

lemma ws_prefix_le: "ws_prefix pats s \<le> length s"
proof (cases "find (\<lambda>p. take (length p) (map of_char s) = p) pats")
  case None
  then show ?thesis by (simp add: ws_prefix_def)
next
  case (Some p)
  then have "take (length p) (map of_char s) = p" by (auto simp: find_Some_iff)
  then have "length p = min (length s) (length p)" by (metis length_map length_take)
  then have "length p \<le> length s" by simp
  with Some show ?thesis by (simp add: ws_prefix_def)
qed

function strip_ws :: "nat list list \<Rightarrow> string \<Rightarrow> string" where
  "strip_ws pats s =
    (if 0 < ws_prefix pats s then strip_ws pats (drop (ws_prefix pats s) s) else s)"
  by pat_completeness auto
termination
  by (relation "measure (length \<circ> snd)") (auto intro!: diff_less dest: order_less_le_trans [OF _ ws_prefix_le])

declare strip_ws.simps [simp del]

definition trim_start :: "string \<Rightarrow> string" where
  "trim_start s = strip_ws white_space s"

definition trim_end :: "string \<Rightarrow> string" where
  "trim_end s = rev (strip_ws (map rev white_space) (rev s))"

definition trim :: "string \<Rightarrow> string" where
  "trim s = trim_end (trim_start s)"

text \<open>Visible ASCII characters are never trimmed.\<close>

definition graphic :: "char \<Rightarrow> bool" where
  "graphic c \<longleftrightarrow> of_char c \<in> {33 .. 126 :: nat}"

definition no_graphic_heads :: "nat list list \<Rightarrow> bool" where
  "no_graphic_heads pats \<longleftrightarrow> list_all (\<lambda>p. p \<noteq> [] \<and> hd p \<notin> {33 .. 126}) pats"

lemma white_space_heads: "no_graphic_heads white_space" "no_graphic_heads (map rev white_space)"
  by (simp_all add: no_graphic_heads_def white_space_def)

lemma ws_prefix_graphic:
  assumes "no_graphic_heads pats" and "graphic c"
  shows "ws_prefix pats (c # s) = 0"
proof -
  have "take (length p) (map of_char (c # s)) \<noteq> p" if "p \<in> set pats" for p
  proof
    assume eq: "take (length p) (map of_char (c # s)) = p"
    from assms(1) that have "p \<noteq> []" and "hd p \<notin> {33 .. 126}"
      by (auto simp: no_graphic_heads_def list_all_iff)
    moreover from eq \<open>p \<noteq> []\<close> have "hd p = of_char c"
      by (cases p) auto
    ultimately show False using assms(2) by (simp add: graphic_def)
  qed
  then have "find (\<lambda>p. take (length p) (map of_char (c # s)) = p) pats = None"
    by (auto simp: find_None_iff)
  then show ?thesis by (simp add: ws_prefix_def)
qed

lemma strip_ws_graphic:
  assumes "no_graphic_heads pats" and "graphic c"
  shows "strip_ws pats (c # s) = c # s"
  using ws_prefix_graphic [OF assms] by (simp add: strip_ws.simps)

lemma ws_prefix_Nil: "no_graphic_heads pats \<Longrightarrow> ws_prefix pats [] = 0"
  using ws_prefix_le [of pats "[]"] by simp

lemma trim_graphic_ends:
  assumes "s = [] \<or> graphic (hd s) \<and> graphic (last s)"
  shows "trim s = s"
proof (cases s rule: rev_cases)
  case Nil
  then show ?thesis
    by (simp add: trim_def trim_start_def trim_end_def strip_ws.simps white_space_heads ws_prefix_Nil)
next
  case (snoc t d)
  with assms have "graphic (hd s)" and "graphic d" by auto
  moreover have "s \<noteq> []" using snoc by simp
  then obtain c u where "s = c # u" by (cases s) auto
  ultimately have "trim_start s = s"
    by (simp add: trim_start_def strip_ws_graphic white_space_heads)
  moreover have "trim_end s = s"
    using snoc \<open>graphic d\<close> by (simp add: trim_end_def strip_ws_graphic white_space_heads)
  ultimately show ?thesis by (simp add: trim_def)
qed

section \<open>Splitting\<close>

definition newline :: char where
  "newline = CHR 0x0A"

definition strip_prefix :: "string \<Rightarrow> string \<Rightarrow> string option" where
  "strip_prefix p s = (if take (length p) s = p then Some (drop (length p) s) else None)"

text \<open>\<open>str::split_once\<close> with a character: the parts before and after its first occurrence.\<close>

definition split_once :: "char \<Rightarrow> string \<Rightarrow> (string \<times> string) option" where
  "split_once c s =
    (if c \<in> set s then Some (takeWhile (\<lambda>d. d \<noteq> c) s, tl (dropWhile (\<lambda>d. d \<noteq> c) s))
     else None)"

text \<open>
  \<open>str::lines\<close>: a line ends with a newline, or with a carriage return and a newline, neither of
  which belongs to it; the last line may have no end.
\<close>

definition strip_cr :: "string \<Rightarrow> string" where
  "strip_cr l = (if l \<noteq> [] \<and> last l = CHR 0x0D then butlast l else l)"

function lines :: "string \<Rightarrow> string list" where
  "lines s =
    (if s = [] then []
     else if newline \<in> set s
       then strip_cr (takeWhile (\<lambda>c. c \<noteq> newline) s) #
            lines (tl (dropWhile (\<lambda>c. c \<noteq> newline) s))
       else [s])"
  by pat_completeness auto
termination
proof (relation "measure length")
  fix s :: string
  assume "s \<noteq> []" and "newline \<in> set s"
  then have "dropWhile (\<lambda>c. c \<noteq> newline) s \<noteq> []" by auto
  moreover have "length (dropWhile (\<lambda>c. c \<noteq> newline) s) \<le> length s"
    by (rule length_dropWhile_le)
  ultimately show "(tl (dropWhile (\<lambda>c. c \<noteq> newline) s), s) \<in> measure length"
    by (cases "dropWhile (\<lambda>c. c \<noteq> newline) s") auto
qed simp

declare lines.simps [simp del]

lemma lines_Cons_line:
  assumes "newline \<notin> set l"
  shows "lines (l @ newline # rest) = strip_cr l # lines rest"
proof -
  have "takeWhile (\<lambda>c. c \<noteq> newline) (l @ newline # rest) = l"
    and "dropWhile (\<lambda>c. c \<noteq> newline) (l @ newline # rest) = newline # rest"
    using assms by (auto simp: takeWhile_append dropWhile_append)
  then show ?thesis by (simp add: lines.simps [of "l @ newline # rest"])
qed

lemma strip_cr_graphic: "graphic (last l) \<Longrightarrow> strip_cr l = l"
  by (auto simp: strip_cr_def graphic_def)

section \<open>Decimal numbers\<close>

definition digit_char :: "nat \<Rightarrow> char" where
  "digit_char d = char_of (48 + d)"

definition is_digit :: "char \<Rightarrow> bool" where
  "is_digit c \<longleftrightarrow> of_char c \<in> {48 .. 57 :: nat}"

definition digit_val :: "char \<Rightarrow> nat" where
  "digit_val c = of_char c - 48"

text \<open>\<open>Display\<close> of an unsigned integer.\<close>

fun show_nat :: "nat \<Rightarrow> string" where
  "show_nat n =
    (if n < 10 then [digit_char n] else show_nat (n div 10) @ [digit_char (n mod 10)])"

declare show_nat.simps [simp del]

definition digits_val :: "string \<Rightarrow> nat" where
  "digits_val s = foldl (\<lambda>a c. a * 10 + digit_val c) 0 s"

text \<open>\<open>str::parse\<close> at type \<open>u64\<close>: an optional plus sign, then digits, within range.\<close>

definition parse_u64 :: "string \<Rightarrow> u64 option" where
  "parse_u64 s =
    (let ds = (case s of c # t \<Rightarrow> if c = CHR ''+'' then t else s | [] \<Rightarrow> [])
     in if ds \<noteq> [] \<and> list_all is_digit ds \<and> digits_val ds < 2 ^ 64
        then Some (word_of_nat (digits_val ds)) else None)"

lemma of_char_digit_char: "d < 10 \<Longrightarrow> of_char (digit_char d) = 48 + d"
  by (simp add: digit_char_def)

lemma show_nat_digits: "show_nat n \<noteq> [] \<and> list_all is_digit (show_nat n)"
proof (induction n rule: show_nat.induct)
  case (1 n)
  then show ?case
    by (cases "n < 10") (simp_all add: show_nat.simps [of n] is_digit_def of_char_digit_char)
qed

lemma digits_val_show_nat: "digits_val (show_nat n) = n"
proof (induction n rule: show_nat.induct)
  case (1 n)
  show ?case
  proof (cases "n < 10")
    case True
    then show ?thesis
      by (simp add: show_nat.simps [of n] digits_val_def digit_val_def of_char_digit_char)
  next
    case False
    with 1 have "digits_val (show_nat (n div 10)) = n div 10" by simp
    with False show ?thesis
      by (simp add: show_nat.simps [of n] digits_val_def digit_val_def of_char_digit_char)
  qed
qed

lemma digit_not_plus: "is_digit c \<Longrightarrow> c \<noteq> CHR ''+''"
  by (auto simp: is_digit_def)

lemma parse_u64_show_nat: "parse_u64 (show_nat (unat n)) = Some n"
proof -
  obtain c t where ct: "show_nat (unat n) = c # t"
    using show_nat_digits [of "unat n"] by (cases "show_nat (unat n)") auto
  then have "c \<noteq> CHR ''+''" using show_nat_digits [of "unat n"] by (auto dest: digit_not_plus)
  moreover have "unat n < 2 ^ LENGTH(64)" by (rule unsigned_less)
  ultimately show ?thesis
    using show_nat_digits [of "unat n"] digits_val_show_nat [of "unat n"]
    by (simp add: parse_u64_def ct)
qed

lemma is_digit_graphic: "is_digit c \<Longrightarrow> graphic c"
  by (simp add: is_digit_def graphic_def)

lemma graphic_ascii: "graphic c \<Longrightarrow> is_ascii c"
  by (simp add: graphic_def is_ascii_def)

lemma graphic_not_newline: "graphic c \<Longrightarrow> c \<noteq> newline"
  by (auto simp: graphic_def newline_def)

lemma length_show_nat: "n < 10 ^ Suc k \<Longrightarrow> length (show_nat n) \<le> Suc k"
proof (induction k arbitrary: n)
  case 0
  then show ?case by (simp add: show_nat.simps [of n])
next
  case (Suc k)
  then have "n div 10 < 10 ^ Suc k" by simp
  then have "length (show_nat (n div 10)) \<le> Suc k" by (rule Suc.IH)
  then show ?case by (simp add: show_nat.simps [of n])
qed

end
