(* ===== verification/System.thy ===== *)
theory System
  imports Rust_Str
begin

text \<open>
  The operating system as the helper sees it. The helper's effects are the fields of the record
  \<open>sys\<close>, over an arbitrary type \<open>'w\<close> of worlds: every call takes the world and returns its
  result with the next one, so other processes, a peer on the socket and the passing of time
  are part of the world. The theorems hold for every such record unless they name a law of the
  system they rely on. Loops that may not end are partial functions with \<open>None\<close> for
  divergence.

  The theory also holds the parts of \<open>std::io\<close>, \<open>std::time\<close> and \<open>std::path\<close> that the helper
  uses.
\<close>

section \<open>Errors\<close>

datatype errno =
    EINTR | EAGAIN | EINPROGRESS | EALREADY | EISCONN | EEXIST | ENOENT | EBADF | EACCES | EPERM
  | ETIMEDOUT | ECHILD | ECONNREFUSED | Errno nat

datatype ErrorKind =
    NotFound | PermissionDenied | AlreadyExists | WouldBlock | InvalidInput | InvalidData
  | TimedOut | Interrupted | UnexpectedEof | WriteZero | OtherKind

text \<open>\<open>io::Error\<close>: an error of the system, one with a message, or a bare kind.\<close>

datatype io_error = Os errno | Custom ErrorKind string | Simple ErrorKind

fun errno_kind :: "errno \<Rightarrow> ErrorKind" where
  "errno_kind EINTR = Interrupted"
| "errno_kind EAGAIN = WouldBlock"
| "errno_kind EEXIST = AlreadyExists"
| "errno_kind ENOENT = NotFound"
| "errno_kind EACCES = PermissionDenied"
| "errno_kind EPERM = PermissionDenied"
| "errno_kind ETIMEDOUT = TimedOut"
| "errno_kind _ = OtherKind"

fun kind :: "io_error \<Rightarrow> ErrorKind" where
  "kind (Os e) = errno_kind e"
| "kind (Custom k _) = k"
| "kind (Simple k) = k"

section \<open>Sequencing effects\<close>

text \<open>
  The \<open>?\<close> operator on a call with an effect: \<open>bind_w\<close> for calls that always return,
  \<open>bind_io\<close> for calls that may diverge. \<open>map_err_w\<close> is the conversion of the error that
  \<open>?\<close> applies.
\<close>

definition bind_w ::
    "('a, 'e) result \<times> 'w \<Rightarrow> ('a \<Rightarrow> 'w \<Rightarrow> ('b, 'e) result \<times> 'w) \<Rightarrow> ('b, 'e) result \<times> 'w" where
  "bind_w p f = (case p of (Inl e, w) \<Rightarrow> (Err e, w) | (Inr x, w) \<Rightarrow> f x w)"

definition bind_io ::
    "(('a, 'e) result \<times> 'w) option \<Rightarrow> ('a \<Rightarrow> 'w \<Rightarrow> (('b, 'e) result \<times> 'w) option) \<Rightarrow>
     (('b, 'e) result \<times> 'w) option" where
  "bind_io m f = Option.bind m (\<lambda>(r, w). case r of Inl e \<Rightarrow> Some (Err e, w) | Inr x \<Rightarrow> f x w)"

definition map_err_w :: "('e \<Rightarrow> 'f) \<Rightarrow> ('a, 'e) result \<times> 'w \<Rightarrow> ('a, 'f) result \<times> 'w" where
  "map_err_w g p = (map_err g (fst p), snd p)"

definition map_err_io ::
    "('e \<Rightarrow> 'f) \<Rightarrow> (('a, 'e) result \<times> 'w) option \<Rightarrow> (('a, 'f) result \<times> 'w) option" where
  "map_err_io g m = map_option (map_err_w g) m"

lemma bind_w_simps [simp]:
  "bind_w (Inr x, w) f = f x w"
  "bind_w (Inl e, w) f = (Err e, w)"
  by (simp_all add: bind_w_def)

lemma bind_io_simps [simp]:
  "bind_io (Some (Inr x, w)) f = f x w"
  "bind_io (Some (Inl e, w)) f = Some (Err e, w)"
  "bind_io None f = None"
  by (simp_all add: bind_io_def)

lemma map_err_w_simps [simp]:
  "map_err_w g (Inr x, w) = (Ok x, w)"
  "map_err_w g (Inl e, w) = (Err (g e), w)"
  by (simp_all add: map_err_w_def)

lemma map_err_io_simps [simp]:
  "map_err_io g (Some p) = Some (map_err_w g p)"
  "map_err_io g None = None"
  by (simp_all add: map_err_io_def)

lemma bind_w_eq_Ok [result_simps]:
  "bind_w p f = (Inr y, w') \<longleftrightarrow> (\<exists>x w. p = (Inr x, w) \<and> f x w = (Inr y, w'))"
  by (auto simp: bind_w_def split: prod.splits sum.splits)

lemma bind_w_eq_Err [result_simps]:
  "bind_w p f = (Inl e, w') \<longleftrightarrow>
    p = (Inl e, w') \<or> (\<exists>x w. p = (Inr x, w) \<and> f x w = (Inl e, w'))"
  by (auto simp: bind_w_def split: prod.splits sum.splits)

lemma bind_io_eq_Ok [result_simps]:
  "bind_io m f = Some (Inr y, w') \<longleftrightarrow> (\<exists>x w. m = Some (Inr x, w) \<and> f x w = Some (Inr y, w'))"
  by (cases m) (auto simp: bind_io_def split: prod.splits sum.splits)

lemma bind_io_eq_Err [result_simps]:
  "bind_io m f = Some (Inl e, w') \<longleftrightarrow>
    m = Some (Inl e, w') \<or> (\<exists>x w. m = Some (Inr x, w) \<and> f x w = Some (Inl e, w'))"
  by (cases m) (auto simp: bind_io_def split: prod.splits sum.splits)

lemma map_err_w_eq_Ok [result_simps]: "map_err_w g p = (Inr y, w) \<longleftrightarrow> p = (Inr y, w)"
  by (cases p) (auto simp: map_err_w_def result_simps)

lemma map_err_w_eq_Err [result_simps]:
  "map_err_w g p = (Inl e, w) \<longleftrightarrow> (\<exists>d. p = (Inl d, w) \<and> e = g d)"
  by (cases p) (auto simp: map_err_w_def result_simps)

lemma map_err_io_eq_Ok [result_simps]: "map_err_io g m = Some (Inr y, w) \<longleftrightarrow> m = Some (Inr y, w)"
  by (cases m) (auto simp: map_err_io_def result_simps)

lemma map_err_io_eq_Err [result_simps]:
  "map_err_io g m = Some (Inl e, w) \<longleftrightarrow> (\<exists>d. m = Some (Inl d, w) \<and> e = g d)"
  by (cases m) (auto simp: map_err_io_def result_simps)

text \<open>A call returns when it does not diverge.\<close>

definition returns :: "'a option \<Rightarrow> bool" where
  "returns m \<longleftrightarrow> m \<noteq> None"

lemma returns_Some [simp]: "returns (Some x)"
  by (simp add: returns_def)

lemma returnsI: "m = Some x \<Longrightarrow> returns m"
  by simp

lemma returnsD: "returns m \<Longrightarrow> \<exists>r w. m = Some (r, w)"
  by (auto simp: returns_def)

lemma returns_bind_io [intro!]:
  assumes "returns m" and "\<And>x w. m = Some (Inr x, w) \<Longrightarrow> returns (f x w)"
  shows "returns (bind_io m f)"
proof -
  obtain r w where m: "m = Some (r, w)" using assms(1) by (auto dest: returnsD)
  then show ?thesis using assms(2) by (cases r) auto
qed

lemma returns_map_err_io [simp]: "returns (map_err_io g m) \<longleftrightarrow> returns m"
  by (cases m) (auto simp: returns_def)

section \<open>Time\<close>

text \<open>
  An \<open>Instant\<close> is a number of nanoseconds on the monotonic clock; seconds are kept in a signed
  64-bit integer. Durations are nanoseconds.
\<close>

type_synonym instant = nat

definition INSTANT_MAX :: nat where
  "INSTANT_MAX = 2 ^ 63 * 1000000000 - 1"

definition duration_from_millis :: "u64 \<Rightarrow> nat" where
  "duration_from_millis ms = unat ms * 1000000"

definition as_millis :: "nat \<Rightarrow> nat" where
  "as_millis d = d div 1000000"

definition instant_checked_add :: "instant \<Rightarrow> nat \<Rightarrow> instant option" where
  "instant_checked_add t d = (if t + d \<le> INSTANT_MAX then Some (t + d) else None)"

definition checked_duration_since :: "instant \<Rightarrow> instant \<Rightarrow> nat option" where
  "checked_duration_since later earlier =
    (if earlier \<le> later then Some (later - earlier) else None)"

section \<open>Files\<close>

datatype file_type = Directory | RegularFile | SymbolicLink | SocketFile | OtherType

record metadata =
  md_type :: file_type
  md_uid :: u32
  md_mode :: u32

datatype oflag =
  O_RDONLY | O_WRONLY | O_CLOEXEC | O_NOFOLLOW | O_NONBLOCK | O_DIRECTORY | O_CREAT | O_EXCL

datatype poll_event = POLLIN | POLLOUT

text \<open>The outcomes of \<open>poll\<close> on one descriptor: ready (with or without POLLNVAL), timeout, error.\<close>

datatype poll_result = PollReady bool | PollTimeout | PollFailed errno

type_synonym fd = nat

section \<open>The system interface\<close>

record 'w sys =
  sys_instant_now :: "'w \<Rightarrow> instant \<times> 'w"
  sys_time_now :: "'w \<Rightarrow> int \<times> 'w"
  sys_fill_bytes :: "'w \<Rightarrow> (nat \<Rightarrow> u8) \<times> 'w"
  sys_process_id :: u32
  sys_current_dir :: "'w \<Rightarrow> (string, io_error) result \<times> 'w"
  sys_open_root :: "'w \<Rightarrow> (fd, io_error) result \<times> 'w"
  sys_openat :: "fd \<Rightarrow> string \<Rightarrow> oflag set \<Rightarrow> 'w \<Rightarrow> (fd, errno) result \<times> 'w"
  sys_openat_mode :: "fd \<Rightarrow> string \<Rightarrow> oflag set \<Rightarrow> u32 \<Rightarrow> 'w \<Rightarrow> (fd, errno) result \<times> 'w"
  sys_fstat :: "fd \<Rightarrow> 'w \<Rightarrow> (metadata, io_error) result \<times> 'w"
  sys_read_to_end :: "fd \<Rightarrow> nat \<Rightarrow> 'w \<Rightarrow> (bytes, io_error) result \<times> 'w"
  sys_write_all :: "fd \<Rightarrow> bytes \<Rightarrow> 'w \<Rightarrow> (unit, io_error) result \<times> 'w"
  sys_create_new :: "string \<Rightarrow> u32 \<Rightarrow> 'w \<Rightarrow> (fd, io_error) result \<times> 'w"
  sys_remove_file :: "string \<Rightarrow> 'w \<Rightarrow> (unit, io_error) result \<times> 'w"
  sys_dup :: "fd \<Rightarrow> 'w \<Rightarrow> (fd, errno) result \<times> 'w"
  sys_close :: "fd \<Rightarrow> 'w \<Rightarrow> 'w"
  sys_fdopendir :: "fd \<Rightarrow> 'w \<Rightarrow> (nat, errno) result \<times> 'w"
  sys_readdir :: "nat \<Rightarrow> 'w \<Rightarrow> string option \<times> 'w"
  sys_closedir :: "nat \<Rightarrow> 'w \<Rightarrow> 'w"
  sys_unlinkat :: "fd \<Rightarrow> string \<Rightarrow> 'w \<Rightarrow> 'w"
  sys_socket :: "'w \<Rightarrow> (fd, errno) result \<times> 'w"
  sys_set_cloexec :: "fd \<Rightarrow> 'w \<Rightarrow> (unit, errno) result \<times> 'w"
  sys_set_nonblocking :: "fd \<Rightarrow> 'w \<Rightarrow> (unit, io_error) result \<times> 'w"
  sys_connect :: "fd \<Rightarrow> string \<Rightarrow> 'w \<Rightarrow> (unit, errno) result \<times> 'w"
  sys_poll :: "fd \<Rightarrow> poll_event \<Rightarrow> nat \<Rightarrow> 'w \<Rightarrow> poll_result \<times> 'w"
  sys_take_error :: "fd \<Rightarrow> 'w \<Rightarrow> (io_error option, io_error) result \<times> 'w"
  sys_sleep :: "nat \<Rightarrow> 'w \<Rightarrow> 'w"
  sys_recv :: "fd \<Rightarrow> nat \<Rightarrow> 'w \<Rightarrow> (bytes, io_error) result \<times> 'w"
  sys_send :: "fd \<Rightarrow> bytes \<Rightarrow> 'w \<Rightarrow> (nat, io_error) result \<times> 'w"
  sys_bind :: "string \<Rightarrow> 'w \<Rightarrow> (fd, io_error) result \<times> 'w"
  sys_accept :: "fd \<Rightarrow> 'w \<Rightarrow> (fd, io_error) result \<times> 'w"
  sys_generate_key :: "'w \<Rightarrow> bytes \<times> 'w"
  sys_print :: "string \<Rightarrow> 'w \<Rightarrow> 'w"

section \<open>Paths\<close>

datatype component = RootDir | CurDir | ParentDir | Normal string

definition is_absolute :: "string \<Rightarrow> bool" where
  "is_absolute p \<longleftrightarrow> p \<noteq> [] \<and> hd p = CHR ''/''"

fun split_on :: "char \<Rightarrow> string \<Rightarrow> string list" where
  "split_on c [] = [[]]"
| "split_on c (x # xs) =
    (if x = c then [] # split_on c xs
     else (case split_on c xs of [] \<Rightarrow> [[x]] | y # ys \<Rightarrow> (x # y) # ys))"

definition components :: "string \<Rightarrow> component list" where
  "components p =
    (let parts = split_on (CHR ''/'') p;
         start = (if is_absolute p then [RootDir]
                  else if hd parts = ''.'' then [CurDir] else [])
     in start @ map (\<lambda>x. if x = ''..'' then ParentDir else Normal x)
                 (filter (\<lambda>x. x \<noteq> '''' \<and> x \<noteq> ''.'') parts))"

definition path_join :: "string \<Rightarrow> string \<Rightarrow> string" where
  "path_join base p =
    (if is_absolute p then p
     else if base \<noteq> [] \<and> last base \<noteq> CHR ''/'' then base @ ''/'' @ p else base @ p)"

definition has_parent_component :: "string \<Rightarrow> bool" where
  "has_parent_component p \<longleftrightarrow> ParentDir \<in> set (components p)"

lemma split_on_parts: "x \<in> set (split_on c p) \<Longrightarrow> c \<notin> set x"
  by (induction p arbitrary: x) (auto split: if_splits list.splits)

lemma components_Normal:
  "Normal x \<in> set (components p) \<Longrightarrow>
    x \<noteq> '''' \<and> x \<noteq> ''.'' \<and> x \<noteq> ''..'' \<and> CHR ''/'' \<notin> set x"
  by (auto simp: components_def Let_def dest: split_on_parts split: if_splits)

section \<open>Reading a file as a string\<close>

text \<open>\<open>file.take(limit).read_to_string()\<close>.\<close>

definition read_to_string ::
    "'w sys \<Rightarrow> fd \<Rightarrow> nat \<Rightarrow> 'w \<Rightarrow> (string, io_error) result \<times> 'w" where
  "read_to_string S fd limit w =
    (case sys_read_to_end S fd limit w of
       (Inl e, w) \<Rightarrow> (Err e, w)
     | (Inr bs, w) \<Rightarrow> (ok_or (from_utf8 (take limit bs)) (Simple InvalidData), w))"

lemma read_to_string_length:
  "read_to_string S fd limit w = (Ok s, w') \<Longrightarrow> length s \<le> limit"
  by (auto simp: read_to_string_def from_utf8_def str_of_bytes_def result_simps
      split: prod.splits sum.splits if_splits)

end
