(* ===== verification/Pam.thy ===== *)
theory Pam
  imports System
begin

text \<open>
  \<open>pam/pam_macos_auth.c\<close>: the PAM module that starts the helper and turns its exit status into
  a PAM code. The calls the module makes beyond those of \<open>sys\<close> are the fields of \<open>pam_sys\<close>. A C
  string is the list of its characters before the terminating NUL, a null pointer is \<open>None\<close>, and
  the build is the one for Linux. \<open>fork\<close> takes the variables that the child reads; the part of
  \<open>run_helper\<close> for \<open>pid == 0\<close>, which it runs, is \<open>helper_child\<close>.
\<close>

unbundle bit_operations_syntax

section \<open>The system as the module sees it\<close>

datatype pam_code = PAM_SUCCESS | PAM_AUTH_ERR | PAM_AUTHINFO_UNAVAIL | PamCode nat

datatype pam_item = PAM_SERVICE | PAM_RUSER | PAM_RHOST | PAM_TTY

datatype log_priority = LOG_ERR | LOG_DEBUG

text \<open>An argument of a message; \<open>LogErrno e\<close> is \<open>strerror(e)\<close>.\<close>

datatype log_arg = LogStr string | LogInt int | LogErrno errno | LogCode pam_code

datatype signal = SIGTERM | SIGKILL

datatype wait_status = Exited u8 | Signaled nat | OtherStatus

datatype wait_result = Reaped wait_status | NotYet | WaitFailed errno

record timespec =
  tv_sec :: int
  tv_nsec :: int

type_synonym pid = nat

text \<open>The variables \<open>helper_fd\<close> and \<open>exec_argv\<close>, of which the child has a copy.\<close>

type_synonym child_locals = "fd \<times> string option list"

text \<open>How the code of the child ends: with \<open>_exit\<close>, or by executing the file behind a descriptor.\<close>

datatype child_end = ChildExit u8 | ChildExec fd "string list" "string list"

text \<open>An entry that \<open>getdents64\<close> returns: its record length and its name.\<close>

record fd_entry =
  reclen :: nat
  entry_name :: string

record 'w pam_sys = "'w sys" +
  pam_get_item :: "pam_item \<Rightarrow> 'w \<Rightarrow> (pam_code \<times> string option) \<times> 'w"
  pam_get_user :: "'w \<Rightarrow> (pam_code \<times> string option) \<times> 'w"
  pam_vsyslog :: "log_priority \<Rightarrow> string \<Rightarrow> log_arg list \<Rightarrow> 'w \<Rightarrow> 'w"
  pam_malloc :: "'w \<Rightarrow> bool \<times> 'w"
  pam_clock_gettime :: "'w \<Rightarrow> timespec option \<times> 'w"
  pam_fork :: "child_locals \<Rightarrow> 'w \<Rightarrow> (pid, errno) result \<times> 'w"
  pam_dup2 :: "fd \<Rightarrow> fd \<Rightarrow> 'w \<Rightarrow> (fd, errno) result \<times> 'w"
  pam_close_range :: "fd \<Rightarrow> 'w \<Rightarrow> (unit, errno) result \<times> 'w"
  pam_open_fd_dir :: "'w \<Rightarrow> (fd, errno) result \<times> 'w"
  pam_getdents :: "fd \<Rightarrow> 'w \<Rightarrow> (fd_entry list, errno) result \<times> 'w"
  pam_wait_nohang :: "pid \<Rightarrow> 'w \<Rightarrow> wait_result \<times> 'w"
  pam_waitpid :: "pid \<Rightarrow> 'w \<Rightarrow> (wait_status, errno) result \<times> 'w"
  pam_kill :: "pid \<Rightarrow> signal \<Rightarrow> 'w \<Rightarrow> 'w"
  pam_usleep :: "nat \<Rightarrow> 'w \<Rightarrow> 'w"

section \<open>Options\<close>

definition MACOS_AUTH_DEFAULT_HELPER :: string where
  "MACOS_AUTH_DEFAULT_HELPER = ''/usr/bin/macos-auth-helper''"

definition MACOS_AUTH_DEFAULT_CONFIG :: string where
  "MACOS_AUTH_DEFAULT_CONFIG = ''/etc/macos-auth/config.toml''"

definition MACOS_AUTH_DEFAULT_TIMEOUT_MS :: u32 where
  "MACOS_AUTH_DEFAULT_TIMEOUT_MS = 20000"

definition MACOS_AUTH_HELPER_TIMEOUT_EXIT :: int where
  "MACOS_AUTH_HELPER_TIMEOUT_EXIT = 10"

record macos_auth_options =
  helper_path :: string
  config_path :: string
  debug :: bool
  timeout_ms :: u32

definition starts_with :: "string \<Rightarrow> string \<Rightarrow> bool" where
  "starts_with v p \<longleftrightarrow> take (length p) v = p"

definition isspace :: "char \<Rightarrow> bool" where
  "isspace c \<longleftrightarrow> of_char c \<in> {9, 10, 11, 12, 13, 32 :: nat}"

text \<open>
  \<open>strtoul\<close> in base 10: the value, the rest of the string at \<open>end\<close>, and whether \<open>errno\<close> was set.
  Without a digit nothing is consumed; a minus sign negates the unsigned value.
\<close>

definition strtoul :: "string \<Rightarrow> u64 \<times> string \<times> bool" where
  "strtoul s =
    (let t = dropWhile isspace s;
         neg = (t \<noteq> [] \<and> hd t = CHR ''-'');
         u = (if t \<noteq> [] \<and> hd t \<in> {CHR ''-'', CHR ''+''} then tl t else t);
         ds = takeWhile is_digit u;
         n = digits_val ds
     in if ds = [] then (0, s, False)
        else if n \<ge> 2 ^ 64 then (- 1, dropWhile is_digit u, True)
        else (if neg then - word_of_nat n else word_of_nat n, dropWhile is_digit u, False))"

definition parse_uint_option :: "string option \<Rightarrow> u32 \<Rightarrow> u32" where
  "parse_uint_option v fallback =
    (case v of
       None \<Rightarrow> fallback
     | Some s \<Rightarrow>
        if s = [] then fallback
        else (case strtoul s of (parsed, rest, range_error) \<Rightarrow>
          if range_error \<or> rest = s \<or> rest \<noteq> [] \<or> parsed = 0 \<or> parsed > 600000 then fallback
          else ucast parsed))"

definition default_options :: macos_auth_options where
  "default_options =
    \<lparr>helper_path = MACOS_AUTH_DEFAULT_HELPER, config_path = MACOS_AUTH_DEFAULT_CONFIG,
     debug = False, timeout_ms = MACOS_AUTH_DEFAULT_TIMEOUT_MS\<rparr>"

definition parse_option :: "macos_auth_options \<Rightarrow> string \<Rightarrow> macos_auth_options" where
  "parse_option options arg =
    (if arg = ''debug'' then options\<lparr>debug := True\<rparr>
     else if starts_with arg ''helper='' then options\<lparr>helper_path := drop (length ''helper='') arg\<rparr>
     else if starts_with arg ''conf='' then options\<lparr>config_path := drop (length ''conf='') arg\<rparr>
     else if starts_with arg ''timeout_ms='' then
       options\<lparr>timeout_ms :=
         parse_uint_option (Some (drop (length ''timeout_ms='') arg)) MACOS_AUTH_DEFAULT_TIMEOUT_MS\<rparr>
     else options)"

definition parse_options :: "string list \<Rightarrow> macos_auth_options" where
  "parse_options argv = foldl parse_option default_options argv"

section \<open>The helper's executable\<close>

definition pam_trusted_metadata :: "metadata \<Rightarrow> bool \<Rightarrow> bool" where
  "pam_trusted_metadata st directory \<longleftrightarrow>
    md_uid st = 0 \<and> md_mode st AND 18 = 0 \<and>
    (if directory then md_type st = Directory
     else md_type st = RegularFile \<and> md_mode st AND 64 \<noteq> 0)"

definition descriptor_trusted :: "'w pam_sys \<Rightarrow> fd \<Rightarrow> bool \<Rightarrow> 'w \<Rightarrow> bool \<times> 'w" where
  "descriptor_trusted S fd directory w =
    (case sys_fstat S fd w of
       (Inl _, w) \<Rightarrow> (False, w)
     | (Inr st, w) \<Rightarrow> (pam_trusted_metadata st directory, w))"

definition helper_open_flags :: "bool \<Rightarrow> oflag set" where
  "helper_open_flags directory =
    {O_RDONLY, O_CLOEXEC, O_NOFOLLOW, O_NONBLOCK} \<union> (if directory then {O_DIRECTORY} else {})"

text \<open>The tokens that \<open>strtok_r\<close> finds between slashes.\<close>

definition path_tokens :: "string \<Rightarrow> string list" where
  "path_tokens p = filter (\<lambda>x. x \<noteq> []) (split_on (CHR ''/'') p)"

text \<open>
  The loop of \<open>validate_helper_path\<close>, entered with \<open>valid\<close> true: the descriptor it leaves in \<open>fd\<close>
  (\<open>None\<close> for a failed \<open>openat\<close>) and whether the path is still valid.
\<close>

fun helper_walk :: "'w pam_sys \<Rightarrow> fd \<Rightarrow> string list \<Rightarrow> 'w \<Rightarrow> (fd option \<times> bool) \<times> 'w" where
  "helper_walk S fd [] w = ((Some fd, True), w)"
| "helper_walk S fd (component # rest) w =
    (if component = ''.'' \<or> component = ''..'' then ((Some fd, False), w)
     else (case sys_openat S fd component (helper_open_flags (rest \<noteq> [])) w of (r, w) \<Rightarrow>
       let w = sys_close S fd w
       in (case r of
             Inl _ \<Rightarrow> ((None, False), w)
           | Inr child \<Rightarrow> (case descriptor_trusted S child (rest \<noteq> []) w of (valid, w) \<Rightarrow>
               if valid then helper_walk S child rest w else ((Some child, False), w)))))"

definition open_helper :: "'w pam_sys \<Rightarrow> string list \<Rightarrow> 'w \<Rightarrow> (fd option \<times> bool) \<times> 'w" where
  "open_helper S tokens w =
    (case sys_open_root S w of
       (Inl _, w) \<Rightarrow> ((None, False), w)
     | (Inr root, w) \<Rightarrow> (case descriptor_trusted S root True w of (valid, w) \<Rightarrow>
         if valid then helper_walk S root tokens w else ((Some root, False), w)))"

text \<open>\<open>strdup\<close>: a copy, or a null pointer when there is no memory.\<close>

definition strdup :: "'w pam_sys \<Rightarrow> string \<Rightarrow> 'w \<Rightarrow> string option \<times> 'w" where
  "strdup S s w = (case pam_malloc S w of (ok, w) \<Rightarrow> (if ok then Some s else None, w))"

definition validate_helper_path :: "'w pam_sys \<Rightarrow> string option \<Rightarrow> 'w \<Rightarrow> fd option \<times> 'w" where
  "validate_helper_path S path w =
    (case path of
       None \<Rightarrow> (None, pam_vsyslog S LOG_ERR ''macos-auth: helper path must be absolute'' [] w)
     | Some p \<Rightarrow>
        if p = [] \<or> hd p \<noteq> CHR ''/'' then
          (None, pam_vsyslog S LOG_ERR ''macos-auth: helper path must be absolute'' [] w)
        else if length p < 2 \<or> last p = CHR ''/'' then (None, w)
        else (case strdup S p w of
           (None, w) \<Rightarrow> (None, w)
         | (Some copy, w) \<Rightarrow> (case open_helper S (path_tokens copy) w of ((fd, valid), w) \<Rightarrow>
             if valid then (fd, w)
             else (None, pam_vsyslog S LOG_ERR
               ''macos-auth: helper and ancestors must be root-owned, non-writable, and not symlinks''
               [] (case fd of None \<Rightarrow> w | Some f \<Rightarrow> sys_close S f w)))))"

section \<open>The helper's arguments\<close>

definition pam_item_string :: "'w pam_sys \<Rightarrow> pam_item \<Rightarrow> 'w \<Rightarrow> string option \<times> 'w" where
  "pam_item_string S item_type w =
    (case pam_get_item S item_type w of ((code, v), w) \<Rightarrow>
      if code \<noteq> PAM_SUCCESS \<or> v = None then (None, w)
      else if v = Some [] then (None, w)
      else (v, w))"

text \<open>The array \<open>exec_argv\<close>, its length that of the list, and the index of the next argument.\<close>

type_synonym arg_vector = "string option list \<times> nat"

definition push_arg :: "string \<Rightarrow> arg_vector \<Rightarrow> arg_vector option" where
  "push_arg arg v =
    (case v of (exec_argv, index) \<Rightarrow>
      if index + 1 \<ge> length exec_argv then None
      else Some (exec_argv[index := Some arg, index + 1 := None], index + 1))"

definition push_optional_pair :: "string \<Rightarrow> string option \<Rightarrow> arg_vector \<Rightarrow> arg_vector option" where
  "push_optional_pair n v argv =
    (case v of
       None \<Rightarrow> Some argv
     | Some s \<Rightarrow> if s = [] then Some argv else Option.bind (push_arg n argv) (push_arg s))"

definition push_arguments ::
    "macos_auth_options \<Rightarrow> string \<Rightarrow> string option \<Rightarrow> string option \<Rightarrow> string option \<Rightarrow>
     string option \<Rightarrow> arg_vector option" where
  "push_arguments options user service ruser rhost tty = do {
     v \<leftarrow> push_arg (helper_path options) (replicate 24 None, 0);
     v \<leftarrow> push_arg ''request'' v;
     v \<leftarrow> push_arg ''--require-root-owned'' v;
     v \<leftarrow> push_arg ''--config'' v;
     v \<leftarrow> push_arg (config_path options) v;
     v \<leftarrow> push_arg ''--user'' v;
     v \<leftarrow> push_arg user v;
     v \<leftarrow> push_optional_pair ''--service'' service v;
     v \<leftarrow> push_optional_pair ''--ruser'' ruser v;
     v \<leftarrow> push_optional_pair ''--rhost'' rhost v;
     push_optional_pair ''--tty'' tty v }"

text \<open>What \<open>fexecve\<close> reads of the array: the strings before the first null pointer.\<close>

fun argv_strings :: "string option list \<Rightarrow> string list" where
  "argv_strings (Some s # xs) = s # argv_strings xs"
| "argv_strings _ = []"

section \<open>The child process\<close>

definition monotonic_ms :: "'w pam_sys \<Rightarrow> 'w \<Rightarrow> u64 option \<times> 'w" where
  "monotonic_ms S w =
    (case pam_clock_gettime S w of
       (None, w) \<Rightarrow> (None, w)
     | (Some ts, w) \<Rightarrow>
        (Some (word_of_int (tv_sec ts) * 1000 + word_of_int (tv_nsec ts) div 1000000), w))"

text \<open>
  The loop over the entries that one call of \<open>getdents64\<close> returned, and the loop over the calls.
  A count of zero is the empty list of entries.
\<close>

fun close_entries :: "'w pam_sys \<Rightarrow> fd \<Rightarrow> fd_entry list \<Rightarrow> 'w \<Rightarrow> bool \<times> 'w" where
  "close_entries S directory [] w = (True, w)"
| "close_entries S directory (entry # rest) w =
    (if reclen entry = 0 then (False, w)
     else let fd = digits_val (takeWhile is_digit (entry_name entry))
       in close_entries S directory rest
            (if fd \<ge> 4 \<and> fd \<noteq> directory then sys_close S fd w else w))"

partial_function (option) close_listed :: "'w pam_sys \<Rightarrow> fd \<Rightarrow> 'w \<Rightarrow> (bool \<times> 'w) option" where
  "close_listed S directory w =
    (case pam_getdents S directory w of
       (Inl e, w) \<Rightarrow>
          if e = EINTR then close_listed S directory w
          else Some (False, sys_close S directory w)
     | (Inr entries, w) \<Rightarrow>
          if entries = [] then Some (True, sys_close S directory w)
          else (case close_entries S directory entries w of (ok, w) \<Rightarrow>
            if ok then close_listed S directory w
            else Some (False, sys_close S directory w)))"

definition close_inherited_fds :: "'w pam_sys \<Rightarrow> 'w \<Rightarrow> (bool \<times> 'w) option" where
  "close_inherited_fds S w =
    (case pam_close_range S 4 w of
       (Inr _, w) \<Rightarrow> Some (True, w)
     | (Inl _, w) \<Rightarrow> (case pam_open_fd_dir S w of
         (Inl _, w) \<Rightarrow> Some (False, w)
       | (Inr directory, w) \<Rightarrow> close_listed S directory w))"

definition helper_envp :: "string list" where
  "helper_envp = [''PATH=/usr/sbin:/usr/bin:/sbin:/bin'', ''LC_ALL=C'']"

definition helper_child ::
    "'w pam_sys \<Rightarrow> fd \<Rightarrow> string option list \<Rightarrow> 'w \<Rightarrow> (child_end \<times> 'w) option" where
  "helper_child S helper_fd exec_argv w =
    (case (if helper_fd \<noteq> 3 then pam_dup2 S helper_fd 3 w else (Ok 3, w)) of
       (Inl _, w) \<Rightarrow> Some (ChildExit 127, w)
     | (Inr _, w) \<Rightarrow> (case sys_set_cloexec S 3 w of
         (Inl _, w) \<Rightarrow> Some (ChildExit 127, w)
       | (Inr _, w) \<Rightarrow> do {
           (ok, w) \<leftarrow> close_inherited_fds S w;
           Some (if ok then ChildExec 3 (argv_strings exec_argv) helper_envp else ChildExit 127, w) }))"

section \<open>Waiting for the helper\<close>

partial_function (option) reap_loop :: "'w pam_sys \<Rightarrow> pid \<Rightarrow> 'w \<Rightarrow> 'w option" where
  "reap_loop S pid w =
    (case pam_waitpid S pid w of
       (Inl e, w) \<Rightarrow> if e = EINTR then reap_loop S pid w else Some w
     | (Inr _, w) \<Rightarrow> Some w)"

definition kill_and_reap :: "'w pam_sys \<Rightarrow> pid \<Rightarrow> 'w \<Rightarrow> 'w option" where
  "kill_and_reap S pid w = reap_loop S pid (pam_kill S pid SIGKILL w)"

text \<open>The twenty polls after \<open>SIGTERM\<close>.\<close>

fun terminate_loop :: "'w pam_sys \<Rightarrow> pid \<Rightarrow> nat \<Rightarrow> 'w \<Rightarrow> (int \<times> 'w) option" where
  "terminate_loop S pid 0 w =
    map_option (\<lambda>w. (MACOS_AUTH_HELPER_TIMEOUT_EXIT, w)) (kill_and_reap S pid w)"
| "terminate_loop S pid (Suc n) w =
    (case pam_wait_nohang S pid w of (r, w) \<Rightarrow>
      (case r of
         Reaped _ \<Rightarrow> Some (MACOS_AUTH_HELPER_TIMEOUT_EXIT, w)
       | _ \<Rightarrow> if r = WaitFailed ECHILD then Some (127, w)
             else terminate_loop S pid n (pam_usleep S 50000 w)))"

text \<open>
  The loop of \<open>run_helper\<close>: \<open>Inr status\<close> when it is left by \<open>break\<close>, \<open>Inl code\<close> when the function
  returns from inside.
\<close>

partial_function (option) wait_loop ::
    "'w pam_sys \<Rightarrow> pid \<Rightarrow> u64 \<Rightarrow> u32 \<Rightarrow> 'w \<Rightarrow> ((wait_status, int) result \<times> 'w) option" where
  "wait_loop S pid start_ms timeout w =
    (case pam_wait_nohang S pid w of
       (Reaped status, w) \<Rightarrow> Some (Ok status, w)
     | (WaitFailed e, w) \<Rightarrow>
        if e = EINTR then wait_loop S pid start_ms timeout w
        else let w = pam_vsyslog S LOG_ERR ''macos-auth: waitpid failed: %s'' [LogErrno e] w
          in if e \<noteq> ECHILD then map_option (\<lambda>w. (Err 127, w)) (kill_and_reap S pid w)
             else Some (Err 127, w)
     | (NotYet, w) \<Rightarrow> (case monotonic_ms S w of (now, w) \<Rightarrow>
        if now = None \<or> the now < start_ms then
          map_option (\<lambda>w. (Err 127, w)) (kill_and_reap S pid
            (pam_vsyslog S LOG_ERR ''macos-auth: monotonic clock failure'' [] w))
        else if the now - start_ms \<ge> ucast timeout then
          map_option (\<lambda>(code, w). (Err code, w)) (terminate_loop S pid 20 (pam_kill S pid SIGTERM
            (pam_vsyslog S LOG_ERR ''macos-auth: helper timed out after %u ms''
              [LogInt (uint timeout)] w)))
        else wait_loop S pid start_ms timeout (pam_usleep S 10000 w)))"

definition status_code :: "'w pam_sys \<Rightarrow> wait_status \<Rightarrow> 'w \<Rightarrow> int \<times> 'w" where
  "status_code S status w =
    (case status of
       Exited code \<Rightarrow> (uint code, w)
     | Signaled n \<Rightarrow>
        (127, pam_vsyslog S LOG_ERR ''macos-auth: helper terminated by signal %d'' [LogInt (int n)] w)
     | OtherStatus \<Rightarrow> (127, w))"

definition run_helper ::
    "'w pam_sys \<Rightarrow> fd \<Rightarrow> string option list \<Rightarrow> u32 \<Rightarrow> 'w \<Rightarrow> (int \<times> 'w) option" where
  "run_helper S helper_fd exec_argv timeout w =
    (case (if timeout = 0 then (None, w) else monotonic_ms S w) of
       (None, w) \<Rightarrow> Some (127, pam_vsyslog S LOG_ERR
         ''macos-auth: invalid timeout or monotonic clock failure'' [] w)
     | (Some start_ms, w) \<Rightarrow> (case pam_fork S (helper_fd, exec_argv) w of
         (Inl e, w) \<Rightarrow>
           Some (127, pam_vsyslog S LOG_ERR ''macos-auth: fork failed: %s'' [LogErrno e] w)
       | (Inr pid, w) \<Rightarrow> do {
           (r, w) \<leftarrow> wait_loop S pid start_ms timeout w;
           Some (case r of Inl code \<Rightarrow> (code, w) | Inr status \<Rightarrow> status_code S status w) }))"

section \<open>Authentication\<close>

definition map_exit_to_pam :: "int \<Rightarrow> pam_code" where
  "map_exit_to_pam exit_code =
    (if exit_code = 0 then PAM_SUCCESS
     else if exit_code \<in> {10, 11, 12} then PAM_AUTHINFO_UNAVAIL
     else PAM_AUTH_ERR)"

definition log_if ::
    "bool \<Rightarrow> 'w pam_sys \<Rightarrow> log_priority \<Rightarrow> string \<Rightarrow> log_arg list \<Rightarrow> 'w \<Rightarrow> 'w" where
  "log_if b S priority fmt args w = (if b then pam_vsyslog S priority fmt args w else w)"

text \<open>The part of \<open>pam_sm_authenticate\<close> that follows the construction of the arguments.\<close>

definition invoke_helper ::
    "'w pam_sys \<Rightarrow> macos_auth_options \<Rightarrow> string option list \<Rightarrow> 'w \<Rightarrow> (pam_code \<times> 'w) option" where
  "invoke_helper S options exec_argv w =
    (case validate_helper_path S (Some (helper_path options)) w of
       (None, w) \<Rightarrow> Some (PAM_AUTH_ERR, w)
     | (Some helper_fd, w) \<Rightarrow> do {
         (helper_exit, w) \<leftarrow> run_helper S helper_fd exec_argv (timeout_ms options) w;
         let w = sys_close S helper_fd w;
         let mapped = map_exit_to_pam helper_exit;
         Some (mapped, log_if (debug options) S LOG_DEBUG
           ''macos-auth: helper exit=%d mapped_pam=%d'' [LogInt helper_exit, LogCode mapped] w) })"

definition pam_sm_authenticate :: "'w pam_sys \<Rightarrow> string list \<Rightarrow> 'w \<Rightarrow> (pam_code \<times> 'w) option" where
  "pam_sm_authenticate S argv w =
    (let options = parse_options argv in
     case pam_item_string S PAM_SERVICE w of (service, w) \<Rightarrow>
     case pam_item_string S PAM_RUSER w of (ruser, w) \<Rightarrow>
     case pam_item_string S PAM_RHOST w of (rhost, w) \<Rightarrow>
     case pam_item_string S PAM_TTY w of (tty, w) \<Rightarrow>
     case pam_get_user S w of ((pam_result, user), w) \<Rightarrow>
     if pam_result \<noteq> PAM_SUCCESS \<or> user = None \<or> user = Some [] then
       Some (PAM_AUTH_ERR,
         pam_vsyslog S LOG_ERR ''macos-auth: failed to obtain PAM user'' [] w)
     else (case push_arguments options (the user) service ruser rhost tty of
         None \<Rightarrow> Some (PAM_AUTH_ERR,
           pam_vsyslog S LOG_ERR ''macos-auth: too many helper arguments'' [] w)
       | Some (exec_argv, _) \<Rightarrow>
           invoke_helper S options exec_argv (log_if (debug options) S LOG_DEBUG
             ''macos-auth: invoking helper for service=%s user=%s ruser=%s tty=%s''
             (map LogStr [unwrap_or service [], the user, unwrap_or ruser [], unwrap_or tty []]) w)))"

definition pam_sm_setcred :: "'w pam_sys \<Rightarrow> string list \<Rightarrow> 'w \<Rightarrow> pam_code \<times> 'w" where
  "pam_sm_setcred S argv w = (PAM_SUCCESS, w)"

section \<open>Options are bounded\<close>

lemma parse_uint_option_range:
  assumes "fallback \<noteq> 0" and "fallback \<le> 600000"
  shows "parse_uint_option v fallback \<noteq> 0 \<and> parse_uint_option v fallback \<le> 600000"
proof -
  have "ucast n \<noteq> (0 :: u32) \<and> ucast n \<le> (600000 :: u32)"
    if "n \<noteq> 0" and "n \<le> 600000" for n :: u64
  proof -
    have n: "unat n \<le> 600000" "unat n \<noteq> 0"
      using that by (auto simp: word_le_nat_alt unat_eq_0)
    then have "unat (ucast n :: u32) = unat n"
      by (simp add: unsigned_ucast_eq take_bit_nat_eq_self_iff)
    with n show ?thesis by (auto simp: word_le_nat_alt unat_eq_0 [symmetric])
  qed
  with assms show ?thesis
    by (auto simp: parse_uint_option_def not_less split: option.splits prod.splits)
qed

lemma parse_options_timeout:
  "timeout_ms (parse_options argv) \<noteq> 0 \<and> timeout_ms (parse_options argv) \<le> 600000"
proof (induction argv rule: rev_induct)
  case Nil
  then show ?case
    by (simp add: parse_options_def default_options_def MACOS_AUTH_DEFAULT_TIMEOUT_MS_def)
next
  case (snoc arg argv)
  then show ?case
    using parse_uint_option_range [of MACOS_AUTH_DEFAULT_TIMEOUT_MS]
    by (simp add: parse_options_def parse_option_def MACOS_AUTH_DEFAULT_TIMEOUT_MS_def)
qed

lemma digit_neither: "is_digit c \<Longrightarrow> \<not> isspace c \<and> c \<noteq> CHR ''-'' \<and> c \<noteq> CHR ''+''"
  by (auto simp: is_digit_def isspace_def)

lemma strtoul_digits:
  assumes "ds \<noteq> []" and "list_all is_digit ds" and "digits_val ds < 2 ^ 64"
  shows "strtoul ds = (word_of_nat (digits_val ds), [], False)"
proof -
  obtain d rest where d: "ds = d # rest" using assms(1) by (cases ds) auto
  with assms(2) have "\<not> isspace d" "d \<noteq> CHR ''-''" "d \<noteq> CHR ''+''"
    using digit_neither by auto
  moreover have "takeWhile is_digit ds = ds" "dropWhile is_digit ds = []"
    using assms(2) by (auto simp: list_all_iff takeWhile_eq_all_conv)
  ultimately show ?thesis
    using assms(3) d by (auto simp: strtoul_def Let_def)
qed

section \<open>The argument vector\<close>

text \<open>The array holds the arguments \<open>xs\<close>, and a null pointer after them.\<close>

definition holds_args :: "string list \<Rightarrow> arg_vector \<Rightarrow> bool" where
  "holds_args xs v \<longleftrightarrow>
    (\<exists>rest. fst v = map Some xs @ None # rest) \<and> snd v = length xs \<and> length (fst v) = 24"

lemma push_arg_holds:
  assumes "holds_args xs v" and "length xs < 23"
  shows "\<exists>v'. push_arg a v = Some v' \<and> holds_args (xs @ [a]) v'"
proof -
  obtain rest where v: "fst v = map Some xs @ None # rest" "snd v = length xs" "length (fst v) = 24"
    using assms(1) by (auto simp: holds_args_def)
  with assms(2) obtain x rest' where "rest = x # rest'" by (cases rest) auto
  with v assms(2) show ?thesis
    by (cases v) (auto simp: push_arg_def holds_args_def list_update_append)
qed

lemma argv_strings_args: "argv_strings (map Some xs @ None # rest) = xs"
  by (induction xs) auto

lemma argv_strings_holds: "holds_args xs v \<Longrightarrow> argv_strings (fst v) = xs"
  by (auto simp: holds_args_def argv_strings_args)

abbreviation pair_args :: "(string \<times> string) list \<Rightarrow> string list" where
  "pair_args ps \<equiv> concat (map (\<lambda>(n, v). [n, v]) ps)"

definition optional_pair :: "string \<Rightarrow> string option \<Rightarrow> (string \<times> string) list" where
  "optional_pair n v = (case v of None \<Rightarrow> [] | Some s \<Rightarrow> if s = [] then [] else [(n, s)])"

lemma push_optional_pair_holds:
  assumes "holds_args xs v" and "length xs < 22"
  shows "\<exists>v'. push_optional_pair n s v = Some v' \<and>
    holds_args (xs @ pair_args (optional_pair n s)) v'"
proof (cases "s = None \<or> s = Some []")
  case True
  with assms(1) show ?thesis by (cases v) (auto simp: push_optional_pair_def optional_pair_def)
next
  case False
  then obtain x where s: "s = Some x" "x \<noteq> []" by auto
  obtain v1 where v1: "push_arg n v = Some v1" "holds_args (xs @ [n]) v1"
    using push_arg_holds [OF assms(1)] assms(2) by fastforce
  obtain v2 where "push_arg x v1 = Some v2" "holds_args ((xs @ [n]) @ [x]) v2"
    using push_arg_holds [OF v1(2)] assms(2) by fastforce
  with v1 s show ?thesis by (simp add: push_optional_pair_def optional_pair_def)
qed

text \<open>The options with a value that the module passes.\<close>

definition helper_pairs ::
    "macos_auth_options \<Rightarrow> string \<Rightarrow> string option \<Rightarrow> string option \<Rightarrow> string option \<Rightarrow>
     string option \<Rightarrow> (string \<times> string) list" where
  "helper_pairs options user service ruser rhost tty =
    [(''--config'', config_path options), (''--user'', user)] @
    optional_pair ''--service'' service @ optional_pair ''--ruser'' ruser @
    optional_pair ''--rhost'' rhost @ optional_pair ''--tty'' tty"

definition helper_args ::
    "macos_auth_options \<Rightarrow> string \<Rightarrow> string option \<Rightarrow> string option \<Rightarrow> string option \<Rightarrow>
     string option \<Rightarrow> string list" where
  "helper_args options user service ruser rhost tty =
    [helper_path options, ''request'', ''--require-root-owned''] @
    pair_args (helper_pairs options user service ruser rhost tty)"

lemma length_optional_pair: "length (pair_args (optional_pair n v)) \<le> 2"
  by (auto simp: optional_pair_def split: option.splits)

text \<open>One push after another, while there is room.\<close>

lemma then_push:
  assumes "holds_args xs v" and "length xs < 23"
    and "\<And>v'. holds_args (xs @ [a]) v' \<Longrightarrow> \<exists>u. f v' = Some u \<and> holds_args ys u"
  shows "\<exists>u. Option.bind (push_arg a v) f = Some u \<and> holds_args ys u"
  using push_arg_holds [OF assms(1,2), of a] assms(3) by fastforce

lemma then_push_optional:
  assumes "holds_args xs v" and "length xs < 22"
    and "\<And>v'. holds_args (xs @ pair_args (optional_pair n s)) v' \<Longrightarrow> \<exists>u. f v' = Some u \<and> holds_args ys u"
  shows "\<exists>u. Option.bind (push_optional_pair n s v) f = Some u \<and> holds_args ys u"
  using push_optional_pair_holds [OF assms(1,2), of n s] assms(3) by fastforce

lemma holds_args_empty: "holds_args [] (replicate 24 None, 0)"
  by (simp add: holds_args_def numeral_eq_Suc)

lemma push_arguments_holds:
  "\<exists>v. push_arguments options user service ruser rhost tty = Some v \<and>
    holds_args (helper_args options user service ruser rhost tty) v"
proof -
  note len = length_optional_pair [of "''--service''" service] length_optional_pair [of "''--ruser''" ruser]
    length_optional_pair [of "''--rhost''" rhost]
  show ?thesis
    unfolding push_arguments_def
    apply (rule then_push [OF holds_args_empty])
     apply simp
    apply (erule then_push, simp)+
    apply (erule then_push_optional, use len in simp)+
    apply (drule push_optional_pair_holds [where n = "''--tty''" and s = tty])
    subgoal using len by simp
    subgoal by (simp add: helper_args_def helper_pairs_def)
    done
qed

end
