(* ===== verification/Pam_Process.thy ===== *)
theory Pam_Process
  imports Pam
begin

text \<open>
  What the operations of the PAM module guarantee: the executable it opens, the descriptors it
  leaves open, the status it gets from the child, and that waiting for the child ends. The
  operating system is described by three laws: \<open>descriptor_table\<close> (descriptors are opened and
  closed as the calls say), \<open>process_table\<close> (the status of a process is that of the code it runs)
  and \<open>helper_clock\<close> (time passes and interruptions run out).
\<close>

section \<open>The executable\<close>

inductive helper_opened ::
    "'w pam_sys \<Rightarrow> fd \<Rightarrow> 'w \<Rightarrow> string list \<Rightarrow> metadata list \<Rightarrow> fd \<Rightarrow> 'w \<Rightarrow> bool"
    for S :: "'w pam_sys" where
  here: "helper_opened S fd w [] [] fd w"
| down: "\<lbrakk> c \<noteq> ''.''; c \<noteq> ''..'';
     sys_openat S fd c (helper_open_flags (cs \<noteq> [])) w = (Inr child, w1);
     sys_fstat S child (sys_close S fd w1) = (Inr md, w2);
     pam_trusted_metadata md (cs \<noteq> []);
     helper_opened S child w2 cs mds f w3 \<rbrakk>
   \<Longrightarrow> helper_opened S fd w (c # cs) (md # mds) f w3"

inductive_simps helper_opened_Nil: "helper_opened S fd w [] mds f w'"
inductive_simps helper_opened_Cons: "helper_opened S fd w (c # cs) mds f w'"

lemma descriptor_trusted_True:
  "descriptor_trusted S fd directory w = (True, w') \<longleftrightarrow>
    (\<exists>md. sys_fstat S fd w = (Inr md, w') \<and> pam_trusted_metadata md directory)"
  by (auto simp: descriptor_trusted_def split: prod.splits sum.splits)

lemma helper_walk_opened:
  "helper_walk S fd cs w = ((r, True), w') \<longleftrightarrow>
    (\<exists>mds f. r = Some f \<and> helper_opened S fd w cs mds f w')"
proof (induction cs arbitrary: fd w)
  case Nil
  then show ?case by (auto simp: helper_opened_Nil)
next
  case (Cons c cs)
  obtain q w1 where o: "sys_openat S fd c (helper_open_flags (cs \<noteq> [])) w = (q, w1)" by fastforce
  show ?case
  proof (cases q)
    case (Inl e)
    with o show ?thesis by (auto simp: helper_opened_Cons Let_def)
  next
    case (Inr child)
    obtain b w2 where d: "descriptor_trusted S child (cs \<noteq> []) (sys_close S fd w1) = (b, w2)"
      by fastforce
    show ?thesis
    proof (cases b)
      case True
      with d obtain md where "sys_fstat S child (sys_close S fd w1) = (Inr md, w2)"
        "pam_trusted_metadata md (cs \<noteq> [])" by (auto simp: descriptor_trusted_True)
      with True Inr o d Cons.IH show ?thesis by (auto simp: helper_opened_Cons Let_def)
    next
      case False
      then have "\<not> pam_trusted_metadata md (cs \<noteq> [])"
        if "sys_fstat S child (sys_close S fd w1) = (Inr md, v)" for md v
        using that d by (auto simp: descriptor_trusted_def)
      with False Inr o d show ?thesis by (auto simp: helper_opened_Cons Let_def)
    qed
  qed
qed

lemma helper_opened_metadata:
  assumes "helper_opened S fd w cs mds f w'"
  shows "length mds = length cs \<and> (\<forall>md \<in> set mds. md_uid md = 0 \<and> md_mode md AND 18 = 0) \<and>
    (\<forall>md \<in> set (butlast mds). md_type md = Directory) \<and>
    (cs \<noteq> [] \<longrightarrow> md_type (last mds) = RegularFile \<and> md_mode (last mds) AND 64 \<noteq> 0) \<and>
    ''..'' \<notin> set cs \<and> ''.'' \<notin> set cs"
  using assms
proof (induction rule: helper_opened.induct)
  case (here fd w)
  then show ?case by simp
next
  case (down c fd cs w child w1 md w2 mds f w3)
  then have "cs \<noteq> [] \<longleftrightarrow> mds \<noteq> []" by auto
  with down show ?case by (auto simp: pam_trusted_metadata_def)
qed

lemma split_on_last:
  assumes "p \<noteq> []" and "last p \<noteq> c"
  shows "split_on c p \<noteq> [] \<and> last (split_on c p) \<noteq> []"
  using assms by (induction p) (auto split: list.splits if_splits)

lemma path_tokens_nonempty:
  assumes "p \<noteq> []" and "last p \<noteq> CHR ''/''"
  shows "path_tokens p \<noteq> []"
  using split_on_last [OF assms] last_in_set by (fastforce simp: path_tokens_def filter_empty_conv)

lemma validate_helper_path_Some:
  assumes "validate_helper_path S path w = (Some f, w')"
  obtains p w0 root w1 md w2 mds where "path = Some p" and "is_absolute p" and "path_tokens p \<noteq> []"
    and "pam_malloc S w = (True, w0)" and "sys_open_root S w0 = (Inr root, w1)"
    and "sys_fstat S root w1 = (Inr md, w2)" and "pam_trusted_metadata md True"
    and "helper_opened S root w2 (path_tokens p) mds f w'"
proof -
  obtain p where p: "path = Some p" "p \<noteq> []" "hd p = CHR ''/''" "last p \<noteq> CHR ''/''"
    using assms by (auto simp: validate_helper_path_def split: option.splits if_splits)
  with assms obtain w0 where m: "pam_malloc S w = (True, w0)"
    by (auto simp: validate_helper_path_def strdup_def split: if_splits prod.splits option.splits)
  with assms p have "open_helper S (path_tokens p) w0 = ((Some f, True), w')"
    by (auto simp: validate_helper_path_def strdup_def split: if_splits prod.splits option.splits)
  then obtain root w1 w2 where "sys_open_root S w0 = (Inr root, w1)"
    and "descriptor_trusted S root True w1 = (True, w2)"
    and "helper_walk S root (path_tokens p) w2 = ((Some f, True), w')"
    by (auto simp: open_helper_def split: prod.splits sum.splits if_splits)
  with that p m path_tokens_nonempty [OF p(2,4)] show ?thesis
    by (auto simp: descriptor_trusted_True helper_walk_opened is_absolute_def)
qed

section \<open>What waiting leaves alone\<close>

text \<open>\<open>K\<close> is a part of the world that the calls made while waiting do not change.\<close>

definition waiting_keeps :: "'w pam_sys \<Rightarrow> ('w \<Rightarrow> 'k) \<Rightarrow> bool" where
  "waiting_keeps S K \<longleftrightarrow>
    (\<forall>pid w. K (snd (pam_wait_nohang S pid w)) = K w) \<and>
    (\<forall>pid w. K (snd (pam_waitpid S pid w)) = K w) \<and>
    (\<forall>w. K (snd (pam_clock_gettime S w)) = K w) \<and>
    (\<forall>pid sig w. K (pam_kill S pid sig w) = K w) \<and>
    (\<forall>n w. K (pam_usleep S n w) = K w) \<and>
    (\<forall>pr fmt args w. K (pam_vsyslog S pr fmt args w) = K w)"

lemma waiting_keeps_calls:
  assumes "waiting_keeps S K"
  shows "pam_wait_nohang S pid w = (r, w') \<Longrightarrow> K w' = K w"
    and "pam_waitpid S pid w = (s, w') \<Longrightarrow> K w' = K w"
    and "pam_clock_gettime S w = (t, w') \<Longrightarrow> K w' = K w"
    and "K (pam_kill S pid sig w) = K w"
    and "K (pam_usleep S n w) = K w"
    and "K (pam_vsyslog S pr fmt args w) = K w"
  using assms unfolding waiting_keeps_def by (metis snd_conv)+

lemma monotonic_ms_keeps:
  assumes "waiting_keeps S K" and "monotonic_ms S w = (m, w')"
  shows "K w' = K w"
  using assms by (auto simp: monotonic_ms_def dest: waiting_keeps_calls split: prod.splits option.splits)

lemmas reap_loop_induct = reap_loop.raw_induct [rotated 1, consumes 1, case_names step]
lemmas wait_loop_induct = wait_loop.raw_induct [rotated 1, consumes 1, case_names step]

lemma kill_and_reap_keeps:
  assumes "waiting_keeps S K" and "kill_and_reap S pid w = Some w'"
  shows "K w' = K w"
proof -
  have "K v' = K v" if "reap_loop S pid v = Some v'" for v v'
    using that assms(1)
  proof (induction rule: reap_loop_induct)
    case (step rec S pid w v)
    obtain r w1 where r: "pam_waitpid S pid w = (r, w1)" by fastforce
    with step.prems have "K w1 = K w" by (rule waiting_keeps_calls(2))
    with step r show ?case by (fastforce split: sum.splits if_splits)
  qed
  with assms show ?thesis by (simp add: kill_and_reap_def waiting_keeps_calls(4) [OF assms(1)])
qed

lemma terminate_loop_keeps:
  assumes "waiting_keeps S K" and "terminate_loop S pid n w = Some (code, w')"
  shows "K w' = K w"
  using assms(2)
proof (induction n arbitrary: w)
  case 0
  with assms(1) show ?case by (auto dest: kill_and_reap_keeps)
next
  case (Suc n)
  obtain r w1 where r: "pam_wait_nohang S pid w = (r, w1)" by fastforce
  then have "K w1 = K w" using assms(1) by (auto dest: waiting_keeps_calls)
  with Suc r show ?case
    by (auto simp: waiting_keeps_calls(5) [OF assms(1)] split: wait_result.splits if_splits)
qed

lemma wait_loop_keeps:
  assumes "wait_loop S pid start_ms timeout w = Some rw" and "waiting_keeps S K"
  shows "K (snd rw) = K w"
  using assms
proof (induction rule: wait_loop_induct)
  case (step rec S pid start_ms timeout w rw)
  note keeps = waiting_keeps_calls [OF step.prems]
  obtain r w1 where r: "pam_wait_nohang S pid w = (r, w1)" by fastforce
  then have K1: "K w1 = K w" by (rule keeps(1))
  obtain now w2 where m: "monotonic_ms S w1 = (now, w2)" by fastforce
  with K1 have K2: "K w2 = K w" using monotonic_ms_keeps [OF step.prems m] by simp
  show ?case
  proof (cases r)
    case (Reaped st)
    with step.hyps r K1 show ?thesis by auto
  next
    case NotYet
    with step.hyps step.prems r m K2 show ?thesis
      by (fastforce simp: keeps(4-6) dest: step.IH kill_and_reap_keeps terminate_loop_keeps split: if_splits)
  next
    case (WaitFailed e)
    with step.hyps step.prems r K1 show ?thesis
      by (fastforce simp: keeps(4-6) Let_def dest: step.IH kill_and_reap_keeps split: if_splits)
  qed
qed

section \<open>The status of the helper\<close>

lemma terminate_loop_code:
  "terminate_loop S pid n w = Some (code, w') \<Longrightarrow> code \<in> {MACOS_AUTH_HELPER_TIMEOUT_EXIT, 127}"
  by (induction n arbitrary: w) (auto split: prod.splits wait_result.splits if_splits)

lemma wait_loop_code:
  assumes "wait_loop S pid start_ms timeout w = Some rw" and "rw = (Inl code, w')"
  shows "code \<in> {MACOS_AUTH_HELPER_TIMEOUT_EXIT, 127}"
  using assms
proof (induction rule: wait_loop_induct)
  case (step rec S pid start_ms timeout w rw)
  then show ?case
    by (fastforce simp: Let_def dest: step.IH terminate_loop_code
        split: prod.splits wait_result.splits if_splits)
qed

text \<open>A status comes from a poll of the process, made in a world that waiting has not changed.\<close>

lemma wait_loop_status:
  assumes "wait_loop S pid start_ms timeout w = Some rw" and "rw = (Inr st, w')"
    and "waiting_keeps S K"
  shows "\<exists>v. pam_wait_nohang S pid v = (Reaped st, w') \<and> K v = K w"
  using assms
proof (induction rule: wait_loop_induct)
  case (step rec S pid start_ms timeout w rw)
  note keeps = waiting_keeps_calls [OF step.prems(2)]
  obtain r w1 where r: "pam_wait_nohang S pid w = (r, w1)" by fastforce
  then have K1: "K w1 = K w" by (rule keeps(1))
  obtain now w2 where m: "monotonic_ms S w1 = (now, w2)" by fastforce
  with K1 have K2: "K w2 = K w" using monotonic_ms_keeps [OF step.prems(2) m] by simp
  show ?case
  proof (cases r)
    case (Reaped st)
    with step.hyps step.prems r show ?thesis by auto
  next
    case NotYet
    with step.hyps step.prems(1) r m
    have "rec S pid start_ms timeout (pam_usleep S 10000 w2) = Some rw" by (auto split: if_splits)
    from step.IH [OF this step.prems] K2 show ?thesis by (auto simp: keeps(4-6))
  next
    case (WaitFailed e)
    with step.hyps step.prems(1) r have "rec S pid start_ms timeout w1 = Some rw"
      by (auto simp: Let_def split: if_splits)
    from step.IH [OF this step.prems] K1 show ?thesis by auto
  qed
qed

text \<open>
  \<open>program f argv envp\<close> is what the executable behind descriptor \<open>f\<close> does: its exit status, or
  \<open>None\<close> when it does not end. The code of a process that ended is the status it passed to \<open>_exit\<close>
  or that of the program it executed; \<open>_exit(127)\<close> follows a failed \<open>fexecve\<close>.
\<close>

type_synonym 'w program = "fd \<Rightarrow> string list \<Rightarrow> string list \<Rightarrow> 'w \<Rightarrow> u8 option"

definition ends_with :: "'w pam_sys \<Rightarrow> 'w program \<Rightarrow> child_locals \<Rightarrow> u8 \<Rightarrow> bool" where
  "ends_with S program locals c \<longleftrightarrow>
    (\<exists>v e v'. helper_child S (fst locals) (snd locals) v = Some (e, v') \<and>
      (case e of
         ChildExit k \<Rightarrow> c = k
       | ChildExec f argv envp \<Rightarrow> program f argv envp v' = Some c \<or> c = 127))"

text \<open>\<open>children w pid\<close> are the variables of the process last started with this number.\<close>

definition process_table ::
    "'w pam_sys \<Rightarrow> 'w program \<Rightarrow> ('w \<Rightarrow> pid \<Rightarrow> child_locals option) \<Rightarrow> bool" where
  "process_table S program children \<longleftrightarrow>
    waiting_keeps S children \<and>
    (\<forall>locals w pid w'. pam_fork S locals w = (Inr pid, w') \<longrightarrow> children w' pid = Some locals) \<and>
    (\<forall>pid w c w' locals. pam_wait_nohang S pid w = (Reaped (Exited c), w') \<longrightarrow>
      children w pid = Some locals \<longrightarrow> ends_with S program locals c)"

lemma helper_child_cases:
  assumes "helper_child S helper_fd exec_argv w = Some (e, w')"
  shows "e = ChildExit 127 \<or> e = ChildExec 3 (argv_strings exec_argv) helper_envp"
  using assms
  by (auto simp: helper_child_def bind_eq_Some_conv split: prod.splits sum.splits if_splits)

lemma status_code_zero: "status_code S st w = (0, w') \<longleftrightarrow> st = Exited 0 \<and> w' = w"
  by (auto simp: status_code_def unsigned_eq_0_iff split: wait_status.splits)

text \<open>The code comes from the child or from the loop that waits for it, or is that of a failure.\<close>

definition helper_code :: "'w pam_sys \<Rightarrow> (wait_status, int) result \<times> 'w \<Rightarrow> int \<times> 'w" where
  "helper_code S rw =
    (case rw of (r, w) \<Rightarrow> (case r of Inl code \<Rightarrow> (code, w) | Inr status \<Rightarrow> status_code S status w))"

lemma run_helper_cases:
  obtains (failed) fmt args v child
    where "run_helper S helper_fd exec_argv timeout w = Some (127, pam_vsyslog S LOG_ERR fmt args v)"
    and "v \<in> {w, snd (monotonic_ms S w), snd (pam_fork S child (snd (monotonic_ms S w)))}"
  | (forked) start_ms w1 pid w2 where "timeout \<noteq> 0" and "monotonic_ms S w = (Some start_ms, w1)"
    and "pam_fork S (helper_fd, exec_argv) w1 = (Inr pid, w2)"
    and "run_helper S helper_fd exec_argv timeout w =
      map_option (helper_code S) (wait_loop S pid start_ms timeout w2)"
proof -
  obtain m w1 where m: "(if timeout = 0 then (None, w) else monotonic_ms S w) = (m, w1)" by fastforce
  show thesis
  proof (cases m)
    case None
    with m have "run_helper S helper_fd exec_argv timeout w = Some (127, pam_vsyslog S LOG_ERR
        ''macos-auth: invalid timeout or monotonic clock failure'' [] w1)"
      by (simp add: run_helper_def)
    moreover have "w1 \<in> {w, snd (monotonic_ms S w)}" using m by (auto split: if_splits)
    ultimately show ?thesis by (intro failed) auto
  next
    case (Some start_ms)
    obtain q w2 where f: "pam_fork S (helper_fd, exec_argv) w1 = (q, w2)" by fastforce
    show ?thesis
    proof (cases q)
      case (Inl e)
      with m Some f have "run_helper S helper_fd exec_argv timeout w = Some (127,
          pam_vsyslog S LOG_ERR ''macos-auth: fork failed: %s'' [LogErrno e] w2)"
        by (simp add: run_helper_def)
      moreover have "w2 = snd (pam_fork S (helper_fd, exec_argv) (snd (monotonic_ms S w)))"
        using m Some f by (auto split: if_splits)
      ultimately show ?thesis by (intro failed) auto
    next
      case (Inr pid)
      have "run_helper S helper_fd exec_argv timeout w =
          map_option (helper_code S) (wait_loop S pid start_ms timeout w2)"
        using m Some f Inr
        by (cases "wait_loop S pid start_ms timeout w2") (auto simp: run_helper_def helper_code_def)
      with m Some f Inr show ?thesis by (intro forked) (auto split: if_splits)
    qed
  qed
qed

lemma run_helper_zero:
  assumes "run_helper S helper_fd exec_argv timeout w = Some (0, w')"
    and "process_table S program children"
  shows "\<exists>v v'. helper_child S helper_fd exec_argv v =
      Some (ChildExec 3 (argv_strings exec_argv) helper_envp, v') \<and>
    program 3 (argv_strings exec_argv) helper_envp v' = Some 0"
proof -
  let ?locals = "(helper_fd, exec_argv)"
  obtain start_ms w1 pid w2 r w3 where f: "pam_fork S ?locals w1 = (Inr pid, w2)"
    and l: "wait_loop S pid start_ms timeout w2 = Some (r, w3)"
    and c: "helper_code S (r, w3) = (0, w')"
    using assms(1) by (cases rule: run_helper_cases [of S helper_fd exec_argv timeout w]) auto
  from c l have r: "r = Inr (Exited 0)"
    by (auto simp: helper_code_def status_code_zero MACOS_AUTH_HELPER_TIMEOUT_EXIT_def
        dest: wait_loop_code split: sum.splits)
  from assms(2) have keeps: "waiting_keeps S children" by (simp add: process_table_def)
  from wait_loop_status [OF l [unfolded r] refl keeps] obtain v
    where v: "pam_wait_nohang S pid v = (Reaped (Exited 0), w3)" and k: "children v = children w2"
    by blast
  from f assms(2) have "children v pid = Some ?locals" unfolding k by (simp add: process_table_def)
  with v assms(2) have "ends_with S program ?locals 0" unfolding process_table_def by blast
  then obtain e v v' where "helper_child S helper_fd exec_argv v = Some (e, v')"
    and "case e of ChildExit k \<Rightarrow> 0 = k
      | ChildExec f argv envp \<Rightarrow> program f argv envp v' = Some 0 \<or> (0 :: u8) = 127"
    unfolding ends_with_def by auto
  moreover from this have "e = ChildExec 3 (argv_strings exec_argv) helper_envp"
    using helper_child_cases by fastforce
  ultimately have "helper_child S helper_fd exec_argv v =
      Some (ChildExec 3 (argv_strings exec_argv) helper_envp, v')"
    "program 3 (argv_strings exec_argv) helper_envp v' = Some 0" by auto
  then show ?thesis by blast
qed

section \<open>Waiting ends\<close>

text \<open>
  \<open>T\<close> is the time in milliseconds in each world: a reading of the clock is not behind it, sleeping
  takes some of it, and no other call goes back. \<open>I\<close> bounds the interruptions that are still to
  come before time goes on.
\<close>

definition helper_clock :: "'w pam_sys \<Rightarrow> ('w \<Rightarrow> nat) \<Rightarrow> ('w \<Rightarrow> nat) \<Rightarrow> bool" where
  "helper_clock S T I \<longleftrightarrow>
    (\<forall>w m w'. monotonic_ms S w = (Some m, w') \<longrightarrow> T w \<le> unat m) \<and>
    (\<forall>w. T w \<le> T (snd (monotonic_ms S w))) \<and>
    (\<forall>n w. 0 < n \<longrightarrow> T w < T (pam_usleep S n w)) \<and>
    (\<forall>pid w r w'. pam_wait_nohang S pid w = (r, w') \<longrightarrow> T w \<le> T w' \<and>
      (r = WaitFailed EINTR \<longrightarrow> I w' < I w)) \<and>
    (\<forall>pid w w'. pam_waitpid S pid w = (Inl EINTR, w') \<longrightarrow> I w' < I w)"

lemma helper_clock_laws:
  assumes "helper_clock S T I"
  shows "monotonic_ms S w = (Some m, w') \<Longrightarrow> T w \<le> unat m"
    and "monotonic_ms S w = (r, w') \<Longrightarrow> T w \<le> T w'"
    and "T w < T (pam_usleep S 10000 w)"
    and "pam_wait_nohang S pid w = (q, w') \<Longrightarrow> T w \<le> T w'"
    and "pam_wait_nohang S pid w = (WaitFailed EINTR, w') \<Longrightarrow> I w' < I w"
    and "pam_waitpid S pid w = (Inl EINTR, w') \<Longrightarrow> I w' < I w"
  using assms unfolding helper_clock_def by (auto, metis snd_conv)

lemma kill_and_reap_returns:
  assumes "helper_clock S T I"
  shows "returns (kill_and_reap S pid w)"
proof -
  have "returns (reap_loop S pid v)" for v
  proof (induction "I v" arbitrary: v rule: less_induct)
    case less
    obtain r v1 where "pam_waitpid S pid v = (r, v1)" by fastforce
    with less helper_clock_laws(6) [OF assms] show ?case
      by (auto simp: reap_loop.simps [of S pid v] split: sum.splits)
  qed
  then show ?thesis by (simp add: kill_and_reap_def)
qed

lemma returns_map_option [simp]: "returns (map_option f m) \<longleftrightarrow> returns m"
  by (simp add: returns_def)

lemma terminate_loop_returns:
  assumes "helper_clock S T I"
  shows "returns (terminate_loop S pid n w)"
  by (induction n arbitrary: w)
    (auto simp: kill_and_reap_returns [OF assms] split: prod.splits wait_result.splits)

lemma unat_u32_as_u64: "unat (ucast (n :: u32) :: u64) = unat n"
proof -
  have "unat n < 2 ^ LENGTH(32)" by (rule unsigned_less)
  then have "unat n < 2 ^ 64" by simp
  then show ?thesis by (simp add: unsigned_ucast_eq take_bit_nat_eq_self_iff)
qed

lemma wait_loop_returns:
  assumes clock: "helper_clock S T I"
  shows "returns (wait_loop S pid start_ms timeout w)"
proof (induction w rule: wf_induct_rule [OF wf_mlex [OF wf_measure, of
      "\<lambda>w. unat start_ms + unat timeout - T w" I]])
  case (1 w)
  note laws = helper_clock_laws [OF clock]
  obtain r w1 where r: "pam_wait_nohang S pid w = (r, w1)" by fastforce
  then have T1: "T w \<le> T w1" by (rule laws(4))
  obtain now w2 where m: "monotonic_ms S w1 = (now, w2)" by fastforce
  then have T2: "T w1 \<le> T w2" by (rule laws(2))
  show ?case
  proof (cases r)
    case (Reaped st)
    with r show ?thesis by (simp add: wait_loop.simps [of S])
  next
    case (WaitFailed e)
    have "returns (wait_loop S pid start_ms timeout w1)" if "e = EINTR"
    proof (rule 1)
      have "I w1 < I w" using laws(5) r WaitFailed that by blast
      moreover have "unat start_ms + unat timeout - T w1 \<le> unat start_ms + unat timeout - T w"
        using T1 by simp
      ultimately show "(w1, w) \<in> (\<lambda>w. unat start_ms + unat timeout - T w) <*mlex*> measure I"
        by (auto simp: mlex_prod_def)
    qed
    with r WaitFailed show ?thesis
      by (auto simp: wait_loop.simps [of S _ _ _ w] Let_def kill_and_reap_returns [OF clock])
  next
    case NotYet
    let ?v = "pam_usleep S 10000 w2"
    have "returns (wait_loop S pid start_ms timeout ?v)"
      if "now = Some m" and "start_ms \<le> m" and "m - start_ms < ucast timeout" for m
    proof -
      have "unat (m - start_ms) < unat timeout"
        using that(3) by (simp add: word_less_nat_alt unat_u32_as_u64)
      then have "unat m < unat start_ms + unat timeout"
        using that(2) by (simp add: unat_sub word_le_nat_alt)
      moreover have "T w1 \<le> unat m" using m that(1) laws(1) by blast
      moreover have "T w2 < T ?v" by (rule laws(3))
      ultimately have "unat start_ms + unat timeout - T ?v < unat start_ms + unat timeout - T w"
        using T1 T2 by linarith
      with 1 [of ?v] show ?thesis by (simp add: mlex_prod_def)
    qed
    with r m NotYet show ?thesis
      by (auto simp: wait_loop.simps [of S _ _ _ w] not_less kill_and_reap_returns [OF clock]
          terminate_loop_returns [OF clock])
  qed
qed

lemma run_helper_returns:
  assumes "helper_clock S T I"
  shows "returns (run_helper S helper_fd exec_argv timeout w)"
  by (cases rule: run_helper_cases [of S helper_fd exec_argv timeout w])
    (simp_all add: wait_loop_returns [OF assms])

section \<open>Authentication\<close>

text \<open>
  \<open>pam_sm_authenticate\<close> reads the items and the user, and either there is no user or it invokes the
  helper with exactly the arguments of \<open>helper_args\<close>: the array is never too small.
\<close>

lemma pam_sm_authenticate_cases:
  obtains service w1 ruser w2 rhost w3 tty w4 result user w5
  where "pam_item_string S PAM_SERVICE w = (service, w1)" "pam_item_string S PAM_RUSER w1 = (ruser, w2)"
    "pam_item_string S PAM_RHOST w2 = (rhost, w3)" "pam_item_string S PAM_TTY w3 = (tty, w4)"
    "pam_get_user S w4 = ((result, user), w5)"
    "(result \<noteq> PAM_SUCCESS \<or> user = None \<or> user = Some []) \<and>
       pam_sm_authenticate S argv w = Some (PAM_AUTH_ERR,
         pam_vsyslog S LOG_ERR ''macos-auth: failed to obtain PAM user'' [] w5) \<or>
     (\<exists>u exec_argv fmt args. result = PAM_SUCCESS \<and> user = Some u \<and> u \<noteq> [] \<and>
       argv_strings exec_argv = helper_args (parse_options argv) u service ruser rhost tty \<and>
       pam_sm_authenticate S argv w = invoke_helper S (parse_options argv) exec_argv
         (log_if (debug (parse_options argv)) S LOG_DEBUG fmt args w5))"
proof -
  obtain service w1 where 1: "pam_item_string S PAM_SERVICE w = (service, w1)" by fastforce
  obtain ruser w2 where 2: "pam_item_string S PAM_RUSER w1 = (ruser, w2)" by fastforce
  obtain rhost w3 where 3: "pam_item_string S PAM_RHOST w2 = (rhost, w3)" by fastforce
  obtain tty w4 where 4: "pam_item_string S PAM_TTY w3 = (tty, w4)" by fastforce
  obtain result user w5 where 5: "pam_get_user S w4 = ((result, user), w5)" by (metis prod.exhaust)
  show thesis
  proof (cases "result \<noteq> PAM_SUCCESS \<or> user = None \<or> user = Some []")
    case True
    with 1 2 3 4 5 show ?thesis
      by (intro that [OF 1 2 3 4 5] disjI1) (auto simp: pam_sm_authenticate_def Let_def)
  next
    case False
    then obtain u where u: "user = Some u" "u \<noteq> []" "result = PAM_SUCCESS" by auto
    obtain exec_argv i where "push_arguments (parse_options argv) u service ruser rhost tty = Some (exec_argv, i)"
      and "argv_strings exec_argv = helper_args (parse_options argv) u service ruser rhost tty"
      using push_arguments_holds [of "parse_options argv" u service ruser rhost tty] argv_strings_holds
      by (metis prod.exhaust fst_conv)
    with 1 2 3 4 5 u show ?thesis
      by (intro that [OF 1 2 3 4 5] disjI2) (auto simp: pam_sm_authenticate_def Let_def)
  qed
qed

lemma map_exit_to_pam_success: "map_exit_to_pam code = PAM_SUCCESS \<longleftrightarrow> code = 0"
  by (auto simp: map_exit_to_pam_def)

lemma invoke_helper_success:
  assumes "invoke_helper S options exec_argv w = Some (PAM_SUCCESS, w')"
  obtains f w1 w2 where "validate_helper_path S (Some (helper_path options)) w = (Some f, w1)"
    and "run_helper S f exec_argv (timeout_ms options) w1 = Some (0, w2)"
  using assms
  by (auto simp: invoke_helper_def bind_eq_Some_conv Let_def map_exit_to_pam_success
      split: prod.splits option.splits)

lemma pam_success:
  assumes "pam_sm_authenticate S argv w = Some (PAM_SUCCESS, w')"
  obtains service w1 ruser w2 rhost w3 tty w4 user w5 exec_argv v f v1 v2
  where "pam_item_string S PAM_SERVICE w = (service, w1)" "pam_item_string S PAM_RUSER w1 = (ruser, w2)"
    "pam_item_string S PAM_RHOST w2 = (rhost, w3)" "pam_item_string S PAM_TTY w3 = (tty, w4)"
    "pam_get_user S w4 = ((PAM_SUCCESS, Some user), w5)" "user \<noteq> []"
    "argv_strings exec_argv = helper_args (parse_options argv) user service ruser rhost tty"
    "validate_helper_path S (Some (helper_path (parse_options argv))) v = (Some f, v1)"
    "run_helper S f exec_argv (timeout_ms (parse_options argv)) v1 = Some (0, v2)"
  using assms
  by (cases rule: pam_sm_authenticate_cases [of S w argv])
    (auto elim!: invoke_helper_success [OF sym] intro: that)

lemma invoke_helper_returns:
  assumes "helper_clock S T I"
  shows "returns (invoke_helper S options exec_argv w)"
proof -
  obtain r w1 where v: "validate_helper_path S (Some (helper_path options)) w = (r, w1)" by fastforce
  obtain c w2 where "run_helper S (the r) exec_argv (timeout_ms options) w1 = Some (c, w2)"
    using run_helper_returns [OF assms] by (blast dest: returnsD)
  with v show ?thesis by (cases r) (simp_all add: invoke_helper_def Let_def)
qed

lemma pam_sm_authenticate_ends:
  assumes "helper_clock S T I"
  shows "returns (pam_sm_authenticate S argv w)"
  by (cases rule: pam_sm_authenticate_cases [of S w argv])
    (auto simp: invoke_helper_returns [OF assms])

end
