(* ===== verification/Pam_Descriptors.thy ===== *)
theory Pam_Descriptors
  imports Pam_Process
begin

text \<open>
  The file descriptors of the PAM module: the application that called it finds its descriptor
  table as it was, and the helper inherits nothing but the standard streams and descriptor 3.
\<close>

section \<open>The module\<close>

text \<open>A call that opens a descriptor returns a new one; a call that fails opens none.\<close>

definition opens :: "fd set \<Rightarrow> (fd, 'e) result \<Rightarrow> fd set \<Rightarrow> bool" where
  "opens before r after \<longleftrightarrow>
    (case r of Inl _ \<Rightarrow> after = before | Inr f \<Rightarrow> f \<notin> before \<and> after = insert f before)"

text \<open>\<open>opened w\<close> are the open descriptors of the process that runs the module.\<close>

definition descriptor_table :: "'w pam_sys \<Rightarrow> ('w \<Rightarrow> fd set) \<Rightarrow> bool" where
  "descriptor_table S opened \<longleftrightarrow>
    waiting_keeps S opened \<and>
    (\<forall>w. opened (snd (pam_malloc S w)) = opened w) \<and>
    (\<forall>item w. opened (snd (pam_get_item S item w)) = opened w) \<and>
    (\<forall>w. opened (snd (pam_get_user S w)) = opened w) \<and>
    (\<forall>child w. opened (snd (pam_fork S child w)) = opened w) \<and>
    (\<forall>f w. opened (snd (sys_fstat S f w)) = opened w) \<and>
    (\<forall>f w. opened (sys_close S f w) = opened w - {f}) \<and>
    (\<forall>w r w'. sys_open_root S w = (r, w') \<longrightarrow> opens (opened w) r (opened w')) \<and>
    (\<forall>f c flags w r w'. sys_openat S f c flags w = (r, w') \<longrightarrow> opens (opened w) r (opened w'))"

lemma descriptor_table_laws:
  assumes "descriptor_table S opened"
  shows "waiting_keeps S opened"
    and "pam_malloc S w = (ok, w') \<Longrightarrow> opened w' = opened w"
    and "pam_get_item S item w = (v, w') \<Longrightarrow> opened w' = opened w"
    and "pam_get_user S w = (u, w') \<Longrightarrow> opened w' = opened w"
    and "pam_fork S child w = (p, w') \<Longrightarrow> opened w' = opened w"
    and "sys_fstat S f w = (m, w') \<Longrightarrow> opened w' = opened w"
    and "opened (sys_close S f w) = opened w - {f}"
    and "sys_open_root S w = (r, w') \<Longrightarrow> opens (opened w) r (opened w')"
    and "sys_openat S f c flags w = (q, w') \<Longrightarrow> opens (opened w) q (opened w')"
  using assms unfolding descriptor_table_def by (simp, (metis snd_conv)+)

lemma descriptor_trusted_keeps:
  assumes "descriptor_table S opened" and "descriptor_trusted S f d w = (b, w')"
  shows "opened w' = opened w"
  using assms
  by (auto simp: descriptor_trusted_def dest: descriptor_table_laws(6) split: prod.splits sum.splits)

text \<open>Beside the descriptors \<open>B\<close> open before, at most the one in \<open>r\<close> is open.\<close>

definition holds_only :: "fd set \<Rightarrow> fd option \<Rightarrow> fd set \<Rightarrow> bool" where
  "holds_only B r now \<longleftrightarrow> now = B \<union> set_option r \<and> B \<inter> set_option r = {}"

lemma helper_walk_descriptors:
  assumes "descriptor_table S opened" and "helper_walk S f cs w = ((r, valid), w')"
    and "opened w = insert f B" and "f \<notin> B"
  shows "holds_only B r (opened w')"
  using assms(2-)
proof (induction cs arbitrary: f w)
  case Nil
  then show ?case by (auto simp: holds_only_def)
next
  case (Cons c cs)
  note laws = descriptor_table_laws [OF assms(1)]
  obtain q w1 where o: "sys_openat S f c (helper_open_flags (cs \<noteq> [])) w = (q, w1)" by fastforce
  then have o1: "opens (insert f B) q (opened w1)" using laws(9) Cons.prems(2) by metis
  show ?case
  proof (cases q)
    case (Inl e)
    with Cons.prems o o1 show ?thesis
      by (auto simp: holds_only_def opens_def laws(7) Let_def split: if_splits)
  next
    case (Inr child)
    obtain b w2 where d: "descriptor_trusted S child (cs \<noteq> []) (sys_close S f w1) = (b, w2)"
      by fastforce
    have "opened w2 = opened (sys_close S f w1)" using descriptor_trusted_keeps [OF assms(1) d] .
    then have "opened w2 = insert child B" and "child \<notin> B"
      using o1 Inr Cons.prems(3) by (auto simp: opens_def laws(7))
    with Cons.prems Cons.IH [of child w2] Inr o d show ?thesis
      by (auto simp: holds_only_def Let_def split: if_splits)
  qed
qed

lemma open_helper_descriptors:
  assumes "descriptor_table S opened" and "open_helper S tokens w = ((r, valid), w')"
  shows "holds_only (opened w) r (opened w')"
proof -
  note laws = descriptor_table_laws [OF assms(1)]
  obtain q w1 where o: "sys_open_root S w = (q, w1)" by fastforce
  then have o1: "opens (opened w) q (opened w1)" by (rule laws(8))
  show ?thesis
  proof (cases q)
    case (Inl e)
    with assms(2) o o1 show ?thesis by (auto simp: open_helper_def opens_def holds_only_def)
  next
    case (Inr root)
    obtain b w2 where d: "descriptor_trusted S root True w1 = (b, w2)" by fastforce
    then have "opened w2 = insert root (opened w)" "root \<notin> opened w"
      using o1 Inr descriptor_trusted_keeps [OF assms(1) d] by (auto simp: opens_def)
    with assms(2) Inr o d helper_walk_descriptors [OF assms(1)] show ?thesis
      by (auto simp: open_helper_def holds_only_def split: if_splits)
  qed
qed

lemma validate_helper_path_descriptors:
  assumes "descriptor_table S opened" and "validate_helper_path S path w = (r, w')"
  shows "holds_only (opened w) r (opened w')"
proof -
  note laws = descriptor_table_laws [OF assms(1)]
  note log = waiting_keeps_calls(6) [OF laws(1)]
  show ?thesis
  proof (cases path)
    case None
    with assms(2) show ?thesis by (auto simp: validate_helper_path_def holds_only_def log)
  next
    case (Some p)
    obtain ok w1 where m: "pam_malloc S w = (ok, w1)" by fastforce
    then have w1: "opened w1 = opened w" by (rule laws(2))
    obtain q valid w2 where o: "open_helper S (path_tokens p) w1 = ((q, valid), w2)"
      by (metis prod.exhaust)
    then have "holds_only (opened w) q (opened w2)"
      using open_helper_descriptors [OF assms(1)] w1 by metis
    then show ?thesis
      using assms(2) Some m o w1
      by (auto simp: validate_helper_path_def strdup_def holds_only_def log laws(7)
          split: if_splits option.splits)
  qed
qed

lemma run_helper_descriptors:
  assumes "descriptor_table S opened" and "run_helper S f exec_argv timeout w = Some (code, w')"
  shows "opened w' = opened w"
proof -
  note laws = descriptor_table_laws [OF assms(1)]
  note waits = waiting_keeps_calls [OF laws(1)] monotonic_ms_keeps [OF laws(1)]
  have code: "opened (snd (helper_code S rw)) = opened (snd rw)" for rw
    by (auto simp: helper_code_def status_code_def waits(6) split: prod.splits sum.splits wait_status.splits)
  have "opened (snd rw) = opened w" if "run_helper S f exec_argv timeout w = Some rw" for rw
  proof (cases rule: run_helper_cases [of S f exec_argv timeout w])
    case (failed fmt args v child)
    have "opened (snd (pam_fork S child u)) = opened u" "opened (snd (monotonic_ms S u)) = opened u" for u
      using laws(5) waits(7) by (metis prod.collapse)+
    with failed that show ?thesis by (auto simp: waits(6))
  next
    case (forked start_ms w1 pid w2)
    with that obtain q where q: "wait_loop S pid start_ms timeout w2 = Some q" "rw = helper_code S q"
      by auto
    have "opened (snd q) = opened w2" by (rule wait_loop_keeps [OF q(1) laws(1)])
    also have "\<dots> = opened w1" by (rule laws(5) [OF forked(3)])
    also have "\<dots> = opened w" by (rule waits(7) [OF forked(2)])
    finally show ?thesis by (simp add: q(2) code)
  qed
  from this [OF assms(2)] show ?thesis by simp
qed

section \<open>The application's table is left as it was\<close>

lemma invoke_helper_descriptors:
  assumes "descriptor_table S opened" and "invoke_helper S options exec_argv w = Some (code, w')"
  shows "opened w' = opened w"
proof -
  note laws = descriptor_table_laws [OF assms(1)]
  note log = waiting_keeps_calls(6) [OF laws(1)]
  obtain r w1 where v: "validate_helper_path S (Some (helper_path options)) w = (r, w1)" by fastforce
  then have h: "holds_only (opened w) r (opened w1)" by (rule validate_helper_path_descriptors [OF assms(1)])
  show ?thesis
  proof (cases r)
    case None
    with assms(2) v h show ?thesis by (auto simp: invoke_helper_def holds_only_def)
  next
    case (Some f)
    with assms(2) v obtain c w2 where "run_helper S f exec_argv (timeout_ms options) w1 = Some (c, w2)"
      and "opened w' = opened (sys_close S f w2)"
      by (auto simp: invoke_helper_def bind_eq_Some_conv Let_def log_if_def log)
    with h Some run_helper_descriptors [OF assms(1)] show ?thesis
      by (auto simp: laws(7) holds_only_def)
  qed
qed

lemma pam_item_string_keeps:
  assumes "pam_item_string S item w = (v, w')" and "K (snd (pam_get_item S item w)) = K w"
  shows "K w' = K w"
  using assms by (auto simp: pam_item_string_def split: prod.splits if_splits)

lemma pam_sm_authenticate_descriptors:
  assumes "descriptor_table S opened" and "pam_sm_authenticate S argv w = Some (code, w')"
  shows "opened w' = opened w"
proof -
  note laws = descriptor_table_laws [OF assms(1)]
  note log = waiting_keeps_calls(6) [OF laws(1)]
  have item: "opened v' = opened v" if "pam_item_string S i v = (x, v')" for i v x v'
    by (rule pam_item_string_keeps [OF that]) (metis laws(3) prod.collapse)
  show ?thesis
  proof (cases rule: pam_sm_authenticate_cases [of S w argv])
    case (1 service w1 ruser w2 rhost w3 tty w4 result user w5)
    have "opened w5 = opened w"
      using item [OF 1(1)] item [OF 1(2)] item [OF 1(3)] item [OF 1(4)] laws(4) [OF 1(5)] by simp
    moreover from 1(6) have "opened w' = opened w5"
    proof (elim disjE exE conjE)
      fix u exec_argv fmt args
      assume "pam_sm_authenticate S argv w = invoke_helper S (parse_options argv) exec_argv
        (log_if (debug (parse_options argv)) S LOG_DEBUG fmt args w5)"
      with assms(2) have "opened w' = opened (log_if (debug (parse_options argv)) S LOG_DEBUG fmt args w5)"
        by (intro invoke_helper_descriptors [OF assms(1)]) simp
      then show ?thesis by (simp add: log_if_def log split: if_splits)
    qed (use assms(2) in \<open>simp_all add: log\<close>)
    ultimately show ?thesis by simp
  qed
qed

section \<open>What the helper inherits\<close>

text \<open>
  The descriptors of the child: \<open>pending w d\<close> are those that reading the directory \<open>d\<close> of open
  descriptors has still to list.
\<close>

definition listed :: "fd_entry list \<Rightarrow> fd set" where
  "listed entries = {f. show_nat f \<in> entry_name ` set entries}"

definition child_descriptors :: "'w pam_sys \<Rightarrow> ('w \<Rightarrow> fd set) \<Rightarrow> ('w \<Rightarrow> fd \<Rightarrow> fd set) \<Rightarrow> bool" where
  "child_descriptors S opened pending \<longleftrightarrow>
    (\<forall>f w. opened (sys_close S f w) \<subseteq> opened w - {f} \<and> pending (sys_close S f w) = pending w) \<and>
    (\<forall>n w u w'. pam_close_range S n w = (Inr u, w') \<longrightarrow> (\<forall>f \<in> opened w'. f < n)) \<and>
    (\<forall>w d w'. pam_open_fd_dir S w = (Inr d, w') \<longrightarrow> opened w' \<subseteq> insert d (pending w' d)) \<and>
    (\<forall>d w e w'. pam_getdents S d w = (Inl e, w') \<longrightarrow>
      opened w' \<subseteq> opened w \<and> pending w d \<subseteq> pending w' d) \<and>
    (\<forall>d w entries w'. pam_getdents S d w = (Inr entries, w') \<longrightarrow>
      opened w' \<subseteq> opened w \<and> pending w d \<subseteq> pending w' d \<union> listed entries \<and>
      (entries = [] \<longrightarrow> pending w d = {}))"

lemma child_descriptors_laws:
  assumes "child_descriptors S opened pending"
  shows "opened (sys_close S f w) \<subseteq> opened w - {f}" "pending (sys_close S f w) = pending w"
    and "pam_close_range S n w = (Inr u, w') \<Longrightarrow> \<forall>f \<in> opened w'. f < n"
    and "pam_open_fd_dir S w = (Inr d, w') \<Longrightarrow> opened w' \<subseteq> insert d (pending w' d)"
    and "pam_getdents S d w = (Inl e, w') \<Longrightarrow> opened w' \<subseteq> opened w \<and> pending w d \<subseteq> pending w' d"
    and "pam_getdents S d w = (Inr entries, w') \<Longrightarrow> opened w' \<subseteq> opened w \<and>
      pending w d \<subseteq> pending w' d \<union> listed entries \<and> (entries = [] \<longrightarrow> pending w d = {})"
  using assms unfolding child_descriptors_def by (elim conjE, metis)+

lemma listed_digits: "takeWhile is_digit (show_nat f) = show_nat f"
  using show_nat_digits [of f] by (auto simp: list_all_iff takeWhile_eq_all_conv)

lemma close_entries_closes:
  assumes "child_descriptors S opened pending" and "close_entries S d entries w = (True, w')"
  shows "opened w' \<subseteq> opened w \<and> pending w' = pending w \<and>
    (\<forall>f \<in> opened w' \<inter> listed entries. f < 4 \<or> f = d)"
  using assms(2)
proof (induction entries arbitrary: w)
  case Nil
  then show ?case by (simp add: listed_def)
next
  case (Cons e es)
  define f where "f = digits_val (takeWhile is_digit (entry_name e))"
  define v where "v = (if f \<ge> 4 \<and> f \<noteq> d then sys_close S f w else w)"
  from Cons.prems have "close_entries S d es v = (True, w')"
    by (auto simp: Let_def f_def v_def split: if_splits)
  with Cons.IH have ih: "opened w' \<subseteq> opened v" "pending w' = pending v"
    "\<forall>f \<in> opened w' \<inter> listed es. f < 4 \<or> f = d" by blast+
  have v: "opened v \<subseteq> opened w" "pending v = pending w" "f < 4 \<or> f = d \<or> f \<notin> opened v"
    using child_descriptors_laws(1,2) [OF assms(1)] by (auto simp: v_def)
  have "listed (e # es) \<subseteq> insert f (listed es)"
  proof
    fix g assume "g \<in> listed (e # es)"
    then consider "entry_name e = show_nat g" | "g \<in> listed es" by (auto simp: listed_def)
    then show "g \<in> insert f (listed es)"
      by cases (simp_all only: f_def listed_digits digits_val_show_nat insert_iff simp_thms)
  qed
  then have "\<forall>g \<in> opened w' \<inter> listed (e # es). g < 4 \<or> g = d" using ih(1,3) v(3) by blast
  with ih(1,2) v(1,2) show ?case by simp
qed

lemmas close_listed_induct = close_listed.raw_induct [rotated 1, consumes 1, case_names step]

lemma close_listed_closes:
  assumes "close_listed S d w = Some rw" and "rw = (True, w')"
    and "child_descriptors S opened pending" and "\<forall>f \<in> opened w. f < 4 \<or> f = d \<or> f \<in> pending w d"
  shows "\<forall>f \<in> opened w'. f < 4"
  using assms
proof (induction rule: close_listed_induct)
  case (step rec S d w rw)
  note laws = child_descriptors_laws [OF step.prems(2)]
  obtain r w1 where r: "pam_getdents S d w = (r, w1)" by fastforce
  show ?case
  proof (cases r)
    case (Inl e)
    with step.hyps step.prems(1) r have "rec S d w1 = Some rw" by (auto split: if_splits)
    moreover have "\<forall>f \<in> opened w1. f < 4 \<or> f = d \<or> f \<in> pending w1 d"
      using laws(5) [OF r [unfolded Inl]] step.prems(3) by blast
    ultimately show ?thesis by (rule step.IH [OF _ step.prems(1,2)])
  next
    case (Inr entries)
    note g = laws(6) [OF r [unfolded Inr]]
    show ?thesis
    proof (cases "entries = []")
      case True
      with step.hyps step.prems(1) r Inr have "w' = sys_close S d w1" by auto
      with laws(1) [of d w1] g True step.prems(3) show ?thesis by blast
    next
      case False
      obtain ok w2 where c: "close_entries S d entries w1 = (ok, w2)" by fastforce
      with False step.hyps step.prems(1) r Inr have ok: "ok = True" and "rec S d w2 = Some rw"
        by (auto split: if_splits)
      moreover have "\<forall>f \<in> opened w2. f < 4 \<or> f = d \<or> f \<in> pending w2 d"
      proof
        fix f assume f: "f \<in> opened w2"
        note closed = close_entries_closes [OF step.prems(2) c [unfolded ok]]
        from f closed g have "f \<in> opened w" by (meson subsetD)
        with step.prems(3) consider "f < 4 \<or> f = d" | "f \<in> pending w1 d \<union> listed entries"
          using g by (meson subsetD)
        then show "f < 4 \<or> f = d \<or> f \<in> pending w2 d" by cases (use closed f in auto)
      qed
      ultimately show ?thesis by (intro step.IH [OF _ step.prems(1,2)])
    qed
  qed
qed

lemma close_inherited_fds_closes:
  assumes "child_descriptors S opened pending" and "close_inherited_fds S w = Some (True, w')"
  shows "\<forall>f \<in> opened w'. f < 4"
proof -
  note laws = child_descriptors_laws [OF assms(1)]
  obtain r w1 where r: "pam_close_range S 4 w = (r, w1)" by fastforce
  show ?thesis
  proof (cases r)
    case (Inl e)
    with assms(2) r obtain d w2 where d: "pam_open_fd_dir S w1 = (Inr d, w2)"
      and l: "close_listed S d w2 = Some (True, w')"
      by (auto simp: close_inherited_fds_def split: prod.splits sum.splits)
    from laws(4) [OF d] have "\<forall>f \<in> opened w2. f < 4 \<or> f = d \<or> f \<in> pending w2 d" by blast
    with close_listed_closes [OF l refl assms(1)] show ?thesis .
  next
    case (Inr u)
    with assms(2) r laws(3) show ?thesis by (auto simp: close_inherited_fds_def)
  qed
qed

lemma helper_child_inherits:
  assumes "child_descriptors S opened pending"
    and "helper_child S helper_fd exec_argv w = Some (ChildExec f argv envp, w')"
  shows "f = 3 \<and> argv = argv_strings exec_argv \<and> envp = helper_envp \<and> (\<forall>g \<in> opened w'. g < 4)"
proof -
  from assms(2) obtain v where "close_inherited_fds S v = Some (True, w')"
    by (auto simp: helper_child_def bind_eq_Some_conv split: prod.splits sum.splits if_splits)
  from close_inherited_fds_closes [OF assms(1) this] helper_child_cases [OF assms(2)]
  show ?thesis by simp
qed

end
