(* ===== verification/Protocol_Types.thy ===== *)
theory Protocol_Types
  imports Rust_Str
begin

text \<open>
  The data of the protocol crate, \<open>crates/protocol/src/lib.rs\<close>: its constants, its error type,
  the three enumerations with the names that enter the signed bytes, and the four message
  structures. The library functions the crate calls for Ed25519 and SHA-256 are the fields of
  the record \<open>crypto\<close>, an argument of every definition that uses them.
\<close>

section \<open>Constants and enumerations\<close>

definition PROTOCOL_VERSION :: u16 where
  "PROTOCOL_VERSION = 1"

definition NONCE_LEN :: nat where
  "NONCE_LEN = 32"

definition ED25519_PUBLIC_KEY_LEN :: nat where
  "ED25519_PUBLIC_KEY_LEN = 32"

definition ED25519_SIGNATURE_LEN :: nat where
  "ED25519_SIGNATURE_LEN = 64"

definition REQUEST_DOMAIN :: bytes where
  "REQUEST_DOMAIN = as_bytes ''macos-auth/auth-request/v1''"

definition RESPONSE_DOMAIN :: bytes where
  "RESPONSE_DOMAIN = as_bytes ''macos-auth/auth-response/v1''"

datatype SignatureAlgorithm = Ed25519

fun algorithm_name :: "SignatureAlgorithm \<Rightarrow> string" where
  "algorithm_name Ed25519 = ''Ed25519''"

datatype Decision = Approved | Denied | Unavailable | Cancelled | Failed

fun decision_name :: "Decision \<Rightarrow> string" where
  "decision_name Approved = ''approved''"
| "decision_name Denied = ''denied''"
| "decision_name Unavailable = ''unavailable''"
| "decision_name Cancelled = ''cancelled''"
| "decision_name Failed = ''failed''"

datatype AuthMethod = Watch | TouchId | BiometricOrWatch | UnknownMethod | NoMethod

fun method_name :: "AuthMethod \<Rightarrow> string" where
  "method_name Watch = ''watch''"
| "method_name TouchId = ''touchid''"
| "method_name BiometricOrWatch = ''biometric-or-watch''"
| "method_name UnknownMethod = ''unknown''"
| "method_name NoMethod = ''none''"

datatype ProtocolError =
    UnsupportedVersion u16
  | UnsupportedAlgorithm SignatureAlgorithm
  | InvalidNonceLength nat nat
  | InvalidValidityWindow
  | Expired
  | CreatedInFuture
  | InvalidPublicKey
  | InvalidSignatureLength
  | SignatureVerificationFailed
  | ResponseBindingMismatch
  | FieldTooLarge string

lemma algorithm_name_inject: "algorithm_name a = algorithm_name b \<longleftrightarrow> a = b"
  by (cases a; cases b) auto

lemma decision_name_inject: "decision_name d = decision_name e \<longleftrightarrow> d = e"
  by (cases d; cases e) auto

lemma method_name_inject: "method_name m = method_name n \<longleftrightarrow> m = n"
  by (cases m; cases n) auto

section \<open>Messages\<close>

record AuthRequestBody =
  rq_protocol_version :: u16
  rq_request_id :: string
  rq_nonce :: bytes
  rq_created_at_ms :: u64
  rq_expires_at_ms :: u64
  rq_linux_host_id :: string
  rq_linux_hostname :: string
  rq_pam_service :: string
  rq_pam_user :: string
  rq_pam_ruser :: "string option"
  rq_pam_rhost :: "string option"
  rq_pam_tty :: "string option"
  rq_sudo_command :: "string option"
  rq_client_pid :: "u32 option"
  rq_key_id :: string
  rq_alg :: SignatureAlgorithm

record SignedAuthRequest =
  srq_body :: AuthRequestBody
  srq_signature :: bytes

record AuthResponseBody =
  rs_protocol_version :: u16
  rs_request_id :: string
  rs_nonce :: bytes
  rs_request_hash :: bytes
  rs_linux_host_id :: string
  rs_pam_service :: string
  rs_pam_user :: string
  rs_decision :: Decision
  rs_auth_method :: AuthMethod
  rs_created_at_ms :: u64
  rs_expires_at_ms :: u64
  rs_agent_key_id :: string
  rs_alg :: SignatureAlgorithm
  rs_error_code :: "string option"
  rs_error_message :: "string option"

record SignedAuthResponse =
  srs_body :: AuthResponseBody
  srs_signature :: bytes

section \<open>Cryptographic libraries\<close>

text \<open>
  \<open>ed25519_dalek\<close> and \<open>sha2\<close>: whether 32 bytes are a verifying key, whether a slice
  is a signature, verification of a signature, signing with the 32-byte secret, the public key of a secret, and the digest.
\<close>

record crypto =
  key_from_bytes :: "bytes \<Rightarrow> bool"
  signature_from_slice :: "bytes \<Rightarrow> bool"
  ed25519_verify :: "bytes \<Rightarrow> bytes \<Rightarrow> bytes \<Rightarrow> bool"
  ed25519_sign :: "bytes \<Rightarrow> bytes \<Rightarrow> bytes"
  ed25519_public :: "bytes \<Rightarrow> bytes"
  sha256_digest :: "bytes \<Rightarrow> bytes"

text \<open>
  What the documentation of the libraries promises for an honest signer: a public key has 32
  bytes and is accepted as a key, a slice is a signature when it has 64 bytes, signing gives 64
  bytes, and a signature verifies under the public key of the secret that made it.
\<close>

definition ed25519_correct :: "'z crypto_scheme \<Rightarrow> bool" where
  "ed25519_correct C \<longleftrightarrow>
    (\<forall>sk. length (ed25519_public C sk) = 32 \<and> key_from_bytes C (ed25519_public C sk)) \<and>
    (\<forall>s. signature_from_slice C s \<longleftrightarrow> length s = ED25519_SIGNATURE_LEN) \<and>
    (\<forall>sk m. length (ed25519_sign C sk m) = 64) \<and>
    (\<forall>sk m. ed25519_verify C (ed25519_public C sk) m (ed25519_sign C sk m))"

text \<open>No collision of the digest between two messages.\<close>

definition no_collision :: "'z crypto_scheme \<Rightarrow> bytes \<Rightarrow> bytes \<Rightarrow> bool" where
  "no_collision C m n \<longleftrightarrow> (sha256_digest C m = sha256_digest C n \<longrightarrow> m = n)"

end
