(* ===== verification/Codec.thy ===== *)
theory Codec
  imports Protocol_Types
begin

text \<open>
  The canonical encoders of \<open>crates/protocol/src/lib.rs\<close>, which append to an output vector. Each
  writes a field so that it can be read back without knowing what follows; the locale
  \<open>prefix_codec\<close> states that law and what follows from it, and every encoder is an
  interpretation of it. The readers are specifications: the crate itself never decodes
  canonical bytes.
\<close>

section \<open>The encoders\<close>

definition encode_u16 :: "bytes \<Rightarrow> u16 \<Rightarrow> bytes" where
  "encode_u16 out v = out @ nat_to_be 2 (unat v)"

definition encode_u32 :: "bytes \<Rightarrow> u32 \<Rightarrow> bytes" where
  "encode_u32 out v = out @ nat_to_be 4 (unat v)"

definition encode_u64 :: "bytes \<Rightarrow> u64 \<Rightarrow> bytes" where
  "encode_u64 out v = out @ nat_to_be 8 (unat v)"

text \<open>\<open>u32::try_from\<close> of a length.\<close>

definition u32_try_from :: "nat \<Rightarrow> u32 option" where
  "u32_try_from n = (if n < 2 ^ 32 then Some (word_of_nat n) else None)"

definition encode_bytes :: "bytes \<Rightarrow> bytes \<Rightarrow> string \<Rightarrow> (bytes, ProtocolError) result" where
  "encode_bytes out v field_name =
    and_then (ok_or (u32_try_from (length v)) (FieldTooLarge field_name)) (\<lambda>len.
      Ok (encode_u32 out len @ v))"

definition encode_str :: "bytes \<Rightarrow> string \<Rightarrow> string \<Rightarrow> (bytes, ProtocolError) result" where
  "encode_str out v field_name = encode_bytes out (as_bytes v) field_name"

definition encode_optional_str ::
    "bytes \<Rightarrow> string option \<Rightarrow> string \<Rightarrow> (bytes, ProtocolError) result" where
  "encode_optional_str out v field_name =
    (case v of
       Some s \<Rightarrow> encode_str (out @ [1]) s field_name
     | None \<Rightarrow> Ok (out @ [0]))"

definition encode_optional_u32 :: "bytes \<Rightarrow> u32 option \<Rightarrow> bytes" where
  "encode_optional_u32 out v =
    (case v of
       Some n \<Rightarrow> encode_u32 (out @ [1]) n
     | None \<Rightarrow> out @ [0])"

section \<open>What the encoders append\<close>

text \<open>The bytes each encoder appends, and the values it can encode.\<close>

definition u16_field :: "u16 \<Rightarrow> bytes" where
  "u16_field v = nat_to_be 2 (unat v)"

definition u32_field :: "u32 \<Rightarrow> bytes" where
  "u32_field v = nat_to_be 4 (unat v)"

definition u64_field :: "u64 \<Rightarrow> bytes" where
  "u64_field v = nat_to_be 8 (unat v)"

definition bytes_field :: "bytes \<Rightarrow> bytes" where
  "bytes_field v = nat_to_be 4 (length v) @ v"

definition str_field :: "string \<Rightarrow> bytes" where
  "str_field s = bytes_field (as_bytes s)"

definition opt_str_field :: "string option \<Rightarrow> bytes" where
  "opt_str_field v = (case v of Some s \<Rightarrow> 1 # str_field s | None \<Rightarrow> [0])"

definition opt_u32_field :: "u32 option \<Rightarrow> bytes" where
  "opt_u32_field v = (case v of Some n \<Rightarrow> 1 # u32_field n | None \<Rightarrow> [0])"

definition fits :: "'a list \<Rightarrow> bool" where
  "fits v \<longleftrightarrow> length v < 2 ^ 32"

definition opt_fits :: "'a list option \<Rightarrow> bool" where
  "opt_fits v = (case v of Some s \<Rightarrow> fits s | None \<Rightarrow> True)"

lemma encode_word_eqs:
  "encode_u16 out v = out @ u16_field v"
  "encode_u32 out w = out @ u32_field w"
  "encode_u64 out x = out @ u64_field x"
  by (simp_all add: encode_u16_def encode_u32_def encode_u64_def
      u16_field_def u32_field_def u64_field_def)

lemma encode_bytes_eq:
  "encode_bytes out v f = (if fits v then Ok (out @ bytes_field v) else Err (FieldTooLarge f))"
  by (simp add: encode_bytes_def u32_try_from_def fits_def encode_word_eqs u32_field_def
      bytes_field_def unat_of_nat del: nat_to_be_numeral)

lemma encode_str_eq:
  "encode_str out s f = (if fits s then Ok (out @ str_field s) else Err (FieldTooLarge f))"
  by (simp add: encode_str_def encode_bytes_eq str_field_def fits_def)

lemma encode_optional_str_eq:
  "encode_optional_str out v f =
    (if opt_fits v then Ok (out @ opt_str_field v) else Err (FieldTooLarge f))"
  by (simp add: encode_optional_str_def encode_str_eq opt_str_field_def opt_fits_def
      split: option.splits)

lemma encode_optional_u32_eq: "encode_optional_u32 out v = out @ opt_u32_field v"
  by (simp add: encode_optional_u32_def encode_word_eqs opt_u32_field_def split: option.splits)

lemmas encode_eqs = encode_word_eqs encode_bytes_eq encode_str_eq encode_optional_str_eq
  encode_optional_u32_eq

section \<open>Reading a field back\<close>

definition read_nat :: "nat \<Rightarrow> bytes \<Rightarrow> (nat \<times> bytes) option" where
  "read_nat n bs = (if n \<le> length bs then Some (nat_from_be (take n bs), drop n bs) else None)"

definition read_u16 :: "bytes \<Rightarrow> (u16 \<times> bytes) option" where
  "read_u16 bs = map_option (\<lambda>(k, r). (word_of_nat k, r)) (read_nat 2 bs)"

definition read_u32 :: "bytes \<Rightarrow> (u32 \<times> bytes) option" where
  "read_u32 bs = map_option (\<lambda>(k, r). (word_of_nat k, r)) (read_nat 4 bs)"

definition read_u64 :: "bytes \<Rightarrow> (u64 \<times> bytes) option" where
  "read_u64 bs = map_option (\<lambda>(k, r). (word_of_nat k, r)) (read_nat 8 bs)"

definition read_bytes :: "bytes \<Rightarrow> (bytes \<times> bytes) option" where
  "read_bytes bs = do {
     (n, r) \<leftarrow> read_nat 4 bs;
     if n \<le> length r then Some (take n r, drop n r) else None }"

definition read_str :: "bytes \<Rightarrow> (string \<times> bytes) option" where
  "read_str bs = map_option (\<lambda>(v, r). (str_of_bytes v, r)) (read_bytes bs)"

definition read_opt :: "(bytes \<Rightarrow> ('a \<times> bytes) option) \<Rightarrow> bytes \<Rightarrow> ('a option \<times> bytes) option" where
  "read_opt rd bs =
    (case bs of
       [] \<Rightarrow> None
     | b # r \<Rightarrow> if b = 0 then Some (None, r)
              else if b = 1 then map_option (\<lambda>(v, r). (Some v, r)) (rd r)
              else None)"

section \<open>Self-delimiting fields\<close>

locale prefix_codec =
  fixes field :: "'a \<Rightarrow> bytes"
    and reader :: "bytes \<Rightarrow> ('a \<times> bytes) option"
    and encodable :: "'a \<Rightarrow> bool"
  assumes read_field: "encodable x \<Longrightarrow> reader (field x @ rest) = Some (x, rest)"
begin

text \<open>A field followed by anything determines the value and what follows.\<close>

lemma field_cancel:
  assumes "encodable x" and "encodable y"
  shows "field x @ r = field y @ s \<longleftrightarrow> x = y \<and> r = s"
proof
  assume eq: "field x @ r = field y @ s"
  have "Some (x, r) = reader (field x @ r)" using assms(1) by (rule read_field [symmetric])
  also have "\<dots> = reader (field y @ s)" by (simp only: eq)
  also have "\<dots> = Some (y, s)" using assms(2) by (rule read_field)
  finally show "x = y \<and> r = s" by simp
qed simp

lemma field_inject: "encodable x \<Longrightarrow> encodable y \<Longrightarrow> field x = field y \<longleftrightarrow> x = y"
  using field_cancel [of x y "[]" "[]"] by simp

lemma field_not_proper_prefix: "encodable x \<Longrightarrow> encodable y \<Longrightarrow> field y = field x @ r \<Longrightarrow> r = []"
  using field_cancel [of x y r "[]"] by simp

end

lemma read_nat_to_be: "k < 256 ^ n \<Longrightarrow> read_nat n (nat_to_be n k @ rest) = Some (k, rest)"
  by (simp add: read_nat_def nat_from_be_to_be)

lemma read_u16_field: "read_u16 (u16_field v @ rest) = Some (v, rest)"
proof -
  have "unat v < 2 ^ LENGTH(16)" by (rule unsigned_less)
  then show ?thesis by (simp add: read_u16_def u16_field_def read_nat_to_be del: nat_to_be_numeral)
qed

lemma read_u32_field: "read_u32 (u32_field v @ rest) = Some (v, rest)"
proof -
  have "unat v < 2 ^ LENGTH(32)" by (rule unsigned_less)
  then show ?thesis by (simp add: read_u32_def u32_field_def read_nat_to_be del: nat_to_be_numeral)
qed

lemma read_u64_field: "read_u64 (u64_field v @ rest) = Some (v, rest)"
proof -
  have "unat v < 2 ^ LENGTH(64)" by (rule unsigned_less)
  then show ?thesis by (simp add: read_u64_def u64_field_def read_nat_to_be del: nat_to_be_numeral)
qed

lemma read_bytes_field: "fits v \<Longrightarrow> read_bytes (bytes_field v @ rest) = Some (v, rest)"
  by (simp add: read_bytes_def bytes_field_def fits_def read_nat_to_be del: nat_to_be_numeral)

lemma read_str_field: "fits s \<Longrightarrow> read_str (str_field s @ rest) = Some (s, rest)"
  by (simp add: read_str_def str_field_def read_bytes_field fits_def)

lemma read_opt_str_field:
  "opt_fits v \<Longrightarrow> read_opt read_str (opt_str_field v @ rest) = Some (v, rest)"
  by (cases v) (simp_all add: read_opt_def opt_str_field_def opt_fits_def read_str_field)

lemma read_opt_u32_field: "read_opt read_u32 (opt_u32_field v @ rest) = Some (v, rest)"
  by (cases v) (simp_all add: read_opt_def opt_u32_field_def read_u32_field)

lemmas read_field_simps [codec_simps] = read_u16_field read_u32_field read_u64_field
  read_bytes_field read_str_field read_opt_str_field read_opt_u32_field

interpretation u16_codec: prefix_codec u16_field read_u16 "\<lambda>_. True"
  by unfold_locales (simp add: codec_simps)

interpretation u32_codec: prefix_codec u32_field read_u32 "\<lambda>_. True"
  by unfold_locales (simp add: codec_simps)

interpretation u64_codec: prefix_codec u64_field read_u64 "\<lambda>_. True"
  by unfold_locales (simp add: codec_simps)

interpretation bytes_codec: prefix_codec bytes_field read_bytes fits
  by unfold_locales (simp add: codec_simps)

interpretation str_codec: prefix_codec str_field read_str fits
  by unfold_locales (simp add: codec_simps)

interpretation opt_str_codec: prefix_codec opt_str_field "read_opt read_str" opt_fits
  by unfold_locales (simp add: codec_simps)

interpretation opt_u32_codec: prefix_codec opt_u32_field "read_opt read_u32" "\<lambda>_. True"
  by unfold_locales (simp add: codec_simps)

end
