(* ===== verification/Messages.thy ===== *)
theory Messages
  imports Codec
begin

text \<open>
  The operations of \<open>AuthRequestBody\<close>, \<open>AuthResponseBody\<close> and their signed forms in
  \<open>crates/protocol/src/lib.rs\<close>: validation, canonical bytes, hashing, freshness, binding of a
  response to its request, signing and verification. The lemmas say when validation succeeds and
  that the canonical bytes, when there are any, are the fields of the message one after another.
\<close>

section \<open>Requests\<close>

definition request_validate :: "AuthRequestBody \<Rightarrow> (unit, ProtocolError) result" where
  "request_validate r =
    (if rq_protocol_version r \<noteq> PROTOCOL_VERSION
       then Err (UnsupportedVersion (rq_protocol_version r))
     else if rq_alg r \<noteq> Ed25519 then Err (UnsupportedAlgorithm (rq_alg r))
     else if length (rq_nonce r) \<noteq> NONCE_LEN
       then Err (InvalidNonceLength NONCE_LEN (length (rq_nonce r)))
     else if rq_created_at_ms r \<ge> rq_expires_at_ms r then Err InvalidValidityWindow
     else Ok ())"

definition request_canonical_bytes :: "AuthRequestBody \<Rightarrow> (bytes, ProtocolError) result" where
  "request_canonical_bytes r =
    and_then (request_validate r) (\<lambda>_.
    and_then (encode_bytes [] REQUEST_DOMAIN ''request_domain'') (\<lambda>out.
    and_then (encode_str (encode_u16 out (rq_protocol_version r))
      (rq_request_id r) ''request_id'') (\<lambda>out.
    and_then (encode_bytes out (rq_nonce r) ''nonce'') (\<lambda>out.
    and_then (encode_str (encode_u64 (encode_u64 out (rq_created_at_ms r)) (rq_expires_at_ms r))
      (rq_linux_host_id r) ''linux_host_id'') (\<lambda>out.
    and_then (encode_str out (rq_linux_hostname r) ''linux_hostname'') (\<lambda>out.
    and_then (encode_str out (rq_pam_service r) ''pam_service'') (\<lambda>out.
    and_then (encode_str out (rq_pam_user r) ''pam_user'') (\<lambda>out.
    and_then (encode_optional_str out (rq_pam_ruser r) ''pam_ruser'') (\<lambda>out.
    and_then (encode_optional_str out (rq_pam_rhost r) ''pam_rhost'') (\<lambda>out.
    and_then (encode_optional_str out (rq_pam_tty r) ''pam_tty'') (\<lambda>out.
    and_then (encode_optional_str out (rq_sudo_command r) ''sudo_command'') (\<lambda>out.
    and_then (encode_str (encode_optional_u32 out (rq_client_pid r))
      (rq_key_id r) ''key_id'') (\<lambda>out.
    encode_str out (algorithm_name (rq_alg r)) ''alg'')))))))))))))"

definition request_sha256 ::
    "'z crypto_scheme \<Rightarrow> AuthRequestBody \<Rightarrow> (bytes, ProtocolError) result" where
  "request_sha256 C r = and_then (request_canonical_bytes r) (\<lambda>b. Ok (sha256_digest C b))"

definition request_verify_freshness ::
    "AuthRequestBody \<Rightarrow> u64 \<Rightarrow> u64 \<Rightarrow> (unit, ProtocolError) result" where
  "request_verify_freshness r now_ms allowed_future_skew_ms =
    (if now_ms > rq_expires_at_ms r then Err Expired
     else if rq_created_at_ms r > saturating_add now_ms allowed_future_skew_ms
       then Err CreatedInFuture
     else Ok ())"

definition request_sign ::
    "'z crypto_scheme \<Rightarrow> AuthRequestBody \<Rightarrow> bytes \<Rightarrow> (SignedAuthRequest, ProtocolError) result" where
  "request_sign C r signing_key =
    and_then (request_canonical_bytes r) (\<lambda>b.
      Ok \<lparr>srq_body = r, srq_signature = ed25519_sign C signing_key b\<rparr>)"

section \<open>Verification of a signature\<close>

definition verify_ed25519 ::
    "'z crypto_scheme \<Rightarrow> bytes \<Rightarrow> bytes \<Rightarrow> bytes \<Rightarrow> (unit, ProtocolError) result" where
  "verify_ed25519 C public_key message signature =
    (if length public_key \<noteq> ED25519_PUBLIC_KEY_LEN then Err InvalidPublicKey
     else if \<not> key_from_bytes C public_key then Err InvalidPublicKey
     else if \<not> signature_from_slice C signature then Err InvalidSignatureLength
     else if ed25519_verify C public_key message signature then Ok ()
     else Err SignatureVerificationFailed)"

definition signed_request_verify ::
    "'z crypto_scheme \<Rightarrow> SignedAuthRequest \<Rightarrow> bytes \<Rightarrow> (unit, ProtocolError) result" where
  "signed_request_verify C s public_key =
    and_then (request_canonical_bytes (srq_body s)) (\<lambda>b.
      verify_ed25519 C public_key b (srq_signature s))"

section \<open>Responses\<close>

definition for_request ::
    "'z crypto_scheme \<Rightarrow> AuthRequestBody \<Rightarrow> Decision \<Rightarrow> AuthMethod \<Rightarrow> u64 \<Rightarrow> u64 \<Rightarrow> string \<Rightarrow>
     (AuthResponseBody, ProtocolError) result" where
  "for_request C request decision auth_method created_at_ms expires_at_ms agent_key_id =
    and_then (request_sha256 C request) (\<lambda>h.
      Ok \<lparr>rs_protocol_version = rq_protocol_version request,
          rs_request_id = rq_request_id request,
          rs_nonce = rq_nonce request,
          rs_request_hash = h,
          rs_linux_host_id = rq_linux_host_id request,
          rs_pam_service = rq_pam_service request,
          rs_pam_user = rq_pam_user request,
          rs_decision = decision,
          rs_auth_method = auth_method,
          rs_created_at_ms = created_at_ms,
          rs_expires_at_ms = expires_at_ms,
          rs_agent_key_id = agent_key_id,
          rs_alg = Ed25519,
          rs_error_code = None,
          rs_error_message = None\<rparr>)"

definition response_validate :: "AuthResponseBody \<Rightarrow> (unit, ProtocolError) result" where
  "response_validate r =
    (if rs_protocol_version r \<noteq> PROTOCOL_VERSION
       then Err (UnsupportedVersion (rs_protocol_version r))
     else if rs_alg r \<noteq> Ed25519 then Err (UnsupportedAlgorithm (rs_alg r))
     else if length (rs_nonce r) \<noteq> NONCE_LEN
       then Err (InvalidNonceLength NONCE_LEN (length (rs_nonce r)))
     else if rs_created_at_ms r \<ge> rs_expires_at_ms r then Err InvalidValidityWindow
     else Ok ())"

definition response_canonical_bytes :: "AuthResponseBody \<Rightarrow> (bytes, ProtocolError) result" where
  "response_canonical_bytes r =
    and_then (response_validate r) (\<lambda>_.
    and_then (encode_bytes [] RESPONSE_DOMAIN ''response_domain'') (\<lambda>out.
    and_then (encode_str (encode_u16 out (rs_protocol_version r))
      (rs_request_id r) ''request_id'') (\<lambda>out.
    and_then (encode_bytes out (rs_nonce r) ''nonce'') (\<lambda>out.
    and_then (encode_bytes out (rs_request_hash r) ''request_hash'') (\<lambda>out.
    and_then (encode_str out (rs_linux_host_id r) ''linux_host_id'') (\<lambda>out.
    and_then (encode_str out (rs_pam_service r) ''pam_service'') (\<lambda>out.
    and_then (encode_str out (rs_pam_user r) ''pam_user'') (\<lambda>out.
    and_then (encode_str out (decision_name (rs_decision r)) ''decision'') (\<lambda>out.
    and_then (encode_str out (method_name (rs_auth_method r)) ''auth_method'') (\<lambda>out.
    and_then (encode_str (encode_u64 (encode_u64 out (rs_created_at_ms r)) (rs_expires_at_ms r))
      (rs_agent_key_id r) ''agent_key_id'') (\<lambda>out.
    and_then (encode_str out (algorithm_name (rs_alg r)) ''alg'') (\<lambda>out.
    and_then (encode_optional_str out (rs_error_code r) ''error_code'') (\<lambda>out.
    encode_optional_str out (rs_error_message r) ''error_message'')))))))))))))"

definition verify_binding ::
    "'z crypto_scheme \<Rightarrow> AuthResponseBody \<Rightarrow> AuthRequestBody \<Rightarrow> (unit, ProtocolError) result" where
  "verify_binding C resp request =
    and_then (request_sha256 C request) (\<lambda>expected_hash.
      if rs_request_id resp = rq_request_id request
         \<and> rs_nonce resp = rq_nonce request
         \<and> rs_request_hash resp = expected_hash
         \<and> rs_linux_host_id resp = rq_linux_host_id request
         \<and> rs_pam_service resp = rq_pam_service request
         \<and> rs_pam_user resp = rq_pam_user request
      then Ok () else Err ResponseBindingMismatch)"

definition response_verify_freshness ::
    "AuthResponseBody \<Rightarrow> u64 \<Rightarrow> u64 \<Rightarrow> (unit, ProtocolError) result" where
  "response_verify_freshness r now_ms allowed_future_skew_ms =
    (if now_ms > rs_expires_at_ms r then Err Expired
     else if rs_created_at_ms r > saturating_add now_ms allowed_future_skew_ms
       then Err CreatedInFuture
     else Ok ())"

definition response_sign ::
    "'z crypto_scheme \<Rightarrow> AuthResponseBody \<Rightarrow> bytes \<Rightarrow> (SignedAuthResponse, ProtocolError) result" where
  "response_sign C r signing_key =
    and_then (response_canonical_bytes r) (\<lambda>b.
      Ok \<lparr>srs_body = r, srs_signature = ed25519_sign C signing_key b\<rparr>)"

definition signed_response_verify ::
    "'z crypto_scheme \<Rightarrow> SignedAuthResponse \<Rightarrow> bytes \<Rightarrow> (unit, ProtocolError) result" where
  "signed_response_verify C s public_key =
    and_then (response_canonical_bytes (srs_body s)) (\<lambda>b.
      verify_ed25519 C public_key b (srs_signature s))"

definition verify_for_request ::
    "'z crypto_scheme \<Rightarrow> SignedAuthResponse \<Rightarrow> AuthRequestBody \<Rightarrow> bytes \<Rightarrow>
     (unit, ProtocolError) result" where
  "verify_for_request C s request public_key =
    and_then (signed_response_verify C s public_key) (\<lambda>_.
      verify_binding C (srs_body s) request)"

section \<open>Validation\<close>

lemma request_validate_Ok:
  "request_validate r = Ok () \<longleftrightarrow>
    rq_protocol_version r = PROTOCOL_VERSION \<and> length (rq_nonce r) = NONCE_LEN \<and>
    rq_created_at_ms r < rq_expires_at_ms r"
  by (cases "rq_alg r") (auto simp: request_validate_def not_le split: if_splits)

lemma response_validate_Ok:
  "response_validate r = Ok () \<longleftrightarrow>
    rs_protocol_version r = PROTOCOL_VERSION \<and> length (rs_nonce r) = NONCE_LEN \<and>
    rs_created_at_ms r < rs_expires_at_ms r"
  by (cases "rs_alg r") (auto simp: response_validate_def not_le split: if_splits)

section \<open>The canonical bytes as a sequence of fields\<close>

definition request_fields :: "AuthRequestBody \<Rightarrow> bytes" where
  "request_fields r =
    bytes_field REQUEST_DOMAIN @ u16_field (rq_protocol_version r) @
    str_field (rq_request_id r) @ bytes_field (rq_nonce r) @
    u64_field (rq_created_at_ms r) @ u64_field (rq_expires_at_ms r) @
    str_field (rq_linux_host_id r) @ str_field (rq_linux_hostname r) @
    str_field (rq_pam_service r) @ str_field (rq_pam_user r) @
    opt_str_field (rq_pam_ruser r) @ opt_str_field (rq_pam_rhost r) @
    opt_str_field (rq_pam_tty r) @ opt_str_field (rq_sudo_command r) @
    opt_u32_field (rq_client_pid r) @ str_field (rq_key_id r) @
    str_field (algorithm_name (rq_alg r))"

definition request_fits :: "AuthRequestBody \<Rightarrow> bool" where
  "request_fits r \<longleftrightarrow>
    fits (rq_request_id r) \<and> fits (rq_nonce r) \<and> fits (rq_linux_host_id r) \<and>
    fits (rq_linux_hostname r) \<and> fits (rq_pam_service r) \<and> fits (rq_pam_user r) \<and>
    opt_fits (rq_pam_ruser r) \<and> opt_fits (rq_pam_rhost r) \<and> opt_fits (rq_pam_tty r) \<and>
    opt_fits (rq_sudo_command r) \<and> fits (rq_key_id r)"

definition response_fields :: "AuthResponseBody \<Rightarrow> bytes" where
  "response_fields r =
    bytes_field RESPONSE_DOMAIN @ u16_field (rs_protocol_version r) @
    str_field (rs_request_id r) @ bytes_field (rs_nonce r) @
    bytes_field (rs_request_hash r) @ str_field (rs_linux_host_id r) @
    str_field (rs_pam_service r) @ str_field (rs_pam_user r) @
    str_field (decision_name (rs_decision r)) @ str_field (method_name (rs_auth_method r)) @
    u64_field (rs_created_at_ms r) @ u64_field (rs_expires_at_ms r) @
    str_field (rs_agent_key_id r) @ str_field (algorithm_name (rs_alg r)) @
    opt_str_field (rs_error_code r) @ opt_str_field (rs_error_message r)"

definition response_fits :: "AuthResponseBody \<Rightarrow> bool" where
  "response_fits r \<longleftrightarrow>
    fits (rs_request_id r) \<and> fits (rs_nonce r) \<and> fits (rs_request_hash r) \<and>
    fits (rs_linux_host_id r) \<and> fits (rs_pam_service r) \<and> fits (rs_pam_user r) \<and>
    fits (rs_agent_key_id r) \<and> opt_fits (rs_error_code r) \<and> opt_fits (rs_error_message r)"

lemma fits_constants [simp]:
  "fits REQUEST_DOMAIN" "fits RESPONSE_DOMAIN"
  "fits (algorithm_name a)" "fits (decision_name d)" "fits (method_name m)"
  by (simp_all add: fits_def REQUEST_DOMAIN_def RESPONSE_DOMAIN_def)
    ((cases a; simp), (cases d; simp), (cases m; simp))

lemma request_canonical_bytes_Ok:
  "request_canonical_bytes r = Ok b \<longleftrightarrow>
    request_validate r = Ok () \<and> request_fits r \<and> b = request_fields r"
  by (auto simp: request_canonical_bytes_def request_fits_def request_fields_def result_simps
      encode_eqs split: if_splits)

lemma response_canonical_bytes_Ok:
  "response_canonical_bytes r = Ok b \<longleftrightarrow>
    response_validate r = Ok () \<and> response_fits r \<and> b = response_fields r"
  by (auto simp: response_canonical_bytes_def response_fits_def response_fields_def result_simps
      encode_eqs split: if_splits)

end
