(* ===== verification/Protocol.thy ===== *)
theory Protocol
  imports Messages
begin

text \<open>
  What the protocol crate guarantees: canonical bytes can be read back and keep requests and
  responses apart, a signature made by the crate verifies, a verified response is bound to
  exactly one request, and freshness is the stated window of time.
\<close>

section \<open>Reading canonical bytes back\<close>

definition read_algorithm :: "bytes \<Rightarrow> (SignatureAlgorithm \<times> bytes) option" where
  "read_algorithm bs = do {
     (n, bs) \<leftarrow> read_str bs;
     if n = ''Ed25519'' then Some (Ed25519, bs) else None }"

definition read_decision :: "bytes \<Rightarrow> (Decision \<times> bytes) option" where
  "read_decision bs = do {
     (n, bs) \<leftarrow> read_str bs;
     d \<leftarrow> find (\<lambda>d. decision_name d = n) [Approved, Denied, Unavailable, Cancelled, Failed];
     Some (d, bs) }"

definition read_method :: "bytes \<Rightarrow> (AuthMethod \<times> bytes) option" where
  "read_method bs = do {
     (n, bs) \<leftarrow> read_str bs;
     m \<leftarrow> find (\<lambda>m. method_name m = n)
            [Watch, TouchId, BiometricOrWatch, UnknownMethod, NoMethod];
     Some (m, bs) }"

lemma read_algorithm_field [codec_simps]:
  "read_algorithm (str_field (algorithm_name a) @ rest) = Some (a, rest)"
  by (cases a) (simp add: read_algorithm_def read_str_field fits_def)

lemma read_decision_field [codec_simps]:
  "read_decision (str_field (decision_name d) @ rest) = Some (d, rest)"
  by (simp add: read_decision_def read_str_field) (cases d; simp)

lemma read_method_field [codec_simps]:
  "read_method (str_field (method_name m) @ rest) = Some (m, rest)"
  by (simp add: read_method_def read_str_field) (cases m; simp)

definition decode_request :: "bytes \<Rightarrow> AuthRequestBody option" where
  "decode_request bs = do {
     (domain, bs) \<leftarrow> read_bytes bs;
     (if domain \<noteq> REQUEST_DOMAIN then None else do {
     (version, bs) \<leftarrow> read_u16 bs;
     (request_id, bs) \<leftarrow> read_str bs;
     (nonce, bs) \<leftarrow> read_bytes bs;
     (created, bs) \<leftarrow> read_u64 bs;
     (expires, bs) \<leftarrow> read_u64 bs;
     (host_id, bs) \<leftarrow> read_str bs;
     (hostname, bs) \<leftarrow> read_str bs;
     (service, bs) \<leftarrow> read_str bs;
     (user, bs) \<leftarrow> read_str bs;
     (ruser, bs) \<leftarrow> read_opt read_str bs;
     (rhost, bs) \<leftarrow> read_opt read_str bs;
     (tty, bs) \<leftarrow> read_opt read_str bs;
     (sudo_command, bs) \<leftarrow> read_opt read_str bs;
     (pid, bs) \<leftarrow> read_opt read_u32 bs;
     (key_id, bs) \<leftarrow> read_str bs;
     (alg, bs) \<leftarrow> read_algorithm bs;
     (if bs \<noteq> [] then None else Some
       \<lparr>rq_protocol_version = version, rq_request_id = request_id, rq_nonce = nonce,
        rq_created_at_ms = created, rq_expires_at_ms = expires, rq_linux_host_id = host_id,
        rq_linux_hostname = hostname, rq_pam_service = service, rq_pam_user = user,
        rq_pam_ruser = ruser, rq_pam_rhost = rhost, rq_pam_tty = tty,
        rq_sudo_command = sudo_command, rq_client_pid = pid, rq_key_id = key_id,
        rq_alg = alg\<rparr>) }) }"

definition decode_response :: "bytes \<Rightarrow> AuthResponseBody option" where
  "decode_response bs = do {
     (domain, bs) \<leftarrow> read_bytes bs;
     (if domain \<noteq> RESPONSE_DOMAIN then None else do {
     (version, bs) \<leftarrow> read_u16 bs;
     (request_id, bs) \<leftarrow> read_str bs;
     (nonce, bs) \<leftarrow> read_bytes bs;
     (request_hash, bs) \<leftarrow> read_bytes bs;
     (host_id, bs) \<leftarrow> read_str bs;
     (service, bs) \<leftarrow> read_str bs;
     (user, bs) \<leftarrow> read_str bs;
     (decision, bs) \<leftarrow> read_decision bs;
     (auth_method, bs) \<leftarrow> read_method bs;
     (created, bs) \<leftarrow> read_u64 bs;
     (expires, bs) \<leftarrow> read_u64 bs;
     (agent_key_id, bs) \<leftarrow> read_str bs;
     (alg, bs) \<leftarrow> read_algorithm bs;
     (error_code, bs) \<leftarrow> read_opt read_str bs;
     (error_message, bs) \<leftarrow> read_opt read_str bs;
     (if bs \<noteq> [] then None else Some
       \<lparr>rs_protocol_version = version, rs_request_id = request_id, rs_nonce = nonce,
        rs_request_hash = request_hash, rs_linux_host_id = host_id, rs_pam_service = service,
        rs_pam_user = user, rs_decision = decision, rs_auth_method = auth_method,
        rs_created_at_ms = created, rs_expires_at_ms = expires,
        rs_agent_key_id = agent_key_id, rs_alg = alg, rs_error_code = error_code,
        rs_error_message = error_message\<rparr>) }) }"

lemma read_last_field:
  "opt_fits v \<Longrightarrow> read_opt read_str (opt_str_field v) = Some (v, [])"
  "read_algorithm (str_field (algorithm_name a)) = Some (a, [])"
  using read_opt_str_field [of v "[]"] read_algorithm_field [of a "[]"] by simp_all

lemma decode_request_fields: "request_fits r \<Longrightarrow> decode_request (request_fields r) = Some r"
  by (simp add: decode_request_def request_fields_def request_fits_def codec_simps read_last_field)

lemma decode_response_fields: "response_fits r \<Longrightarrow> decode_response (response_fields r) = Some r"
  by (simp add: decode_response_def response_fields_def response_fits_def codec_simps
      read_last_field)

lemma domains_differ: "REQUEST_DOMAIN \<noteq> RESPONSE_DOMAIN"
  by (simp add: REQUEST_DOMAIN_def RESPONSE_DOMAIN_def)

lemma request_fields_not_response: "request_fields r \<noteq> response_fields s"
  using domains_differ
  by (simp add: request_fields_def response_fields_def bytes_codec.field_cancel)

section \<open>Signed messages\<close>

text \<open>
  The contract shared by signed requests and signed responses: signing signs the canonical
  bytes of the body, verification verifies them, and the canonical bytes determine the body.
\<close>

lemma verify_ed25519_Ok:
  "verify_ed25519 C pk m s = Ok () \<longleftrightarrow>
    length pk = ED25519_PUBLIC_KEY_LEN \<and> key_from_bytes C pk \<and>
    signature_from_slice C s \<and> ed25519_verify C pk m s"
  by (auto simp: verify_ed25519_def)

locale signable =
  fixes canonical :: "'b \<Rightarrow> (bytes, ProtocolError) result"
    and sign :: "'z crypto_scheme \<Rightarrow> 'b \<Rightarrow> bytes \<Rightarrow> ('s, ProtocolError) result"
    and verify :: "'z crypto_scheme \<Rightarrow> 's \<Rightarrow> bytes \<Rightarrow> (unit, ProtocolError) result"
    and body :: "'s \<Rightarrow> 'b"
    and signature :: "'s \<Rightarrow> bytes"
  assumes canonical_inject: "canonical a = Ok m \<Longrightarrow> canonical b = Ok m \<Longrightarrow> a = b"
    and sign_Ok: "sign C b sk = Ok s \<longleftrightarrow>
      (\<exists>m. canonical b = Ok m \<and> body s = b \<and> signature s = ed25519_sign C sk m)"
    and verify_Ok: "verify C s pk = Ok () \<longleftrightarrow>
      (\<exists>m. canonical (body s) = Ok m \<and> verify_ed25519 C pk m (signature s) = Ok ())"
begin

lemma signed_verifies:
  assumes "ed25519_correct C" and "sign C b sk = Ok s"
  shows "body s = b \<and> verify C s (ed25519_public C sk) = Ok ()"
  using assms
  by (auto simp: sign_Ok verify_Ok verify_ed25519_Ok ed25519_correct_def
      ED25519_PUBLIC_KEY_LEN_def ED25519_SIGNATURE_LEN_def)

text \<open>
  When every message that verifies under a key is the canonical form of a body in \<open>B\<close>, what
  its owner signed, then only bodies in \<open>B\<close> verify.
\<close>

lemma verified_was_signed:
  assumes only: "\<And>m sig. ed25519_verify C pk m sig \<Longrightarrow> \<exists>b \<in> B. canonical b = Ok m"
    and "verify C s pk = Ok ()"
  shows "body s \<in> B"
proof -
  from assms(2) obtain m where m: "canonical (body s) = Ok m"
    and v: "ed25519_verify C pk m (signature s)"
    by (auto simp: verify_Ok verify_ed25519_Ok)
  from only [OF v] obtain b where "b \<in> B" and "canonical b = Ok m" by blast
  with m show ?thesis using canonical_inject by blast
qed

text \<open>Changing the body of a signed message changes the bytes its signature is checked on.\<close>

lemma tampered_message_differs:
  assumes "verify C s pk = Ok ()" and "verify C t pk = Ok ()" and "body s \<noteq> body t"
  shows "\<exists>m n. canonical (body s) = Ok m \<and> canonical (body t) = Ok n \<and> m \<noteq> n \<and>
    ed25519_verify C pk m (signature s) \<and> ed25519_verify C pk n (signature t)"
proof -
  from assms(1,2) obtain m n
    where "canonical (body s) = Ok m" "ed25519_verify C pk m (signature s)"
      and "canonical (body t) = Ok n" "ed25519_verify C pk n (signature t)"
    by (auto simp: verify_Ok verify_ed25519_Ok)
  with assms(3) show ?thesis using canonical_inject by blast
qed

end

lemma request_canonical_inject:
  "request_canonical_bytes a = Ok m \<Longrightarrow> request_canonical_bytes b = Ok m \<Longrightarrow> a = b"
  by (metis request_canonical_bytes_Ok decode_request_fields option.inject)

lemma response_canonical_inject:
  "response_canonical_bytes a = Ok m \<Longrightarrow> response_canonical_bytes b = Ok m \<Longrightarrow> a = b"
  by (metis response_canonical_bytes_Ok decode_response_fields option.inject)

interpretation signed_request: signable request_canonical_bytes request_sign
  signed_request_verify srq_body srq_signature
  by unfold_locales
    (auto simp: request_sign_def signed_request_verify_def result_simps
      dest: request_canonical_inject)

interpretation signed_response: signable response_canonical_bytes response_sign
  signed_response_verify srs_body srs_signature
  by unfold_locales
    (auto simp: response_sign_def signed_response_verify_def result_simps
      dest: response_canonical_inject)

section \<open>Messages that expire\<close>

locale validity_window =
  fixes created :: "'b \<Rightarrow> u64"
    and expires :: "'b \<Rightarrow> u64"
    and freshness :: "'b \<Rightarrow> u64 \<Rightarrow> u64 \<Rightarrow> (unit, ProtocolError) result"
  assumes freshness_eq: "freshness b now skew =
      (if expires b < now then Err Expired
       else if saturating_add now skew < created b then Err CreatedInFuture else Ok ())"
begin

lemma fresh_iff:
  "freshness b now skew = Ok () \<longleftrightarrow>
    unat now \<le> unat (expires b) \<and> unat (created b) \<le> unat now + unat skew"
  by (auto simp: freshness_eq less_saturating_add_iff word_less_nat_alt [of "expires b"])

text \<open>A message that has expired never becomes fresh again.\<close>

lemma expired_forever:
  assumes "freshness b now skew = Err Expired" and "now \<le> later"
  shows "freshness b later skew' = Err Expired"
  using assms by (auto simp: freshness_eq split: if_splits)

text \<open>A message that is fresh stays fresh until it expires.\<close>

lemma fresh_until_expiry:
  assumes "freshness b now skew = Ok ()" and "now \<le> later" and "later \<le> expires b"
  shows "freshness b later skew = Ok ()"
  using assms by (auto simp: fresh_iff word_le_nat_alt)

end

interpretation request_window: validity_window rq_created_at_ms rq_expires_at_ms
  request_verify_freshness
  by unfold_locales (simp add: request_verify_freshness_def)

interpretation response_window: validity_window rs_created_at_ms rs_expires_at_ms
  response_verify_freshness
  by unfold_locales (simp add: response_verify_freshness_def)

section \<open>Errors of canonical encoding\<close>

text \<open>The length-prefixed fields of a message by name, in the order they are written.\<close>

definition request_sizes :: "AuthRequestBody \<Rightarrow> (string \<times> bool) list" where
  "request_sizes r =
    [(''request_id'', fits (rq_request_id r)), (''nonce'', fits (rq_nonce r)),
     (''linux_host_id'', fits (rq_linux_host_id r)),
     (''linux_hostname'', fits (rq_linux_hostname r)),
     (''pam_service'', fits (rq_pam_service r)), (''pam_user'', fits (rq_pam_user r)),
     (''pam_ruser'', opt_fits (rq_pam_ruser r)), (''pam_rhost'', opt_fits (rq_pam_rhost r)),
     (''pam_tty'', opt_fits (rq_pam_tty r)), (''sudo_command'', opt_fits (rq_sudo_command r)),
     (''key_id'', fits (rq_key_id r))]"

definition response_sizes :: "AuthResponseBody \<Rightarrow> (string \<times> bool) list" where
  "response_sizes r =
    [(''request_id'', fits (rs_request_id r)), (''nonce'', fits (rs_nonce r)),
     (''request_hash'', fits (rs_request_hash r)),
     (''linux_host_id'', fits (rs_linux_host_id r)),
     (''pam_service'', fits (rs_pam_service r)), (''pam_user'', fits (rs_pam_user r)),
     (''agent_key_id'', fits (rs_agent_key_id r)),
     (''error_code'', opt_fits (rs_error_code r)),
     (''error_message'', opt_fits (rs_error_message r))]"

definition first_oversized :: "(string \<times> bool) list \<Rightarrow> string option" where
  "first_oversized xs = map_option fst (find (\<lambda>x. \<not> snd x) xs)"

definition request_bytes_spec :: "AuthRequestBody \<Rightarrow> (bytes, ProtocolError) result" where
  "request_bytes_spec r =
    (case request_validate r of
       Inl e \<Rightarrow> Err e
     | Inr _ \<Rightarrow> (case first_oversized (request_sizes r) of
                  Some f \<Rightarrow> Err (FieldTooLarge f)
                | None \<Rightarrow> Ok (request_fields r)))"

definition response_bytes_spec :: "AuthResponseBody \<Rightarrow> (bytes, ProtocolError) result" where
  "response_bytes_spec r =
    (case response_validate r of
       Inl e \<Rightarrow> Err e
     | Inr _ \<Rightarrow> (case first_oversized (response_sizes r) of
                  Some f \<Rightarrow> Err (FieldTooLarge f)
                | None \<Rightarrow> Ok (response_fields r)))"

section \<open>Verification of a response\<close>

lemma verify_binding_Ok:
  "verify_binding C resp r = Ok () \<longleftrightarrow>
    (\<exists>m. request_canonical_bytes r = Ok m \<and> rs_request_hash resp = sha256_digest C m) \<and>
    rs_request_id resp = rq_request_id r \<and> rs_nonce resp = rq_nonce r \<and>
    rs_linux_host_id resp = rq_linux_host_id r \<and> rs_pam_service resp = rq_pam_service r \<and>
    rs_pam_user resp = rq_pam_user r"
  by (auto simp: verify_binding_def request_sha256_def result_simps split: if_splits)

lemma verify_for_request_Ok:
  "verify_for_request C s r pk = Ok () \<longleftrightarrow>
    signed_response_verify C s pk = Ok () \<and> verify_binding C (srs_body s) r = Ok ()"
  by (auto simp: verify_for_request_def result_simps)

lemma for_request_Ok:
  assumes "for_request C r d am c e k = Ok resp"
  shows "verify_binding C resp r = Ok ()"
  using assms by (auto simp: for_request_def verify_binding_Ok request_sha256_def result_simps)

lemma for_request_canonical:
  assumes "for_request C r d am created expires agent_key_id = Ok resp"
    and "request_canonical_bytes r = Ok m" and "length (sha256_digest C m) = 32"
    and "created < expires" and "fits agent_key_id"
  shows "\<exists>b. response_canonical_bytes resp = Ok b"
proof -
  from assms have "response_validate resp = Ok () \<and> response_fits resp"
    by (auto simp: for_request_def request_sha256_def request_canonical_bytes_Ok
        request_validate_Ok response_validate_Ok request_fits_def response_fits_def opt_fits_def
        fits_def)
  then show ?thesis by (auto simp: response_canonical_bytes_Ok)
qed

lemma signed_reply_accepted:
  assumes "ed25519_correct C" and "request_canonical_bytes r = Ok m"
    and "length (sha256_digest C m) = 32" and "created < expires" and "fits agent_key_id"
  shows "\<exists>resp s. for_request C r d am created expires agent_key_id = Ok resp \<and>
    response_sign C resp sk = Ok s \<and> srs_body s = resp \<and> rs_decision resp = d \<and>
    verify_for_request C s r (ed25519_public C sk) = Ok ()"
proof -
  obtain resp where resp: "for_request C r d am created expires agent_key_id = Ok resp"
    and d: "rs_decision resp = d"
    using assms(2) by (auto simp: for_request_def request_sha256_def)
  moreover from for_request_canonical [OF resp assms(2-5)]
  obtain s where s: "response_sign C resp sk = Ok s"
    by (auto simp: response_sign_def result_simps)
  moreover have "srs_body s = resp \<and> signed_response_verify C s (ed25519_public C sk) = Ok ()"
    using assms(1) s by (rule signed_response.signed_verifies)
  moreover have "verify_binding C resp r = Ok ()" using resp by (rule for_request_Ok)
  ultimately show ?thesis by (auto simp: verify_for_request_Ok)
qed

end
