(* ===== verification/Trust.thy ===== *)
theory Trust
  imports System
begin

text \<open>
  \<open>crates/helper/src/trust.rs\<close>: opening a path one component at a time while checking owner,
  type and mode of everything on the way, and the replay markers kept in a directory opened
  that way. \<open>trusted_walk\<close> is the specification of the walk: the descriptors it opens and the
  metadata it saw.
\<close>

unbundle bit_operations_syntax

section \<open>Checked opening of a path\<close>

definition invalid :: "string \<Rightarrow> io_error" where
  "invalid message = Custom PermissionDenied message"

definition name :: "string \<Rightarrow> (string, io_error) result" where
  "name v = (if CHR 0x00 \<in> set v then Err (invalid ''path contains NUL'') else Ok v)"

text \<open>The part of \<open>validate\<close> that follows the call of \<open>metadata\<close>.\<close>

definition validate_metadata ::
    "metadata \<Rightarrow> bool \<Rightarrow> bool \<Rightarrow> bool \<Rightarrow> (unit, io_error) result" where
  "validate_metadata md root_owned directory private =
    (if directory \<noteq> (md_type md = Directory) \<or> (\<not> directory \<and> md_type md \<noteq> RegularFile)
       then Err (invalid ''trusted path has incorrect file type'')
     else if root_owned \<and> md_uid md \<noteq> 0
       then Err (invalid ''trusted path has an untrusted owner (root required in production)'')
     else let forbidden = (if private then 63 else 18)
       in if md_mode md AND forbidden \<noteq> 0
          then Err (invalid (if private then ''trusted path must not grant group/world permissions''
                             else ''trusted path must not be group/world writable''))
          else Ok ())"

definition validate ::
    "'w sys \<Rightarrow> fd \<Rightarrow> bool \<Rightarrow> bool \<Rightarrow> bool \<Rightarrow> 'w \<Rightarrow> (unit, io_error) result \<times> 'w" where
  "validate S fd root_owned directory private w =
    bind_w (sys_fstat S fd w) (\<lambda>md w. (validate_metadata md root_owned directory private, w))"

fun collect_components :: "component list \<Rightarrow> (string list, io_error) result" where
  "collect_components [] = Ok []"
| "collect_components (RootDir # cs) = collect_components cs"
| "collect_components (CurDir # cs) = collect_components cs"
| "collect_components (Normal c # cs) =
    and_then (name c) (\<lambda>n. and_then (collect_components cs) (\<lambda>ns. Ok (n # ns)))"
| "collect_components (ParentDir # cs) =
    Err (invalid ''trusted path must not contain parent components'')"

definition walk_flags :: "bool \<Rightarrow> oflag set" where
  "walk_flags is_directory =
    {O_RDONLY, O_CLOEXEC, O_NOFOLLOW, O_NONBLOCK} \<union> (if is_directory then {O_DIRECTORY} else {})"

fun open_walk ::
    "'w sys \<Rightarrow> bool \<Rightarrow> bool \<Rightarrow> bool \<Rightarrow> fd \<Rightarrow> string list \<Rightarrow> 'w \<Rightarrow> (fd, io_error) result \<times> 'w" where
  "open_walk S root_owned directory private file [] w = (Ok file, w)"
| "open_walk S root_owned directory private file (component # rest) w =
    (let last = (rest = []); is_directory = (\<not> last \<or> directory)
     in bind_w (map_err_w Os (sys_openat S file component (walk_flags is_directory) w)) (\<lambda>file w.
        bind_w (validate S file root_owned is_directory (last \<and> private) w) (\<lambda>_ w.
        open_walk S root_owned directory private file rest w)))"

definition absolute_path ::
    "'w sys \<Rightarrow> string \<Rightarrow> 'w \<Rightarrow> (string, io_error) result \<times> 'w" where
  "absolute_path S path w =
    (if is_absolute path then (Ok path, w)
     else bind_w (sys_current_dir S w) (\<lambda>cwd w. (Ok (path_join cwd path), w)))"

definition open_trusted ::
    "'w sys \<Rightarrow> string \<Rightarrow> bool \<Rightarrow> bool \<Rightarrow> bool \<Rightarrow> 'w \<Rightarrow> (fd, io_error) result \<times> 'w" where
  "open_trusted S path root_owned directory private w =
    (if root_owned \<and> \<not> is_absolute path
       then (Err (invalid ''production trusted paths must be absolute''), w)
     else
       bind_w (absolute_path S path w) (\<lambda>absolute w.
       bind_w (collect_components (components absolute), w) (\<lambda>comps w.
       bind_w (sys_open_root S w) (\<lambda>file w.
       bind_w (validate S file root_owned True False w) (\<lambda>_ w.
       bind_w (open_walk S root_owned directory private file comps w) (\<lambda>file w.
       bind_w (validate S file root_owned directory private w) (\<lambda>_ w.
       (Ok file, w))))))))"

section \<open>Replay markers\<close>

definition marker_create_flags :: "oflag set" where
  "marker_create_flags = {O_WRONLY, O_CLOEXEC, O_NOFOLLOW, O_CREAT, O_EXCL}"

definition marker_read_flags :: "oflag set" where
  "marker_read_flags = {O_RDONLY, O_CLOEXEC, O_NOFOLLOW, O_NONBLOCK}"

definition create_marker ::
    "'w sys \<Rightarrow> fd \<Rightarrow> string \<Rightarrow> 'w \<Rightarrow> (fd, io_error) result \<times> 'w" where
  "create_marker S directory marker w =
    bind_w (name marker, w) (\<lambda>marker w.
      map_err_w Os (sys_openat_mode S directory marker marker_create_flags 0x180 w))"

text \<open>\<open>parse_expires_at_ms\<close> of \<open>main.rs\<close>, which \<open>cleanup_markers\<close> calls.\<close>

definition parse_expires_at_ms :: "string \<Rightarrow> u64 option" where
  "parse_expires_at_ms contents =
    (case lines contents of
       [] \<Rightarrow> None
     | l # _ \<Rightarrow> Option.bind (strip_prefix ''expires_at_ms='' (trim l)) parse_u64)"

definition is_ascii_hexdigit :: "char \<Rightarrow> bool" where
  "is_ascii_hexdigit c \<longleftrightarrow> of_char c \<in> {48 .. 57 :: nat} \<union> {65 .. 70} \<union> {97 .. 102}"

definition is_marker_name :: "string \<Rightarrow> bool" where
  "is_marker_name n \<longleftrightarrow> length n = 64 \<and> list_all is_ascii_hexdigit n"

definition marker_expired :: "u64 \<Rightarrow> string \<Rightarrow> bool" where
  "marker_expired now contents =
    (case parse_expires_at_ms contents of Some expiry \<Rightarrow> expiry < now | None \<Rightarrow> False)"

text \<open>The body of the loop of \<open>cleanup_markers\<close> on one directory entry.\<close>

definition cleanup_entry :: "'w sys \<Rightarrow> fd \<Rightarrow> u64 \<Rightarrow> string \<Rightarrow> 'w \<Rightarrow> 'w" where
  "cleanup_entry S directory now n w =
    (if \<not> is_marker_name n then w
     else (case sys_openat S directory n marker_read_flags w of
       (Inl _, w) \<Rightarrow> w
     | (Inr file, w) \<Rightarrow> (case sys_fstat S file w of
         (Inl _, w) \<Rightarrow> w
       | (Inr md, w) \<Rightarrow>
          if md_type md \<noteq> RegularFile then w
          else (case read_to_string S file 128 w of
            (Inl _, w) \<Rightarrow> w
          | (Inr contents, w) \<Rightarrow>
              if marker_expired now contents then sys_unlinkat S directory n w else w))))"

partial_function (option) cleanup_loop ::
    "'w sys \<Rightarrow> fd \<Rightarrow> nat \<Rightarrow> u64 \<Rightarrow> 'w \<Rightarrow> 'w option" where
  "cleanup_loop S directory dir now w =
    (case sys_readdir S dir w of
       (None, w) \<Rightarrow> Some w
     | (Some n, w) \<Rightarrow> cleanup_loop S directory dir now (cleanup_entry S directory now n w))"

definition cleanup_markers ::
    "'w sys \<Rightarrow> fd \<Rightarrow> u64 \<Rightarrow> 'w \<Rightarrow> ((unit, io_error) result \<times> 'w) option" where
  "cleanup_markers S directory now w =
    (case sys_dup S directory w of
       (Inl e, w) \<Rightarrow> Some (Err (Os e), w)
     | (Inr fd, w) \<Rightarrow> (case sys_fdopendir S fd w of
         (Inl e, w) \<Rightarrow> Some (Err (Os e), sys_close S fd w)
       | (Inr dir, w) \<Rightarrow> do {
           w \<leftarrow> cleanup_loop S directory dir now w;
           Some (Ok (), sys_closedir S dir w) }))"

section \<open>What a checked path guarantees\<close>

definition trusted_metadata :: "bool \<Rightarrow> bool \<Rightarrow> bool \<Rightarrow> metadata \<Rightarrow> bool" where
  "trusted_metadata root_owned directory private md \<longleftrightarrow>
    md_type md = (if directory then Directory else RegularFile) \<and>
    (root_owned \<longrightarrow> md_uid md = 0) \<and>
    md_mode md AND 18 = 0 \<and> (private \<longrightarrow> md_mode md AND 63 = 0)"

inductive trusted_walk ::
    "'w sys \<Rightarrow> bool \<Rightarrow> bool \<Rightarrow> bool \<Rightarrow> fd \<Rightarrow> 'w \<Rightarrow> string list \<Rightarrow> metadata list \<Rightarrow> fd \<Rightarrow> 'w \<Rightarrow> bool"
    for S :: "'w sys" and ro dr pv :: bool where
  arrived: "trusted_walk S ro dr pv file w [] [] file w"
| descend: "\<lbrakk> sys_openat S file c (walk_flags (cs \<noteq> [] \<or> dr)) w = (Inr file', w1);
     sys_fstat S file' w1 = (Inr md, w2);
     trusted_metadata ro (cs \<noteq> [] \<or> dr) (cs = [] \<and> pv) md;
     trusted_walk S ro dr pv file' w2 cs mds file'' w3 \<rbrakk>
   \<Longrightarrow> trusted_walk S ro dr pv file w (c # cs) (md # mds) file'' w3"

inductive_simps trusted_walk_Nil:
  "trusted_walk S ro dr pv f w [] mds g w'"
inductive_simps trusted_walk_Cons:
  "trusted_walk S ro dr pv f w (c # cs) mds g w'"

lemma private_mode: "(m :: u32) AND 63 = 0 \<Longrightarrow> m AND 18 = 0"
proof -
  assume "m AND 63 = 0"
  then have "(m AND 63) AND 18 = 0" by simp
  moreover have "(m AND 63) AND 18 = m AND 18" by (simp add: and.assoc)
  ultimately show "m AND 18 = 0" by simp
qed

lemma validate_metadata_Ok:
  "validate_metadata md root_owned directory private = Ok () \<longleftrightarrow>
    trusted_metadata root_owned directory private md"
  by (auto simp: validate_metadata_def trusted_metadata_def Let_def private_mode split: if_splits)

lemma validate_Ok:
  "validate S fd root_owned directory private w = (Inr u, w') \<longleftrightarrow>
    (\<exists>md. sys_fstat S fd w = (Inr md, w') \<and> trusted_metadata root_owned directory private md)"
  by (auto simp: validate_def result_simps validate_metadata_Ok)

lemma collect_components_Ok:
  "collect_components cs = Ok ns \<longleftrightarrow>
    ParentDir \<notin> set cs \<and> (\<forall>n \<in> set ns. CHR 0x00 \<notin> set n) \<and>
    map Normal ns = filter (\<lambda>c. c \<noteq> RootDir \<and> c \<noteq> CurDir) cs"
proof (induction cs arbitrary: ns rule: collect_components.induct)
  case (4 c cs)
  then show ?case by (cases ns) (auto simp: result_simps name_def)
qed (auto simp: name_def)

lemma collect_components_Err: "collect_components cs = Inl e \<Longrightarrow> kind e = PermissionDenied"
  by (induction cs rule: collect_components.induct)
    (auto simp: result_simps name_def invalid_def split: if_splits)

lemma open_walk_refines:
  "open_walk S root_owned directory private f cs w = (Inr g, w') \<longleftrightarrow>
    (\<exists>mds. trusted_walk S root_owned directory private f w cs mds g w')"
proof (induction cs arbitrary: f w)
  case Nil
  then show ?case by (auto simp: trusted_walk_Nil)
next
  case (Cons c cs)
  then show ?case
    by (auto simp: Let_def result_simps validate_Ok trusted_walk_Cons)
qed

lemma trusted_walk_metadata:
  assumes "trusted_walk S root_owned directory private f w cs mds g w'"
  shows "length mds = length cs \<and>
    (\<forall>md \<in> set mds. (root_owned \<longrightarrow> md_uid md = 0) \<and> md_mode md AND 18 = 0) \<and>
    (\<forall>md \<in> set (butlast mds). md_type md = Directory)"
  using assms
proof (induction rule: trusted_walk.induct)
  case (arrived f w)
  then show ?case by simp
next
  case (descend f c cs w g w1 md w2 mds h w3)
  then have "cs \<noteq> [] \<longleftrightarrow> mds \<noteq> []" by auto
  with descend show ?case by (auto simp: trusted_metadata_def)
qed

text \<open>
  The specification of \<open>open\<close>: the absolute path has no parent components, the root directory
  is trusted, the walk along the components is trusted, and so is what it arrives at.
\<close>

definition trusted_open ::
    "'w sys \<Rightarrow> string \<Rightarrow> bool \<Rightarrow> bool \<Rightarrow> bool \<Rightarrow> 'w \<Rightarrow> metadata list \<Rightarrow> fd \<Rightarrow> 'w \<Rightarrow> bool" where
  "trusted_open S path ro dr pv w seen f w' \<longleftrightarrow>
    (\<exists>absolute comps w0 root w1 root_md w2 mds w3 md.
      absolute_path S path w = (Ok absolute, w0) \<and> (ro \<longrightarrow> absolute = path) \<and>
      \<not> has_parent_component absolute \<and> (\<forall>n \<in> set comps. CHR 0x00 \<notin> set n) \<and>
      map Normal comps = filter (\<lambda>c. c \<noteq> RootDir \<and> c \<noteq> CurDir) (components absolute) \<and>
      sys_open_root S w0 = (Ok root, w1) \<and> sys_fstat S root w1 = (Ok root_md, w2) \<and>
      trusted_metadata ro True False root_md \<and>
      trusted_walk S ro dr pv root w2 comps mds f w3 \<and>
      sys_fstat S f w3 = (Ok md, w') \<and> trusted_metadata ro dr pv md \<and>
      seen = root_md # mds @ [md])"

lemma absolute_path_id: "is_absolute path \<Longrightarrow> absolute_path S path w = (Ok path, w)"
  by (simp add: absolute_path_def)

lemma open_trusted_Ok:
  "open_trusted S path ro dr pv w = (Inr f, w') \<longleftrightarrow>
    (ro \<longrightarrow> is_absolute path) \<and> (\<exists>seen. trusted_open S path ro dr pv w seen f w')"
proof (cases "ro \<and> \<not> is_absolute path")
  case True
  then show ?thesis by (simp add: open_trusted_def)
next
  case False
  then have "ro \<Longrightarrow> absolute_path S path w = (Inr p, w0) \<longleftrightarrow> p = path \<and> w0 = w" for p w0
    by (auto simp: absolute_path_id)
  with False show ?thesis
    by (auto simp: open_trusted_def trusted_open_def result_simps validate_Ok collect_components_Ok
        open_walk_refines has_parent_component_def) blast+
qed

lemma trusted_open_seen:
  assumes "trusted_open S path ro dr pv w seen f w'"
  shows "\<forall>md \<in> set seen. (ro \<longrightarrow> md_uid md = 0) \<and> md_mode md AND 18 = 0"
  using assms by (auto simp: trusted_open_def trusted_metadata_def dest!: trusted_walk_metadata)

lemma trusted_open_last:
  assumes "trusted_open S path ro dr pv w seen f w'"
  shows "seen \<noteq> [] \<and> trusted_metadata ro dr pv (last seen)"
  using assms by (auto simp: trusted_open_def)

end
