(* ===== verification/Helper_Lib.thy ===== *)
theory Helper_Lib
  imports Messages System
begin

text \<open>
  What the modules of the helper share: its constants, the errors that \<open>Box<dyn Error>\<close> stands
  for, the wall clock, and the third-party functions it calls, as the fields of \<open>helper_lib\<close>
  (an extension of \<open>crypto\<close>).
\<close>

section \<open>Constants and errors\<close>

definition EXIT_APPROVED :: int where "EXIT_APPROVED = 0"
definition EXIT_UNAVAILABLE :: int where "EXIT_UNAVAILABLE = 10"
definition EXIT_CANCELLED :: int where "EXIT_CANCELLED = 11"
definition EXIT_FAILED :: int where "EXIT_FAILED = 12"
definition EXIT_DENIED :: int where "EXIT_DENIED = 20"
definition EXIT_TAMPER :: int where "EXIT_TAMPER = 30"
definition EXIT_UNSAFE_CONFIG :: int where "EXIT_UNSAFE_CONFIG = 31"
definition EXIT_PROTOCOL :: int where "EXIT_PROTOCOL = 32"

lemmas exit_code_defs = EXIT_APPROVED_def EXIT_UNAVAILABLE_def EXIT_CANCELLED_def EXIT_FAILED_def
  EXIT_DENIED_def EXIT_TAMPER_def EXIT_UNSAFE_CONFIG_def EXIT_PROTOCOL_def

definition MAX_FRAME_LEN :: nat where
  "MAX_FRAME_LEN = 1024 * 1024"

datatype helper_error =
    IoError io_error
  | ProtocolFailure ProtocolError
  | Message string
  | HexError string
  | TomlError string
  | JsonError string
  | TimeError

section \<open>Configuration data\<close>

record HelperConfig =
  cfg_socket_path :: "string option"
  cfg_host_key_file :: "string option"
  cfg_agent_pubkey_file :: "string option"
  cfg_key_id :: "string option"
  cfg_host_id :: "string option"
  cfg_hostname :: "string option"
  cfg_service :: "string option"
  cfg_timeout_ms :: "u64 option"
  cfg_allowed_future_skew_ms :: "u64 option"
  cfg_replay_cache_dir :: "string option"

definition default_config :: HelperConfig where
  "default_config =
    \<lparr>cfg_socket_path = None, cfg_host_key_file = None, cfg_agent_pubkey_file = None,
     cfg_key_id = None, cfg_host_id = None, cfg_hostname = None, cfg_service = None,
     cfg_timeout_ms = None, cfg_allowed_future_skew_ms = None, cfg_replay_cache_dir = None\<rparr>"

section \<open>Third-party functions\<close>

text \<open>The values that commands print as JSON.\<close>

datatype json_field = JsonText string | JsonRequest SignedAuthRequest | JsonResponse SignedAuthResponse

datatype json_value = JsonSigned SignedAuthRequest | JsonObject "(string \<times> json_field) list"

text \<open>
  \<open>hex\<close>, \<open>serde_json\<close> at the two message types, and \<open>toml\<close> at the configuration type. The error
  values are the libraries' messages.
\<close>

record helper_lib = crypto +
  hex_encode :: "bytes \<Rightarrow> string"
  hex_decode :: "string \<Rightarrow> (bytes, string) result"
  json_of_request :: "SignedAuthRequest \<Rightarrow> (bytes, string) result"
  json_of_response :: "SignedAuthResponse \<Rightarrow> (bytes, string) result"
  json_to_request :: "bytes \<Rightarrow> (SignedAuthRequest, string) result"
  json_to_response :: "bytes \<Rightarrow> (SignedAuthResponse, string) result"
  toml_to_config :: "string \<Rightarrow> (HelperConfig, string) result"
  json_pretty :: "json_value \<Rightarrow> (string, string) result"

text \<open>Documented behaviour of \<open>hex\<close>: lower-case digits, two per byte, and decoding inverts it.\<close>

definition hex_lawful :: "'z helper_lib_scheme \<Rightarrow> bool" where
  "hex_lawful L \<longleftrightarrow>
    (\<forall>b. hex_decode L (hex_encode L b) = Ok b \<and> length (hex_encode L b) = 2 * length b \<and>
      (\<forall>c \<in> set (hex_encode L b). c \<in> set ''0123456789abcdef''))"

section \<open>The wall clock\<close>

definition unix_time_ms :: "'w sys \<Rightarrow> 'w \<Rightarrow> (u64, helper_error) result \<times> 'w" where
  "unix_time_ms S w =
    (case sys_time_now S w of (t, w) \<Rightarrow>
      if t < 0 then (Err TimeError, w)
      else let ms = as_millis (nat t)
        in if ms < 2 ^ 64 then (Ok (word_of_nat ms), w) else (Err TimeError, w))"

end
