(* ===== verification/Keys.thy ===== *)
theory Keys
  imports Trust Helper_Lib
begin

text \<open>
  Key material in \<open>crates/helper/src/main.rs\<close>: trusted files, the key file format, loading of
  signing and public keys, and the writers of key files. A \<open>SigningKey\<close> is its 32 secret
  bytes.
\<close>

section \<open>Reading\<close>

definition read_trusted_file ::
    "'w sys \<Rightarrow> string \<Rightarrow> bool \<Rightarrow> bool \<Rightarrow> 'w \<Rightarrow> (string, helper_error) result \<times> 'w" where
  "read_trusted_file S path root_owned private w =
    bind_w (map_err_w IoError (open_trusted S path root_owned False private w)) (\<lambda>f w.
    bind_w (map_err_w IoError (read_to_string S f (MAX_FRAME_LEN + 1) w)) (\<lambda>contents w.
      if length contents > MAX_FRAME_LEN then (Err (Message ''trusted file is too large''), w)
      else (Ok contents, w)))"

text \<open>The loop of \<open>read_key_material\<close> over the lines of the file.\<close>

fun key_material_of_lines :: "string list \<Rightarrow> string option" where
  "key_material_of_lines [] = None"
| "key_material_of_lines (raw_line # rest) =
    (let line = trim raw_line
     in if line = [] \<or> hd line = CHR ''#'' then key_material_of_lines rest
        else (case split_once (CHR ''='') line of
                Some (_, v) \<Rightarrow> Some (trim v)
              | None \<Rightarrow> Some line))"

definition read_key_material ::
    "'w sys \<Rightarrow> string \<Rightarrow> bool \<Rightarrow> bool \<Rightarrow> 'w \<Rightarrow> (string, helper_error) result \<times> 'w" where
  "read_key_material S path root_owned private w =
    bind_w (read_trusted_file S path root_owned private w) (\<lambda>contents w.
      (ok_or (key_material_of_lines (lines contents))
         (Message (''key file '' @ path @ '' does not contain key material'')), w))"

definition signing_key_from_hex ::
    "'z helper_lib_scheme \<Rightarrow> string \<Rightarrow> (bytes, helper_error) result" where
  "signing_key_from_hex L key_hex =
    and_then (map_err HexError (hex_decode L (trim key_hex))) (\<lambda>key_bytes.
      if length key_bytes = 32 then Ok key_bytes
      else Err (Message ''Ed25519 private key must be exactly 32 bytes''))"

definition load_signing_key ::
    "'z helper_lib_scheme \<Rightarrow> 'w sys \<Rightarrow> string option \<Rightarrow> string option \<Rightarrow> bool \<Rightarrow> 'w \<Rightarrow>
     (bytes, helper_error) result \<times> 'w" where
  "load_signing_key L S key_hex key_file root_owned w =
    (case (key_hex, key_file) of
       (Some h, None) \<Rightarrow>
         if \<not> root_owned then (signing_key_from_hex L h, w)
         else (Err (Message ''production requires a trusted private key file, not inline hex''), w)
     | (None, Some path) \<Rightarrow>
         bind_w (read_key_material S path root_owned True w) (\<lambda>material w.
           (signing_key_from_hex L material, w))
     | (None, None) \<Rightarrow>
         (Err (Message ''missing private key; provide --key-hex or --key-file''), w)
     | (Some _, Some _) \<Rightarrow>
         (Err (Message ''provide only one of --key-hex or --key-file''), w))"

definition load_required_signing_key ::
    "'z helper_lib_scheme \<Rightarrow> 'w sys \<Rightarrow> string option \<Rightarrow> string option \<Rightarrow> 'w \<Rightarrow>
     (bytes, helper_error) result \<times> 'w" where
  "load_required_signing_key L S key_hex key_file w = load_signing_key L S key_hex key_file False w"

definition signing_key_from_file ::
    "'z helper_lib_scheme \<Rightarrow> 'w sys \<Rightarrow> string \<Rightarrow> 'w \<Rightarrow> (bytes, helper_error) result \<times> 'w" where
  "signing_key_from_file L S path w =
    bind_w (read_key_material S path False True w) (\<lambda>material w.
      (signing_key_from_hex L material, w))"

definition load_optional_signing_key ::
    "'z helper_lib_scheme \<Rightarrow> 'w sys \<Rightarrow> string option \<Rightarrow> string option \<Rightarrow> 'w \<Rightarrow>
     (bytes, helper_error) result \<times> 'w" where
  "load_optional_signing_key L S key_hex key_file w =
    (case (key_hex, key_file) of
       (Some h, None) \<Rightarrow> (signing_key_from_hex L h, w)
     | (None, Some path) \<Rightarrow> signing_key_from_file L S path w
     | (None, None) \<Rightarrow> (case sys_generate_key S w of (k, w) \<Rightarrow> (Ok k, w))
     | (Some _, Some _) \<Rightarrow>
         (Err (Message ''provide only one of --key-hex or --key-file''), w))"

definition load_public_key ::
    "'z helper_lib_scheme \<Rightarrow> 'w sys \<Rightarrow> string option \<Rightarrow> string option \<Rightarrow> string \<Rightarrow> bool \<Rightarrow> 'w \<Rightarrow>
     (bytes, helper_error) result \<times> 'w" where
  "load_public_key L S key_hex key_file label root_owned w =
    bind_w
      (case (key_hex, key_file) of
         (Some h, None) \<Rightarrow>
           if \<not> root_owned then (Ok (trim h), w)
           else (Err (Message ''production requires a trusted public key file, not inline hex''), w)
       | (None, Some path) \<Rightarrow> read_key_material S path root_owned False w
       | (None, None) \<Rightarrow> (Err (Message (''missing '' @ label @ ''; provide hex or file'')), w)
       | (Some _, Some _) \<Rightarrow> (Err (Message (''provide only one '' @ label @ '' source'')), w))
      (\<lambda>material w.
    bind_w (map_err HexError (hex_decode L material), w) (\<lambda>key_bytes w.
      if length key_bytes \<noteq> 32
        then (Err (Message (label @ '' must be exactly 32 bytes'')), w)
        else (Ok key_bytes, w)))"

definition load_required_public_key ::
    "'z helper_lib_scheme \<Rightarrow> 'w sys \<Rightarrow> string option \<Rightarrow> string option \<Rightarrow> string \<Rightarrow> 'w \<Rightarrow>
     (bytes, helper_error) result \<times> 'w" where
  "load_required_public_key L S key_hex key_file label w =
    load_public_key L S key_hex key_file label False w"

section \<open>Writing\<close>

definition private_key_line :: "string \<Rightarrow> string" where
  "private_key_line private_key_hex = ''private_key_hex='' @ private_key_hex @ [newline]"

definition public_key_line :: "string \<Rightarrow> string" where
  "public_key_line public_key_hex = ''public_key_hex='' @ public_key_hex @ [newline]"

definition write_private_key_file ::
    "'w sys \<Rightarrow> string \<Rightarrow> string \<Rightarrow> 'w \<Rightarrow> (unit, helper_error) result \<times> 'w" where
  "write_private_key_file S path private_key_hex w =
    bind_w (map_err_w IoError (sys_create_new S path 0x180 w)) (\<lambda>f w.
      map_err_w IoError (sys_write_all S f (as_bytes (private_key_line private_key_hex)) w))"

definition write_public_key_file ::
    "'w sys \<Rightarrow> string \<Rightarrow> string \<Rightarrow> 'w \<Rightarrow> (unit, helper_error) result \<times> 'w" where
  "write_public_key_file S path public_key_hex w =
    bind_w (map_err_w IoError (sys_create_new S path 0x1A4 w)) (\<lambda>f w.
      map_err_w IoError (sys_write_all S f (as_bytes (public_key_line public_key_hex)) w))"

section \<open>Lemmas\<close>

lemma hex_char_graphic: "c \<in> set ''0123456789abcdef'' \<Longrightarrow> graphic c"
  by (auto simp: graphic_def)

lemma hex_encode_graphic: "hex_lawful L \<Longrightarrow> list_all graphic (hex_encode L b)"
  by (simp add: hex_lawful_def list_all_iff hex_char_graphic)

lemma trim_graphic: "list_all graphic s \<Longrightarrow> trim s = s"
  by (rule trim_graphic_ends) (cases s; auto simp: list_all_iff)

lemma split_once_first:
  "c \<notin> set a \<Longrightarrow> split_once c (a @ c # b) = Some (a, b)"
  by (auto simp: split_once_def takeWhile_append dropWhile_append)

text \<open>A line of the form \<open>label=value\<close> is read back as its value.\<close>

lemma key_line_material:
  assumes "list_all graphic label" and "label \<noteq> []" and "CHR ''='' \<notin> set label"
    and "hd label \<noteq> CHR ''#''" and "list_all graphic v"
  shows "key_material_of_lines (lines ((label @ ''='' @ v) @ [newline])) = Some v"
proof -
  let ?l = "label @ ''='' @ v"
  have g: "list_all graphic ?l" using assms by (simp add: graphic_def)
  then have "newline \<notin> set ?l" by (auto simp: list_all_iff dest: graphic_not_newline)
  moreover have "graphic (last ?l)" using g by (auto simp: list_all_iff)
  ultimately have "lines (?l @ [newline]) = [?l]"
    using lines_Cons_line [of ?l "[]"] by (simp add: lines.simps [of "[]"] strip_cr_graphic)
  moreover have "trim ?l = ?l" using g by (rule trim_graphic)
  ultimately show ?thesis
    using assms split_once_first [of "CHR ''=''" label v] by (simp add: trim_graphic)
qed

text \<open>The key files that the helper writes hold the key they were written for.\<close>

lemma key_line_ascii:
  assumes "list_all graphic v"
  shows "list_all is_ascii (private_key_line v)" and "list_all is_ascii (public_key_line v)"
proof -
  have "list_all is_ascii v" using assms by (auto simp: list_all_iff graphic_ascii)
  then show "list_all is_ascii (private_key_line v)" "list_all is_ascii (public_key_line v)"
    by (simp_all add: private_key_line_def public_key_line_def is_ascii_def newline_def)
qed

lemma written_key_material:
  assumes "list_all graphic v"
  shows "key_material_of_lines (lines (private_key_line v)) = Some v"
    and "key_material_of_lines (lines (public_key_line v)) = Some v"
  using key_line_material [of "''private_key_hex''" v] key_line_material [of "''public_key_hex''" v]
    assms by (simp_all add: private_key_line_def public_key_line_def graphic_def)

lemma read_trusted_file_Ok:
  "read_trusted_file S path ro pv w = (Inr contents, w') \<Longrightarrow>
    \<exists>f w1. open_trusted S path ro False pv w = (Inr f, w1) \<and>
      read_to_string S f (MAX_FRAME_LEN + 1) w1 = (Inr contents, w') \<and>
      length contents \<le> MAX_FRAME_LEN"
  by (auto simp: read_trusted_file_def result_simps split: if_splits)

lemma load_signing_key_root_owned:
  assumes "load_signing_key L S key_hex key_file True w = (Inr key, w')"
  shows "\<exists>path contents material. key_hex = None \<and> key_file = Some path \<and>
    read_trusted_file S path True True w = (Inr contents, w') \<and>
    key_material_of_lines (lines contents) = Some material \<and>
    hex_decode L (trim material) = Ok key \<and> length key = 32"
  using assms
  by (auto simp: load_signing_key_def read_key_material_def signing_key_from_hex_def result_simps
      split: option.splits if_splits)

lemma load_public_key_root_owned:
  assumes "load_public_key L S key_hex key_file label True w = (Inr key, w')"
  shows "\<exists>path contents material. key_hex = None \<and> key_file = Some path \<and>
    read_trusted_file S path True False w = (Inr contents, w') \<and>
    key_material_of_lines (lines contents) = Some material \<and>
    hex_decode L material = Ok key \<and> length key = 32"
  using assms
  by (auto simp: load_public_key_def read_key_material_def result_simps
      split: option.splits if_splits)

lemma load_key_length:
  "load_signing_key L S key_hex key_file ro w = (Inr key, w') \<Longrightarrow> length key = 32"
  "load_public_key L S key_hex key_file label ro w = (Inr key, w') \<Longrightarrow> length key = 32"
  by (auto simp: load_signing_key_def load_public_key_def read_key_material_def
      signing_key_from_hex_def result_simps split: option.splits if_splits)

section \<open>Text that root controls\<close>

text \<open>
  \<open>text\<close> was read from a regular file reached through root-owned objects that nobody else can
  write; a private file grants nothing to group and others.
\<close>

definition root_controlled :: "'w sys \<Rightarrow> string \<Rightarrow> bool \<Rightarrow> string \<Rightarrow> bool" where
  "root_controlled S path private contents \<longleftrightarrow>
    (\<exists>w seen f w1 w2. trusted_open S path True False private w seen f w1 \<and>
      read_to_string S f (MAX_FRAME_LEN + 1) w1 = (Ok contents, w2) \<and>
      (\<forall>md \<in> set seen. md_uid md = 0 \<and> md_mode md AND 18 = 0) \<and>
      (private \<longrightarrow> md_mode (last seen) AND 63 = 0))"

lemma read_trusted_file_root:
  assumes "read_trusted_file S path True private w = (Inr contents, w')"
  shows "root_controlled S path private contents"
proof -
  from read_trusted_file_Ok [OF assms] obtain f w1 seen
    where s: "trusted_open S path True False private w seen f w1"
      and r: "read_to_string S f (MAX_FRAME_LEN + 1) w1 = (Inr contents, w')"
    by (auto simp: open_trusted_Ok)
  with trusted_open_seen [OF s] trusted_open_last [OF s] show ?thesis
    unfolding root_controlled_def trusted_metadata_def by metis
qed

end
