(* ===== verification/Config.thy ===== *)
theory Config
  imports Keys
begin

text \<open>
  The configuration of the helper in \<open>crates/helper/src/main.rs\<close>: loading it
  (\<open>load_helper_config\<close>), the budget of one operation (\<open>operation_budget\<close>), the checks of
  \<open>validate_config_fields\<close>, and the generator \<open>prepare_config\<close>. A \<open>toml::Table\<close> is a value of an
  arbitrary type \<open>'t\<close> with the operations of \<open>toml_lib\<close>.
\<close>

section \<open>Loading\<close>

definition load_helper_config ::
    "'z helper_lib_scheme \<Rightarrow> 'w sys \<Rightarrow> string option \<Rightarrow> bool \<Rightarrow> 'w \<Rightarrow>
     (HelperConfig, helper_error) result \<times> 'w" where
  "load_helper_config L S path root_owned w =
    (case path of
       None \<Rightarrow> (Ok default_config, w)
     | Some path \<Rightarrow>
        bind_w (read_trusted_file S path root_owned False w) (\<lambda>contents w.
          (map_err TomlError (toml_to_config L contents), w)))"

section \<open>The budget of an operation\<close>

definition operation_budget ::
    "'w sys \<Rightarrow> u64 \<Rightarrow> u64 \<Rightarrow> 'w \<Rightarrow> (instant \<times> u64, string) result \<times> 'w" where
  "operation_budget S timeout_ms now_ms w =
    (if timeout_ms = 0 then (Err ''timeout_ms must be positive'', w)
     else bind_w (ok_or (checked_add now_ms timeout_ms) ''timeout_ms overflows request expiry'', w)
       (\<lambda>expiry w. case sys_instant_now S w of (t, w) \<Rightarrow>
         bind_w (ok_or (instant_checked_add t (duration_from_millis timeout_ms))
                   ''timeout_ms overflows operation deadline'', w)
           (\<lambda>deadline w. (Ok (deadline, expiry), w))))"

section \<open>Validation\<close>

definition plain_path :: "string \<Rightarrow> bool" where
  "plain_path path \<longleftrightarrow> is_absolute path \<and> \<not> has_parent_component path"

definition bad_path :: "string \<Rightarrow> helper_error" where
  "bad_path field = Message (field @ '' must be absolute without parent components'')"

fun require_paths :: "(string \<times> string option) list \<Rightarrow> (unit, helper_error) result" where
  "require_paths [] = Ok ()"
| "require_paths ((field, path) # rest) =
    and_then (ok_or path (Message (field @ '' is required''))) (\<lambda>path.
      if \<not> plain_path path then Err (bad_path field) else require_paths rest)"

definition is_blank :: "string \<Rightarrow> bool" where
  "is_blank s \<longleftrightarrow> trim s = []"

fun require_settings :: "(string \<times> string option) list \<Rightarrow> (unit, helper_error) result" where
  "require_settings [] = Ok ()"
| "require_settings ((field, setting) # rest) =
    (if (case setting of None \<Rightarrow> True | Some s \<Rightarrow> is_blank s)
       then Err (Message (field @ '' is required and must not be empty''))
     else require_settings rest)"

definition validate_config_fields ::
    "'w sys \<Rightarrow> HelperConfig \<Rightarrow> 'w \<Rightarrow> (unit, helper_error) result \<times> 'w" where
  "validate_config_fields S config w =
    bind_w (require_paths
        [(''socket_path'', cfg_socket_path config),
         (''host_key_file'', cfg_host_key_file config),
         (''agent_pubkey_file'', cfg_agent_pubkey_file config)], w) (\<lambda>_ w.
    bind_w (require_settings
        [(''host_id'', cfg_host_id config),
         (''hostname'', cfg_hostname config),
         (''key_id'', Some (unwrap_or (cfg_key_id config) ''host-key-1'')),
         (''service'', Some (unwrap_or (cfg_service config) ''sudo''))], w) (\<lambda>_ w.
    bind_w (unix_time_ms S w) (\<lambda>now w.
    bind_w (map_err_w Message
        (operation_budget S (unwrap_or (cfg_timeout_ms config) 15000) now w)) (\<lambda>_ w.
    (Ok (), w)))))"

section \<open>Generating a configuration\<close>

record 't toml_lib =
  table_new :: 't
  table_parse :: "string \<Rightarrow> ('t, string) result"
  table_insert :: "string \<Rightarrow> string \<Rightarrow> 't \<Rightarrow> 't"
  table_contains_key :: "'t \<Rightarrow> string \<Rightarrow> bool"
  table_to_string_pretty :: "'t \<Rightarrow> (string, string) result"

record PrepareConfigArgs =
  pc_source :: "string option"
  pc_socket :: string
  pc_host_key_file :: string
  pc_agent_pubkey_file :: string
  pc_host_id :: "string option"
  pc_hostname :: "string option"
  pc_replay_cache_dir :: "string option"

text \<open>\<open>Path::to_str\<close>.\<close>

definition to_str :: "string \<Rightarrow> (string, helper_error) result" where
  "to_str path = ok_or (from_utf8 (as_bytes path)) (Message ''path is not UTF-8'')"

definition insert_path ::
    "'t toml_lib \<Rightarrow> string \<Rightarrow> string \<Rightarrow> 't \<Rightarrow> ('t, helper_error) result" where
  "insert_path T field path v =
    (if \<not> plain_path path then Err (bad_path field)
     else and_then (to_str path) (\<lambda>s. Ok (table_insert T field s v)))"

fun insert_paths ::
    "'t toml_lib \<Rightarrow> (string \<times> string) list \<Rightarrow> 't \<Rightarrow> ('t, helper_error) result" where
  "insert_paths T [] v = Ok v"
| "insert_paths T ((field, path) # rest) v =
    and_then (insert_path T field path v) (insert_paths T rest)"

fun insert_settings :: "'t toml_lib \<Rightarrow> (string \<times> string option) list \<Rightarrow> 't \<Rightarrow> 't" where
  "insert_settings T [] v = v"
| "insert_settings T ((field, setting) # rest) v =
    insert_settings T rest (case setting of None \<Rightarrow> v | Some s \<Rightarrow> table_insert T field s v)"

definition relocate_replay_cache ::
    "'t toml_lib \<Rightarrow> string option \<Rightarrow> 't \<Rightarrow> ('t, helper_error) result" where
  "relocate_replay_cache T dir v =
    (if table_contains_key T v ''replay_cache_dir'' then
       and_then (ok_or dir (Message ''existing replay cache requires --replay-cache-dir relocation''))
         (\<lambda>path. insert_path T ''replay_cache_dir'' path v)
     else Ok v)"

definition load_source ::
    "'t toml_lib \<Rightarrow> 'w sys \<Rightarrow> string option \<Rightarrow> 'w \<Rightarrow> ('t, helper_error) result \<times> 'w" where
  "load_source T S source w =
    (case source of
       None \<Rightarrow> (Ok (table_new T), w)
     | Some path \<Rightarrow>
        bind_w (read_trusted_file S path False False w) (\<lambda>contents w.
          (map_err TomlError (table_parse T contents), w)))"

definition prepare_config ::
    "'t toml_lib \<Rightarrow> 'z helper_lib_scheme \<Rightarrow> 'w sys \<Rightarrow> PrepareConfigArgs \<Rightarrow> 'w \<Rightarrow>
     (string, helper_error) result \<times> 'w" where
  "prepare_config T L S args w =
    bind_w (load_source T S (pc_source args) w) (\<lambda>v w.
    bind_w (insert_paths T
        [(''socket_path'', pc_socket args),
         (''host_key_file'', pc_host_key_file args),
         (''agent_pubkey_file'', pc_agent_pubkey_file args)] v, w) (\<lambda>v w.
    let v = insert_settings T
        [(''host_id'', pc_host_id args), (''hostname'', pc_hostname args)] v in
    bind_w (relocate_replay_cache T (pc_replay_cache_dir args) v, w) (\<lambda>v w.
    bind_w (map_err TomlError (table_to_string_pretty T v), w) (\<lambda>contents w.
    bind_w (map_err TomlError (toml_to_config L contents), w) (\<lambda>config w.
    bind_w (validate_config_fields S config w) (\<lambda>_ w.
    (Ok contents, w)))))))"

section \<open>What validation establishes\<close>

text \<open>The specification of a usable configuration.\<close>

definition usable_config :: "HelperConfig \<Rightarrow> bool" where
  "usable_config c \<longleftrightarrow>
    (\<forall>p \<in> {cfg_socket_path c, cfg_host_key_file c, cfg_agent_pubkey_file c}.
      \<exists>q. p = Some q \<and> plain_path q) \<and>
    (\<forall>s \<in> {cfg_host_id c, cfg_hostname c}. \<exists>t. s = Some t \<and> \<not> is_blank t) \<and>
    (\<forall>s \<in> {cfg_key_id c, cfg_service c}. \<forall>t. s = Some t \<longrightarrow> \<not> is_blank t) \<and>
    cfg_timeout_ms c \<noteq> Some 0"

lemma require_paths_Ok:
  "require_paths fs = Ok u \<longleftrightarrow> (\<forall>(n, p) \<in> set fs. \<exists>q. p = Some q \<and> plain_path q)"
  by (induction fs rule: require_paths.induct) (auto simp: result_simps)

lemma require_settings_Ok:
  "require_settings fs = Ok u \<longleftrightarrow> (\<forall>(n, s) \<in> set fs. \<exists>t. s = Some t \<and> \<not> is_blank t)"
  by (induction fs rule: require_settings.induct) (auto split: option.splits)

lemma operation_budget_Ok:
  "operation_budget S timeout now w = (Inr (deadline, expiry), w') \<longleftrightarrow>
    timeout \<noteq> 0 \<and> unat expiry = unat now + unat timeout \<and>
    (\<exists>t. sys_instant_now S w = (t, w') \<and> deadline = t + unat timeout * 1000000 \<and>
      deadline \<le> INSTANT_MAX)"
proof -
  obtain t w1 where "sys_instant_now S w = (t, w1)" by fastforce
  then show ?thesis
    by (auto simp: operation_budget_def result_simps checked_add_Some_iff instant_checked_add_def
        duration_from_millis_def split: if_splits)
qed

lemma validate_config_fields_Ok:
  assumes "validate_config_fields S c w = (Inr u, w')"
  shows "usable_config c"
proof -
  from assms have "unwrap_or (cfg_timeout_ms c) 15000 \<noteq> 0"
    by (auto simp: validate_config_fields_def result_simps operation_budget_def split: if_splits)
  with assms show ?thesis
    by (auto simp: validate_config_fields_def usable_config_def result_simps require_paths_Ok
        require_settings_Ok simp del: require_paths.simps require_settings.simps)
qed

section \<open>What a generated configuration holds\<close>

text \<open>
  Documented behaviour of \<open>toml\<close>: \<open>get\<close> reads the string entries of a table, \<open>insert\<close> sets one,
  and a configuration read back from the text of a table has the table's entries.
\<close>

definition toml_lawful :: "'t toml_lib \<Rightarrow> 'z helper_lib_scheme \<Rightarrow> ('t \<Rightarrow> string \<rightharpoonup> string) \<Rightarrow> bool" where
  "toml_lawful T L get \<longleftrightarrow>
    (\<forall>k v t. get (table_insert T k v t) = (get t)(k \<mapsto> v)) \<and>
    (\<forall>t k. get t k \<noteq> None \<longrightarrow> table_contains_key T t k) \<and>
    (\<forall>t s c. table_to_string_pretty T t = Ok s \<and> toml_to_config L s = Ok c \<longrightarrow>
      cfg_socket_path c = get t ''socket_path'' \<and>
      cfg_host_key_file c = get t ''host_key_file'' \<and>
      cfg_agent_pubkey_file c = get t ''agent_pubkey_file'' \<and>
      cfg_host_id c = get t ''host_id'' \<and> cfg_hostname c = get t ''hostname'' \<and>
      cfg_replay_cache_dir c = get t ''replay_cache_dir'')"

lemma to_str_Ok: "to_str path = Ok s \<Longrightarrow> s = path"
  by (auto simp: to_str_def result_simps from_utf8_def split: if_splits)

lemma insert_path_Ok:
  "insert_path T field path v = Ok v' \<Longrightarrow> plain_path path \<and> v' = table_insert T field path v"
  by (auto simp: insert_path_def result_simps dest!: to_str_Ok split: if_splits)

lemma relocate_replay_cache_Ok:
  assumes "relocate_replay_cache T dir v = Ok v'"
  shows "(\<not> table_contains_key T v ''replay_cache_dir'' \<and> v' = v) \<or>
    (\<exists>path. dir = Some path \<and> plain_path path \<and> v' = table_insert T ''replay_cache_dir'' path v)"
  using assms by (auto simp: relocate_replay_cache_def result_simps dest!: insert_path_Ok split: if_splits)

lemma insert_paths_Ok:
  "insert_paths T fs v = Ok v' \<Longrightarrow>
    v' = fold (\<lambda>(field, path). table_insert T field path) fs v \<and> (\<forall>(field, path) \<in> set fs. plain_path path)"
  by (induction fs arbitrary: v) (fastforce simp: result_simps dest!: insert_path_Ok)+

lemma prepare_config_Ok:
  assumes "prepare_config T L S args w = (Inr contents, w')"
  obtains v0 v1 v c w1 w2 where "load_source T S (pc_source args) w = (Inr v0, w1)"
    and "insert_paths T [(''socket_path'', pc_socket args),
           (''host_key_file'', pc_host_key_file args),
           (''agent_pubkey_file'', pc_agent_pubkey_file args)] v0 = Ok v1"
    and "relocate_replay_cache T (pc_replay_cache_dir args)
           (insert_settings T [(''host_id'', pc_host_id args), (''hostname'', pc_hostname args)] v1) =
         Ok v"
    and "table_to_string_pretty T v = Ok contents" and "toml_to_config L contents = Ok c"
    and "validate_config_fields S c w2 = (Inr (), w')"
  using assms by (auto simp: prepare_config_def Let_def result_simps)

end
