(* ===== verification/Replay.thy ===== *)
theory Replay
  imports Keys
begin

text \<open>
  Replay protection (\<open>record_replay_marker\<close> of \<open>crates/helper/src/main.rs\<close> over
  \<open>cleanup_markers\<close> and \<open>create_marker\<close> of \<open>trust.rs\<close>): an accepted response leaves a marker
  named by the hash of its signature. \<open>marker_directory\<close> states what the cache directory is
  relied on for; under it an unexpired marker survives cleanup and blocks its response.
\<close>

section \<open>Recording a response\<close>

definition marker_name_of :: "'z helper_lib_scheme \<Rightarrow> SignedAuthResponse \<Rightarrow> string" where
  "marker_name_of L response = hex_encode L (sha256_digest L (srs_signature response))"

definition marker_line :: "u64 \<Rightarrow> string" where
  "marker_line expiry = ''expires_at_ms='' @ show_nat (unat expiry) @ [newline]"

definition record_replay_marker ::
    "'z helper_lib_scheme \<Rightarrow> 'w sys \<Rightarrow> fd \<Rightarrow> SignedAuthResponse \<Rightarrow> 'w \<Rightarrow>
     ((unit, helper_error) result \<times> 'w) option" where
  "record_replay_marker L S replay_cache_dir response w =
    bind_io (Some (unix_time_ms S w)) (\<lambda>now w.
    bind_io (map_err_io IoError (cleanup_markers S replay_cache_dir now w)) (\<lambda>_ w.
    case create_marker S replay_cache_dir (marker_name_of L response) w of
      (Inl e, w) \<Rightarrow>
        Some (Err (if kind e = AlreadyExists then Message ''response replay detected''
                   else IoError e), w)
    | (Inr f, w) \<Rightarrow>
        Some (map_err_w IoError
          (sys_write_all S f (as_bytes (marker_line (rs_expires_at_ms (srs_body response)))) w))))"

section \<open>The text of a marker\<close>

lemma show_u64_length: "length (show_nat (unat (n :: u64))) \<le> 20"
proof -
  have "unat n < 2 ^ LENGTH(64)" by (rule unsigned_less)
  then have "unat n < 10 ^ Suc 19" by simp
  from length_show_nat [OF this] show ?thesis by simp
qed

lemma marker_line_short: "length (marker_line expiry) \<le> 128"
  using show_u64_length [of expiry] by (simp add: marker_line_def)

lemma parse_marker_line: "parse_expires_at_ms (marker_line expiry) = Some expiry"
proof -
  define d where "d = show_nat (unat expiry)"
  have d: "d \<noteq> []" "list_all is_digit d" using show_nat_digits by (simp_all add: d_def)
  then have graphic: "\<forall>c \<in> set d. graphic c" by (simp add: list_all_iff is_digit_graphic)
  let ?l = "''expires_at_ms='' @ d"
  have line: "newline \<notin> set ?l" "graphic (last ?l)" "graphic (hd ?l)"
    using d graphic by (auto dest: graphic_not_newline simp: newline_def) (simp_all add: graphic_def)
  have "marker_line expiry = ?l @ newline # []" by (simp add: marker_line_def d_def)
  then have "lines (marker_line expiry) = [?l]"
    using lines_Cons_line [OF line(1), of "[]"] line(2) by (simp add: strip_cr_graphic lines.simps)
  moreover have "trim ?l = ?l" using line by (intro trim_graphic_ends) simp
  moreover have "strip_prefix ''expires_at_ms='' ?l = Some d" by (simp add: strip_prefix_def)
  ultimately show ?thesis
    using parse_u64_show_nat [of expiry] by (simp add: parse_expires_at_ms_def d_def)
qed

lemma marker_line_expired: "marker_expired now (take 128 (marker_line expiry)) \<longleftrightarrow> expiry < now"
  using marker_line_short [of expiry] by (simp add: marker_expired_def parse_marker_line)

section \<open>The cache directory\<close>

text \<open>
  \<open>files w\<close> is what the directory \<open>d\<close> holds and \<open>fds w\<close> the entry a descriptor refers to.
  Creation is exclusive, reading gives the contents, writing appends to the entry, unlinking
  removes at most the entry named, and the other calls leave the directory alone.
\<close>

type_synonym 'w files = "'w \<Rightarrow> string \<rightharpoonup> string"
type_synonym 'w handles = "'w \<Rightarrow> fd \<rightharpoonup> string"

definition creates_exclusively :: "'w sys \<Rightarrow> fd \<Rightarrow> 'w files \<Rightarrow> 'w handles \<Rightarrow> bool" where
  "creates_exclusively S d files fds \<longleftrightarrow>
    (\<forall>n flags mode w f w'. {O_CREAT, O_EXCL} \<subseteq> flags \<and>
      sys_openat_mode S d n flags mode w = (Inr f, w') \<longrightarrow>
      files w n = None \<and> files w' = (files w)(n \<mapsto> '''') \<and> fds w' f = Some n)"

definition reads_entries :: "'w sys \<Rightarrow> fd \<Rightarrow> 'w files \<Rightarrow> 'w handles \<Rightarrow> bool" where
  "reads_entries S d files fds \<longleftrightarrow>
    (\<forall>n w f w'. sys_openat S d n marker_read_flags w = (Inr f, w') \<longrightarrow> fds w' f = Some n) \<and>
    (\<forall>f w. fds (snd (sys_fstat S f w)) = fds w) \<and>
    (\<forall>f k w n c bs w'. sys_read_to_end S f k w = (Inr bs, w') \<and> fds w f = Some n \<and>
      files w n = Some c \<longrightarrow> bs = take k (as_bytes c))"

definition writes_entries :: "'w sys \<Rightarrow> 'w files \<Rightarrow> 'w handles \<Rightarrow> bool" where
  "writes_entries S files fds \<longleftrightarrow>
    (\<forall>f bs w w' n c. sys_write_all S f bs w = (Inr (), w') \<and> fds w f = Some n \<and>
      files w n = Some c \<longrightarrow> files w' = (files w)(n \<mapsto> c @ str_of_bytes bs))"

definition unlinks_entries :: "'w sys \<Rightarrow> fd \<Rightarrow> 'w files \<Rightarrow> bool" where
  "unlinks_entries S d files \<longleftrightarrow>
    (\<forall>n w. files (sys_unlinkat S d n w) \<in> {files w, (files w)(n := None)})"

definition leaves_entries :: "'w sys \<Rightarrow> fd \<Rightarrow> 'w files \<Rightarrow> bool" where
  "leaves_entries S d files \<longleftrightarrow>
    (\<forall>n w. files (snd (sys_openat S d n marker_read_flags w)) = files w) \<and>
    (\<forall>f w. files (snd (sys_fstat S f w)) = files w) \<and>
    (\<forall>f k w. files (snd (sys_read_to_end S f k w)) = files w) \<and>
    (\<forall>k w. files (snd (sys_readdir S k w)) = files w) \<and>
    (\<forall>k w. files (snd (sys_dup S k w)) = files w) \<and>
    (\<forall>k w. files (snd (sys_fdopendir S k w)) = files w) \<and>
    (\<forall>k w. files (sys_close S k w) = files w) \<and>
    (\<forall>k w. files (sys_closedir S k w) = files w) \<and>
    (\<forall>w. files (snd (sys_time_now S w)) = files w)"

definition marker_directory :: "'w sys \<Rightarrow> fd \<Rightarrow> 'w files \<Rightarrow> 'w handles \<Rightarrow> bool" where
  "marker_directory S d files fds \<longleftrightarrow>
    creates_exclusively S d files fds \<and> reads_entries S d files fds \<and>
    writes_entries S files fds \<and> unlinks_entries S d files \<and> leaves_entries S d files"

lemma directory_create:
  assumes "marker_directory S d files fds"
    and "sys_openat_mode S d n marker_create_flags 0x180 w = (Inr f, w')"
  shows "files w n = None" and "files w' = (files w)(n \<mapsto> '''')" and "fds w' f = Some n"
proof -
  have "{O_CREAT, O_EXCL} \<subseteq> marker_create_flags" by (simp add: marker_create_flags_def)
  with assms show "files w n = None" "files w' = (files w)(n \<mapsto> '''')" "fds w' f = Some n"
    unfolding marker_directory_def creates_exclusively_def by blast+
qed

lemma directory_leaves:
  assumes "marker_directory S d files fds"
  shows "sys_openat S d n marker_read_flags w = (a1, w') \<Longrightarrow> files w' = files w"
    and "sys_fstat S f w = (a2, w') \<Longrightarrow> files w' = files w"
    and "sys_read_to_end S f k w = (a3, w') \<Longrightarrow> files w' = files w"
    and "sys_readdir S k w = (a4, w') \<Longrightarrow> files w' = files w"
    and "sys_dup S k w = (a5, w') \<Longrightarrow> files w' = files w"
    and "sys_fdopendir S k w = (a6, w') \<Longrightarrow> files w' = files w"
    and "sys_time_now S w = (t, w') \<Longrightarrow> files w' = files w"
    and "files (sys_close S k w) = files w"
    and "files (sys_closedir S k w) = files w"
  using assms unfolding marker_directory_def leaves_entries_def by (metis snd_conv)+

lemma directory_reads:
  assumes "marker_directory S d files fds"
  shows "sys_openat S d n marker_read_flags w = (Inr f, w') \<Longrightarrow> fds w' f = Some n"
    and "sys_fstat S f w = (a2, w') \<Longrightarrow> fds w' = fds w"
    and "sys_read_to_end S f k w = (Inr bs, w') \<Longrightarrow> fds w f = Some n \<Longrightarrow> files w n = Some c \<Longrightarrow>
      bs = take k (as_bytes c)"
  using assms unfolding marker_directory_def reads_entries_def by (metis snd_conv)+

lemma directory_write:
  assumes "marker_directory S d files fds" and "sys_write_all S f bs w = (Inr u, w')"
    and "fds w f = Some n" and "files w n = Some c"
  shows "files w' = (files w)(n \<mapsto> c @ str_of_bytes bs)"
  using assms by (auto simp: marker_directory_def writes_entries_def)

lemma directory_unlink:
  assumes "marker_directory S d files fds"
  shows "files (sys_unlinkat S d n w) = files w \<or> files (sys_unlinkat S d n w) = (files w)(n := None)"
  using assms by (auto simp: marker_directory_def unlinks_entries_def)

section \<open>Cleanup removes expired markers only\<close>

lemma read_to_string_contents:
  assumes "marker_directory S d files fds" and "read_to_string S f k w = (r, w')"
  shows "files w' = files w"
    and "fds w f = Some n \<Longrightarrow> files w n = Some c \<Longrightarrow> r = Inr s \<Longrightarrow> s = take k c"
proof -
  obtain q w1 where q: "sys_read_to_end S f k w = (q, w1)" by fastforce
  with assms(2) have "w1 = w'" by (auto simp: read_to_string_def split: sum.splits)
  with q directory_leaves(3) [OF assms(1)] show "files w' = files w" by blast
  assume n: "fds w f = Some n" "files w n = Some c" and r: "r = Inr s"
  from r q assms(2) obtain bs where bs: "q = Inr bs" "s = str_of_bytes (take k bs)"
    by (auto simp: read_to_string_def result_simps from_utf8_def split: sum.splits if_splits)
  with q n have "bs = take k (as_bytes c)" using directory_reads(3) [OF assms(1)] by blast
  with bs show "s = take k c" by (simp add: take_map str_of_bytes_def as_bytes_def comp_def)
qed

lemma cleanup_entry_keeps:
  assumes dir: "marker_directory S d files fds"
    and n: "files w n = Some c" "\<not> (is_marker_name n \<and> marker_expired now (take 128 c))"
  shows "files (cleanup_entry S d now m w) n = Some c"
proof -
  obtain r w1 where o: "sys_openat S d m marker_read_flags w = (r, w1)" by fastforce
  note w1 = directory_leaves(1) [OF dir o]
  show ?thesis
  proof (cases "is_marker_name m \<and> (\<exists>f. r = Inr f)")
    case False
    with o w1 n show ?thesis by (cases r) (auto simp: cleanup_entry_def)
  next
    case True
    then obtain f where f: "is_marker_name m" "r = Inr f" by blast
    obtain md w2 where s: "sys_fstat S f w1 = (md, w2)" by fastforce
    note w2 = directory_leaves(2) [OF dir s] directory_reads(2) [OF dir s]
    obtain q w3 where q: "read_to_string S f 128 w2 = (q, w3)" by fastforce
    note w3 = read_to_string_contents(1) [OF dir q]
    have m: "s = take 128 c" if "m = n" "q = Inr s" for s
      using read_to_string_contents(2) [OF dir q, of n c s] that directory_reads(1) [OF dir, of m w f w1]
        o f w1 w2 n by simp
    have "files (sys_unlinkat S d m w3) n = Some c" if "q = Inr s" "marker_expired now s" for s
      using directory_unlink [OF dir, of m w3] m that f n w1 w2 w3 by auto
    with o f s q w1 w2 w3 n show ?thesis
      by (auto simp: cleanup_entry_def split: sum.splits)
  qed
qed

lemmas cleanup_loop_induct = cleanup_loop.raw_induct [rotated 1, consumes 1, case_names step]

lemma cleanup_loop_keeps:
  assumes "cleanup_loop S d dir now w = Some w'" and "marker_directory S d files fds"
    and "files w n = Some c" and "\<not> (is_marker_name n \<and> marker_expired now (take 128 c))"
  shows "files w' n = Some c"
  using assms
proof (induction rule: cleanup_loop_induct)
  case (step rec S d dir now w w')
  obtain e w1 where e: "sys_readdir S dir w = (e, w1)" by fastforce
  with step have w1: "files w1 n = Some c" by (metis directory_leaves(4))
  show ?case
  proof (cases e)
    case None
    with e step.hyps w1 show ?thesis by simp
  next
    case (Some m)
    with e step.hyps have "rec S d dir now (cleanup_entry S d now m w1) = Some w'" by simp
    then show ?thesis using step.IH step.prems w1 by (blast intro: cleanup_entry_keeps)
  qed
qed

lemma cleanup_markers_keeps:
  assumes "cleanup_markers S d now w = Some (r, w')" and dir: "marker_directory S d files fds"
    and n: "files w n = Some c" "\<not> (is_marker_name n \<and> marker_expired now (take 128 c))"
  shows "files w' n = Some c"
proof -
  obtain a w1 where a: "sys_dup S d w = (a, w1)" by fastforce
  have w1: "files w1 = files w" by (rule directory_leaves(5) [OF dir a])
  show ?thesis
  proof (cases a)
    case (Inl e)
    with assms(1) a w1 n show ?thesis by (auto simp: cleanup_markers_def)
  next
    case (Inr f)
    obtain b w2 where b: "sys_fdopendir S f w1 = (b, w2)" by fastforce
    with w1 have w2: "files w2 = files w" using directory_leaves(6) [OF dir b] by simp
    show ?thesis
      using assms(1) a b Inr w2 n cleanup_loop_keeps [OF _ dir, of _ now w2 _ n c]
        directory_leaves(8,9) [OF dir]
      by (cases b) (auto simp: cleanup_markers_def bind_eq_Some_conv)
  qed
qed

section \<open>Recording twice\<close>

lemma unix_time_ms_leaves:
  assumes "marker_directory S d files fds" and "unix_time_ms S w = (r, w')"
  shows "files w' = files w"
proof -
  obtain t w1 where t: "sys_time_now S w = (t, w1)" by fastforce
  with assms(2) have "w1 = w'" by (auto simp: unix_time_ms_def Let_def split: if_splits)
  with t directory_leaves(7) [OF assms(1)] show ?thesis by blast
qed

lemma record_replay_marker_Ok:
  assumes "record_replay_marker L S d response w = Some (Inr u, w')"
  obtains now w0 w1 f w2 where "unix_time_ms S w = (Inr now, w0)"
    and "cleanup_markers S d now w0 = Some (Inr (), w1)"
    and "sys_openat_mode S d (marker_name_of L response) marker_create_flags 0x180 w1 = (Inr f, w2)"
    and "sys_write_all S f (as_bytes (marker_line (rs_expires_at_ms (srs_body response)))) w2 = (Inr u, w')"
proof -
  from assms obtain now w0 w1 where t: "unix_time_ms S w = (Inr now, w0)"
      "cleanup_markers S d now w0 = Some (Inr (), w1)"
    and c: "(case create_marker S d (marker_name_of L response) w1 of
        (Inl e, w) \<Rightarrow> Some (Err (if kind e = AlreadyExists then Message ''response replay detected''
                   else IoError e), w)
      | (Inr f, w) \<Rightarrow> Some (map_err_w IoError
          (sys_write_all S f (as_bytes (marker_line (rs_expires_at_ms (srs_body response)))) w))) =
      Some (Inr u, w')"
    unfolding record_replay_marker_def by (auto simp: result_simps)
  obtain r w2 where "create_marker S d (marker_name_of L response) w1 = (r, w2)" by fastforce
  with t c that show thesis
    by (cases r) (auto simp: create_marker_def name_def result_simps split: if_splits)
qed

lemma recorded_marker:
  assumes "record_replay_marker L S d response w = Some (Inr u, w')"
    and dir: "marker_directory S d files fds"
  shows "files w' (marker_name_of L response) =
    Some (marker_line (rs_expires_at_ms (srs_body response)))"
  using assms(1)
proof (rule record_replay_marker_Ok)
  fix w1 f w2
  assume o: "sys_openat_mode S d (marker_name_of L response) marker_create_flags 0x180 w1 = (Inr f, w2)"
    and wr: "sys_write_all S f (as_bytes (marker_line (rs_expires_at_ms (srs_body response)))) w2 = (Inr u, w')"
  note c = directory_create [OF dir o]
  with directory_write [OF dir wr c(3)] show ?thesis by simp
qed

lemma marker_blocks:
  assumes "record_replay_marker L S d response w = Some (r, w')"
    and dir: "marker_directory S d files fds"
    and marker: "files w (marker_name_of L response) = Some (marker_line expiry)"
    and now: "unix_time_ms S w = (Ok now, w0)" "now \<le> expiry"
  shows "is_err r"
proof (rule ccontr)
  assume "\<not> is_err r"
  then obtain u where "r = Inr u" by (cases r) auto
  with assms(1) obtain q w1 f w2 where c: "cleanup_markers S d now w0 = Some (q, w1)" and
    o: "sys_openat_mode S d (marker_name_of L response) marker_create_flags 0x180 w1 = (Inr f, w2)"
    using now(1) by (auto elim!: record_replay_marker_Ok)
  have "files w0 (marker_name_of L response) = Some (marker_line expiry)"
    using unix_time_ms_leaves [OF dir now(1)] marker by simp
  then have "files w1 (marker_name_of L response) = Some (marker_line expiry)"
    by (rule cleanup_markers_keeps [OF c dir]) (use leD [OF now(2)] in \<open>simp add: marker_line_expired\<close>)
  with directory_create(1) [OF dir o] show False by simp
qed

section \<open>Cleanup ends\<close>

text \<open>\<open>M\<close> bounds the directory entries still to come.\<close>

definition listing_ends :: "'w sys \<Rightarrow> ('w \<Rightarrow> nat) \<Rightarrow> bool" where
  "listing_ends S M \<longleftrightarrow>
    (\<forall>k w n w'. sys_readdir S k w = (Some n, w') \<longrightarrow> M w' < M w) \<and>
    (\<forall>f n fl w. M (snd (sys_openat S f n fl w)) \<le> M w) \<and>
    (\<forall>f w. M (snd (sys_fstat S f w)) \<le> M w) \<and>
    (\<forall>f k w. M (snd (sys_read_to_end S f k w)) \<le> M w) \<and>
    (\<forall>f n w. M (sys_unlinkat S f n w) \<le> M w)"

lemma cleanup_entry_listing:
  assumes "listing_ends S M"
  shows "M (cleanup_entry S d now n w) \<le> M w"
proof -
  note le = assms [unfolded listing_ends_def]
  obtain r w1 where o: "sys_openat S d n marker_read_flags w = (r, w1)" by fastforce
  with le have w1: "M w1 \<le> M w" by (metis snd_conv)
  show ?thesis
  proof (cases r)
    case (Inl e)
    with o w1 show ?thesis by (simp add: cleanup_entry_def)
  next
    case (Inr f)
    obtain md w2 where s: "sys_fstat S f w1 = (md, w2)" by fastforce
    with le w1 have w2: "M w2 \<le> M w" by (metis snd_conv le_trans)
    obtain q w3 where q: "sys_read_to_end S f 128 w2 = (q, w3)" by fastforce
    with le w2 have w3: "M w3 \<le> M w" by (metis snd_conv le_trans)
    moreover have "M (sys_unlinkat S d n w3) \<le> M w" using le w3 by (meson le_trans)
    ultimately show ?thesis
      using o Inr s q w1 w2
      by (auto simp: cleanup_entry_def read_to_string_def split: sum.splits)
  qed
qed

lemma cleanup_loop_returns:
  assumes "listing_ends S M"
  shows "returns (cleanup_loop S d dir now w)"
proof (induction "M w" arbitrary: w rule: less_induct)
  case less
  obtain e w1 where e: "sys_readdir S dir w = (e, w1)" by fastforce
  show ?case
  proof (cases e)
    case None
    with e show ?thesis by (simp add: cleanup_loop.simps [of S])
  next
    case (Some n)
    with e assms have "M w1 < M w" by (simp add: listing_ends_def)
    with cleanup_entry_listing [OF assms, of d now n w1]
    have "M (cleanup_entry S d now n w1) < M w" by (rule le_less_trans)
    from less [OF this] e Some show ?thesis by (simp add: cleanup_loop.simps [of S _ _ _ w])
  qed
qed

lemma record_replay_marker_returns:
  assumes "listing_ends S M"
  shows "returns (record_replay_marker L S d response w)"
proof -
  have "returns (cleanup_markers S d now v)" for now v
  proof -
    have "cleanup_loop S d k now x \<noteq> None" for k x
      using cleanup_loop_returns [OF assms] unfolding returns_def .
    then show ?thesis
      by (auto simp: cleanup_markers_def returns_def bind_eq_Some_conv split: prod.splits sum.splits)
  qed
  then show ?thesis
    unfolding record_replay_marker_def by (auto split: prod.splits sum.splits)
qed

end
