(* ===== verification/Transport.thy ===== *)
theory Transport
  imports Helper_Lib
begin

text \<open>
  \<open>crates/helper/src/transport.rs\<close>: a socket whose every operation is bounded by one absolute
  deadline. Each loop of the source is a partial function; the lemmas say that a loop returns
  data only after a reading of the clock before the deadline, and that it returns at all when
  time passes.
\<close>

section \<open>Errors and the deadline\<close>

datatype TransportError = Timeout | TransportIo io_error | Json string | Oversized nat

definition transport_error_from :: "io_error \<Rightarrow> TransportError" where
  "transport_error_from e =
    (if kind e = TimedOut \<or> kind e = WouldBlock then Timeout else TransportIo e)"

definition check_deadline ::
    "'w sys \<Rightarrow> instant \<Rightarrow> 'w \<Rightarrow> (unit, TransportError) result \<times> 'w" where
  "check_deadline S deadline w =
    (case sys_instant_now S w of (t, w) \<Rightarrow> (if t \<ge> deadline then Err Timeout else Ok (), w))"

partial_function (option) wait ::
    "'w sys \<Rightarrow> fd \<Rightarrow> poll_event \<Rightarrow> instant \<Rightarrow> 'w \<Rightarrow> ((unit, io_error) result \<times> 'w) option" where
  "wait S stream events deadline w =
    (case sys_instant_now S w of (t, w) \<Rightarrow>
      (case checked_duration_since deadline t of
         None \<Rightarrow> Some (Err (Simple TimedOut), w)
       | Some remaining \<Rightarrow>
          if remaining = 0 then Some (Err (Simple TimedOut), w)
          else (case sys_poll S stream events (min (as_millis remaining + 1) (2 ^ 31 - 1)) w of
              (PollReady nval, w) \<Rightarrow> Some (if nval then Err (Os EBADF) else Ok (), w)
            | (PollTimeout, w) \<Rightarrow> wait S stream events deadline w
            | (PollFailed e, w) \<Rightarrow>
                if errno_kind e \<noteq> Interrupted then Some (Err (Os e), w)
                else wait S stream events deadline w)))"

section \<open>The stream\<close>

record DeadlineStream =
  ds_stream :: fd
  ds_deadline :: instant

definition SUN_PATH_LEN :: nat where
  "SUN_PATH_LEN = 108"

partial_function (option) connect_loop ::
    "'w sys \<Rightarrow> fd \<Rightarrow> string \<Rightarrow> instant \<Rightarrow> 'w \<Rightarrow> ((unit, TransportError) result \<times> 'w) option" where
  "connect_loop S fd path deadline w =
    (case check_deadline S deadline w of
       (Inl e, w) \<Rightarrow> Some (Err e, w)
     | (Inr _, w) \<Rightarrow> (case sys_connect S fd path w of
         (Inr _, w) \<Rightarrow> Some (Ok (), w)
       | (Inl e, w) \<Rightarrow>
          if e = EISCONN then Some (Ok (), w)
          else if e = EINTR then connect_loop S fd path deadline w
          else if e = EINPROGRESS \<or> e = EALREADY then
            Option.bind (wait S fd POLLOUT deadline w) (\<lambda>(r, w). case r of
                Inl e \<Rightarrow> Some (Err (transport_error_from e), w)
              | Inr _ \<Rightarrow> (case sys_take_error S fd w of
                  (Inl e, w) \<Rightarrow> Some (Err (transport_error_from e), w)
                | (Inr (Some e), w) \<Rightarrow> Some (Err (transport_error_from e), w)
                | (Inr None, w) \<Rightarrow> Some (Ok (), w)))
          else if e = EAGAIN then
            (case sys_instant_now S w of (t, w) \<Rightarrow>
              connect_loop S fd path deadline (sys_sleep S (min (deadline - t) 1000000) w))
          else Some (Err (transport_error_from (Os e)), w)))"

definition connect ::
    "'w sys \<Rightarrow> string \<Rightarrow> instant \<Rightarrow> 'w \<Rightarrow> ((DeadlineStream, TransportError) result \<times> 'w) option" where
  "connect S path deadline w =
    bind_io (Some (check_deadline S deadline w)) (\<lambda>_ w.
    if CHR 0x00 \<in> set path \<or> length path \<ge> SUN_PATH_LEN
      then Some (Err (transport_error_from (Custom InvalidInput ''invalid socket path'')), w)
    else
    bind_io (Some (map_err_w (transport_error_from \<circ> Os) (sys_socket S w))) (\<lambda>fd w.
    bind_io (Some (map_err_w (transport_error_from \<circ> Os) (sys_set_cloexec S fd w))) (\<lambda>_ w.
    bind_io (Some (map_err_w transport_error_from (sys_set_nonblocking S fd w))) (\<lambda>_ w.
    bind_io (connect_loop S fd path deadline w) (\<lambda>_ w.
    bind_io (Some (check_deadline S deadline w)) (\<lambda>_ w.
    Some (Ok \<lparr>ds_stream = fd, ds_deadline = deadline\<rparr>, w)))))))"

partial_function (option) transfer ::
    "'w sys \<Rightarrow> DeadlineStream \<Rightarrow> poll_event \<Rightarrow> ('w \<Rightarrow> ('a, io_error) result \<times> 'w) \<Rightarrow> 'w \<Rightarrow>
     (('a, io_error) result \<times> 'w) option" where
  "transfer S ds events operation w =
    (case check_deadline S (ds_deadline ds) w of
       (Inl _, w) \<Rightarrow> Some (Err (Simple TimedOut), w)
     | (Inr _, w) \<Rightarrow> (case operation w of
         (Inr x, w) \<Rightarrow> Some (Ok x, w)
       | (Inl e, w) \<Rightarrow>
          if kind e = Interrupted then transfer S ds events operation w
          else if kind e = WouldBlock then
            Option.bind (wait S (ds_stream ds) events (ds_deadline ds) w) (\<lambda>(r, w). case r of
                Inl e \<Rightarrow> Some (Err e, w)
              | Inr _ \<Rightarrow> transfer S ds events operation w)
          else Some (Err e, w)))"

text \<open>
  \<open>UnixStream::read\<close> fills at most the buffer it is given and \<open>write\<close> takes at most the bytes
  it is given.
\<close>

definition socket_read :: "'w sys \<Rightarrow> fd \<Rightarrow> nat \<Rightarrow> 'w \<Rightarrow> (bytes, io_error) result \<times> 'w" where
  "socket_read S fd n w =
    bind_w (sys_recv S fd n w) (\<lambda>bs w. (Ok (take n bs), w))"

definition socket_write :: "'w sys \<Rightarrow> fd \<Rightarrow> bytes \<Rightarrow> 'w \<Rightarrow> (nat, io_error) result \<times> 'w" where
  "socket_write S fd bs w =
    bind_w (sys_send S fd bs w) (\<lambda>n w. (Ok (min n (length bs)), w))"

definition stream_read ::
    "'w sys \<Rightarrow> DeadlineStream \<Rightarrow> nat \<Rightarrow> 'w \<Rightarrow> ((bytes, io_error) result \<times> 'w) option" where
  "stream_read S ds n w = transfer S ds POLLIN (socket_read S (ds_stream ds) n) w"

definition stream_write ::
    "'w sys \<Rightarrow> DeadlineStream \<Rightarrow> bytes \<Rightarrow> 'w \<Rightarrow> ((nat, io_error) result \<times> 'w) option" where
  "stream_write S ds bs w = transfer S ds POLLOUT (socket_write S (ds_stream ds) bs) w"

section \<open>Nothing happens after the deadline\<close>

lemma check_deadline_Ok:
  "check_deadline S d w = (Inr u, w') \<longleftrightarrow> (\<exists>t. sys_instant_now S w = (t, w') \<and> t < d)"
  by (auto simp: check_deadline_def split: prod.splits)

lemma check_deadline_Err:
  "check_deadline S d w = (Inl e, w') \<longleftrightarrow>
    e = Timeout \<and> (\<exists>t. sys_instant_now S w = (t, w') \<and> d \<le> t)"
  by (auto simp: check_deadline_def split: prod.splits)

lemma transfer_expired:
  assumes "check_deadline S (ds_deadline ds) w = (Inl e, w')"
  shows "transfer S ds events operation w = Some (Err (Simple TimedOut), w')"
  using assms by (simp add: transfer.simps)

lemmas transfer_induct = transfer.raw_induct [rotated 1, consumes 1, case_names step]

lemma transfer_Ok:
  assumes "transfer S ds events operation w = Some rw" and "rw = (Inr x, w')"
  shows "\<exists>w0 t w1. sys_instant_now S w0 = (t, w1) \<and> t < ds_deadline ds \<and>
    operation w1 = (Inr x, w')"
  using assms
proof (induction rule: transfer_induct)
  case (step rec S ds events operation w rw)
  obtain r w1 where c: "check_deadline S (ds_deadline ds) w = (r, w1)" by fastforce
  show ?case
  proof (cases r)
    case (Inl e)
    with step.hyps step.prems c show ?thesis by simp
  next
    case (Inr u)
    with c obtain t where "sys_instant_now S w = (t, w1)" and "t < ds_deadline ds"
      by (auto simp: check_deadline_Ok)
    with step.hyps step.prems c Inr show ?thesis
      by (auto simp: bind_eq_Some_conv dest!: step.IH split: sum.splits prod.splits if_splits)
  qed
qed

section \<open>Every operation returns when time passes\<close>

text \<open>
  \<open>T\<close> is the time in each world: a reading of the clock is not behind it, every reading takes
  some time, and no other call goes back in time.
\<close>

definition time_passes :: "'w sys \<Rightarrow> ('w \<Rightarrow> nat) \<Rightarrow> bool" where
  "time_passes S T \<longleftrightarrow>
    (\<forall>w t w'. sys_instant_now S w = (t, w') \<longrightarrow> T w \<le> t \<and> T w < T w') \<and>
    (\<forall>f ev n w. T w \<le> T (snd (sys_poll S f ev n w))) \<and>
    (\<forall>f n w. T w \<le> T (snd (sys_recv S f n w))) \<and>
    (\<forall>f bs w. T w \<le> T (snd (sys_send S f bs w))) \<and>
    (\<forall>f p w. T w \<le> T (snd (sys_connect S f p w))) \<and>
    (\<forall>f w. T w \<le> T (snd (sys_take_error S f w))) \<and>
    (\<forall>n w. T w \<le> T (sys_sleep S n w))"

lemma time_passes_now:
  "time_passes S T \<Longrightarrow> sys_instant_now S w = (t, w') \<Longrightarrow> T w \<le> t \<and> T w < T w'"
  by (simp add: time_passes_def)

lemma time_passes_calls:
  assumes "time_passes S T"
  shows "sys_poll S f ev n w = (p, w') \<Longrightarrow> T w \<le> T w'"
    and "sys_recv S f n w = (r, w') \<Longrightarrow> T w \<le> T w'"
    and "sys_send S f bs w = (s, w') \<Longrightarrow> T w \<le> T w'"
    and "sys_connect S f path w = (c, w') \<Longrightarrow> T w \<le> T w'"
    and "sys_take_error S f w = (e, w') \<Longrightarrow> T w \<le> T w'"
  using assms unfolding time_passes_def by (metis snd_conv)+

lemma time_passes_sleep: "time_passes S T \<Longrightarrow> T w \<le> T (sys_sleep S n w)"
  by (simp add: time_passes_def)

lemma wait_returns:
  assumes "time_passes S T"
  shows "\<exists>r w'. wait S stream events deadline w = Some (r, w') \<and> T w \<le> T w'"
proof (induction "deadline - T w" arbitrary: w rule: less_induct)
  case less
  obtain t w1 where now: "sys_instant_now S w = (t, w1)" by fastforce
  with assms have t: "T w \<le> t" and T1: "T w < T w1" by (auto dest: time_passes_now)
  show ?case
  proof (cases "t < deadline")
    case False
    with now T1 show ?thesis by (auto simp: wait.simps [of S] checked_duration_since_def)
  next
    case True
    let ?n = "min (as_millis (deadline - t) + 1) (2 ^ 31 - 1)"
    obtain p w2 where poll: "sys_poll S stream events ?n w1 = (p, w2)" by fastforce
    then have T2: "T w1 \<le> T w2" using assms by (auto dest: time_passes_calls)
    with T1 t True have "deadline - T w2 < deadline - T w" by linarith
    from less [OF this] obtain r w' where "wait S stream events deadline w2 = Some (r, w')"
      and "T w2 \<le> T w'" by blast
    with now poll True T1 T2 show ?thesis
      by (auto simp: wait.simps [of S _ _ _ w] checked_duration_since_def split: poll_result.splits)
  qed
qed

lemma check_deadline_time:
  assumes "time_passes S T" and "check_deadline S d w = (Inr u, w')"
  shows "T w < d \<and> T w < T w'"
  using assms by (auto simp: check_deadline_Ok dest!: time_passes_now)

lemma check_deadline_late:
  assumes "time_passes S T" and "check_deadline S d w = (Inl e, w')"
  shows "T w \<le> T w'"
  using assms by (auto simp: check_deadline_Err dest!: time_passes_now)

lemma transfer_returns:
  assumes time: "time_passes S T" and op: "\<And>w r w'. operation w = (r, w') \<Longrightarrow> T w \<le> T w'"
  shows "\<exists>r w'. transfer S ds events operation w = Some (r, w') \<and> T w \<le> T w'"
proof (induction "ds_deadline ds - T w" arbitrary: w rule: less_induct)
  case less
  obtain r w1 where c: "check_deadline S (ds_deadline ds) w = (r, w1)" by fastforce
  show ?case
  proof (cases r)
    case (Inl e)
    with c time show ?thesis by (auto simp: transfer_expired dest: check_deadline_late)
  next
    case (Inr u)
    with c time have T1: "T w < ds_deadline ds" "T w < T w1" by (auto dest: check_deadline_time)
    obtain q w2 where o: "operation w1 = (q, w2)" by fastforce
    then have T2: "T w1 \<le> T w2" by (rule op)
    have again: "\<exists>r w'. transfer S ds events operation v = Some (r, w') \<and> T w \<le> T w'"
      if "T w2 \<le> T v" for v
    proof -
      have "ds_deadline ds - T v < ds_deadline ds - T w" using T1 T2 that by linarith
      from less [OF this] T1 T2 that show ?thesis by (meson le_trans less_imp_le)
    qed
    obtain s w3 where wt: "wait S (ds_stream ds) events (ds_deadline ds) w2 = Some (s, w3)"
      and T3: "T w2 \<le> T w3" using wait_returns [OF time] by blast
    show ?thesis
      using c Inr o wt T1 T2 T3 again [of w2] again [of w3]
      by (auto simp: transfer.simps [of S ds events operation w] split: sum.splits)
  qed
qed

lemma connect_loop_returns:
  assumes time: "time_passes S T"
  shows "\<exists>r w'. connect_loop S f path deadline w = Some (r, w') \<and> T w \<le> T w'"
proof (induction "deadline - T w" arbitrary: w rule: less_induct)
  case less
  obtain r w1 where c: "check_deadline S deadline w = (r, w1)" by fastforce
  show ?case
  proof (cases r)
    case (Inl e)
    with c time show ?thesis by (auto simp: connect_loop.simps [of S] dest: check_deadline_late)
  next
    case (Inr u)
    with c time have T1: "T w < deadline" "T w < T w1" by (auto dest: check_deadline_time)
    obtain q w2 where o: "sys_connect S f path w1 = (q, w2)" by fastforce
    then have T2: "T w1 \<le> T w2" using time by (auto dest: time_passes_calls)
    have again: "\<exists>r w'. connect_loop S f path deadline v = Some (r, w') \<and> T w \<le> T w'"
      if "T w2 \<le> T v" for v
    proof -
      have "deadline - T v < deadline - T w" using T1 T2 that by linarith
      from less [OF this] T1 T2 that show ?thesis by (meson le_trans less_imp_le)
    qed
    obtain s w3 where wt: "wait S f POLLOUT deadline w2 = Some (s, w3)"
      and T3: "T w2 \<le> T w3" using wait_returns [OF time] by blast
    obtain e w4 where te: "sys_take_error S f w3 = (e, w4)" by fastforce
    then have T4: "T w3 \<le> T w4" using time by (auto dest: time_passes_calls)
    obtain t w5 where now: "sys_instant_now S w2 = (t, w5)" by fastforce
    let ?v = "sys_sleep S (min (deadline - t) 1000000) w5"
    have "T w2 \<le> T ?v"
      using time_passes_now [OF time now] time_passes_sleep [OF time, of w5] by (meson le_trans less_imp_le)
    then show ?thesis
      using c Inr o wt te now T1 T2 T3 T4 again [of w2] again [of ?v]
      by (auto simp: connect_loop.simps [of S f path deadline w] split: sum.splits option.splits)
  qed
qed

lemma connect_returns:
  assumes "time_passes S T"
  shows "returns (connect S path deadline w)"
proof -
  have "returns (connect_loop S f path deadline v)" for f v
    using connect_loop_returns [OF assms, of f path deadline v] by auto
  then show ?thesis unfolding connect_def by auto
qed

section \<open>Errors of a transfer\<close>

lemmas wait_induct = wait.raw_induct [rotated 1, consumes 1, case_names step]

text \<open>An interruption by a signal is retried inside, never reported.\<close>

lemma wait_Err:
  assumes "wait S stream events deadline w = Some rw" and "rw = (Inl e, w')"
  shows "kind e \<noteq> Interrupted"
  using assms
proof (induction rule: wait_induct)
  case (step rec S stream events deadline w rw)
  then show ?case
    by (auto dest: step.IH split: prod.splits option.splits if_splits poll_result.splits)
qed

lemma transfer_Err:
  assumes "transfer S ds events operation w = Some rw" and "rw = (Inl e, w')"
  shows "kind e \<noteq> Interrupted"
  using assms
proof (induction rule: transfer_induct)
  case (step rec S ds events operation w rw)
  obtain r w1 where c: "check_deadline S (ds_deadline ds) w = (r, w1)" by fastforce
  obtain q w2 where o: "operation w1 = (q, w2)" by fastforce
  show ?case
  proof (cases r)
    case (Inl d)
    with step.hyps step.prems c show ?thesis by auto
  next
    case (Inr u)
    have wait: "kind e \<noteq> Interrupted"
      if "wait S (ds_stream ds) events (ds_deadline ds) w2 = Some (s, w3)"
        and "(case s of Inl e \<Rightarrow> Some (Err e, w3) | Inr _ \<Rightarrow> rec S ds events operation w3) = Some rw"
      for s w3
      using that step.prems by (cases s) (auto dest: step.IH wait_Err)
    show ?thesis
    proof (cases q)
      case (Inl d)
      with Inr step.hyps step.prems c o show ?thesis
        by (auto simp: bind_eq_Some_conv dest: step.IH wait split: if_splits)
    next
      case (Inr x)
      with \<open>r = Inr u\<close> step.hyps step.prems c o show ?thesis by auto
    qed
  qed
qed

end
