(* ===== verification/Frame.thy ===== *)
theory Frame
  imports Transport
begin

text \<open>
  Frames of \<open>crates/helper/src/main.rs\<close> (\<open>write_json_frame\<close>, \<open>read_json_frame\<close>): a 4-byte
  big-endian length and a JSON payload of at most \<open>MAX_FRAME_LEN\<close> bytes, over any reader and
  writer. \<open>read_exact\<close> and \<open>write_all\<close> are the loops of \<open>std::io\<close>. A reader may deliver its
  bytes in any fragments; \<open>receives\<close> and \<open>sends\<close> are the fragmentations that add up to a
  given byte string, and the locales \<open>byte_reader\<close> and \<open>byte_writer\<close> show that the loops
  implement them.
\<close>

section \<open>The loops of the standard library\<close>

type_synonym 'w reader = "nat \<Rightarrow> 'w \<Rightarrow> ((bytes, io_error) result \<times> 'w) option"
type_synonym 'w writer = "bytes \<Rightarrow> 'w \<Rightarrow> ((nat, io_error) result \<times> 'w) option"

text \<open>\<open>got\<close> is the part of the buffer that is filled, \<open>n\<close> the length of the rest.\<close>

partial_function (option) read_exact ::
    "'w reader \<Rightarrow> bytes \<Rightarrow> nat \<Rightarrow> 'w \<Rightarrow> ((bytes, io_error) result \<times> 'w) option" where
  "read_exact rd got n w =
    (if n = 0 then Some (Ok got, w)
     else Option.bind (rd n w) (\<lambda>(r, w). case r of
         Inl e \<Rightarrow> if kind e = Interrupted then read_exact rd got n w else Some (Err e, w)
       | Inr chunk \<Rightarrow>
           if chunk = [] then Some (Err (Simple UnexpectedEof), w)
           else read_exact rd (got @ chunk) (n - length chunk) w))"

partial_function (option) write_all ::
    "'w writer \<Rightarrow> bytes \<Rightarrow> 'w \<Rightarrow> ((unit, io_error) result \<times> 'w) option" where
  "write_all wr bs w =
    (if bs = [] then Some (Ok (), w)
     else Option.bind (wr bs w) (\<lambda>(r, w). case r of
         Inl e \<Rightarrow> if kind e = Interrupted then write_all wr bs w else Some (Err e, w)
       | Inr n \<Rightarrow>
           if n = 0 then Some (Err (Simple WriteZero), w)
           else write_all wr (drop n bs) w))"

section \<open>Frames\<close>

definition write_json_frame ::
    "('a \<Rightarrow> (bytes, string) result) \<Rightarrow> 'w writer \<Rightarrow> 'a \<Rightarrow> 'w \<Rightarrow>
     ((unit, TransportError) result \<times> 'w) option" where
  "write_json_frame to_vec wr v w =
    bind_io (Some (map_err Json (to_vec v), w)) (\<lambda>bytes w.
    if length bytes > MAX_FRAME_LEN then Some (Err (Oversized (length bytes)), w)
    else
    let frame_len = (word_of_nat (length bytes) :: u32) in
    bind_io (map_err_io transport_error_from (write_all wr (nat_to_be 4 (unat frame_len)) w)) (\<lambda>_ w.
    bind_io (map_err_io transport_error_from (write_all wr bytes w)) (\<lambda>_ w.
    Some (Ok (), w))))"

definition read_json_frame ::
    "(bytes \<Rightarrow> ('a, string) result) \<Rightarrow> 'w reader \<Rightarrow> 'w \<Rightarrow>
     (('a, TransportError) result \<times> 'w) option" where
  "read_json_frame from_slice rd w =
    bind_io (map_err_io transport_error_from (read_exact rd [] 4 w)) (\<lambda>len_bytes w.
    let len = nat_from_be len_bytes in
    if len > MAX_FRAME_LEN then Some (Err (Oversized len), w)
    else
    bind_io (map_err_io transport_error_from (read_exact rd [] len w)) (\<lambda>bytes w.
    Some (map_err Json (from_slice bytes), w)))"

section \<open>Fragmented transfers\<close>

inductive receives :: "'w reader \<Rightarrow> nat \<Rightarrow> 'w \<Rightarrow> bytes \<Rightarrow> 'w \<Rightarrow> bool" for rd :: "'w reader" where
  received: "receives rd 0 w [] w"
| fragment: "\<lbrakk> 0 < n; rd n w = Some (Inr c, w1); c \<noteq> []; receives rd (n - length c) w1 bs w2 \<rbrakk>
    \<Longrightarrow> receives rd n w (c @ bs) w2"
| interrupted: "\<lbrakk> 0 < n; rd n w = Some (Inl e, w1); kind e = Interrupted; receives rd n w1 bs w2 \<rbrakk>
    \<Longrightarrow> receives rd n w bs w2"

inductive sends :: "'w writer \<Rightarrow> bytes \<Rightarrow> 'w \<Rightarrow> 'w \<Rightarrow> bool" for wr :: "'w writer" where
  sent: "sends wr [] w w"
| accepted: "\<lbrakk> bs \<noteq> []; wr bs w = Some (Inr n, w1); n \<noteq> 0; sends wr (drop n bs) w1 w2 \<rbrakk>
    \<Longrightarrow> sends wr bs w w2"
| retried: "\<lbrakk> bs \<noteq> []; wr bs w = Some (Inl e, w1); kind e = Interrupted; sends wr bs w1 w2 \<rbrakk>
    \<Longrightarrow> sends wr bs w w2"

text \<open>Header and payload of a frame are determined by its bytes.\<close>

lemma frame_parts:
  assumes "length header = 4" and "header @ body = nat_to_be 4 (length p) @ p" and "length p \<le> MAX_FRAME_LEN"
  shows "header = nat_to_be 4 (length p)" and "body = p" and "nat_from_be header = length p"
proof -
  show "header = nat_to_be 4 (length p)" "body = p" using assms(1,2) by (simp_all del: nat_to_be_numeral)
  then show "nat_from_be header = length p"
    using assms(3) by (simp add: nat_from_be_to_be MAX_FRAME_LEN_def del: nat_to_be_numeral)
qed

lemmas read_exact_induct = read_exact.raw_induct [rotated 1, consumes 1, case_names step]
lemmas write_all_induct = write_all.raw_induct [rotated 1, consumes 1, case_names step]

lemma read_exact_receives:
  assumes "read_exact rd got n w = Some rw" and "rw = (Inr bs, w')"
  shows "\<exists>new. bs = got @ new \<and> receives rd n w new w'"
  using assms
proof (induction rule: read_exact_induct)
  case (step rec rd got n w rw)
  show ?case
  proof (cases "n = 0")
    case True
    with step.hyps step.prems show ?thesis by (auto intro: received)
  next
    case False
    with step.hyps obtain r w1 where rd: "rd n w = Some (r, w1)"
      by (auto simp: bind_eq_Some_conv)
    show ?thesis
    proof (cases r)
      case (Inl e)
      with False rd step.hyps step.prems have "kind e = Interrupted" "rec rd got n w1 = Some rw"
        by (auto split: if_splits)
      with step.IH step.prems obtain new where "bs = got @ new" "receives rd n w1 new w'" by blast
      with False rd Inl \<open>kind e = Interrupted\<close> show ?thesis by (blast intro: interrupted)
    next
      case (Inr c)
      with False rd step.hyps step.prems have "c \<noteq> []"
        and "rec rd (got @ c) (n - length c) w1 = Some rw"
        by (auto split: if_splits)
      with step.IH step.prems obtain new
        where "bs = got @ c @ new" "receives rd (n - length c) w1 new w'" by fastforce
      with False rd Inr \<open>c \<noteq> []\<close> show ?thesis by (auto intro: fragment)
    qed
  qed
qed

lemma receives_read_exact:
  "receives rd n w bs w' \<Longrightarrow> read_exact rd got n w = Some (Inr (got @ bs), w')"
proof (induction arbitrary: got rule: receives.induct)
  case (received w)
  then show ?case by (simp add: read_exact.simps)
next
  case (fragment n w c w1 bs w2)
  then show ?case by (simp add: read_exact.simps [of rd got n w])
next
  case (interrupted n w e w1 bs w2)
  then show ?case by (simp add: read_exact.simps [of rd got n w])
qed

lemma write_all_sends:
  assumes "write_all wr bs w = Some rw" and "rw = (Inr u, w')"
  shows "sends wr bs w w'"
  using assms
proof (induction rule: write_all_induct)
  case (step rec wr bs w rw)
  show ?case
  proof (cases "bs = []")
    case True
    with step.hyps step.prems show ?thesis by (auto intro: sent)
  next
    case False
    with step.hyps obtain r w1 where wr: "wr bs w = Some (r, w1)"
      by (auto simp: bind_eq_Some_conv)
    show ?thesis
    proof (cases r)
      case (Inl e)
      with False wr step.hyps step.prems have "kind e = Interrupted" "rec wr bs w1 = Some rw"
        by (auto split: if_splits)
      with step.IH step.prems False wr Inl show ?thesis by (blast intro: retried)
    next
      case (Inr n)
      with False wr step.hyps step.prems have "n \<noteq> 0" "rec wr (drop n bs) w1 = Some rw"
        by (auto split: if_splits)
      with step.IH step.prems False wr Inr show ?thesis by (blast intro: accepted)
    qed
  qed
qed

lemma sends_write_all: "sends wr bs w w' \<Longrightarrow> write_all wr bs w = Some (Inr (), w')"
proof (induction rule: sends.induct)
  case (sent w)
  then show ?case by (simp add: write_all.simps)
next
  case (accepted bs w n w1 w2)
  then show ?case by (simp add: write_all.simps [of wr bs w])
next
  case (retried bs w e w1 w2)
  then show ?case by (simp add: write_all.simps [of wr bs w])
qed

section \<open>Readers and writers\<close>

text \<open>
  The contract of a reader: it never delivers more than it was asked for. A reader that is
  \<open>live\<close> also always returns and hides interruptions.
\<close>

locale byte_reader =
  fixes rd :: "'w reader"
    and live :: bool
  assumes bounded: "rd n w = Some (Inr c, w') \<Longrightarrow> length c \<le> n"
    and live_returns: "live \<Longrightarrow> returns (rd n w)"
    and live_errors: "live \<Longrightarrow> rd n w = Some (Inl e, w') \<Longrightarrow> kind e \<noteq> Interrupted"
begin

lemma receives_length: "receives rd n w bs w' \<Longrightarrow> length bs = n"
  by (induction rule: receives.induct) (auto dest!: bounded)

lemma read_exact_iff: "read_exact rd [] n w = Some (Inr bs, w') \<longleftrightarrow> receives rd n w bs w'"
  using read_exact_receives [of rd "[]" n w _ bs w'] receives_read_exact [of rd n w bs w' "[]"]
  by auto

lemma read_exact_returns:
  assumes live
  shows "returns (read_exact rd got n w)"
proof (induction n arbitrary: got w rule: less_induct)
  case (less n)
  obtain r w1 where r: "rd n w = Some (r, w1)"
    using live_returns [OF assms, of n w] by (auto dest: returnsD)
  show ?case
  proof (cases r)
    case (Inl e)
    with r live_errors [OF assms] have "kind e \<noteq> Interrupted" by blast
    with r Inl show ?thesis by (simp add: read_exact.simps [of rd got n])
  next
    case (Inr c)
    then show ?thesis
      using r less [of "n - length c"] by (cases "n = 0") (auto simp: read_exact.simps [of rd got])
  qed
qed

lemma read_json_frame_returns: "live \<Longrightarrow> returns (read_json_frame from_slice rd w)"
  unfolding read_json_frame_def Let_def by (auto simp: read_exact_returns)

text \<open>What a frame reader returns, on each of its branches.\<close>

lemma read_json_frame_Ok:
  "read_json_frame from_slice rd w = Some (Inr v, w') \<longleftrightarrow>
    (\<exists>header w1 payload. receives rd 4 w header w1 \<and> nat_from_be header \<le> MAX_FRAME_LEN \<and>
      receives rd (nat_from_be header) w1 payload w' \<and> from_slice payload = Ok v)"
  by (auto simp: read_json_frame_def Let_def result_simps read_exact_iff not_less)

lemma read_json_frame_oversized:
  assumes "receives rd 4 w header w1" and "MAX_FRAME_LEN < nat_from_be header"
  shows "read_json_frame from_slice rd w = Some (Err (Oversized (nat_from_be header)), w1)"
  using assms by (simp add: read_json_frame_def flip: read_exact_iff)

lemma read_json_frame_payload:
  assumes "receives rd 4 w header w1" and "nat_from_be header \<le> MAX_FRAME_LEN"
    and "receives rd (nat_from_be header) w1 payload w2"
  shows "read_json_frame from_slice rd w = Some (map_err Json (from_slice payload), w2)"
  using assms by (simp add: read_json_frame_def flip: read_exact_iff)

end

locale byte_writer =
  fixes wr :: "'w writer"
    and live :: bool
  assumes bounded: "wr bs w = Some (Inr n, w') \<Longrightarrow> n \<le> length bs"
    and live_returns: "live \<Longrightarrow> returns (wr bs w)"
    and live_errors: "live \<Longrightarrow> wr bs w = Some (Inl e, w') \<Longrightarrow> kind e \<noteq> Interrupted"
begin

lemma write_all_iff: "write_all wr bs w = Some (Inr u, w') \<longleftrightarrow> sends wr bs w w'"
  using write_all_sends [of wr bs w _ u w'] sends_write_all [of wr bs w w'] by auto

lemma write_all_returns:
  assumes live
  shows "returns (write_all wr bs w)"
proof (induction "length bs" arbitrary: bs w rule: less_induct)
  case less
  obtain r w1 where r: "wr bs w = Some (r, w1)"
    using live_returns [OF assms, of bs w] by (auto dest: returnsD)
  show ?case
  proof (cases r)
    case (Inl e)
    with r live_errors [OF assms] have "kind e \<noteq> Interrupted" by blast
    with r Inl show ?thesis by (simp add: write_all.simps [of wr bs])
  next
    case (Inr n)
    then show ?thesis
      using r less [of "drop n bs"]
      by (cases "bs = []") (auto simp: write_all.simps [of wr "[]"] write_all.simps [of wr bs])
  qed
qed

lemma write_json_frame_returns: "live \<Longrightarrow> returns (write_json_frame to_vec wr v w)"
  unfolding write_json_frame_def Let_def by (auto simp: write_all_returns)

lemma write_json_frame_Ok:
  "write_json_frame to_vec wr v w = Some (Inr u, w') \<longleftrightarrow>
    (\<exists>payload w1. to_vec v = Ok payload \<and> length payload \<le> MAX_FRAME_LEN \<and>
      sends wr (nat_to_be 4 (length payload)) w w1 \<and> sends wr payload w1 w')"
proof -
  have "unat (word_of_nat n :: u32) = n" if "n \<le> MAX_FRAME_LEN" for n
    using that by (simp add: unat_of_nat MAX_FRAME_LEN_def)
  then show ?thesis
    by (auto simp: write_json_frame_def Let_def result_simps write_all_iff not_less
        simp del: nat_to_be_numeral)
qed

end

section \<open>The helper's streams\<close>

lemma socket_read_bounded: "socket_read S f n w = (Inr c, w') \<Longrightarrow> length c \<le> n"
  by (auto simp: socket_read_def result_simps)

lemma socket_write_bounded: "socket_write S f bs w = (Inr n, w') \<Longrightarrow> n \<le> length bs"
  by (auto simp: socket_write_def result_simps)

lemma socket_time:
  assumes "time_passes S T"
  shows "socket_read S f n w = (r, w') \<Longrightarrow> T w \<le> T w'"
    and "socket_write S f bs w = (q, w') \<Longrightarrow> T w \<le> T w'"
  using time_passes_calls [OF assms]
  by (auto simp: socket_read_def socket_write_def bind_w_def split: prod.splits sum.splits)

lemma stream_read_returns:
  assumes "time_passes S T"
  shows "returns (stream_read S ds n w)"
proof -
  obtain r w' where "transfer S ds POLLIN (socket_read S (ds_stream ds) n) w = Some (r, w')"
    using transfer_returns [OF assms, of "socket_read S (ds_stream ds) n" ds POLLIN w]
      socket_time(1) [OF assms] by blast
  then show ?thesis by (simp add: stream_read_def)
qed

lemma stream_write_returns:
  assumes "time_passes S T"
  shows "returns (stream_write S ds bs w)"
proof -
  obtain r w' where "transfer S ds POLLOUT (socket_write S (ds_stream ds) bs) w = Some (r, w')"
    using transfer_returns [OF assms, of "socket_write S (ds_stream ds) bs" ds POLLOUT w]
      socket_time(2) [OF assms] by blast
  then show ?thesis by (simp add: stream_write_def)
qed

lemmas stream_Ok = transfer_Ok [OF _ refl, where operation = "socket_read S (ds_stream ds) n" and S = S and ds = ds for S ds n]
  transfer_Ok [OF _ refl, where operation = "socket_write S (ds_stream ds) bs" and S = S and ds = ds for S ds bs]

lemmas transfer_not_interrupted = transfer_Err [OF _ refl]

text \<open>A \<open>DeadlineStream\<close> is live when time passes.\<close>

interpretation deadline_reader: byte_reader "stream_read S ds" "\<exists>T. time_passes S T" for S ds
proof unfold_locales
  show "length c \<le> n" if "stream_read S ds n w = Some (Inr c, w')" for n w c w'
    using that by (auto simp: stream_read_def dest!: stream_Ok socket_read_bounded)
  show "returns (stream_read S ds n w)" if "\<exists>T. time_passes S T" for n w
    using that by (auto intro: stream_read_returns)
  show "kind e \<noteq> Interrupted" if "stream_read S ds n w = Some (Inl e, w')" for n w e w'
    using that by (auto simp: stream_read_def dest: transfer_not_interrupted)
qed

interpretation deadline_writer: byte_writer "stream_write S ds" "\<exists>T. time_passes S T" for S ds
proof unfold_locales
  show "n \<le> length bs" if "stream_write S ds bs w = Some (Inr n, w')" for bs w n w'
    using that by (auto simp: stream_write_def dest!: stream_Ok socket_write_bounded)
  show "returns (stream_write S ds bs w)" if "\<exists>T. time_passes S T" for bs w
    using that by (auto intro: stream_write_returns)
  show "kind e \<noteq> Interrupted" if "stream_write S ds bs w = Some (Inl e, w')" for bs w e w'
    using that by (auto simp: stream_write_def dest: transfer_not_interrupted)
qed

text \<open>The plain \<open>UnixStream\<close> of the development agent blocks, and reports interruptions.\<close>

definition unix_read :: "'w sys \<Rightarrow> fd \<Rightarrow> 'w reader" where
  "unix_read S f n w = Some (socket_read S f n w)"

definition unix_write :: "'w sys \<Rightarrow> fd \<Rightarrow> 'w writer" where
  "unix_write S f bs w = Some (socket_write S f bs w)"

interpretation unix_reader: byte_reader "unix_read S f" False for S f
  by unfold_locales (auto simp: unix_read_def dest: socket_read_bounded)

interpretation unix_writer: byte_writer "unix_write S f" False for S f
  by unfold_locales (auto simp: unix_write_def dest: socket_write_bounded)

end
