(* ===== verification/Request.thy ===== *)
theory Request
  imports Protocol Config Replay Frame
begin

text \<open>
  The command \<open>request\<close> of \<open>crates/helper/src/main.rs\<close>: \<open>run_request\<close> with the functions it
  calls. Its body is one sequence of steps with early returns; it is split here at the points
  where it changes subject (settings, request, exchange, acceptance), and a \<open>stop\<close> is an early
  return: \<open>Exit\<close> for \<open>return Ok(code)\<close>, \<open>Fail\<close> for an error that \<open>?\<close> passes on.
\<close>

section \<open>Data\<close>

record RequestArgs =
  ra_require_root_owned :: bool
  ra_config :: "string option"
  ra_socket :: "string option"
  ra_key_hex :: "string option"
  ra_key_file :: "string option"
  ra_agent_pubkey_hex :: "string option"
  ra_agent_pubkey_file :: "string option"
  ra_key_id :: "string option"
  ra_host_id :: "string option"
  ra_hostname :: "string option"
  ra_service :: "string option"
  ra_user :: string
  ra_ruser :: "string option"
  ra_rhost :: "string option"
  ra_tty :: "string option"
  ra_sudo_command :: "string option"
  ra_timeout_ms :: "u64 option"
  ra_allowed_future_skew_ms :: "u64 option"
  ra_replay_cache_dir :: "string option"

record RequestContext =
  rc_key_id :: string
  rc_host_id :: string
  rc_hostname :: string
  rc_service :: string
  rc_user :: string
  rc_ruser :: "string option"
  rc_rhost :: "string option"
  rc_tty :: "string option"
  rc_sudo_command :: "string option"

text \<open>The local variables of \<open>run_request\<close> once the settings are known.\<close>

record request_settings =
  st_signing_key :: bytes
  st_agent_pubkey :: bytes
  st_socket :: string
  st_context :: RequestContext
  st_timeout_ms :: u64
  st_allowed_future_skew_ms :: u64
  st_replay_cache :: "fd option"

datatype stop = Exit int | Fail helper_error

section \<open>Building a request\<close>

definition build_request ::
    "'w sys \<Rightarrow> u64 \<Rightarrow> RequestContext \<Rightarrow> 'w \<Rightarrow> (AuthRequestBody, helper_error) result \<times> 'w" where
  "build_request S now_ms context w =
    (case sys_fill_bytes S w of (random, w) \<Rightarrow>
      (Ok \<lparr>rq_protocol_version = PROTOCOL_VERSION,
           rq_request_id =
             ''req-'' @ show_nat (unat now_ms) @ ''-'' @ show_nat (unat (sys_process_id S)),
           rq_nonce = map random [0..<NONCE_LEN],
           rq_created_at_ms = now_ms,
           rq_expires_at_ms = now_ms + 30000,
           rq_linux_host_id = rc_host_id context,
           rq_linux_hostname = rc_hostname context,
           rq_pam_service = rc_service context,
           rq_pam_user = rc_user context,
           rq_pam_ruser = rc_ruser context,
           rq_pam_rhost = rc_rhost context,
           rq_pam_tty = rc_tty context,
           rq_sudo_command = rc_sudo_command context,
           rq_client_pid = Some (sys_process_id S),
           rq_key_id = rc_key_id context,
           rq_alg = Ed25519\<rparr>, w))"

section \<open>Exit codes\<close>

fun exit_code_for_decision :: "Decision \<Rightarrow> int" where
  "exit_code_for_decision Approved = EXIT_APPROVED"
| "exit_code_for_decision Denied = EXIT_DENIED"
| "exit_code_for_decision Unavailable = EXIT_UNAVAILABLE"
| "exit_code_for_decision Cancelled = EXIT_CANCELLED"
| "exit_code_for_decision Failed = EXIT_FAILED"

fun transport_exit :: "TransportError \<Rightarrow> int" where
  "transport_exit Timeout = EXIT_UNAVAILABLE"
| "transport_exit _ = EXIT_PROTOCOL"

abbreviation or_exit :: "int \<Rightarrow> ('a, 'e) result \<times> 'w \<Rightarrow> ('a, stop) result \<times> 'w" where
  "or_exit code \<equiv> map_err_w (\<lambda>_. Exit code)"

section \<open>The steps of a request\<close>

definition open_replay_cache ::
    "'w sys \<Rightarrow> bool \<Rightarrow> string option \<Rightarrow> 'w \<Rightarrow> (fd option, stop) result \<times> 'w" where
  "open_replay_cache S root_owned dir w =
    (case dir of
       None \<Rightarrow> (Ok None, w)
     | Some path \<Rightarrow>
        bind_w (or_exit EXIT_UNSAFE_CONFIG (open_trusted S path root_owned True True w))
          (\<lambda>directory w. (Ok (Some directory), w)))"

definition required_socket :: "string option \<Rightarrow> (string, stop) result" where
  "required_socket socket =
    (case socket of
       Some path \<Rightarrow> if is_absolute path then Ok path else Err (Exit EXIT_UNSAFE_CONFIG)
     | None \<Rightarrow> Err (Exit EXIT_UNSAFE_CONFIG))"

definition load_settings ::
    "'z helper_lib_scheme \<Rightarrow> 'w sys \<Rightarrow> RequestArgs \<Rightarrow> 'w \<Rightarrow> (request_settings, stop) result \<times> 'w" where
  "load_settings L S args w =
    bind_w (or_exit EXIT_UNSAFE_CONFIG
        (load_helper_config L S (ra_config args) (ra_require_root_owned args) w)) (\<lambda>config w.
    bind_w (or_exit EXIT_UNSAFE_CONFIG
        (load_signing_key L S (ra_key_hex args)
           (opt_or (ra_key_file args) (cfg_host_key_file config))
           (ra_require_root_owned args) w)) (\<lambda>signing_key w.
    bind_w (or_exit EXIT_UNSAFE_CONFIG
        (load_public_key L S (ra_agent_pubkey_hex args)
           (opt_or (ra_agent_pubkey_file args) (cfg_agent_pubkey_file config))
           ''agent public key'' (ra_require_root_owned args) w)) (\<lambda>agent_pubkey w.
    bind_w (required_socket (opt_or (ra_socket args) (cfg_socket_path config)), w) (\<lambda>socket w.
    bind_w (ok_or (opt_or (ra_host_id args) (cfg_host_id config)) (Exit EXIT_UNSAFE_CONFIG), w)
      (\<lambda>host_id w.
    bind_w (ok_or (opt_or (ra_hostname args) (cfg_hostname config)) (Exit EXIT_UNSAFE_CONFIG), w)
      (\<lambda>hostname w.
    bind_w (open_replay_cache S (ra_require_root_owned args)
        (opt_or (ra_replay_cache_dir args) (cfg_replay_cache_dir config)) w) (\<lambda>replay_cache w.
    (Ok \<lparr>st_signing_key = signing_key,
         st_agent_pubkey = agent_pubkey,
         st_socket = socket,
         st_context =
           \<lparr>rc_key_id = unwrap_or (opt_or (ra_key_id args) (cfg_key_id config)) ''host-key-1'',
            rc_host_id = host_id,
            rc_hostname = hostname,
            rc_service = unwrap_or (opt_or (ra_service args) (cfg_service config)) ''sudo'',
            rc_user = ra_user args,
            rc_ruser = ra_ruser args,
            rc_rhost = ra_rhost args,
            rc_tty = ra_tty args,
            rc_sudo_command = ra_sudo_command args\<rparr>,
         st_timeout_ms = unwrap_or (opt_or (ra_timeout_ms args) (cfg_timeout_ms config)) 15000,
         st_allowed_future_skew_ms =
           unwrap_or (opt_or (ra_allowed_future_skew_ms args)
             (cfg_allowed_future_skew_ms config)) 30000,
         st_replay_cache = replay_cache\<rparr>, w))))))))"

definition sign_request ::
    "'z helper_lib_scheme \<Rightarrow> 'w sys \<Rightarrow> request_settings \<Rightarrow> 'w \<Rightarrow>
     (instant \<times> SignedAuthRequest, stop) result \<times> 'w" where
  "sign_request L S st w =
    bind_w (map_err_w Fail (unix_time_ms S w)) (\<lambda>now w.
    bind_w (or_exit EXIT_UNSAFE_CONFIG (operation_budget S (st_timeout_ms st) now w))
      (\<lambda>(deadline, expires_at_ms) w.
    let c = st_context st in
    if list_ex is_blank [rc_key_id c, rc_host_id c, rc_hostname c, rc_service c, rc_user c]
      then (Err (Exit EXIT_UNSAFE_CONFIG), w)
    else
    bind_w (map_err_w Fail (build_request S now c w)) (\<lambda>request_body w.
    bind_w (map_err (Fail \<circ> ProtocolFailure)
        (request_sign L (request_body\<lparr>rq_expires_at_ms := expires_at_ms\<rparr>) (st_signing_key st)), w)
      (\<lambda>request w. (Ok (deadline, request), w)))))"

definition exchange ::
    "'z helper_lib_scheme \<Rightarrow> 'w sys \<Rightarrow> string \<Rightarrow> instant \<Rightarrow> SignedAuthRequest \<Rightarrow> 'w \<Rightarrow>
     ((SignedAuthResponse, stop) result \<times> 'w) option" where
  "exchange L S socket deadline request w =
    bind_io (map_err_io (\<lambda>_. Exit EXIT_UNAVAILABLE) (connect S socket deadline w)) (\<lambda>stream w.
    bind_io (map_err_io (Exit \<circ> transport_exit)
        (write_json_frame (json_of_request L) (stream_write S stream) request w)) (\<lambda>_ w.
    map_err_io (Exit \<circ> transport_exit)
        (read_json_frame (json_to_response L) (stream_read S stream) w)))"

definition record_if_cached ::
    "'z helper_lib_scheme \<Rightarrow> 'w sys \<Rightarrow> fd option \<Rightarrow> SignedAuthResponse \<Rightarrow> 'w \<Rightarrow>
     ((unit, stop) result \<times> 'w) option" where
  "record_if_cached L S replay_cache response w =
    (case replay_cache of
       None \<Rightarrow> Some (Ok (), w)
     | Some directory \<Rightarrow>
        map_err_io (\<lambda>_. Exit EXIT_TAMPER) (record_replay_marker L S directory response w))"

definition accept_response ::
    "'z helper_lib_scheme \<Rightarrow> 'w sys \<Rightarrow> request_settings \<Rightarrow> instant \<Rightarrow> AuthRequestBody \<Rightarrow>
     SignedAuthResponse \<Rightarrow> 'w \<Rightarrow> ((int, stop) result \<times> 'w) option" where
  "accept_response L S st deadline request response w =
    bind_io (Some (map_err (\<lambda>_. Exit EXIT_TAMPER)
        (verify_for_request L response request (st_agent_pubkey st)), w)) (\<lambda>_ w.
    bind_io (Some (map_err_w Fail (unix_time_ms S w))) (\<lambda>now w.
    bind_io (Some (or_exit EXIT_UNAVAILABLE (check_deadline S deadline w))) (\<lambda>_ w.
    bind_io (Some (map_err (\<lambda>_. Exit EXIT_UNAVAILABLE)
        (request_verify_freshness request now (st_allowed_future_skew_ms st)), w)) (\<lambda>_ w.
    bind_io (Some (map_err (\<lambda>_. Exit EXIT_TAMPER)
        (response_verify_freshness (srs_body response) now (st_allowed_future_skew_ms st)), w))
      (\<lambda>_ w.
    bind_io (record_if_cached L S (st_replay_cache st) response w) (\<lambda>_ w.
    bind_io (Some (or_exit EXIT_UNAVAILABLE (check_deadline S deadline w))) (\<lambda>_ w.
    bind_io (Some (map_err_w Fail (unix_time_ms S w))) (\<lambda>now w.
    bind_io (Some (map_err (\<lambda>_. Exit EXIT_UNAVAILABLE)
        (request_verify_freshness request now (st_allowed_future_skew_ms st)), w)) (\<lambda>_ w.
    Some (Ok (exit_code_for_decision (rs_decision (srs_body response))), w))))))))))"

definition request_steps ::
    "'z helper_lib_scheme \<Rightarrow> 'w sys \<Rightarrow> RequestArgs \<Rightarrow> 'w \<Rightarrow> ((int, stop) result \<times> 'w) option" where
  "request_steps L S args w =
    bind_io (Some (load_settings L S args w)) (\<lambda>st w.
    bind_io (Some (sign_request L S st w)) (\<lambda>(deadline, request) w.
    bind_io (exchange L S (st_socket st) deadline request w) (\<lambda>response w.
    accept_response L S st deadline (srq_body request) response w)))"

fun stop_result :: "(int, stop) result \<Rightarrow> (int, helper_error) result" where
  "stop_result (Inr code) = Ok code"
| "stop_result (Inl (Exit code)) = Ok code"
| "stop_result (Inl (Fail e)) = Err e"

definition run_request ::
    "'z helper_lib_scheme \<Rightarrow> 'w sys \<Rightarrow> RequestArgs \<Rightarrow> 'w \<Rightarrow>
     ((int, helper_error) result \<times> 'w) option" where
  "run_request L S args w =
    map_option (\<lambda>(r, w). (stop_result r, w)) (request_steps L S args w)"

section \<open>What a finished request went through\<close>

lemma sign_request_Ok:
  assumes "sign_request L S st w = (Inr (deadline, request), w')"
  obtains now w1 t w2 body where "unix_time_ms S w = (Inr now, w1)"
    and "sys_instant_now S w1 = (t, w2)"
    and "st_timeout_ms st \<noteq> 0" and "deadline = t + unat (st_timeout_ms st) * 1000000"
    and "unat (rq_expires_at_ms (srq_body request)) = unat now + unat (st_timeout_ms st)"
    and "\<not> is_blank (rc_user (st_context st))"
    and "build_request S now (st_context st) w2 = (Inr body, w')"
    and "srq_body request = body\<lparr>rq_expires_at_ms := rq_expires_at_ms (srq_body request)\<rparr>"
    and "request_sign L (srq_body request) (st_signing_key st) = Ok request"
  using assms
  by (auto simp: sign_request_def result_simps operation_budget_Ok Let_def request_sign_def
      split: if_splits)

lemma build_request_Ok:
  assumes "build_request S now c w = (Inr body, w')"
  obtains random where "sys_fill_bytes S w = (random, w')"
    and "rq_nonce body = map random [0..<NONCE_LEN]" and "rq_created_at_ms body = now"
    and "rq_linux_host_id body = rc_host_id c" and "rq_pam_service body = rc_service c"
    and "rq_pam_user body = rc_user c" and "rq_sudo_command body = rc_sudo_command c"
  using assms by (auto simp: build_request_def split: prod.splits)

lemma accept_response_Ok:
  assumes "accept_response L S st deadline request response w = Some (Inr code, w')"
  obtains now w1 t w2 w3 t' w4 now' where "unix_time_ms S w = (Inr now, w1)"
    and "sys_instant_now S w1 = (t, w2)" and "t < deadline"
    and "verify_for_request L response request (st_agent_pubkey st) = Ok ()"
    and "request_verify_freshness request now (st_allowed_future_skew_ms st) = Ok ()"
    and "response_verify_freshness (srs_body response) now (st_allowed_future_skew_ms st) = Ok ()"
    and "record_if_cached L S (st_replay_cache st) response w2 = Some (Inr (), w3)"
    and "sys_instant_now S w3 = (t', w4)" and "t' < deadline"
    and "unix_time_ms S w4 = (Inr now', w')"
    and "request_verify_freshness request now' (st_allowed_future_skew_ms st) = Ok ()"
    and "code = exit_code_for_decision (rs_decision (srs_body response))"
  using assms by (auto simp: accept_response_def result_simps check_deadline_Ok)

lemma request_steps_Ok:
  assumes "request_steps L S args w = Some (Inr code, w')"
  obtains st w1 deadline request w2 response w3 where "load_settings L S args w = (Inr st, w1)"
    and "sign_request L S st w1 = (Inr (deadline, request), w2)"
    and "exchange L S (st_socket st) deadline request w2 = Some (Inr response, w3)"
    and "accept_response L S st deadline (srq_body request) response w3 = Some (Inr code, w')"
  using assms by (auto simp: request_steps_def result_simps)

lemma required_socket_Ok: "required_socket x = Inr p \<longleftrightarrow> x = Some p \<and> is_absolute p"
  by (auto simp: required_socket_def split: option.splits)

lemma load_settings_context:
  assumes "load_settings L S args w = (Inr st, w')"
  shows "rc_user (st_context st) = ra_user args"
    and "rc_sudo_command (st_context st) = ra_sudo_command args"
    and "is_absolute (st_socket st)"
  using assms by (auto simp: load_settings_def result_simps required_socket_Ok)

lemma load_settings_service:
  assumes "load_settings L S args w = (Inr st, w')" and "ra_service args = Some service"
  shows "rc_service (st_context st) = service"
  using assms by (auto simp: load_settings_def result_simps)

lemma load_settings_inputs:
  assumes "load_settings L S args w = (Inr st, w')"
  obtains config w1 w2 w3 where
    "load_helper_config L S (ra_config args) (ra_require_root_owned args) w = (Inr config, w1)"
    and "load_signing_key L S (ra_key_hex args) (opt_or (ra_key_file args) (cfg_host_key_file config))
      (ra_require_root_owned args) w1 = (Inr (st_signing_key st), w2)"
    and "load_public_key L S (ra_agent_pubkey_hex args)
      (opt_or (ra_agent_pubkey_file args) (cfg_agent_pubkey_file config)) ''agent public key''
      (ra_require_root_owned args) w2 = (Inr (st_agent_pubkey st), w3)"
  using assms by (auto simp: load_settings_def result_simps)

section \<open>Early returns\<close>

lemma exit_code_for_decision_approved:
  "exit_code_for_decision d = EXIT_APPROVED \<longleftrightarrow> d = Approved"
  by (cases d) (simp_all add: exit_code_defs)

lemma transport_exit_range: "transport_exit e \<in> {EXIT_UNAVAILABLE, EXIT_PROTOCOL}"
  by (cases e) simp_all

lemma load_settings_Err:
  "load_settings L S args w = (Inl e, w') \<Longrightarrow> e = Exit EXIT_UNSAFE_CONFIG"
  by (auto simp: load_settings_def required_socket_def open_replay_cache_def result_simps
      split: option.splits if_splits)

lemma sign_request_Err:
  "sign_request L S st w = (Inl (Exit c), w') \<Longrightarrow> c = EXIT_UNSAFE_CONFIG"
  by (auto simp: sign_request_def result_simps Let_def split: if_splits)

lemma exchange_Err:
  "exchange L S socket deadline request w = Some (Inl e, w') \<Longrightarrow>
    e \<in> {Exit EXIT_UNAVAILABLE, Exit EXIT_PROTOCOL}"
  using transport_exit_range by (auto simp: exchange_def result_simps)

lemma accept_response_Err:
  "accept_response L S st deadline request response w = Some (Inl (Exit c), w') \<Longrightarrow>
    c \<in> {EXIT_TAMPER, EXIT_UNAVAILABLE}"
  by (auto simp: accept_response_def record_if_cached_def result_simps split: option.splits)

lemma request_steps_Err:
  assumes "request_steps L S args w = Some (Inl (Exit c), w')"
  shows "c \<in> {EXIT_UNAVAILABLE, EXIT_TAMPER, EXIT_UNSAFE_CONFIG, EXIT_PROTOCOL}"
  using assms
  by (auto simp: request_steps_def result_simps
      dest!: load_settings_Err sign_request_Err exchange_Err accept_response_Err)

lemma run_request_Ok:
  "run_request L S args w = Some (Inr c, w') \<longleftrightarrow>
    request_steps L S args w = Some (Inr c, w') \<or> request_steps L S args w = Some (Inl (Exit c), w')"
  unfolding run_request_def by (auto elim!: stop_result.elims)

lemma run_request_codes:
  assumes "run_request L S args w = Some (Inr code, w')"
  shows "code \<in> {0, 10, 11, 12, 20, 30, 31, 32}"
proof -
  have "code \<in> range exit_code_for_decision \<or>
    code \<in> {EXIT_UNAVAILABLE, EXIT_TAMPER, EXIT_UNSAFE_CONFIG, EXIT_PROTOCOL}"
    using assms request_steps_Err [of L S args w code w']
    by (auto simp: run_request_Ok elim!: request_steps_Ok accept_response_Ok)
  moreover have "exit_code_for_decision d \<in> {0, 10, 11, 12, 20}" for d
    by (cases d) (simp_all add: exit_code_defs)
  ultimately show ?thesis by (auto simp: exit_code_defs)
qed

lemma run_request_settings:
  assumes "run_request L S args w = Some (Inr EXIT_APPROVED, w')"
  obtains st w0 where "load_settings L S args w = (Inr st, w0)"
  using assms request_steps_Err by (fastforce simp: run_request_Ok exit_code_defs elim: request_steps_Ok)

lemma run_request_approved:
  assumes "run_request L S args w = Some (Inr EXIT_APPROVED, w')"
  shows "request_steps L S args w = Some (Inr EXIT_APPROVED, w')"
  using assms request_steps_Err by (fastforce simp: run_request_Ok exit_code_defs)

section \<open>Termination\<close>

lemma exchange_returns:
  assumes "time_passes S T"
  shows "returns (exchange L S socket deadline request w)"
proof -
  have "\<exists>T. time_passes S T" using assms by blast
  note live = deadline_writer.write_json_frame_returns [OF this]
    deadline_reader.read_json_frame_returns [OF this]
  show ?thesis unfolding exchange_def by (auto simp: live connect_returns [OF assms])
qed

lemma run_request_ends:
  assumes "time_passes S T" and "listing_ends S M"
  shows "returns (run_request L S args w)"
proof -
  have "returns (accept_response L S st deadline request response v)" for st deadline request response v
    unfolding accept_response_def record_if_cached_def
    by (auto simp: record_replay_marker_returns [OF assms(2)] split: option.splits)
  then have "returns (request_steps L S args w)"
    unfolding request_steps_def by (auto simp: exchange_returns [OF assms(1)])
  then show ?thesis by (auto simp: run_request_def returns_def)
qed

section \<open>What an approval and root-owned settings rest on\<close>

lemma approved_was_signed:
  assumes "run_request L S args w = Some (Ok EXIT_APPROVED, w')"
    and "load_settings L S args w = (Ok st, w0)"
    and "\<And>m sig. ed25519_verify L (st_agent_pubkey st) m sig \<Longrightarrow>
      \<exists>b \<in> R. response_canonical_bytes b = Ok m"
  shows "\<exists>resp \<in> R. rs_decision resp = Approved \<and> rs_pam_user resp = ra_user args \<and>
    rs_pam_service resp = rc_service (st_context st) \<and>
    rs_linux_host_id resp = rc_host_id (st_context st) \<and>
    (\<exists>v random v'. sys_fill_bytes S v = (random, v') \<and> rs_nonce resp = map random [0..<NONCE_LEN])"
  using run_request_approved [OF assms(1)]
proof (rule request_steps_Ok)
  fix st' w1 deadline request w2 response w3
  assume "load_settings L S args w = (Inr st', w1)"
    and s: "sign_request L S st' w1 = (Inr (deadline, request), w2)"
    and a: "accept_response L S st' deadline (srq_body request) response w3 =
      Some (Inr EXIT_APPROVED, w')"
  with assms(2) have st: "st' = st" by simp
  from s obtain now v body v' where b: "build_request S now (st_context st) v = (Inr body, v')"
    and body: "srq_body request = body\<lparr>rq_expires_at_ms := rq_expires_at_ms (srq_body request)\<rparr>"
    unfolding st by (rule sign_request_Ok)
  from b obtain random where random: "sys_fill_bytes S v = (random, v')"
      "rq_nonce body = map random [0..<NONCE_LEN]"
    and fields: "rq_linux_host_id body = rc_host_id (st_context st)"
      "rq_pam_service body = rc_service (st_context st)"
      "rq_pam_user body = rc_user (st_context st)"
    by (rule build_request_Ok)
  have request: "rq_nonce (srq_body request) = map random [0..<NONCE_LEN]"
    "rq_linux_host_id (srq_body request) = rc_host_id (st_context st)"
    "rq_pam_service (srq_body request) = rc_service (st_context st)"
    "rq_pam_user (srq_body request) = ra_user args"
    using random fields load_settings_context(1) [OF assms(2)] by (subst body; simp)+
  from a have v: "verify_for_request L response (srq_body request) (st_agent_pubkey st) = Ok ()"
    and d: "EXIT_APPROVED = exit_code_for_decision (rs_decision (srs_body response))"
    unfolding st by (auto elim: accept_response_Ok)
  from v have "signed_response_verify L response (st_agent_pubkey st) = Ok ()"
    and bind: "verify_binding L (srs_body response) (srq_body request) = Ok ()"
    by (simp_all add: verify_for_request_Ok)
  with assms(3) have "srs_body response \<in> R" using signed_response.verified_was_signed by blast
  moreover have "rs_decision (srs_body response) = Approved"
    using d exit_code_for_decision_approved by metis
  ultimately show ?thesis using bind request random(1) by (auto simp: verify_binding_Ok)
qed

lemma root_owned_settings:
  assumes "load_settings L S args w = (Ok st, w')" and "ra_require_root_owned args"
  shows "ra_key_hex args = None \<and> ra_agent_pubkey_hex args = None \<and>
    (\<exists>path contents material. root_controlled S path True contents \<and>
      key_material_of_lines (lines contents) = Some material \<and>
      hex_decode L (trim material) = Ok (st_signing_key st)) \<and>
    (\<exists>path contents material. root_controlled S path False contents \<and>
      key_material_of_lines (lines contents) = Some material \<and>
      hex_decode L material = Ok (st_agent_pubkey st)) \<and>
    (\<forall>path. ra_config args = Some path \<longrightarrow> (\<exists>contents. root_controlled S path False contents))"
  using assms(1)
proof (rule load_settings_inputs)
  fix config w1 w2 w3
  assume c: "load_helper_config L S (ra_config args) (ra_require_root_owned args) w = (Inr config, w1)"
    and k: "load_signing_key L S (ra_key_hex args)
      (opt_or (ra_key_file args) (cfg_host_key_file config))
      (ra_require_root_owned args) w1 = (Inr (st_signing_key st), w2)"
    and p: "load_public_key L S (ra_agent_pubkey_hex args)
      (opt_or (ra_agent_pubkey_file args) (cfg_agent_pubkey_file config)) ''agent public key''
      (ra_require_root_owned args) w2 = (Inr (st_agent_pubkey st), w3)"
  have root: "ra_require_root_owned args = True" using assms(2) by simp
  have "\<exists>contents. root_controlled S path False contents" if "ra_config args = Some path" for path
    using c assms(2) that
    by (auto simp: load_helper_config_def result_simps dest: read_trusted_file_root)
  moreover have "ra_key_hex args = None \<and>
      (\<exists>path contents material. root_controlled S path True contents \<and>
        key_material_of_lines (lines contents) = Some material \<and>
        hex_decode L (trim material) = Ok (st_signing_key st))"
    using load_signing_key_root_owned [OF k [unfolded root]] by (blast dest: read_trusted_file_root)
  moreover have "ra_agent_pubkey_hex args = None \<and>
      (\<exists>path contents material. root_controlled S path False contents \<and>
        key_material_of_lines (lines contents) = Some material \<and>
        hex_decode L material = Ok (st_agent_pubkey st))"
    using load_public_key_root_owned [OF p [unfolded root]] by (blast dest: read_trusted_file_root)
  ultimately show ?thesis by blast
qed

end
