(* ===== verification/Fake_Agent.thy ===== *)
theory Fake_Agent
  imports Request
begin

text \<open>
  The development agent of \<open>crates/helper/src/main.rs\<close> (\<open>run_fake_agent\<close>): it listens on a
  socket, answers requests that verify and are fresh with a fixed decision, and drops the
  others. One turn of its loop is \<open>serve_connection\<close>; the loop may run for ever.
\<close>

section \<open>Data\<close>

datatype CliDecision = CliApproved | CliDenied | CliUnavailable | CliCancelled | CliFailed

fun decision_from :: "CliDecision \<Rightarrow> Decision" where
  "decision_from CliApproved = Approved"
| "decision_from CliDenied = Denied"
| "decision_from CliUnavailable = Unavailable"
| "decision_from CliCancelled = Cancelled"
| "decision_from CliFailed = Failed"

record FakeAgentArgs =
  fa_socket :: string
  fa_host_pubkey_hex :: "string option"
  fa_host_pubkey_file :: "string option"
  fa_agent_key_hex :: "string option"
  fa_agent_key_file :: "string option"
  fa_agent_key_id :: string
  fa_decision :: CliDecision
  fa_once :: bool

section \<open>The agent\<close>

definition remove_stale_socket :: "'w sys \<Rightarrow> string \<Rightarrow> 'w \<Rightarrow> (unit, helper_error) result \<times> 'w" where
  "remove_stale_socket S path w =
    (case sys_remove_file S path w of
       (Inr _, w) \<Rightarrow> (Ok (), w)
     | (Inl e, w) \<Rightarrow> (if kind e = NotFound then Ok () else Err (IoError e), w))"

definition fake_response ::
    "'z helper_lib_scheme \<Rightarrow> Decision \<Rightarrow> string \<Rightarrow> bytes \<Rightarrow> u64 \<Rightarrow> AuthRequestBody \<Rightarrow>
     (SignedAuthResponse, helper_error) result" where
  "fake_response L decision agent_key_id agent_key now request =
    (let auth_method = (if decision = Approved then BiometricOrWatch else NoMethod) in
     map_err ProtocolFailure
       (and_then (for_request L request decision auth_method now (now + 10000) agent_key_id)
          (\<lambda>response. response_sign L response agent_key)))"

definition serve_connection ::
    "'z helper_lib_scheme \<Rightarrow> 'w sys \<Rightarrow> bytes \<Rightarrow> bytes \<Rightarrow> Decision \<Rightarrow> string \<Rightarrow> fd \<Rightarrow> 'w \<Rightarrow>
     ((unit, helper_error) result \<times> 'w) option" where
  "serve_connection L S host_pubkey agent_key decision agent_key_id stream w =
    Option.bind (read_json_frame (json_to_request L) (unix_read S stream) w) (\<lambda>(r, w). case r of
      Inl e \<Rightarrow> Some (Ok (), w)
    | Inr request \<Rightarrow>
        if is_err (signed_request_verify L request host_pubkey) then Some (Ok (), w)
        else
        bind_io (Some (unix_time_ms S w)) (\<lambda>now w.
        if is_err (request_verify_freshness (srq_body request) now 30000) then Some (Ok (), w)
        else
        bind_io (Some (fake_response L decision agent_key_id agent_key now (srq_body request), w))
          (\<lambda>response w.
        Option.bind (write_json_frame (json_of_response L) (unix_write S stream) response w)
          (\<lambda>(_, w). Some (Ok (), w)))))"

partial_function (option) serve_loop ::
    "'z helper_lib_scheme \<Rightarrow> 'w sys \<Rightarrow> bytes \<Rightarrow> bytes \<Rightarrow> Decision \<Rightarrow> string \<Rightarrow> bool \<Rightarrow> fd \<Rightarrow> 'w \<Rightarrow>
     ((unit, helper_error) result \<times> 'w) option" where
  "serve_loop L S host_pubkey agent_key decision agent_key_id once listener w =
    (case sys_accept S listener w of
       (Inl e, w) \<Rightarrow> Some (Err (IoError e), w)
     | (Inr stream, w) \<Rightarrow>
        Option.bind (serve_connection L S host_pubkey agent_key decision agent_key_id stream w)
          (\<lambda>(r, w). case r of
             Inl e \<Rightarrow> Some (Err e, w)
           | Inr _ \<Rightarrow>
              if once then Some (Ok (), w)
              else serve_loop L S host_pubkey agent_key decision agent_key_id once listener w))"

definition run_fake_agent ::
    "'z helper_lib_scheme \<Rightarrow> 'w sys \<Rightarrow> FakeAgentArgs \<Rightarrow> 'w \<Rightarrow>
     ((unit, helper_error) result \<times> 'w) option" where
  "run_fake_agent L S args w =
    bind_io (Some (remove_stale_socket S (fa_socket args) w)) (\<lambda>_ w.
    bind_io (Some (map_err_w IoError (sys_bind S (fa_socket args) w))) (\<lambda>listener w.
    bind_io (Some (load_required_public_key L S (fa_host_pubkey_hex args)
        (fa_host_pubkey_file args) ''host public key'' w)) (\<lambda>host_pubkey w.
    bind_io (Some (load_required_signing_key L S (fa_agent_key_hex args)
        (fa_agent_key_file args) w)) (\<lambda>agent_key w.
    bind_io (serve_loop L S host_pubkey agent_key (decision_from (fa_decision args))
        (fa_agent_key_id args) (fa_once args) listener w) (\<lambda>_ w.
    Some (Ok (), snd (sys_remove_file S (fa_socket args) w)))))))"

section \<open>What the agent answers\<close>

lemma serve_drops_unverified:
  assumes "read_json_frame (json_to_request L) (unix_read S stream) w = Some (Inr request, w1)"
    and "signed_request_verify L request host_pubkey \<noteq> Ok ()"
  shows "serve_connection L S host_pubkey agent_key decision agent_key_id stream w = Some (Ok (), w1)"
proof -
  have "is_err (signed_request_verify L request host_pubkey)"
    using assms(2) by (cases "signed_request_verify L request host_pubkey") auto
  with assms(1) show ?thesis by (simp add: serve_connection_def)
qed

lemma serve_drops_stale:
  assumes "read_json_frame (json_to_request L) (unix_read S stream) w = Some (Inr request, w1)"
    and "unix_time_ms S w1 = (Inr now, w2)"
    and "signed_request_verify L request host_pubkey = Ok ()"
    and "request_verify_freshness (srq_body request) now 30000 \<noteq> Ok ()"
  shows "serve_connection L S host_pubkey agent_key decision agent_key_id stream w = Some (Ok (), w2)"
proof -
  have "is_err (request_verify_freshness (srq_body request) now 30000)"
    using assms(4) by (cases "request_verify_freshness (srq_body request) now 30000") auto
  with assms(1-3) show ?thesis by (simp add: serve_connection_def)
qed

lemma fake_response_accepted:
  assumes "ed25519_correct L" and "request_canonical_bytes request = Ok m"
    and "length (sha256_digest L m) = 32" and "unat now + 10000 < 2 ^ 64" and "fits agent_key_id"
  shows "\<exists>s. fake_response L decision agent_key_id agent_key now request = Ok s \<and>
    rs_decision (srs_body s) = decision \<and> rs_created_at_ms (srs_body s) = now \<and>
    unat (rs_expires_at_ms (srs_body s)) = unat now + 10000 \<and>
    verify_for_request L s request (ed25519_public L agent_key) = Ok ()"
proof -
  let ?m = "if decision = Approved then BiometricOrWatch else NoMethod"
  have e: "unat (now + 10000) = unat now + 10000"
    using unat_plus_no_overflow [of now 10000] assms(4) by simp
  then have "now < now + 10000" by (simp add: word_less_nat_alt)
  then obtain resp s where f: "for_request L request decision ?m now (now + 10000) agent_key_id = Ok resp"
    and s: "response_sign L resp agent_key = Ok s" "srs_body s = resp" "rs_decision resp = decision"
    and v: "verify_for_request L s request (ed25519_public L agent_key) = Ok ()"
    using signed_reply_accepted [OF assms(1-3) _ assms(5), of now "now + 10000" decision ?m agent_key]
    by blast
  from f have "rs_created_at_ms resp = now \<and> rs_expires_at_ms resp = now + 10000"
    by (auto simp: for_request_def result_simps)
  with f s v e show ?thesis by (simp add: fake_response_def)
qed

lemma serve_answers:
  assumes "read_json_frame (json_to_request L) (unix_read S stream) w = Some (Inr request, w1)"
    and "signed_request_verify L request host_pubkey = Ok ()"
    and "unix_time_ms S w1 = (Inr now, w2)"
    and "request_verify_freshness (srq_body request) now 30000 = Ok ()"
    and "fake_response L decision agent_key_id agent_key now (srq_body request) = Ok response"
  shows "serve_connection L S host_pubkey agent_key decision agent_key_id stream w =
    Option.bind (write_json_frame (json_of_response L) (unix_write S stream) response w2)
      (\<lambda>(_, w). Some (Ok (), w))"
  using assms by (simp add: serve_connection_def)

end
