(* ===== verification/Protocol_Props.thy ===== *)
theory Protocol_Props
  imports Protocol
begin

text \<open>
  The properties of the protocol crate, with their witnesses. The witnesses use the request of
  the deterministic test vector (\<open>build_test_vector\<close> in \<open>crates/helper/src/main.rs\<close>) and
  stand-ins for the cryptographic libraries that keep their documented laws.
\<close>

section \<open>A concrete request and concrete libraries\<close>

definition vector_request :: AuthRequestBody where
  "vector_request =
    \<lparr>rq_protocol_version = PROTOCOL_VERSION,
     rq_request_id = ''req-test-vector-v1'',
     rq_nonce = replicate NONCE_LEN 0x42,
     rq_created_at_ms = 1700000000000,
     rq_expires_at_ms = 1700000030000,
     rq_linux_host_id = ''host-abc'',
     rq_linux_hostname = ''linux.example.com'',
     rq_pam_service = ''sudo'',
     rq_pam_user = ''alice'',
     rq_pam_ruser = Some ''alice'',
     rq_pam_rhost = None,
     rq_pam_tty = Some ''pts/3'',
     rq_sudo_command = Some ''/usr/bin/id'',
     rq_client_pid = Some 12345,
     rq_key_id = ''host-key-1'',
     rq_alg = Ed25519\<rparr>"

definition pad :: "nat \<Rightarrow> bytes \<Rightarrow> bytes" where
  "pad n bs = take n (bs @ replicate n 0)"

definition sample_crypto :: crypto where
  "sample_crypto =
    \<lparr>key_from_bytes = (\<lambda>k. length k = 32),
     signature_from_slice = (\<lambda>s. length s = ED25519_SIGNATURE_LEN),
     ed25519_verify = (\<lambda>pk m s. s = pad 64 (pk @ m)),
     ed25519_sign = (\<lambda>sk m. pad 64 (pad 32 sk @ m)),
     ed25519_public = pad 32,
     sha256_digest = pad 32\<rparr>"

lemma length_pad [simp]: "length (pad n bs) = n"
  by (simp add: pad_def)

lemma sample_crypto_correct: "ed25519_correct sample_crypto"
  by (simp add: ed25519_correct_def sample_crypto_def)

lemma vector_request_canonical:
  "request_canonical_bytes vector_request = Ok (request_fields vector_request)"
  by (simp add: request_canonical_bytes_Ok request_validate_Ok request_fits_def vector_request_def
      fits_def opt_fits_def NONCE_LEN_def)

definition vector_response :: AuthResponseBody where
  "vector_response =
    (case for_request sample_crypto vector_request Approved BiometricOrWatch
       1700000001000 1700000011000 ''agent-key-1'' of Inr r \<Rightarrow> r)"

lemma vector_response_eq:
  "for_request sample_crypto vector_request Approved BiometricOrWatch
     1700000001000 1700000011000 ''agent-key-1'' = Ok vector_response"
  by (simp add: vector_response_def for_request_def request_sha256_def vector_request_canonical)

lemma vector_response_canonical:
  "response_canonical_bytes vector_response = Ok (response_fields vector_response)"
  by (simp add: response_canonical_bytes_Ok response_validate_Ok response_fits_def
      vector_response_def for_request_def request_sha256_def vector_request_canonical
      sample_crypto_def fits_def opt_fits_def NONCE_LEN_def)
    (simp add: vector_request_def NONCE_LEN_def)

section \<open>Canonical bytes\<close>

lemma request_canonical_roundtrip:
  assumes "request_canonical_bytes r = Ok b"
  shows "decode_request b = Some r"
  using assms by (auto simp: request_canonical_bytes_Ok decode_request_fields)

lemma response_canonical_roundtrip:
  assumes "response_canonical_bytes r = Ok b"
  shows "decode_response b = Some r"
  using assms by (auto simp: response_canonical_bytes_Ok decode_response_fields)

lemma request_response_domains_separate:
  assumes "request_canonical_bytes r = Ok b" and "response_canonical_bytes s = Ok b'"
  shows "b \<noteq> b'"
  using assms request_fields_not_response
  by (auto simp: request_canonical_bytes_Ok response_canonical_bytes_Ok)

text \<open>
  C20. Canonical bytes determine the message: a decoder that follows the field order returns exactly
  the request that was encoded, whatever its strings and optional fields hold, another one exactly
  the response, and the bytes of a request are never the bytes of a response, so that a signature
  on one is never a signature on the other.
\<close>

theorem canonical_bytes_determine_message:
  assumes "request_canonical_bytes request = Ok b" and "response_canonical_bytes response = Ok b'"
  shows "decode_request b = Some request \<and> decode_response b' = Some response \<and> b \<noteq> b'"
  using assms request_canonical_roundtrip response_canonical_roundtrip request_response_domains_separate
  by blast

theorem canonical_bytes_determine_message_witness:
  "decode_request (request_fields vector_request) = Some vector_request \<and>
   decode_response (response_fields vector_response) = Some vector_response \<and>
   request_fields vector_request \<noteq> response_fields vector_response"
  by (rule canonical_bytes_determine_message [OF vector_request_canonical vector_response_canonical])

text \<open>
  C37. Canonical encoding, of a request and of a response, fails exactly when validation fails, with
  that error, or when a field does not fit its 32-bit length, with the name of the first such
  field; otherwise it is the concatenation of the encoded fields.
\<close>

theorem canonical_bytes_spec:
  "request_canonical_bytes r = request_bytes_spec r \<and> response_canonical_bytes s = response_bytes_spec s"
proof
  show "request_canonical_bytes r = request_bytes_spec r"
    by (cases "request_validate r")
      (simp_all add: request_canonical_bytes_def request_bytes_spec_def first_oversized_def
        request_sizes_def request_fields_def encode_eqs)
  show "response_canonical_bytes s = response_bytes_spec s"
    by (cases "response_validate s")
      (simp_all add: response_canonical_bytes_def response_bytes_spec_def first_oversized_def
        response_sizes_def response_fields_def encode_eqs)
qed

section \<open>Signatures\<close>

text \<open>A request that the host signs verifies under the public key of the host.\<close>

lemma signed_request_verifies:
  assumes "ed25519_correct C" and "request_sign C r sk = Ok s"
  shows "srq_body s = r \<and> signed_request_verify C s (ed25519_public C sk) = Ok ()"
  using assms by (rule signed_request.signed_verifies)

text \<open>
  Authenticity of an accepted response. When the only messages with a valid signature under
  the pinned key are the canonical bytes of responses in \<open>R\<close>, the responses the agent signed,
  then a response that is accepted for a request is one of \<open>R\<close> and carries the request's
  identifier, nonce, host, service and user.
\<close>

lemma accepted_response_is_authentic:
  assumes "\<And>m sig. ed25519_verify C pk m sig \<Longrightarrow> \<exists>b \<in> R. response_canonical_bytes b = Ok m"
    and "verify_for_request C s r pk = Ok ()"
  shows "srs_body s \<in> R \<and> rs_request_id (srs_body s) = rq_request_id r \<and>
    rs_nonce (srs_body s) = rq_nonce r \<and> rs_linux_host_id (srs_body s) = rq_linux_host_id r \<and>
    rs_pam_service (srs_body s) = rq_pam_service r \<and> rs_pam_user (srs_body s) = rq_pam_user r"
proof -
  from assms(2) have verified: "signed_response_verify C s pk = Ok ()"
    and bind: "verify_binding C (srs_body s) r = Ok ()"
    by (simp_all add: verify_for_request_Ok)
  from assms(1) verified have "srs_body s \<in> R" by (rule signed_response.verified_was_signed)
  with bind show ?thesis by (simp add: verify_binding_Ok)
qed

text \<open>
  C19. A response answers one request only: if it is accepted for two requests, and the digest has
  no collision between their canonical bytes, the requests are equal in every field.
\<close>

theorem response_binds_one_request:
  assumes "verify_for_request C s r pk = Ok ()" and "verify_for_request C s r' pk' = Ok ()"
    and "request_canonical_bytes r = Ok m" and "request_canonical_bytes r' = Ok m'"
    and "no_collision C m m'"
  shows "r = r'"
proof -
  from assms(1-4) have "sha256_digest C m = sha256_digest C m'"
    by (auto simp: verify_for_request_Ok verify_binding_Ok)
  with assms(5) have "m = m'" by (simp add: no_collision_def)
  with assms(3,4) show ?thesis by (blast dest: request_canonical_inject)
qed

theorem response_binds_one_request_witness:
  "\<exists>s. verify_for_request sample_crypto s vector_request (pad 32 [9]) = Ok () \<and>
    (\<exists>r. verify_for_request sample_crypto s r (pad 32 [9]) = Ok () \<and> vector_request = r)"
proof -
  let ?s = "\<lparr>srs_body = vector_response,
    srs_signature = pad 64 (pad 32 [9] @ response_fields vector_response)\<rparr>"
  have ok: "verify_for_request sample_crypto ?s vector_request (pad 32 [9]) = Ok ()"
    using for_request_Ok [OF vector_response_eq]
    by (simp add: verify_for_request_Ok signed_response_verify_def vector_response_canonical
        verify_ed25519_def sample_crypto_def ED25519_PUBLIC_KEY_LEN_def ED25519_SIGNATURE_LEN_def)
  have "vector_request = vector_request"
    by (rule response_binds_one_request [OF ok ok vector_request_canonical
          vector_request_canonical]) (simp add: no_collision_def)
  with ok show ?thesis by blast
qed

section \<open>Freshness\<close>

end
