(* ===== verification/Commands.thy ===== *)
theory Commands
  imports Fake_Agent Protocol_Props
begin

text \<open>
  The commands of \<open>crates/helper/src/main.rs\<close>: \<open>run\<close> on a parsed command line and the exit
  status of \<open>main\<close>. \<open>println!\<close> is \<open>sys_print\<close>; diagnostics on standard error are left out.
  The JSON that a command prints is given to \<open>serde_json\<close> as a \<open>json_value\<close>.
\<close>

section \<open>Data\<close>

record RequestFixtureArgs =
  fx_key_hex :: "string option"
  fx_key_file :: "string option"
  fx_key_id :: string
  fx_host_id :: string
  fx_hostname :: string
  fx_service :: string
  fx_user :: string
  fx_ruser :: "string option"
  fx_rhost :: "string option"
  fx_tty :: "string option"
  fx_sudo_command :: "string option"

datatype ConfigKey = HostKey | AgentKey

datatype Command =
    GenKey "string option" "string option"
  | Pubkey "string option" "string option"
  | SampleRequest RequestFixtureArgs
  | SampleResponse
  | TestVector
  | Request RequestArgs
  | FakeAgent FakeAgentArgs
  | PrepareConfig PrepareConfigArgs
  | ConfigKeyPath string ConfigKey

section \<open>Fixtures\<close>

definition into_context :: "RequestFixtureArgs \<Rightarrow> RequestContext" where
  "into_context a =
    \<lparr>rc_key_id = fx_key_id a, rc_host_id = fx_host_id a, rc_hostname = fx_hostname a,
     rc_service = fx_service a, rc_user = fx_user a, rc_ruser = fx_ruser a,
     rc_rhost = fx_rhost a, rc_tty = fx_tty a, rc_sudo_command = fx_sudo_command a\<rparr>"

definition sample_context :: RequestContext where
  "sample_context =
    \<lparr>rc_key_id = ''host-key-1'', rc_host_id = ''host-abc'', rc_hostname = ''linux.example.com'',
     rc_service = ''sudo'', rc_user = ''alice'', rc_ruser = Some ''alice'', rc_rhost = None,
     rc_tty = Some ''pts/3'', rc_sudo_command = None\<rparr>"

definition build_test_vector ::
    "'z helper_lib_scheme \<Rightarrow> (json_value, helper_error) result" where
  "build_test_vector L =
    (let host_key = replicate 32 0x07; agent_key = replicate 32 0x09 in
     and_then (map_err ProtocolFailure (request_sign L vector_request host_key)) (\<lambda>signed_request.
     and_then (map_err ProtocolFailure (for_request L (srq_body signed_request) Approved
         BiometricOrWatch 1700000001000 1700000011000 ''agent-key-1'')) (\<lambda>response.
     and_then (map_err ProtocolFailure (request_sha256 L (srq_body signed_request))) (\<lambda>request_hash.
     and_then (map_err ProtocolFailure (response_sign L response agent_key)) (\<lambda>signed_response.
     Ok (JsonObject
       [(''name'', JsonText ''macos-auth protocol v1 deterministic approval vector''),
        (''host_private_key_hex'', JsonText (hex_encode L host_key)),
        (''host_public_key_hex'', JsonText (hex_encode L (ed25519_public L host_key))),
        (''agent_private_key_hex'', JsonText (hex_encode L agent_key)),
        (''agent_public_key_hex'', JsonText (hex_encode L (ed25519_public L agent_key))),
        (''request_hash_hex'', JsonText (hex_encode L request_hash)),
        (''request'', JsonRequest signed_request),
        (''response'', JsonResponse signed_response)]))))))"

section \<open>The commands\<close>

definition println :: "'w sys \<Rightarrow> string \<Rightarrow> 'w \<Rightarrow> 'w" where
  "println S s w = sys_print S (s @ [newline]) w"

definition print_keypair :: "'z helper_lib_scheme \<Rightarrow> 'w sys \<Rightarrow> bytes \<Rightarrow> 'w \<Rightarrow> 'w" where
  "print_keypair L S signing_key w =
    println S (''public_key_hex='' @ hex_encode L (ed25519_public L signing_key))
      (println S (''private_key_hex='' @ hex_encode L signing_key) w)"

definition write_if_given ::
    "('w \<Rightarrow> (unit, helper_error) result \<times> 'w) option \<Rightarrow> 'w \<Rightarrow> (unit, helper_error) result \<times> 'w" where
  "write_if_given action w = (case action of None \<Rightarrow> (Ok (), w) | Some f \<Rightarrow> f w)"

definition gen_key ::
    "'z helper_lib_scheme \<Rightarrow> 'w sys \<Rightarrow> string option \<Rightarrow> string option \<Rightarrow> 'w \<Rightarrow>
     (unit, helper_error) result \<times> 'w" where
  "gen_key L S private_key_file public_key_file w =
    (case sys_generate_key S w of (signing_key, w) \<Rightarrow>
    bind_w (write_if_given (map_option (\<lambda>path.
        write_private_key_file S path (hex_encode L signing_key)) private_key_file) w) (\<lambda>_ w.
    bind_w (write_if_given (map_option (\<lambda>path.
        write_public_key_file S path (hex_encode L (ed25519_public L signing_key)))
        public_key_file) w) (\<lambda>_ w.
    (Ok (), print_keypair L S signing_key w))))"

definition pubkey ::
    "'z helper_lib_scheme \<Rightarrow> 'w sys \<Rightarrow> string option \<Rightarrow> string option \<Rightarrow> 'w \<Rightarrow>
     (unit, helper_error) result \<times> 'w" where
  "pubkey L S key_hex key_file w =
    bind_w (load_required_signing_key L S key_hex key_file w) (\<lambda>signing_key w.
    (Ok (), println S (''public_key_hex='' @ hex_encode L (ed25519_public L signing_key)) w))"

definition print_json ::
    "'z helper_lib_scheme \<Rightarrow> 'w sys \<Rightarrow> json_value \<Rightarrow> 'w \<Rightarrow> (unit, helper_error) result \<times> 'w" where
  "print_json L S v w =
    bind_w (map_err JsonError (json_pretty L v), w) (\<lambda>s w. (Ok (), println S s w))"

definition sample_request ::
    "'z helper_lib_scheme \<Rightarrow> 'w sys \<Rightarrow> RequestFixtureArgs \<Rightarrow> 'w \<Rightarrow>
     (unit, helper_error) result \<times> 'w" where
  "sample_request L S args w =
    bind_w (load_optional_signing_key L S (fx_key_hex args) (fx_key_file args) w) (\<lambda>signing_key w.
    bind_w (unix_time_ms S w) (\<lambda>now w.
    bind_w (build_request S now (into_context args) w) (\<lambda>request w.
    bind_w (map_err ProtocolFailure (request_sign L request signing_key), w) (\<lambda>signed w.
    print_json L S (JsonSigned signed) w))))"

definition sample_response ::
    "'z helper_lib_scheme \<Rightarrow> 'w sys \<Rightarrow> 'w \<Rightarrow> (unit, helper_error) result \<times> 'w" where
  "sample_response L S w =
    (case sys_generate_key S w of (host_key, w) \<Rightarrow>
    (case sys_generate_key S w of (agent_key, w) \<Rightarrow>
    bind_w (unix_time_ms S w) (\<lambda>now w.
    bind_w (build_request S now sample_context w) (\<lambda>body w.
    bind_w (map_err ProtocolFailure (request_sign L body host_key), w) (\<lambda>request w.
    bind_w (map_err ProtocolFailure (for_request L (srq_body request) Approved BiometricOrWatch
        (now + 1000) (now + 11000) ''agent-key-1''), w) (\<lambda>response w.
    bind_w (map_err ProtocolFailure (response_sign L response agent_key), w) (\<lambda>response w.
    print_json L S (JsonObject
      [(''host_public_key_hex'', JsonText (hex_encode L (ed25519_public L host_key))),
       (''agent_public_key_hex'', JsonText (hex_encode L (ed25519_public L agent_key))),
       (''request'', JsonRequest request),
       (''response'', JsonResponse response)]) w)))))))"

definition config_key_path ::
    "'z helper_lib_scheme \<Rightarrow> 'w sys \<Rightarrow> string \<Rightarrow> ConfigKey \<Rightarrow> 'w \<Rightarrow>
     (unit, helper_error) result \<times> 'w" where
  "config_key_path L S config key w =
    bind_w (load_helper_config L S (Some config) False w) (\<lambda>config w.
    bind_w (validate_config_fields S config w) (\<lambda>_ w.
    bind_w (ok_or (cfg_host_key_file config) (Message ''host_key_file is required''), w) (\<lambda>host w.
    bind_w (ok_or (cfg_agent_pubkey_file config) (Message ''agent_pubkey_file is required''), w)
      (\<lambda>agent w.
    bind_w (load_signing_key L S None (Some host) False w) (\<lambda>_ w.
    bind_w (load_public_key L S None (Some agent) ''agent public key'' False w) (\<lambda>_ w.
    bind_w (to_str (case key of HostKey \<Rightarrow> host | AgentKey \<Rightarrow> agent), w) (\<lambda>path w.
    (Ok (), println S path w))))))))"

abbreviation no_exit ::
    "(unit, helper_error) result \<times> 'w \<Rightarrow> ((int option, helper_error) result \<times> 'w) option" where
  "no_exit p \<equiv> Some (bind_w p (\<lambda>_ w. (Ok None, w)))"

fun run ::
    "'t toml_lib \<Rightarrow> 'z helper_lib_scheme \<Rightarrow> 'w sys \<Rightarrow> Command \<Rightarrow> 'w \<Rightarrow>
     ((int option, helper_error) result \<times> 'w) option" where
  "run T L S (GenKey private_key_file public_key_file) w =
    no_exit (gen_key L S private_key_file public_key_file w)"
| "run T L S (Pubkey key_hex key_file) w = no_exit (pubkey L S key_hex key_file w)"
| "run T L S (SampleRequest args) w = no_exit (sample_request L S args w)"
| "run T L S SampleResponse w = no_exit (sample_response L S w)"
| "run T L S TestVector w =
    no_exit (bind_w (build_test_vector L, w) (print_json L S))"
| "run T L S (Request args) w =
    bind_io (run_request L S args w) (\<lambda>code w. Some (Ok (Some code), w))"
| "run T L S (FakeAgent args) w =
    bind_io (run_fake_agent L S args w) (\<lambda>_ w. Some (Ok None, w))"
| "run T L S (PrepareConfig args) w =
    no_exit (bind_w (prepare_config T L S args w) (\<lambda>s w. (Ok (), println S s w)))"
| "run T L S (ConfigKeyPath config key) w = no_exit (config_key_path L S config key w)"

fun exit_status :: "(int option, helper_error) result \<Rightarrow> int" where
  "exit_status (Inr (Some code)) = code"
| "exit_status (Inr None) = 0"
| "exit_status (Inl _) = 1"

definition main_program ::
    "'t toml_lib \<Rightarrow> 'z helper_lib_scheme \<Rightarrow> 'w sys \<Rightarrow> Command \<Rightarrow> 'w \<Rightarrow> (int \<times> 'w) option" where
  "main_program T L S command w =
    map_option (\<lambda>(r, w). (exit_status r, w)) (run T L S command w)"

section \<open>What the commands show\<close>

lemma request_exit_status:
  assumes "main_program T L S (Request args) w = Some (code, w')"
  shows "code = 1 \<or> run_request L S args w = Some (Ok code, w')"
proof -
  from assms obtain r where "run_request L S args w = Some (r, w')"
    and "code = exit_status (map_sum id Some r)"
    by (cases "run_request L S args w")
      (auto simp: main_program_def bind_io_def split: prod.splits sum.splits)
  then show ?thesis by (cases r) auto
qed

lemma config_key_path_Ok:
  assumes "config_key_path L S path key w = (Inr u, w')"
  obtains c host agent w1 w2 w3 w4 w5 sk pk where "load_helper_config L S (Some path) False w = (Inr c, w1)"
    and "validate_config_fields S c w1 = (Inr (), w2)"
    and "cfg_host_key_file c = Some host" and "cfg_agent_pubkey_file c = Some agent"
    and "load_signing_key L S None (Some host) False w2 = (Inr sk, w3)"
    and "load_public_key L S None (Some agent) ''agent public key'' False w3 = (Inr pk, w4)"
    and "w' = println S (case key of HostKey \<Rightarrow> host | AgentKey \<Rightarrow> agent) w4"
  using assms by (auto simp: config_key_path_def result_simps dest!: to_str_Ok)

end
