(* ===== verification/Pam_Compose.thy ===== *)
theory Pam_Compose
  imports Pam_Descriptors Commands
begin

text \<open>
  The PAM module on top of the helper. \<open>helper_executable\<close> is the program \<open>macos-auth-helper\<close>: the
  command line is parsed by \<open>clap\<close>, which is the parameter \<open>parse\<close>, and the command runs as in
  \<open>Commands\<close>. \<open>clap_request\<close> is what \<open>clap\<close> documents for the options of \<open>request\<close>.
\<close>

section \<open>The helper as a program\<close>

text \<open>
  \<open>Cli::parse\<close> returns the command, or ends the process with a status (after help or an error).
  The helper sees the world through its own system \<open>H\<close>; \<open>enter\<close> is its view when it starts.
\<close>

type_synonym clap = "string list \<Rightarrow> (Command, u8) result"

definition helper_executable ::
    "'t toml_lib \<Rightarrow> 'z helper_lib_scheme \<Rightarrow> 'v sys \<Rightarrow> clap \<Rightarrow> ('w \<Rightarrow> 'v) \<Rightarrow> 'w program" where
  "helper_executable T L H parse enter f argv envp w =
    (case parse argv of
       Inl status \<Rightarrow> Some status
     | Inr command \<Rightarrow>
        map_option (\<lambda>(code, _). word_of_int code) (main_program T L H command (enter w)))"

text \<open>The arguments of \<open>request\<close> when exactly the options \<open>ps\<close> were given, and \<open>--require-root-owned\<close>.\<close>

definition request_options :: "(string \<times> string) list \<Rightarrow> RequestArgs \<Rightarrow> bool" where
  "request_options ps args \<longleftrightarrow>
    ra_require_root_owned args \<and> ra_config args = map_of ps ''--config'' \<and>
    Some (ra_user args) = map_of ps ''--user'' \<and> ra_service args = map_of ps ''--service'' \<and>
    ra_ruser args = map_of ps ''--ruser'' \<and> ra_rhost args = map_of ps ''--rhost'' \<and>
    ra_tty args = map_of ps ''--tty'' \<and> ra_socket args = None \<and> ra_key_hex args = None \<and>
    ra_key_file args = None \<and> ra_agent_pubkey_hex args = None \<and>
    ra_agent_pubkey_file args = None \<and> ra_key_id args = None \<and> ra_host_id args = None \<and>
    ra_hostname args = None \<and> ra_sudo_command args = None \<and> ra_timeout_ms args = None \<and>
    ra_allowed_future_skew_ms args = None \<and> ra_replay_cache_dir args = None"

text \<open>
  Options that take a value take the next argument; a value that looks like an option is an error,
  and an error ends the process with a status other than 0.
\<close>

definition pam_option_names :: "string set" where
  "pam_option_names = {''--config'', ''--user'', ''--service'', ''--ruser'', ''--rhost'', ''--tty''}"

definition clap_request :: "clap \<Rightarrow> bool" where
  "clap_request parse \<longleftrightarrow>
    (\<forall>prog ps. distinct (map fst ps) \<and> fst ` set ps \<subseteq> pam_option_names \<longrightarrow>
      (case parse (prog # ''request'' # ''--require-root-owned'' # pair_args ps) of
         Inl status \<Rightarrow> status \<noteq> 0
       | Inr command \<Rightarrow> (\<exists>args. command = Request args \<and> request_options ps args)))"

section \<open>A success of the helper\<close>

lemma helper_pairs_names:
  "distinct (map fst (helper_pairs options user service ruser rhost tty)) \<and>
   fst ` set (helper_pairs options user service ruser rhost tty) \<subseteq> pam_option_names"
  by (auto simp: helper_pairs_def optional_pair_def pam_option_names_def split: option.splits)

lemma helper_pairs_lookup:
  fixes options user service ruser rhost tty
  defines "ps \<equiv> helper_pairs options user service ruser rhost tty"
  shows "map_of ps ''--user'' = Some user" and "map_of ps ''--config'' = Some (config_path options)"
    and "service \<noteq> Some [] \<Longrightarrow> map_of ps ''--service'' = service"
  by (auto simp: ps_def helper_pairs_def optional_pair_def map_add_def split: option.splits)

lemma helper_executable_zero:
  assumes "helper_executable T L H parse enter f
      (helper_args options user service ruser rhost tty) envp w = Some 0"
    and "clap_request parse"
  obtains args v where "request_options (helper_pairs options user service ruser rhost tty) args"
    and "run_request L H args (enter w) = Some (Ok EXIT_APPROVED, v)"
proof -
  let ?ps = "helper_pairs options user service ruser rhost tty"
  let ?argv = "helper_args options user service ruser rhost tty"
  have argv: "?argv = helper_path options # ''request'' # ''--require-root-owned'' # pair_args ?ps"
    by (simp add: helper_args_def)
  have clap: "case parse ?argv of Inl status \<Rightarrow> status \<noteq> 0
      | Inr command \<Rightarrow> (\<exists>args. command = Request args \<and> request_options ?ps args)"
    unfolding argv by (rule assms(2) [unfolded clap_request_def, rule_format, OF helper_pairs_names])
  with assms(1) obtain args code v where args: "parse ?argv = Inr (Request args)" "request_options ?ps args"
    and m: "main_program T L H (Request args) (enter w) = Some (code, v)" "word_of_int code = (0 :: u8)"
    by (auto simp: helper_executable_def split: sum.splits)
  from m(1) have code: "code = 1 \<or> run_request L H args (enter w) = Some (Ok code, v)"
    by (rule request_exit_status)
  then have "code \<in> {0, 1, 10, 11, 12, 20, 30, 31, 32}" by (auto dest: run_request_codes)
  with m(2) have "code = 0" by auto
  with code have "run_request L H args (enter w) = Some (Ok EXIT_APPROVED, v)"
    by (simp add: EXIT_APPROVED_def)
  with args(2) show thesis by (rule that)
qed

end
