(* ===== verification/Demo.thy ===== *)
theory Demo
  imports Request Protocol_Props
begin

text \<open>
  A small concrete system and concrete libraries, on which the witnesses evaluate the helper:
  a root-owned directory \<open>/etc\<close> with a configuration, a host key, an agent key and a replay cache, a clock that
  advances with every reading, and a socket that delivers its bytes in fragments.
\<close>

section \<open>Libraries\<close>

definition hex_digit :: "nat \<Rightarrow> char" where
  "hex_digit n = ''0123456789abcdef'' ! n"

definition hex_value :: "char \<Rightarrow> nat" where
  "hex_value c = length (takeWhile (\<lambda>d. d \<noteq> c) ''0123456789abcdef'')"

definition demo_hex_encode :: "bytes \<Rightarrow> string" where
  "demo_hex_encode bs = concat (map (\<lambda>b. [hex_digit (unat b div 16), hex_digit (unat b mod 16)]) bs)"

fun demo_hex_decode :: "string \<Rightarrow> (bytes, string) result" where
  "demo_hex_decode [] = Ok []"
| "demo_hex_decode (a # b # s) =
    and_then (demo_hex_decode s) (\<lambda>bs. Ok (word_of_nat (16 * hex_value a + hex_value b) # bs))"
| "demo_hex_decode [a] = Err ''odd number of digits''"

definition demo_config :: HelperConfig where
  "demo_config = default_config
    \<lparr>cfg_socket_path := Some ''/run/agent.sock'', cfg_host_key_file := Some ''/etc/host.key'',
     cfg_agent_pubkey_file := Some ''/etc/agent.pub'', cfg_host_id := Some ''host-abc'',
     cfg_hostname := Some ''linux''\<rparr>"

definition demo_lib :: helper_lib where
  "demo_lib =
    \<lparr>key_from_bytes = (\<lambda>k. length k = 32),
     signature_from_slice = (\<lambda>s. length s = ED25519_SIGNATURE_LEN),
     ed25519_verify = (\<lambda>pk m s. s = pad 64 (pk @ m)),
     ed25519_sign = (\<lambda>sk m. pad 64 (pad 32 sk @ m)),
     ed25519_public = pad 32,
     sha256_digest = pad 32,
     hex_encode = demo_hex_encode,
     hex_decode = demo_hex_decode,
     json_of_request = (\<lambda>_. Ok [1]),
     json_of_response = (\<lambda>_. Ok [1]),
     json_to_request = (\<lambda>_. Err ''not a request''),
     json_to_response = (\<lambda>_. Err ''not a response''),
     toml_to_config = (\<lambda>_. Ok (demo_config\<lparr>cfg_replay_cache_dir := Some ''/etc/replay''\<rparr>)),
     json_pretty = (\<lambda>_. Ok ''{}'')\<rparr>"

section \<open>The system\<close>

record demo =
  d_clock :: nat
  d_markers :: "string \<rightharpoonup> string"
  d_handles :: "fd \<rightharpoonup> string"
  d_next :: nat
  d_listing :: "string list"
  d_inbox :: bytes
  d_sent :: bytes

definition demo_entries :: "((fd \<times> string) \<times> fd) list" where
  "demo_entries =
    [((0, ''etc''), 1), ((1, ''host.key''), 2), ((1, ''agent.pub''), 3), ((1, ''replay''), 4),
     ((1, ''helper.toml''), 5)]"

definition demo_stat :: "fd \<Rightarrow> metadata" where
  "demo_stat f =
    \<lparr>md_type = (if f \<in> {0, 1, 4} then Directory else RegularFile), md_uid = 0,
     md_mode = (if f \<in> {0, 1} then 0x1ED else if f = 3 then 0x1A4 else if f = 4 then 0x1C0 else 0x180)\<rparr>"

definition host_secret :: bytes where "host_secret = replicate 32 7"
definition agent_secret :: bytes where "agent_secret = replicate 32 9"

definition demo_contents :: "fd \<Rightarrow> string" where
  "demo_contents f =
    (if f = 2 then private_key_line (demo_hex_encode host_secret)
     else if f = 3 then public_key_line (demo_hex_encode agent_secret) else [])"

definition demo_handle :: "string \<Rightarrow> demo \<Rightarrow> (fd, errno) result \<times> demo" where
  "demo_handle n w =
    (Ok (d_next w), w\<lparr>d_handles := (d_handles w)(d_next w \<mapsto> n), d_next := Suc (d_next w)\<rparr>)"

definition demo_openat :: "fd \<Rightarrow> string \<Rightarrow> oflag set \<Rightarrow> demo \<Rightarrow> (fd, errno) result \<times> demo" where
  "demo_openat f n flags w =
    (if f \<noteq> 4 then (ok_or (map_of demo_entries (f, n)) ENOENT, w)
     else if O_CREAT \<in> flags then
       (if d_markers w n \<noteq> None then (Err EEXIST, w)
        else demo_handle n (w\<lparr>d_markers := (d_markers w)(n \<mapsto> [])\<rparr>))
     else if d_markers w n = None then (Err ENOENT, w)
     else demo_handle n w)"

definition demo_read :: "fd \<Rightarrow> nat \<Rightarrow> demo \<Rightarrow> (bytes, io_error) result \<times> demo" where
  "demo_read f k w =
    (Ok (take k (as_bytes (case d_handles w f of
           Some n \<Rightarrow> unwrap_or (d_markers w n) []
         | None \<Rightarrow> demo_contents f))), w)"

definition demo_write :: "fd \<Rightarrow> bytes \<Rightarrow> demo \<Rightarrow> (unit, io_error) result \<times> demo" where
  "demo_write f bs w =
    (Ok (), case d_handles w f of
       None \<Rightarrow> w
     | Some n \<Rightarrow> (case d_markers w n of
         None \<Rightarrow> w
       | Some c \<Rightarrow> w\<lparr>d_markers := (d_markers w)(n \<mapsto> c @ str_of_bytes bs)\<rparr>))"

definition demo_readdir :: "nat \<Rightarrow> demo \<Rightarrow> string option \<times> demo" where
  "demo_readdir k w =
    (case d_listing w of [] \<Rightarrow> (None, w) | n # ns \<Rightarrow> (Some n, w\<lparr>d_listing := ns\<rparr>))"

definition demo_recv :: "fd \<Rightarrow> nat \<Rightarrow> demo \<Rightarrow> (bytes, io_error) result \<times> demo" where
  "demo_recv f n w =
    (Ok (take (min n 3) (d_inbox w)), w\<lparr>d_inbox := drop (min n 3) (d_inbox w)\<rparr>)"

definition demo_sys :: "demo sys" where
  "demo_sys =
    \<lparr>sys_instant_now = (\<lambda>w. (d_clock w, w\<lparr>d_clock := Suc (d_clock w)\<rparr>)),
     sys_time_now = (\<lambda>w. (1700000000000000000, w)),
     sys_fill_bytes = (\<lambda>w. (\<lambda>_. 0x42, w)),
     sys_process_id = 12345,
     sys_current_dir = (\<lambda>w. (Ok ''/etc'', w)),
     sys_open_root = (\<lambda>w. (Ok 0, w)),
     sys_openat = demo_openat,
     sys_openat_mode = (\<lambda>f n flags mode. demo_openat f n flags),
     sys_fstat = (\<lambda>f w. (Ok (demo_stat f), w)),
     sys_read_to_end = demo_read,
     sys_write_all = demo_write,
     sys_create_new = (\<lambda>p m w. (Ok 8, w)),
     sys_remove_file = (\<lambda>p w. (Ok (), w)),
     sys_dup = (\<lambda>f w. (Ok 9, w)),
     sys_close = (\<lambda>f w. w),
     sys_fdopendir = (\<lambda>f w. (Ok 0, w)),
     sys_readdir = demo_readdir,
     sys_closedir = (\<lambda>k w. w),
     sys_unlinkat = (\<lambda>f n w. if f = 4 then w\<lparr>d_markers := (d_markers w)(n := None)\<rparr> else w),
     sys_socket = (\<lambda>w. (Ok 7, w)),
     sys_set_cloexec = (\<lambda>f w. (Ok (), w)),
     sys_set_nonblocking = (\<lambda>f w. (Ok (), w)),
     sys_connect = (\<lambda>f p w. (Ok (), w)),
     sys_poll = (\<lambda>f e n w. (PollReady False, w)),
     sys_take_error = (\<lambda>f w. (Ok None, w)),
     sys_sleep = (\<lambda>n w. w),
     sys_recv = demo_recv,
     sys_send = (\<lambda>f bs w. (Ok (length bs), w\<lparr>d_sent := d_sent w @ bs\<rparr>)),
     sys_bind = (\<lambda>p w. (Ok 6, w)),
     sys_accept = (\<lambda>f w. (Ok 7, w)),
     sys_generate_key = (\<lambda>w. (host_secret, w)),
     sys_print = (\<lambda>s w. w)\<rparr>"

definition demo_world :: demo where
  "demo_world =
    \<lparr>d_clock = 0, d_markers = (\<lambda>_. None), d_handles = (\<lambda>_. None), d_next = 10, d_listing = [],
     d_inbox = [0, 0, 0, 1, 1], d_sent = []\<rparr>"

section \<open>The laws hold\<close>

lemma hex_value_digit: "n < 16 \<Longrightarrow> hex_value (hex_digit n) = n"
proof -
  assume "n < 16"
  then have "n \<in> set [0..<16]" by simp
  moreover have "list_all (\<lambda>n. hex_value (hex_digit n) = n) [0..<16]"
    by (simp add: hex_value_def hex_digit_def upt_rec)
  ultimately show ?thesis by (simp add: list_all_iff)
qed

lemma hex_digit_char: "n < 16 \<Longrightarrow> hex_digit n \<in> set ''0123456789abcdef''"
  unfolding hex_digit_def by (rule nth_mem) simp

lemma demo_hex_roundtrip: "demo_hex_decode (demo_hex_encode bs) = Ok bs"
proof (induction bs)
  case Nil
  then show ?case by (simp add: demo_hex_encode_def)
next
  case (Cons b bs)
  have "hex_value (hex_digit (unat b div 16)) = unat b div 16"
    using unat_u8_less [of b] by (intro hex_value_digit) simp
  moreover have "hex_value (hex_digit (unat b mod 16)) = unat b mod 16"
    by (intro hex_value_digit) simp
  ultimately show ?case using Cons by (simp add: demo_hex_encode_def)
qed

lemma demo_hex_chars: "c \<in> set (demo_hex_encode bs) \<Longrightarrow> c \<in> set ''0123456789abcdef''"
proof -
  assume "c \<in> set (demo_hex_encode bs)"
  then obtain b where "c = hex_digit (unat b div 16) \<or> c = hex_digit (unat (b :: u8) mod 16)"
    by (auto simp: demo_hex_encode_def)
  then show ?thesis using unat_u8_less [of b] hex_digit_char by fastforce
qed

lemma demo_hex_length: "length (demo_hex_encode bs) = 2 * length bs"
  by (induction bs) (simp_all add: demo_hex_encode_def)

lemma demo_lib_hex: "hex_lawful demo_lib"
  unfolding hex_lawful_def
  using demo_hex_roundtrip demo_hex_chars demo_hex_length by (auto simp: demo_lib_def)

lemma demo_lib_crypto: "ed25519_correct demo_lib"
  by (simp add: ed25519_correct_def demo_lib_def)

lemma demo_time: "time_passes demo_sys d_clock"
  by (simp add: time_passes_def demo_sys_def demo_recv_def)

lemma demo_listing: "listing_ends demo_sys (\<lambda>w. length (d_listing w))"
  by (auto simp: listing_ends_def demo_sys_def demo_openat_def demo_handle_def demo_read_def
      demo_readdir_def split: list.splits)

lemma demo_markers: "marker_directory demo_sys 4 d_markers d_handles"
  by (auto simp: marker_directory_def creates_exclusively_def reads_entries_def writes_entries_def
      unlinks_entries_def leaves_entries_def demo_sys_def demo_openat_def demo_handle_def
      demo_read_def demo_write_def demo_readdir_def marker_create_flags_def marker_read_flags_def
      split: list.splits if_splits)

end
