(* ===== verification/Demo_Run.thy ===== *)
theory Demo_Run
  imports Demo
begin

text \<open>
  One complete request on the concrete system, evaluated step by step: root-owned settings, a
  signed request, the agent's reply in fragments, and its acceptance.
\<close>

section \<open>Inputs\<close>

definition demo_args :: RequestArgs where
  "demo_args =
    \<lparr>ra_require_root_owned = True, ra_config = Some ''/etc/helper.toml'', ra_socket = None,
     ra_key_hex = None, ra_key_file = None, ra_agent_pubkey_hex = None, ra_agent_pubkey_file = None,
     ra_key_id = None, ra_host_id = None, ra_hostname = None, ra_service = Some ''sudo'',
     ra_user = ''alice'', ra_ruser = None, ra_rhost = None, ra_tty = None, ra_sudo_command = None,
     ra_timeout_ms = None, ra_allowed_future_skew_ms = None, ra_replay_cache_dir = None\<rparr>"

definition demo_settings :: request_settings where
  "demo_settings =
    \<lparr>st_signing_key = host_secret, st_agent_pubkey = agent_secret, st_socket = ''/run/agent.sock'',
     st_context =
       \<lparr>rc_key_id = ''host-key-1'', rc_host_id = ''host-abc'', rc_hostname = ''linux'',
        rc_service = ''sudo'', rc_user = ''alice'', rc_ruser = None, rc_rhost = None,
        rc_tty = None, rc_sudo_command = None\<rparr>,
     st_timeout_ms = 15000, st_allowed_future_skew_ms = 30000, st_replay_cache = Some 4\<rparr>"

definition demo_request :: AuthRequestBody where
  "demo_request =
    \<lparr>rq_protocol_version = PROTOCOL_VERSION, rq_request_id = ''req-1700000000000-12345'',
     rq_nonce = replicate 32 0x42, rq_created_at_ms = 1700000000000,
     rq_expires_at_ms = 1700000015000, rq_linux_host_id = ''host-abc'',
     rq_linux_hostname = ''linux'', rq_pam_service = ''sudo'', rq_pam_user = ''alice'',
     rq_pam_ruser = None, rq_pam_rhost = None, rq_pam_tty = None, rq_sudo_command = None,
     rq_client_pid = Some 12345, rq_key_id = ''host-key-1'', rq_alg = Ed25519\<rparr>"

definition demo_signed_request :: SignedAuthRequest where
  "demo_signed_request =
    \<lparr>srq_body = demo_request,
     srq_signature = pad 64 (pad 32 host_secret @ request_fields demo_request)\<rparr>"

definition demo_reply :: "Decision \<Rightarrow> (SignedAuthResponse, ProtocolError) result" where
  "demo_reply d =
    and_then (for_request demo_lib demo_request d BiometricOrWatch 1700000000000 1700000010000
        ''agent-key-1'')
      (\<lambda>r. response_sign demo_lib r agent_secret)"

definition demo_response :: "Decision \<Rightarrow> SignedAuthResponse" where
  "demo_response d = (case demo_reply d of Inr s \<Rightarrow> s)"

text \<open>
  The libraries with \<open>s\<close> delivered by the socket and the signatures that \<open>V\<close> accepts. In \<open>agent_lib\<close> an
  agent whose decision is \<open>d\<close> is behind the socket, and its reply is the only message with valid
  signatures.
\<close>

definition delivering_lib ::
    "(bytes \<Rightarrow> bytes \<Rightarrow> bytes \<Rightarrow> bool) \<Rightarrow> SignedAuthResponse \<Rightarrow> helper_lib" where
  "delivering_lib V s = demo_lib
    \<lparr>ed25519_verify := V,
     json_to_response := (\<lambda>bs. if bs = [1] then Ok s else Err ''not a response'')\<rparr>"

definition only_reply :: "Decision \<Rightarrow> bytes \<Rightarrow> bytes \<Rightarrow> bytes \<Rightarrow> bool" where
  "only_reply d pk m sig \<longleftrightarrow> m = response_fields (srs_body (demo_response d)) \<and> sig = pad 64 (pk @ m)"

definition agent_lib :: "Decision \<Rightarrow> helper_lib" where
  "agent_lib d = delivering_lib (only_reply d) (demo_response d)"

section \<open>Settings\<close>

lemma demo_paths:
  "components ''/etc/host.key'' = [RootDir, Normal ''etc'', Normal ''host.key'']"
  "components ''/etc/agent.pub'' = [RootDir, Normal ''etc'', Normal ''agent.pub'']"
  "components ''/etc/replay'' = [RootDir, Normal ''etc'', Normal ''replay'']"
  "components ''/etc/helper.toml'' = [RootDir, Normal ''etc'', Normal ''helper.toml'']"
  by (simp_all add: components_def is_absolute_def)

lemmas demo_open_simps = open_trusted_def absolute_path_def is_absolute_def demo_paths name_def
  validate_def validate_metadata_def walk_flags_def Let_def

lemma demo_open:
  "open_trusted demo_sys ''/etc/host.key'' ro False True w = (Ok 2, w)"
  "open_trusted demo_sys ''/etc/agent.pub'' ro False False w = (Ok 3, w)"
  "open_trusted demo_sys ''/etc/replay'' ro True True w = (Ok 4, w)"
  "open_trusted demo_sys ''/etc/helper.toml'' ro False False w = (Ok 5, w)"
  by (simp_all add: demo_open_simps demo_sys_def demo_openat_def demo_entries_def demo_stat_def)

lemma demo_hex_graphic: "list_all graphic (demo_hex_encode bs)"
  using hex_encode_graphic [OF demo_lib_hex, of bs] by (simp add: demo_lib_def)

lemma demo_read_file:
  assumes "d_handles w f = None" and "list_all is_ascii (demo_contents f)"
    and "length (demo_contents f) \<le> k"
  shows "read_to_string demo_sys f k w = (Ok (demo_contents f), w)"
  using assms by (simp add: read_to_string_def demo_sys_def demo_read_def from_utf8_ascii)

lemma demo_contents_ok:
  "list_all is_ascii (demo_contents 2)" "length (demo_contents 2) = 81"
  "list_all is_ascii (demo_contents 3)" "length (demo_contents 3) = 80"
  using key_line_ascii [OF demo_hex_graphic]
  by (simp_all add: demo_contents_def private_key_line_def public_key_line_def demo_hex_length
      host_secret_def agent_secret_def)

lemma demo_material:
  "key_material_of_lines (lines (demo_contents 2)) = Some (demo_hex_encode host_secret)"
  "key_material_of_lines (lines (demo_contents 3)) = Some (demo_hex_encode agent_secret)"
  using written_key_material [OF demo_hex_graphic] by (simp_all add: demo_contents_def)

lemma demo_keys:
  assumes "d_handles w = Map.empty"
  shows "read_key_material demo_sys ''/etc/host.key'' ro True w = (Ok (demo_hex_encode host_secret), w)"
    and "read_key_material demo_sys ''/etc/agent.pub'' ro False w = (Ok (demo_hex_encode agent_secret), w)"
  using assms
  by (simp_all add: read_key_material_def read_trusted_file_def demo_open demo_read_file
      demo_contents_ok demo_material MAX_FRAME_LEN_def)

lemma delivering_lib_hex [simp]:
  "hex_decode (delivering_lib V s) (demo_hex_encode bs) = Ok bs"
  by (simp add: delivering_lib_def demo_lib_def demo_hex_roundtrip)

lemma demo_load_config:
  assumes "d_handles w = Map.empty"
  shows "load_helper_config (delivering_lib V s) demo_sys (Some ''/etc/helper.toml'') ro w =
    (Ok (demo_config\<lparr>cfg_replay_cache_dir := Some ''/etc/replay''\<rparr>), w)"
  using assms
  by (simp add: load_helper_config_def read_trusted_file_def demo_open demo_read_file
      demo_contents_def delivering_lib_def demo_lib_def)

lemma demo_load_settings:
  "load_settings (delivering_lib V s) demo_sys demo_args demo_world = (Ok demo_settings, demo_world)"
proof -
  have "d_handles demo_world = Map.empty" by (simp add: demo_world_def)
  note inputs = demo_keys [OF this] demo_load_config [OF this]
  have trim: "trim (demo_hex_encode bs) = demo_hex_encode bs" for bs
    by (rule trim_graphic) (rule demo_hex_graphic)
  show ?thesis
    by (simp add: load_settings_def demo_args_def load_signing_key_def
        load_public_key_def inputs signing_key_from_hex_def trim host_secret_def agent_secret_def
        required_socket_def is_absolute_def open_replay_cache_def demo_open default_config_def demo_config_def
        demo_settings_def)
qed

section \<open>The request\<close>

lemma demo_request_canonical:
  "request_canonical_bytes demo_request = Ok (request_fields demo_request)"
  by (simp add: request_canonical_bytes_Ok request_validate_Ok request_fits_def demo_request_def
      fits_def opt_fits_def NONCE_LEN_def)

lemma demo_now: "unix_time_ms demo_sys w = (Ok 1700000000000, w)"
  by (simp add: unix_time_ms_def demo_sys_def as_millis_def)

lemma demo_clock: "sys_instant_now demo_sys w = (d_clock w, w\<lparr>d_clock := Suc (d_clock w)\<rparr>)"
  by (simp add: demo_sys_def)

lemma demo_budget:
  "operation_budget demo_sys 15000 1700000000000 demo_world =
    (Ok (15000000000, 1700000015000), demo_world\<lparr>d_clock := 1\<rparr>)"
  by (simp add: operation_budget_Ok demo_clock demo_world_def INSTANT_MAX_def)

lemma demo_decimals:
  "show_nat 1700000000000 = ''1700000000000''" "show_nat 12345 = ''12345''"
  by (simp_all add: show_nat.simps digit_char_def char_of_eq_iff)

lemma demo_build:
  "build_request demo_sys 1700000000000 (st_context demo_settings) w =
    (Ok (demo_request\<lparr>rq_expires_at_ms := 1700000030000\<rparr>), w)"
  by (simp add: build_request_def demo_sys_def demo_request_def demo_settings_def NONCE_LEN_def
      demo_decimals map_replicate_const)

lemma demo_blank:
  "\<not> list_ex is_blank [''host-key-1'', ''host-abc'', ''linux'', ''sudo'', ''alice'']"
  by (simp add: is_blank_def trim_graphic_ends graphic_def)

lemma demo_sign_request:
  "sign_request (delivering_lib V s) demo_sys demo_settings demo_world =
    (Ok (15000000000, demo_signed_request), demo_world\<lparr>d_clock := 1\<rparr>)"
proof -
  have "request_sign (delivering_lib V s) demo_request host_secret = Ok demo_signed_request"
    by (simp add: request_sign_def demo_request_canonical demo_signed_request_def delivering_lib_def
        demo_lib_def)
  moreover have "demo_request\<lparr>rq_expires_at_ms := 1700000015000\<rparr> = demo_request"
    by (simp add: demo_request_def)
  moreover have "st_timeout_ms demo_settings = 15000" "st_signing_key demo_settings = host_secret"
    by (simp_all add: demo_settings_def)
  moreover have "\<not> list_ex is_blank [rc_key_id (st_context demo_settings),
    rc_host_id (st_context demo_settings), rc_hostname (st_context demo_settings),
    rc_service (st_context demo_settings), rc_user (st_context demo_settings)]"
    using demo_blank by (simp add: demo_settings_def)
  ultimately show ?thesis
    unfolding sign_request_def by (simp add: demo_now demo_budget demo_build Let_def)
qed

section \<open>The exchange\<close>

definition demo_stream :: DeadlineStream where
  "demo_stream = \<lparr>ds_stream = 7, ds_deadline = 15000000000\<rparr>"

lemma demo_check:
  "d_clock w < deadline \<Longrightarrow>
    check_deadline demo_sys deadline w = (Ok (), w\<lparr>d_clock := Suc (d_clock w)\<rparr>)"
  by (simp add: check_deadline_def demo_clock)

lemma demo_socket_calls:
  "sys_socket demo_sys w = (Ok 7, w)" "sys_set_cloexec demo_sys f w = (Ok (), w)"
  "sys_set_nonblocking demo_sys f w = (Ok (), w)" "sys_connect demo_sys f p w = (Ok (), w)"
  "sys_send demo_sys f bs w = (Ok (length bs), w\<lparr>d_sent := d_sent w @ bs\<rparr>)"
  "sys_recv demo_sys f n w =
    (Ok (take (min n 3) (d_inbox w)), w\<lparr>d_inbox := drop (min n 3) (d_inbox w)\<rparr>)"
  by (simp_all add: demo_sys_def demo_recv_def)

lemma demo_connect:
  "connect demo_sys ''/run/agent.sock'' 15000000000 (demo_world\<lparr>d_clock := 1\<rparr>) =
    Some (Ok demo_stream, demo_world\<lparr>d_clock := 4\<rparr>)"
  by (simp add: connect_def connect_loop.simps demo_check SUN_PATH_LEN_def demo_world_def
      demo_stream_def demo_socket_calls)

lemma demo_transfer:
  assumes "d_clock w < ds_deadline ds" and "operation (w\<lparr>d_clock := Suc (d_clock w)\<rparr>) = (Inr x, w')"
  shows "transfer demo_sys ds events operation w = Some (Ok x, w')"
  using assms by (simp add: transfer.simps demo_check)


lemma demo_read_frame:
  "read_json_frame (json_to_response (delivering_lib V s)) (stream_read demo_sys demo_stream)
      (demo_world\<lparr>d_clock := 6, d_sent := x\<rparr>) =
    Some (Ok s, demo_world\<lparr>d_clock := 9, d_inbox := [], d_sent := x\<rparr>)"
proof -
  have read: "stream_read demo_sys demo_stream n w =
      Some (Ok (take (min n 3) (d_inbox w)),
        w\<lparr>d_clock := Suc (d_clock w), d_inbox := drop (min n 3) (d_inbox w)\<rparr>)"
    if "d_clock w < 15000000000" for n w
    using that unfolding stream_read_def
    by (intro demo_transfer) (simp_all add: demo_stream_def socket_read_def demo_socket_calls)
  show ?thesis
    by (simp add: read_json_frame_def read_exact.simps read demo_world_def MAX_FRAME_LEN_def
        delivering_lib_def nat_from_be_def Let_def)
qed

lemma demo_write_frame:
  "write_json_frame (json_of_request (delivering_lib V s)) (stream_write demo_sys demo_stream)
      demo_signed_request (demo_world\<lparr>d_clock := 4\<rparr>) =
    Some (Ok (), demo_world\<lparr>d_clock := 6, d_sent := [0, 0, 0, 1, 1]\<rparr>)"
proof -
  have wr: "stream_write demo_sys demo_stream bs w =
      Some (Ok (length bs), w\<lparr>d_clock := Suc (d_clock w), d_sent := d_sent w @ bs\<rparr>)"
    if "d_clock w < 15000000000" for bs w
    using that unfolding stream_write_def
    by (intro demo_transfer) (simp_all add: demo_stream_def socket_write_def demo_socket_calls)
  show ?thesis
    by (simp add: write_json_frame_def write_all.simps wr demo_world_def MAX_FRAME_LEN_def
        delivering_lib_def demo_lib_def)
qed

lemma demo_exchange:
  "exchange (delivering_lib V s) demo_sys ''/run/agent.sock'' 15000000000 demo_signed_request
      (demo_world\<lparr>d_clock := 1\<rparr>) =
    Some (Ok s, demo_world\<lparr>d_clock := 9, d_inbox := [], d_sent := [0, 0, 0, 1, 1]\<rparr>)"
  by (simp add: exchange_def demo_connect demo_write_frame demo_read_frame del: One_nat_def)

section \<open>Acceptance\<close>

lemma demo_response_ok:
  "demo_reply d = Ok (demo_response d)"
  "rs_decision (srs_body (demo_response d)) = d"
  "rs_created_at_ms (srs_body (demo_response d)) = 1700000000000"
  "rs_expires_at_ms (srs_body (demo_response d)) = 1700000010000"
  "verify_for_request (agent_lib d) (demo_response d) demo_request agent_secret = Ok ()"
proof -
  have "length (sha256_digest demo_lib (request_fields demo_request)) = 32"
    by (simp add: demo_lib_def)
  then obtain resp s where f: "for_request demo_lib demo_request d BiometricOrWatch
      1700000000000 1700000010000 ''agent-key-1'' = Ok resp"
    and s: "response_sign demo_lib resp agent_secret = Ok s" "srs_body s = resp" "rs_decision resp = d"
    and v: "verify_for_request demo_lib s demo_request (ed25519_public demo_lib agent_secret) = Ok ()"
    using signed_reply_accepted [OF demo_lib_crypto demo_request_canonical, of 1700000000000
        1700000010000 "''agent-key-1''" d BiometricOrWatch agent_secret]
    by (auto simp: fits_def)
  from f s(1) show reply: "demo_reply d = Ok (demo_response d)"
    by (simp add: demo_response_def demo_reply_def)
  with f s(1) have eq: "demo_response d = s" by (simp add: demo_reply_def)
  with s show "rs_decision (srs_body (demo_response d)) = d" by simp
  from f have "rs_created_at_ms resp = 1700000000000 \<and> rs_expires_at_ms resp = 1700000010000"
    by (auto simp: for_request_def result_simps)
  with eq s show "rs_created_at_ms (srs_body (demo_response d)) = 1700000000000"
    "rs_expires_at_ms (srs_body (demo_response d)) = 1700000010000" by simp_all
  have "ed25519_public demo_lib agent_secret = agent_secret"
    by (simp add: demo_lib_def pad_def agent_secret_def)
  with v eq show "verify_for_request (agent_lib d) (demo_response d) demo_request agent_secret = Ok ()"
    by (auto simp: verify_for_request_Ok signed_response.verify_Ok verify_ed25519_Ok
        verify_binding_Ok agent_lib_def delivering_lib_def only_reply_def response_canonical_bytes_Ok)
      (simp_all add: demo_lib_def)
qed

lemma demo_response_canonical:
  "response_canonical_bytes (srs_body (demo_response d)) =
    Ok (response_fields (srs_body (demo_response d)))"
proof -
  obtain m where "response_canonical_bytes (srs_body (demo_response d)) = Ok m"
    using demo_response_ok(5) [of d] by (auto simp: verify_for_request_Ok signed_response.verify_Ok)
  then show ?thesis by (simp add: response_canonical_bytes_Ok)
qed

lemma demo_record:
  assumes "d_listing w = []" and "d_markers w = Map.empty"
    and "CHR 0x00 \<notin> set (marker_name_of L response)"
  shows "\<exists>w'. record_replay_marker L demo_sys 4 response w = Some (Ok (), w') \<and>
    d_clock w' = d_clock w"
proof -
  have "cleanup_loop demo_sys 4 0 now w = Some w" for now
    using assms by (simp add: cleanup_loop.simps) (simp add: demo_sys_def demo_readdir_def)
  then have "cleanup_markers demo_sys 4 now w = Some (Ok (), w)" for now
    by (simp add: cleanup_markers_def) (simp add: demo_sys_def)
  then show ?thesis
    using assms
    by (simp add: record_replay_marker_def demo_now create_marker_def name_def)
      (simp add: demo_sys_def demo_openat_def demo_handle_def demo_write_def marker_create_flags_def)
qed

lemma demo_marker_name: "CHR 0x00 \<notin> set (marker_name_of (agent_lib d) response)"
  using demo_hex_chars [of "CHR 0x00"]
  by (auto simp: marker_name_of_def agent_lib_def delivering_lib_def demo_lib_def)

lemma demo_accept:
  assumes "d_clock w = 9" and "d_listing w = []" and "d_markers w = Map.empty"
  shows "\<exists>w'. accept_response (agent_lib d) demo_sys demo_settings 15000000000 demo_request
    (demo_response d) w = Some (Ok (exit_code_for_decision d), w')"
proof -
  let ?w = "w\<lparr>d_clock := 10\<rparr>"
  obtain w1 where "record_replay_marker (agent_lib d) demo_sys 4 (demo_response d) ?w = Some (Ok (), w1)"
    and "d_clock w1 = 10"
    using demo_record [of ?w "agent_lib d" "demo_response d"] demo_marker_name assms by auto
  moreover have "request_verify_freshness demo_request 1700000000000 30000 = Ok ()"
    by (simp add: request_verify_freshness_def demo_request_def saturating_add_def)
  moreover have "response_verify_freshness (srs_body (demo_response d)) 1700000000000 30000 = Ok ()"
    by (simp add: response_verify_freshness_def demo_response_ok saturating_add_def)
  ultimately show ?thesis
    using assms
    by (simp add: accept_response_def record_if_cached_def demo_settings_def demo_response_ok demo_now
        demo_check)
qed

lemma demo_run:
  "\<exists>w'. run_request (agent_lib d) demo_sys demo_args demo_world =
    Some (Ok (exit_code_for_decision d), w')"
proof -
  let ?w = "demo_world\<lparr>d_clock := 9, d_inbox := [], d_sent := [0, 0, 0, 1, 1]\<rparr>"
  obtain w' where "accept_response (agent_lib d) demo_sys demo_settings 15000000000 demo_request
      (demo_response d) ?w = Some (Ok (exit_code_for_decision d), w')"
    using demo_accept [of ?w d] by (auto simp: demo_world_def)
  moreover have "st_socket demo_settings = ''/run/agent.sock''" by (simp add: demo_settings_def)
  moreover have "srq_body demo_signed_request = demo_request" by (simp add: demo_signed_request_def)
  ultimately show ?thesis
    by (simp add: run_request_def request_steps_def demo_load_settings demo_sign_request demo_exchange
        agent_lib_def del: One_nat_def)
qed

end
