(* ===== verification/Pam_Demo.thy ===== *)
theory Pam_Demo
  imports Pam_Compose Demo_Run
begin

text \<open>
  A concrete system for the PAM module, on which the witnesses run it: the helper's executable
  under \<open>/usr/bin\<close>, a table of descriptors, a clock that sleeping moves, and a child that ends
  after some polls. \<open>close_range\<close> is missing, so that the child lists its descriptors.
\<close>

section \<open>The system\<close>

record pam_demo =
  p_table :: "(fd \<times> string list) list"
  p_time :: nat
  p_polls :: nat
  p_child :: "child_locals option"
  p_entries :: "fd_entry list"

definition fresh_fd :: "pam_demo \<Rightarrow> fd" where
  "fresh_fd w = Suc (foldr max (map fst (p_table w)) 0)"

definition p_open :: "string list \<Rightarrow> pam_demo \<Rightarrow> fd \<times> pam_demo" where
  "p_open node w = (fresh_fd w, w\<lparr>p_table := (fresh_fd w, node) # p_table w\<rparr>)"

definition helper_node :: "string list" where
  "helper_node = [''usr'', ''bin'', ''macos-auth-helper'']"

definition p_openat :: "fd \<Rightarrow> string \<Rightarrow> pam_demo \<Rightarrow> (fd, errno) result \<times> pam_demo" where
  "p_openat f c w =
    (case map_of (p_table w) f of
       None \<Rightarrow> (Err EBADF, w)
     | Some node \<Rightarrow>
        if node @ [c] \<in> {[''usr''], [''usr'', ''bin''], helper_node}
        then (case p_open (node @ [c]) w of (g, w) \<Rightarrow> (Ok g, w)) else (Err ENOENT, w))"

definition p_fstat :: "fd \<Rightarrow> pam_demo \<Rightarrow> (metadata, io_error) result \<times> pam_demo" where
  "p_fstat f w =
    (case map_of (p_table w) f of
       None \<Rightarrow> (Err (Os EBADF), w)
     | Some node \<Rightarrow>
        (Ok \<lparr>md_type = (if node = helper_node then RegularFile else Directory), md_uid = 0,
             md_mode = 0x1ED\<rparr>, w))"

definition p_close :: "fd \<Rightarrow> pam_demo \<Rightarrow> pam_demo" where
  "p_close f w = w\<lparr>p_table := filter (\<lambda>e. fst e \<noteq> f) (p_table w)\<rparr>"

definition pam_base :: "pam_demo sys" where
  "pam_base =
    \<lparr>sys_instant_now = (\<lambda>w. (p_time w, w)), sys_time_now = (\<lambda>w. (0, w)),
     sys_fill_bytes = (\<lambda>w. (\<lambda>_. 0, w)), sys_process_id = 1,
     sys_current_dir = (\<lambda>w. (Ok ''/'', w)),
     sys_open_root = (\<lambda>w. case p_open [] w of (f, w) \<Rightarrow> (Ok f, w)),
     sys_openat = (\<lambda>f c flags. p_openat f c),
     sys_openat_mode = (\<lambda>f c flags mode. p_openat f c),
     sys_fstat = p_fstat,
     sys_read_to_end = (\<lambda>f k w. (Ok [], w)), sys_write_all = (\<lambda>f bs w. (Ok (), w)),
     sys_create_new = (\<lambda>p m w. (Err (Os EACCES), w)), sys_remove_file = (\<lambda>p w. (Ok (), w)),
     sys_dup = (\<lambda>f w. (Err EBADF, w)),
     sys_close = p_close,
     sys_fdopendir = (\<lambda>f w. (Err EBADF, w)), sys_readdir = (\<lambda>k w. (None, w)),
     sys_closedir = (\<lambda>k w. w), sys_unlinkat = (\<lambda>f n w. w), sys_socket = (\<lambda>w. (Err EACCES, w)),
     sys_set_cloexec = (\<lambda>f w. (Ok (), w)),
     sys_set_nonblocking = (\<lambda>f w. (Ok (), w)), sys_connect = (\<lambda>f p w. (Ok (), w)),
     sys_poll = (\<lambda>f e n w. (PollTimeout, w)), sys_take_error = (\<lambda>f w. (Ok None, w)),
     sys_sleep = (\<lambda>n w. w), sys_recv = (\<lambda>f n w. (Ok [], w)), sys_send = (\<lambda>f bs w. (Ok 0, w)),
     sys_bind = (\<lambda>p w. (Err (Os EACCES), w)), sys_accept = (\<lambda>f w. (Err (Os EACCES), w)),
     sys_generate_key = (\<lambda>w. ([], w)), sys_print = (\<lambda>s w. w)\<rparr>"

definition demo_argv :: "string list" where
  "demo_argv =
    [''/usr/bin/macos-auth-helper'', ''request'', ''--require-root-owned'', ''--config'',
     ''/etc/helper.toml'', ''--user'', ''alice'', ''--service'', ''sudo'']"

definition demo_locals :: child_locals where
  "demo_locals = (6, map Some demo_argv @ None # replicate 14 None)"

definition demo_pam :: "pam_demo pam_sys" where
  "demo_pam = sys.extend pam_base (pam_sys.fields
    (\<lambda>item w. ((PAM_SUCCESS, if item = PAM_SERVICE then Some ''sudo'' else None), w))
    (\<lambda>w. ((PAM_SUCCESS, Some ''alice''), w))
    (\<lambda>priority fmt args w. w)
    (\<lambda>w. (True, w))
    (\<lambda>w. (if p_time w < 1000 then Some \<lparr>tv_sec = 0, tv_nsec = int (p_time w) * 1000000\<rparr> else None, w))
    (\<lambda>locals w. (Ok 7, w\<lparr>p_child := Some locals\<rparr>))
    (\<lambda>f g w. (Ok g, case map_of (p_table w) f of
       None \<Rightarrow> w | Some node \<Rightarrow> (p_close g w)\<lparr>p_table := (g, node) # p_table (p_close g w)\<rparr>))
    (\<lambda>n w. (Err (Errno 38), w))
    (\<lambda>w. case p_open [''fd''] w of (d, w) \<Rightarrow> (Ok d,
       w\<lparr>p_entries := map (\<lambda>e. \<lparr>reclen = 24, entry_name = show_nat (fst e)\<rparr>) (p_table w)\<rparr>))
    (\<lambda>d w. (Ok (p_entries w), w\<lparr>p_entries := []\<rparr>))
    (\<lambda>pid w. if p_child w = Some demo_locals \<and> p_polls w = 0 then (Reaped (Exited 0), w)
       else (NotYet, w\<lparr>p_polls := p_polls w - 1\<rparr>))
    (\<lambda>pid w. (Ok (Signaled 9), w))
    (\<lambda>pid sig w. w)
    (\<lambda>n w. w\<lparr>p_time := p_time w + n\<rparr>))"

definition pam_world :: pam_demo where
  "pam_world = \<lparr>p_table = [(0, [''tty'']), (1, [''tty'']), (2, [''tty''])], p_time = 0, p_polls = 1,
     p_child = None, p_entries = []\<rparr>"

definition p_opened :: "pam_demo \<Rightarrow> fd set" where
  "p_opened w = fst ` set (p_table w)"

lemma demo_pam_calls [simp]:
  "sys_open_root demo_pam w = (case p_open [] w of (f, w) \<Rightarrow> (Ok f, w))"
  "sys_openat demo_pam f c flags w = p_openat f c w"
  "sys_fstat demo_pam f w = p_fstat f w"
  "sys_close demo_pam f w = p_close f w"
  "sys_set_cloexec demo_pam f w = (Ok (), w)"
  "pam_get_item demo_pam item w = ((PAM_SUCCESS, if item = PAM_SERVICE then Some ''sudo'' else None), w)"
  "pam_get_user demo_pam w = ((PAM_SUCCESS, Some ''alice''), w)"
  "pam_vsyslog demo_pam priority fmt args w = w"
  "pam_malloc demo_pam w = (True, w)"
  "pam_clock_gettime demo_pam w =
    (if p_time w < 1000 then Some \<lparr>tv_sec = 0, tv_nsec = int (p_time w) * 1000000\<rparr> else None, w)"
  "pam_fork demo_pam locals w = (Ok 7, w\<lparr>p_child := Some locals\<rparr>)"
  "pam_dup2 demo_pam f g w = (Ok g, case map_of (p_table w) f of
     None \<Rightarrow> w | Some node \<Rightarrow> (p_close g w)\<lparr>p_table := (g, node) # p_table (p_close g w)\<rparr>)"
  "pam_close_range demo_pam g w = (Err (Errno 38), w)"
  "pam_open_fd_dir demo_pam w = (case p_open [''fd''] w of (d, w) \<Rightarrow> (Ok d,
     w\<lparr>p_entries := map (\<lambda>e. \<lparr>reclen = 24, entry_name = show_nat (fst e)\<rparr>) (p_table w)\<rparr>))"
  "pam_getdents demo_pam f w = (Ok (p_entries w), w\<lparr>p_entries := []\<rparr>)"
  "pam_wait_nohang demo_pam pid w =
    (if p_child w = Some demo_locals \<and> p_polls w = 0 then (Reaped (Exited 0), w)
     else (NotYet, w\<lparr>p_polls := p_polls w - 1\<rparr>))"
  "pam_waitpid demo_pam pid w = (Ok (Signaled 9), w)"
  "pam_kill demo_pam pid sig w = w"
  "pam_usleep demo_pam n w = w\<lparr>p_time := p_time w + n\<rparr>"
  by (simp_all add: demo_pam_def pam_base_def sys.defs pam_sys.defs)

section \<open>The laws hold\<close>

lemma fresh_fd_new: "fresh_fd w \<notin> p_opened w"
proof -
  have le: "x \<le> foldr max xs 0" if "x \<in> set xs" for x :: nat and xs
    using that by (induction xs) auto
  show ?thesis
  proof
    assume "fresh_fd w \<in> p_opened w"
    then have "fresh_fd w \<in> set (map fst (p_table w))" by (simp add: p_opened_def)
    from le [OF this] show False by (simp add: fresh_fd_def)
  qed
qed

lemma pam_demo_waits:
  assumes "\<And>w n. K (w\<lparr>p_polls := n\<rparr>) = K w" and "\<And>w n. K (w\<lparr>p_time := n\<rparr>) = K w"
  shows "waiting_keeps demo_pam K"
  using assms by (simp add: waiting_keeps_def)

lemma p_opened_simps:
  "p_opened (p_close f w) = p_opened w - {f}"
  "p_open node w = (fresh_fd w, w') \<Longrightarrow> p_opened w' = insert (fresh_fd w) (p_opened w)"
  "p_entries (p_close f w) = p_entries w"
  "p_opened (w\<lparr>p_child := c\<rparr>) = p_opened w" "p_opened (w\<lparr>p_entries := es\<rparr>) = p_opened w"
  by (auto simp: p_opened_def p_close_def p_open_def)

lemma pam_demo_descriptors: "descriptor_table demo_pam p_opened"
proof -
  have "waiting_keeps demo_pam p_opened" by (rule pam_demo_waits) (simp_all add: p_opened_def)
  moreover have "opens (p_opened w) r (p_opened w')"
    if "(case p_open node w of (g, w) \<Rightarrow> (Ok g, w)) = (r, w')" for w node w' and r :: "(fd, io_error) result"
    using that fresh_fd_new [of w] by (auto simp: opens_def p_open_def p_opened_def)
  moreover have "opens (p_opened w) r (p_opened w')" if "p_openat f c w = (r, w')" for f c w r w'
    using that fresh_fd_new [of w]
    by (auto simp: p_openat_def opens_def p_open_def p_opened_def split: option.splits if_splits)
  moreover have "p_opened (snd (p_fstat f w)) = p_opened w" for f w
    by (simp add: p_fstat_def split: option.splits)
  ultimately show ?thesis
    by (simp add: descriptor_table_def p_opened_simps)
qed

lemma pam_demo_child: "child_descriptors demo_pam p_opened (\<lambda>w d. listed (p_entries w))"
proof -
  have "p_opened w' \<subseteq> insert d (listed (p_entries w'))"
    if "pam_open_fd_dir demo_pam w = (Inr d, w')" for w d w'
    using that by (force simp: p_open_def p_opened_def listed_def)
  then show ?thesis
    by (simp add: child_descriptors_def p_opened_simps listed_def [of "[]"] del: demo_pam_calls(14))
qed

lemma pam_demo_time: "monotonic_ms demo_pam w =
  (if p_time w < 1000 then Some (word_of_nat (p_time w)) else None, w)"
proof -
  have "word_of_int (int (p_time w) * 1000000) div 1000000 = (word_of_nat (p_time w) :: u64)"
    if "p_time w < 1000"
  proof -
    let ?n = "p_time w * 1000000"
    have n: "unat (word_of_nat ?n :: u64) = ?n"
      using that unfolding unat_of_nat by simp
    have "unat (word_of_nat ?n div 1000000 :: u64) = unat (word_of_nat ?n :: u64) div unat (1000000 :: u64)"
      by (rule unat_div)
    also have "\<dots> = p_time w" unfolding n by simp
    finally have "unat (word_of_nat ?n div 1000000 :: u64) = p_time w" .
    moreover have "unat (word_of_nat (p_time w) :: u64) = p_time w"
      using that unfolding unat_of_nat by simp
    moreover have "(word_of_int (int (p_time w) * 1000000) :: u64) = word_of_nat ?n"
      by (metis of_int_of_nat_eq of_nat_mult of_nat_numeral)
    ultimately show ?thesis by (simp add: word_unat_eq_iff)
  qed
  then show ?thesis by (simp add: monotonic_ms_def)
qed

lemma pam_demo_clock: "helper_clock demo_pam p_time (\<lambda>_. 0)"
proof -
  have "unat (word_of_nat n :: u64) = n" if "n < 1000" for n
    using that unfolding unat_of_nat by simp
  then show ?thesis by (auto simp: helper_clock_def pam_demo_time split: if_splits)
qed

section \<open>A run of the module\<close>

text \<open>\<open>clap\<close> on the one command line of the run, and the helper behind the descriptor.\<close>

definition demo_clap :: clap where
  "demo_clap argv = (if argv = demo_argv then Ok (Request demo_args) else Err 2)"

definition demo_helper :: "'t toml_lib \<Rightarrow> pam_demo program" where
  "demo_helper T = helper_executable T (agent_lib Approved) demo_sys demo_clap (\<lambda>_. demo_world)"

lemma pair_args_eq:
  "pair_args ps = [] \<longleftrightarrow> ps = []" "[] = pair_args ps \<longleftrightarrow> ps = []"
  "pair_args ps = a # xs \<longleftrightarrow> (\<exists>b qs. ps = (a, b) # qs \<and> xs = b # pair_args qs)"
  "a # xs = pair_args ps \<longleftrightarrow> (\<exists>b qs. ps = (a, b) # qs \<and> xs = b # pair_args qs)"
  by (cases ps; auto)+

lemma demo_clap_request: "clap_request demo_clap"
proof -
  have "request_options ps demo_args"
    if "prog # ''request'' # ''--require-root-owned'' # pair_args ps = demo_argv" for prog ps
  proof -
    from that have "ps = [(''--config'', ''/etc/helper.toml''), (''--user'', ''alice''), (''--service'', ''sudo'')]"
      by (auto simp: demo_argv_def pair_args_eq simp del: concat_eq_Nil_conv Nil_eq_concat_conv)
    then show ?thesis by (simp add: request_options_def demo_args_def)
  qed
  then show ?thesis by (auto simp: clap_request_def demo_clap_def)
qed

lemma demo_argv_strings: "argv_strings (snd demo_locals) = demo_argv"
  by (simp add: demo_locals_def argv_strings_args)

lemma demo_helper_zero: "demo_helper T f demo_argv envp w = Some 0"
proof -
  obtain v where "run_request (agent_lib Approved) demo_sys demo_args demo_world = Some (Ok EXIT_APPROVED, v)"
    using demo_run [of Approved] by auto
  then show ?thesis
    by (simp add: demo_helper_def helper_executable_def demo_clap_def main_program_def EXIT_APPROVED_def)
qed

lemma demo_child:
  "\<exists>v'. helper_child demo_pam f exec_argv \<lparr>p_table = [], p_time = 0, p_polls = 0, p_child = None, p_entries = []\<rparr> =
    Some (ChildExec 3 (argv_strings exec_argv) helper_envp, v')"
  by (simp add: helper_child_def close_inherited_fds_def close_listed.simps p_open_def p_close_def
      listed_digits digits_val_show_nat fresh_fd_def)

lemma pam_demo_processes: "process_table demo_pam (demo_helper T) (\<lambda>w pid. p_child w)"
proof -
  have "waiting_keeps demo_pam (\<lambda>w (pid :: pid). p_child w)" by (rule pam_demo_waits) simp_all
  moreover have "ends_with demo_pam (demo_helper T) demo_locals 0"
    using demo_child [of "fst demo_locals" "snd demo_locals"] demo_helper_zero
    by (fastforce simp: ends_with_def demo_argv_strings)
  ultimately show ?thesis by (auto simp: process_table_def split: if_splits)
qed

lemma demo_tokens: "path_tokens ''/usr/bin/macos-auth-helper'' = helper_node"
  by (simp add: path_tokens_def helper_node_def)

lemma demo_options: "parse_options [''conf=/etc/helper.toml''] =
  default_options\<lparr>config_path := ''/etc/helper.toml''\<rparr>"
  by (simp add: parse_options_def parse_option_def starts_with_def)

lemma demo_validate_helper: "validate_helper_path demo_pam (Some ''/usr/bin/macos-auth-helper'') pam_world =
   (Some 6, pam_world\<lparr>p_table := (6, helper_node) # p_table pam_world\<rparr>)"
  by (simp add: validate_helper_path_def strdup_def demo_tokens open_helper_def helper_node_def
      pam_world_def p_open_def fresh_fd_def descriptor_trusted_def p_fstat_def p_openat_def
      pam_trusted_metadata_def p_close_def Let_def)

lemma demo_push:
  "\<exists>i. push_arguments (default_options\<lparr>config_path := ''/etc/helper.toml''\<rparr>) ''alice''
    (Some ''sudo'') None None None = Some (snd demo_locals, i)"
  by (simp add: push_arguments_def push_arg_def push_optional_pair_def default_options_def
      MACOS_AUTH_DEFAULT_HELPER_def demo_locals_def demo_argv_def numeral_eq_Suc)

lemma demo_authenticate:
  "\<exists>w. pam_sm_authenticate demo_pam [''conf=/etc/helper.toml''] pam_world = Some (PAM_SUCCESS, w)"
proof -
  let ?w = "pam_world\<lparr>p_table := (6, helper_node) # p_table pam_world\<rparr>"
  have locals: "(6, snd demo_locals) = demo_locals" by (simp add: demo_locals_def)
  have start: "p_time pam_world = 0" by (simp add: pam_world_def)
  have "wait_loop demo_pam 7 0 20000 (?w\<lparr>p_child := Some demo_locals\<rparr>) =
      Some (Ok (Exited 0), ?w\<lparr>p_child := Some demo_locals, p_polls := 0, p_time := 10000\<rparr>)"
    by (simp add: wait_loop.simps pam_demo_time pam_world_def)
  moreover obtain i where "push_arguments (default_options\<lparr>config_path := ''/etc/helper.toml''\<rparr>) ''alice''
      (Some ''sudo'') None None None = Some (snd demo_locals, i)" using demo_push by blast
  ultimately show ?thesis
    using demo_validate_helper
    by (simp add: pam_sm_authenticate_def pam_item_string_def demo_options invoke_helper_def Let_def
        run_helper_def default_options_def MACOS_AUTH_DEFAULT_HELPER_def locals start
        MACOS_AUTH_DEFAULT_TIMEOUT_MS_def log_if_def pam_demo_time status_code_def map_exit_to_pam_def)
qed

end
