(* ===== verification/Replay_Cleanup.thy ===== *)
theory Replay_Cleanup
  imports Replay
begin

text \<open>
  Cleanup of the replay cache (\<open>cleanup_markers\<close> of \<open>crates/helper/src/trust.rs\<close>) is complete: a
  marker that has expired does not survive it. \<open>lists_entry\<close> says that the directory stream shows
  an entry that is there, \<open>clears_entry\<close> that the process may open, read and unlink it.
\<close>

section \<open>The directory stream\<close>

text \<open>\<open>pending w dir\<close> are the names that the stream \<open>dir\<close> has still to return.\<close>

definition lists_entry ::
    "'w sys \<Rightarrow> fd \<Rightarrow> 'w files \<Rightarrow> string \<Rightarrow> ('w \<Rightarrow> nat \<Rightarrow> string set) \<Rightarrow> bool" where
  "lists_entry S d files n pending \<longleftrightarrow>
    (\<forall>f w dir w'. sys_fdopendir S f w = (Inr dir, w') \<longrightarrow> files w n \<noteq> None \<longrightarrow> n \<in> pending w' dir) \<and>
    (\<forall>dir w m w'. sys_readdir S dir w = (Some m, w') \<longrightarrow> n \<in> pending w dir \<longrightarrow>
      m = n \<or> n \<in> pending w' dir) \<and>
    (\<forall>dir w w'. sys_readdir S dir w = (None, w') \<longrightarrow> n \<notin> pending w dir) \<and>
    (\<forall>m w. pending (snd (sys_openat S d m marker_read_flags w)) = pending w) \<and>
    (\<forall>f w. pending (snd (sys_fstat S f w)) = pending w) \<and>
    (\<forall>f k w. pending (snd (sys_read_to_end S f k w)) = pending w) \<and>
    (\<forall>m w. pending (sys_unlinkat S d m w) = pending w)"

definition clears_entry :: "'w sys \<Rightarrow> fd \<Rightarrow> 'w files \<Rightarrow> string \<Rightarrow> bool" where
  "clears_entry S d files n \<longleftrightarrow>
    (\<forall>w. files w n \<noteq> None \<longrightarrow> (\<exists>f w1 md w2 bs w3. sys_openat S d n marker_read_flags w = (Inr f, w1) \<and>
      sys_fstat S f w1 = (Inr md, w2) \<and> md_type md = RegularFile \<and>
      sys_read_to_end S f 128 w2 = (Inr bs, w3))) \<and>
    (\<forall>w. files (sys_unlinkat S d n w) n = None)"

lemma lists_entry_laws:
  assumes "lists_entry S d files n pending"
  shows "sys_fdopendir S f w = (Inr dir, w') \<Longrightarrow> files w n \<noteq> None \<Longrightarrow> n \<in> pending w' dir"
    and "sys_readdir S dir w = (Some m, w') \<Longrightarrow> n \<in> pending w dir \<Longrightarrow> m = n \<or> n \<in> pending w' dir"
    and "sys_readdir S dir w = (None, w') \<Longrightarrow> n \<notin> pending w dir"
  using assms unfolding lists_entry_def by metis+

lemma cleanup_entry_pending:
  assumes "lists_entry S d files n pending"
  shows "pending (cleanup_entry S d now m w) = pending w"
proof -
  note keeps = assms [unfolded lists_entry_def]
  have calls: "sys_openat S d m marker_read_flags v = (r1, v') \<Longrightarrow> pending v' = pending v"
    "sys_fstat S f v = (r2, v') \<Longrightarrow> pending v' = pending v"
    "sys_read_to_end S f k v = (r3, v') \<Longrightarrow> pending v' = pending v"
    "pending (sys_unlinkat S d m v) = pending v" for v v' r1 r2 r3 f k
    using keeps by (metis snd_conv)+
  have read: "pending v' = pending v" if "read_to_string S f k v = (r, v')" for f k v r v'
    using that calls(3) by (fastforce simp: read_to_string_def split: prod.splits sum.splits)
  obtain r1 w1 where o: "sys_openat S d m marker_read_flags w = (r1, w1)" by fastforce
  show ?thesis
  proof (cases r1)
    case (Inl e)
    with o calls(1) [OF o] show ?thesis by (simp add: cleanup_entry_def)
  next
    case (Inr f)
    obtain r2 w2 where s: "sys_fstat S f w1 = (r2, w2)" by fastforce
    obtain r3 w3 where r: "read_to_string S f 128 w2 = (r3, w3)" by fastforce
    from o Inr s r calls(1) [OF o] calls(2) [OF s] read [OF r] show ?thesis
      by (simp add: cleanup_entry_def calls(4) split: sum.splits)
  qed
qed

section \<open>An expired marker is removed\<close>

lemma marker_line_ascii: "list_all is_ascii (marker_line expiry)"
  using show_nat_digits [of "unat expiry"]
  by (auto simp: marker_line_def list_all_iff newline_def is_ascii_def dest!: is_digit_graphic graphic_ascii)

lemma cleanup_entry_removes:
  assumes dir: "marker_directory S d files fds" and clears: "clears_entry S d files n"
    and n: "files w n = Some (marker_line expiry)" "is_marker_name n" "expiry < now"
  shows "files (cleanup_entry S d now n w) n = None"
proof -
  from clears n(1) obtain f w1 md w2 bs w3 where o: "sys_openat S d n marker_read_flags w = (Inr f, w1)"
    and s: "sys_fstat S f w1 = (Inr md, w2)" "md_type md = RegularFile"
    and r: "sys_read_to_end S f 128 w2 = (Inr bs, w3)"
    unfolding clears_entry_def by blast
  have "fds w2 f = Some n"
    using directory_reads(1) [OF dir o] directory_reads(2) [OF dir s(1)] by simp
  moreover have "files w2 n = Some (marker_line expiry)"
    using directory_leaves(1) [OF dir o] directory_leaves(2) [OF dir s(1)] n(1) by simp
  ultimately have "bs = take 128 (as_bytes (marker_line expiry))"
    using directory_reads(3) [OF dir r] by blast
  then have "read_to_string S f 128 w2 = (Ok (marker_line expiry), w3)"
    using r marker_line_short [of expiry] from_utf8_ascii [OF marker_line_ascii]
    by (simp add: read_to_string_def)
  moreover have "marker_expired now (marker_line expiry)"
    using n(3) marker_line_expired [of now expiry] marker_line_short [of expiry] by simp
  ultimately show ?thesis
    using o s n(2) clears by (simp add: cleanup_entry_def clears_entry_def)
qed

text \<open>The loop body changes at most the entry it looks at, and only by removing it.\<close>

lemma cleanup_entry_files:
  assumes dir: "marker_directory S d files fds"
  shows "files (cleanup_entry S d now m w) = files w \<or>
    files (cleanup_entry S d now m w) = (files w)(m := None)"
proof -
  obtain r1 w1 where o: "sys_openat S d m marker_read_flags w = (r1, w1)" by fastforce
  note w1 = directory_leaves(1) [OF dir o]
  show ?thesis
  proof (cases r1)
    case (Inl e)
    with o w1 show ?thesis by (simp add: cleanup_entry_def)
  next
    case (Inr f)
    obtain r2 w2 where s: "sys_fstat S f w1 = (r2, w2)" by fastforce
    obtain r3 w3 where r: "read_to_string S f 128 w2 = (r3, w3)" by fastforce
    note w3 = w1 directory_leaves(2) [OF dir s] read_to_string_contents(1) [OF dir r]
    with directory_unlink [OF dir, of m w3] o Inr s r show ?thesis
      by (auto simp: cleanup_entry_def split: sum.splits)
  qed
qed

lemma cleanup_loop_removes:
  assumes "cleanup_loop S d dir now w = Some w'" and "marker_directory S d files fds"
    and "lists_entry S d files n pending" and "clears_entry S d files n"
    and "is_marker_name n" and "expiry < now"
    and "files w n = None \<or> files w n = Some (marker_line expiry) \<and> n \<in> pending w dir"
  shows "files w' n = None"
  using assms
proof (induction rule: cleanup_loop_induct)
  case (step rec S d dir now w w')
  obtain e w1 where e: "sys_readdir S dir w = (e, w1)" by fastforce
  note w1 = directory_leaves(4) [OF step.prems(1) e]
  show ?case
  proof (cases e)
    case None
    with e step.hyps step.prems w1 lists_entry_laws(3) [OF step.prems(2)] show ?thesis by auto
  next
    case (Some m)
    let ?v = "cleanup_entry S d now m w1"
    from e Some step.hyps have rec: "rec S d dir now ?v = Some w'" by simp
    have pending: "pending ?v = pending w1" by (rule cleanup_entry_pending [OF step.prems(2)])
    consider (gone) "files w1 n = None" | (now) "files w1 n = Some (marker_line expiry)" "m = n"
      | (later) "files w1 n = Some (marker_line expiry)" "m \<noteq> n" "n \<in> pending w1 dir"
      using step.prems(6) w1 lists_entry_laws(2) [OF step.prems(2) e [unfolded Some]] by fastforce
    then have "files ?v n = None \<or> files ?v n = Some (marker_line expiry) \<and> n \<in> pending ?v dir"
    proof cases
      case gone
      then show ?thesis using cleanup_entry_files [OF step.prems(1), of now m w1] by (auto split: if_splits)
    next
      case now
      then show ?thesis using cleanup_entry_removes [OF step.prems(1,3) now(1) step.prems(4,5)] by simp
    next
      case later
      then show ?thesis using cleanup_entry_files [OF step.prems(1), of now m w1] pending by auto
    qed
    with step.IH [OF rec step.prems(1-5)] show ?thesis .
  qed
qed

lemma cleanup_markers_removes:
  assumes "cleanup_markers S d now w = Some (Inr u, w')" and dir: "marker_directory S d files fds"
    and lists: "lists_entry S d files n pending" and clears: "clears_entry S d files n"
    and n: "is_marker_name n" "files w n = Some (marker_line expiry)" "expiry < now"
  shows "files w' n = None"
proof -
  obtain f w1 where a: "sys_dup S d w = (Inr f, w1)"
    using assms(1) by (auto simp: cleanup_markers_def split: prod.splits sum.splits)
  with assms(1) obtain k w2 where b: "sys_fdopendir S f w1 = (Inr k, w2)"
    by (auto simp: cleanup_markers_def split: prod.splits sum.splits)
  with assms(1) a obtain w3 where l: "cleanup_loop S d k now w2 = Some w3"
    and w': "w' = sys_closedir S k w3"
    by (auto simp: cleanup_markers_def bind_eq_Some_conv)
  have "files w1 = files w" by (rule directory_leaves(5) [OF dir a])
  moreover have "files w2 = files w1" by (rule directory_leaves(6) [OF dir b])
  moreover from calculation have "n \<in> pending w2 k"
    using lists_entry_laws(1) [OF lists b] n(2) by simp
  ultimately have "files w3 n = None"
    using cleanup_loop_removes [OF l dir lists clears n(1,3)] n(2) by simp
  then show ?thesis using w' directory_leaves(9) [OF dir] by simp
qed

end
