(* ===== verification/Replay_Race.thy ===== *)
theory Replay_Race
  imports Replay
begin

text \<open>
  Several helpers on one replay cache. Each process runs \<open>record_replay_marker\<close> of
  \<open>crates/helper/src/main.rs\<close> with \<open>cleanup_markers\<close> and \<open>create_marker\<close> of \<open>trust.rs\<close>, and the
  system calls of different processes interleave in any order. A directory maps names to
  inodes, so that a file that is open or being written can be unlinked under its user, and the
  line of a marker is written in the three pieces that \<open>writeln!\<close> formats. A process may stop or
  fail anywhere between two calls; a write that stops inside a piece is left out. The invariant
  shows that a response is recorded by at most one process while it has not expired.
\<close>

section \<open>The processes and the directory\<close>

text \<open>
  Where a process is: before its first call, in the loop of cleanup with the clock it has read, with
  an entry opened, about to unlink an entry it found expired, after cleanup, with its marker created
  and the pieces still to be written, and at either end.
\<close>

datatype recorder =
    Idle
  | Cleaning u64
  | Opened u64 string nat
  | Unlinking u64 string
  | Creating
  | Writing nat "string list"
  | Recorded
  | Rejected

text \<open>An inode holds the name it was created under and its contents.\<close>

record cache =
  cache_time :: u64
  cache_dir :: "string \<rightharpoonup> nat"
  cache_inodes :: "nat \<Rightarrow> string \<times> string"
  cache_next :: nat
  cache_procs :: "nat \<Rightarrow> recorder"

definition marker_pieces :: "u64 \<Rightarrow> string list" where
  "marker_pieces expiry = [''expires_at_ms='', show_nat (unat expiry), [newline]]"

definition holds_marker :: "recorder \<Rightarrow> bool" where
  "holds_marker p \<longleftrightarrow> (case p of Writing g ps \<Rightarrow> True | Recorded \<Rightarrow> True | _ \<Rightarrow> False)"

abbreviation expiry_of :: "SignedAuthResponse \<Rightarrow> u64" where
  "expiry_of response \<equiv> rs_expires_at_ms (srs_body response)"

definition moved :: "nat \<Rightarrow> recorder \<Rightarrow> cache \<Rightarrow> cache" where
  "moved i p s = s\<lparr>cache_procs := (cache_procs s)(i := p)\<rparr>"

text \<open>
  One system call of process \<open>i\<close>, which records \<open>resp i\<close>. Entries whose names are not names of
  markers, and entries that cannot be opened or read, only make the loop continue.
\<close>

inductive race_step ::
    "'z helper_lib_scheme \<Rightarrow> (nat \<Rightarrow> SignedAuthResponse) \<Rightarrow> cache \<Rightarrow> cache \<Rightarrow> bool"
    for L :: "'z helper_lib_scheme" and resp :: "nat \<Rightarrow> SignedAuthResponse" where
  tick: "cache_time s \<le> t \<Longrightarrow> race_step L resp s (s\<lparr>cache_time := t\<rparr>)"
| read_clock: "cache_procs s i = Idle \<Longrightarrow> race_step L resp s (moved i (Cleaning (cache_time s)) s)"
| open_entry: "\<lbrakk> cache_procs s i = Cleaning now; cache_dir s n = Some g; is_marker_name n \<rbrakk>
    \<Longrightarrow> race_step L resp s (moved i (Opened now n g) s)"
| entry_stays: "\<lbrakk> cache_procs s i = Opened now n g;
      \<not> marker_expired now (take 128 (snd (cache_inodes s g))) \<rbrakk>
    \<Longrightarrow> race_step L resp s (moved i (Cleaning now) s)"
| entry_expired: "\<lbrakk> cache_procs s i = Opened now n g;
      marker_expired now (take 128 (snd (cache_inodes s g))) \<rbrakk>
    \<Longrightarrow> race_step L resp s (moved i (Unlinking now n) s)"
| unlink_entry: "cache_procs s i = Unlinking now n
    \<Longrightarrow> race_step L resp s (moved i (Cleaning now) (s\<lparr>cache_dir := (cache_dir s)(n := None)\<rparr>))"
| listing_done: "cache_procs s i = Cleaning now \<Longrightarrow> race_step L resp s (moved i Creating s)"
| create_marker: "\<lbrakk> cache_procs s i = Creating; cache_dir s (marker_name_of L (resp i)) = None \<rbrakk>
    \<Longrightarrow> race_step L resp s (moved i (Writing (cache_next s) (marker_pieces (expiry_of (resp i))))
      (s\<lparr>cache_dir := (cache_dir s)(marker_name_of L (resp i) \<mapsto> cache_next s),
         cache_inodes := (cache_inodes s)(cache_next s := (marker_name_of L (resp i), [])),
         cache_next := Suc (cache_next s)\<rparr>))"
| marker_exists: "\<lbrakk> cache_procs s i = Creating; cache_dir s (marker_name_of L (resp i)) \<noteq> None \<rbrakk>
    \<Longrightarrow> race_step L resp s (moved i Rejected s)"
| write_piece: "cache_procs s i = Writing g (p # ps)
    \<Longrightarrow> race_step L resp s (moved i (Writing g ps)
      (s\<lparr>cache_inodes := (cache_inodes s)(g :=
          (fst (cache_inodes s g), snd (cache_inodes s g) @ p))\<rparr>))"
| written: "cache_procs s i = Writing g [] \<Longrightarrow> race_step L resp s (moved i Recorded s)"
| io_failure: "cache_procs s i \<notin> {Recorded, Rejected} \<Longrightarrow> race_step L resp s (moved i Rejected s)"

inductive race_reachable ::
    "'z helper_lib_scheme \<Rightarrow> (nat \<Rightarrow> SignedAuthResponse) \<Rightarrow> cache \<Rightarrow> cache \<Rightarrow> bool"
    for L :: "'z helper_lib_scheme" and resp :: "nat \<Rightarrow> SignedAuthResponse" and s0 :: cache where
  race_start: "race_reachable L resp s0 s0"
| race_next: "race_reachable L resp s0 s \<Longrightarrow> race_step L resp s s' \<Longrightarrow> race_reachable L resp s0 s'"

text \<open>What a marker holds after some of its pieces have been written.\<close>

definition marker_states :: "u64 \<Rightarrow> string set" where
  "marker_states expiry = (\<lambda>k. concat (take k (marker_pieces expiry))) ` {0..3}"

text \<open>
  Initially no process has started, and what the cache holds under the name of one of the
  responses is a marker that was recorded for it, perhaps not completely.
\<close>

definition race_initial ::
    "'z helper_lib_scheme \<Rightarrow> (nat \<Rightarrow> SignedAuthResponse) \<Rightarrow> cache \<Rightarrow> bool" where
  "race_initial L resp s \<longleftrightarrow>
    (\<forall>i. cache_procs s i = Idle) \<and>
    (\<forall>n g. cache_dir s n = Some g \<longrightarrow> g < cache_next s \<and> fst (cache_inodes s g) = n) \<and>
    (\<forall>g < cache_next s. \<forall>i. fst (cache_inodes s g) = marker_name_of L (resp i) \<longrightarrow>
      snd (cache_inodes s g) \<in> marker_states (expiry_of (resp i)))"

section \<open>The invariant\<close>

definition files_ok :: "'z helper_lib_scheme \<Rightarrow> (nat \<Rightarrow> SignedAuthResponse) \<Rightarrow> cache \<Rightarrow> bool" where
  "files_ok L resp s \<longleftrightarrow>
    (\<forall>n g. cache_dir s n = Some g \<longrightarrow> g < cache_next s \<and> fst (cache_inodes s g) = n) \<and>
    (\<forall>g < cache_next s. \<forall>i. fst (cache_inodes s g) = marker_name_of L (resp i) \<longrightarrow>
      snd (cache_inodes s g) \<in> marker_states (expiry_of (resp i)))"

definition proc_ok ::
    "'z helper_lib_scheme \<Rightarrow> (nat \<Rightarrow> SignedAuthResponse) \<Rightarrow> cache \<Rightarrow> nat \<Rightarrow> recorder \<Rightarrow> bool" where
  "proc_ok L resp s i p \<longleftrightarrow>
    (case p of
       Cleaning now \<Rightarrow> now \<le> cache_time s
     | Opened now n g \<Rightarrow> now \<le> cache_time s \<and> g < cache_next s \<and> fst (cache_inodes s g) = n
     | Unlinking now n \<Rightarrow> now \<le> cache_time s \<and>
         (\<forall>j. n = marker_name_of L (resp j) \<longrightarrow> expiry_of (resp j) < now)
     | Writing g ps \<Rightarrow> g < cache_next s \<and> (\<exists>k \<le> 3. ps = drop k (marker_pieces (expiry_of (resp i))) \<and>
         cache_inodes s g =
           (marker_name_of L (resp i), concat (take k (marker_pieces (expiry_of (resp i))))))
     | _ \<Rightarrow> True)"

definition writers_apart :: "cache \<Rightarrow> bool" where
  "writers_apart s \<longleftrightarrow>
    (\<forall>i j g ps qs. cache_procs s i = Writing g ps \<and> cache_procs s j = Writing g qs \<longrightarrow> i = j)"

definition marker_kept :: "'z helper_lib_scheme \<Rightarrow> (nat \<Rightarrow> SignedAuthResponse) \<Rightarrow> cache \<Rightarrow> bool" where
  "marker_kept L resp s \<longleftrightarrow>
    (\<forall>i. cache_time s \<le> expiry_of (resp i) \<and> holds_marker (cache_procs s i) \<longrightarrow>
      cache_dir s (marker_name_of L (resp i)) \<noteq> None \<and>
      (\<forall>j. holds_marker (cache_procs s j) \<and>
        marker_name_of L (resp j) = marker_name_of L (resp i) \<longrightarrow> j = i))"

definition race_inv :: "'z helper_lib_scheme \<Rightarrow> (nat \<Rightarrow> SignedAuthResponse) \<Rightarrow> cache \<Rightarrow> bool" where
  "race_inv L resp s \<longleftrightarrow> files_ok L resp s \<and> (\<forall>i. proc_ok L resp s i (cache_procs s i)) \<and>
    writers_apart s \<and> marker_kept L resp s"

text \<open>Processes with the same marker name record responses with the same expiry.\<close>

definition same_name_same_expiry ::
    "'z helper_lib_scheme \<Rightarrow> (nat \<Rightarrow> SignedAuthResponse) \<Rightarrow> bool" where
  "same_name_same_expiry L resp \<longleftrightarrow>
    (\<forall>i j. marker_name_of L (resp i) = marker_name_of L (resp j) \<longrightarrow>
      expiry_of (resp i) = expiry_of (resp j))"

lemma moved_simps [simp]:
  "cache_time (moved i p s) = cache_time s" "cache_dir (moved i p s) = cache_dir s"
  "cache_inodes (moved i p s) = cache_inodes s" "cache_next (moved i p s) = cache_next s"
  "cache_procs (moved i p s) = (cache_procs s)(i := p)"
  by (simp_all add: moved_def)

lemma holds_marker_simps [simp]:
  "holds_marker (Writing g ps)" "holds_marker Recorded" "\<not> holds_marker Idle"
  "\<not> holds_marker (Cleaning now)" "\<not> holds_marker (Opened now n g)"
  "\<not> holds_marker (Unlinking now n)" "\<not> holds_marker Creating" "\<not> holds_marker Rejected"
  by (simp_all add: holds_marker_def)

text \<open>A step that changes only one process, and not to a state that holds a marker.\<close>

lemma race_inv_moved:
  assumes "race_inv L resp s" and "proc_ok L resp s i p" and "\<not> holds_marker p"
  shows "race_inv L resp (moved i p s)"
proof -
  have "proc_ok L resp (moved i p s) j = proc_ok L resp s j" for j
    by (rule ext) (simp add: proc_ok_def split: recorder.splits)
  moreover have "writers_apart (moved i p s)"
    using assms by (auto simp: race_inv_def writers_apart_def)
  moreover have "marker_kept L resp (moved i p s)"
    using assms(1,3) by (auto simp: race_inv_def marker_kept_def)
  ultimately show ?thesis using assms(1,2) by (auto simp: race_inv_def files_ok_def)
qed

lemma marker_states_eq:
  "marker_states e = {[], ''expires_at_ms='', ''expires_at_ms='' @ show_nat (unat e), marker_line e}"
proof -
  have "{0..3 :: nat} = {0, 1, 2, 3}" by auto
  then show ?thesis
    by (simp add: marker_states_def marker_pieces_def marker_line_def numeral_2_eq_2 numeral_3_eq_3)
qed

lemma no_piece_written [simp]: "[] \<in> marker_states e"
  by (simp add: marker_states_eq)

text \<open>A marker that is not complete has no expiry or its own.\<close>

lemma parse_marker_states:
  assumes "c \<in> marker_states e" and "parse_expires_at_ms (take 128 c) = Some x"
  shows "x = e"
proof -
  let ?d = "show_nat (unat e)"
  have graphic: "list_all graphic (''expires_at_ms='' @ t)" if "list_all graphic t" for t
    using that by (simp add: graphic_def)
  have d: "list_all graphic ?d"
    using show_nat_digits [of "unat e"] by (auto simp: list_all_iff is_digit_graphic)
  have parse: "parse_expires_at_ms (''expires_at_ms='' @ t) = parse_u64 t" if "list_all graphic t" for t
  proof -
    let ?l = "''expires_at_ms='' @ t"
    have "newline \<notin> set ?l"
      using graphic [OF that] by (auto simp: list_all_iff dest: graphic_not_newline)
    then have "lines ?l = [?l]" by (subst lines.simps) simp
    then show ?thesis
      using trim_graphic [OF graphic [OF that]] by (simp add: parse_expires_at_ms_def strip_prefix_def)
  qed
  have "parse_u64 [] = None" by (simp add: parse_u64_def)
  then have p: "parse_expires_at_ms [] = None" "parse_expires_at_ms ''expires_at_ms='' = None"
    "parse_expires_at_ms (''expires_at_ms='' @ ?d) = Some e"
    using parse [of "[]"] parse [OF d] parse_u64_show_nat [of e]
    by (simp_all add: parse_expires_at_ms_def lines.simps [of "[]"])
  have "length c \<le> 128"
    using assms(1) marker_line_short [of e] show_u64_length [of e] by (auto simp: marker_states_eq)
  with assms p parse_marker_line [of e] show ?thesis by (auto simp: marker_states_eq)
qed

lemma expired_marker:
  assumes "race_inv L resp s" and "g < cache_next s"
    and "marker_expired now (take 128 (snd (cache_inodes s g)))"
    and "fst (cache_inodes s g) = marker_name_of L (resp j)"
  shows "expiry_of (resp j) < now"
proof -
  from assms have "snd (cache_inodes s g) \<in> marker_states (expiry_of (resp j))"
    by (simp add: race_inv_def files_ok_def)
  with assms(3) show ?thesis
    by (auto simp: marker_expired_def dest: parse_marker_states split: option.splits)
qed

lemma race_inv_tick:
  assumes "race_inv L resp s" and "cache_time s \<le> t"
  shows "race_inv L resp (s\<lparr>cache_time := t\<rparr>)"
proof -
  have "proc_ok L resp (s\<lparr>cache_time := t\<rparr>) i p" if "proc_ok L resp s i p" for i p
    using that assms(2) by (auto simp: proc_ok_def split: recorder.splits)
  moreover have "marker_kept L resp (s\<lparr>cache_time := t\<rparr>)"
    using assms unfolding race_inv_def marker_kept_def by (auto dest: order_trans)
  ultimately show ?thesis using assms(1) by (simp add: race_inv_def files_ok_def writers_apart_def)
qed

lemma race_inv_unlink:
  assumes "race_inv L resp s" and "cache_procs s i = Unlinking now n"
  shows "race_inv L resp (s\<lparr>cache_dir := (cache_dir s)(n := None)\<rparr>)"
proof -
  from assms have "proc_ok L resp s i (Unlinking now n)" by (metis race_inv_def)
  then have n: "now \<le> cache_time s" "n = marker_name_of L (resp j) \<Longrightarrow> expiry_of (resp j) < now" for j
    by (auto simp: proc_ok_def)
  have late: "\<not> cache_time s \<le> expiry_of (resp j)" if "n = marker_name_of L (resp j)" for j
    using less_le_trans [OF n(2) [OF that] n(1)] by (simp add: not_le)
  have "proc_ok L resp (s\<lparr>cache_dir := (cache_dir s)(n := None)\<rparr>) j = proc_ok L resp s j" for j
    by (rule ext) (simp add: proc_ok_def split: recorder.splits)
  moreover have "marker_kept L resp (s\<lparr>cache_dir := (cache_dir s)(n := None)\<rparr>)"
    using assms(1) late unfolding race_inv_def marker_kept_def by auto
  ultimately show ?thesis using assms(1) by (auto simp: race_inv_def files_ok_def writers_apart_def)
qed

definition created :: "'z helper_lib_scheme \<Rightarrow> SignedAuthResponse \<Rightarrow> nat \<Rightarrow> cache \<Rightarrow> cache" where
  "created L response i s = moved i (Writing (cache_next s) (marker_pieces (expiry_of response)))
    (s\<lparr>cache_dir := (cache_dir s)(marker_name_of L response \<mapsto> cache_next s),
       cache_inodes := (cache_inodes s)(cache_next s := (marker_name_of L response, [])),
       cache_next := Suc (cache_next s)\<rparr>)"

lemma race_inv_create:
  assumes inv: "race_inv L resp s" and same: "same_name_same_expiry L resp"
    and free: "cache_dir s (marker_name_of L (resp i)) = None"
  shows "race_inv L resp (created L (resp i) i s)"
proof -
  let ?s = "created L (resp i) i s"
  have "files_ok L resp ?s"
    using inv by (auto simp: race_inv_def files_ok_def created_def less_Suc_eq)
  moreover have "proc_ok L resp ?s j (cache_procs ?s j)" for j
  proof (cases "j = i")
    case False
    moreover from inv have "proc_ok L resp s j (cache_procs s j)" by (simp add: race_inv_def)
    ultimately show ?thesis
      by (auto simp: proc_ok_def created_def less_Suc_eq split: recorder.splits)
  qed (simp add: proc_ok_def created_def exI [of _ 0])
  moreover have "writers_apart ?s"
  proof -
    have "g < cache_next s" if "cache_procs s j = Writing g ps" for j g ps
    proof -
      from inv have "proc_ok L resp s j (cache_procs s j)" by (simp add: race_inv_def)
      with that show ?thesis by (simp add: proc_ok_def)
    qed
    with inv show ?thesis by (fastforce simp: race_inv_def writers_apart_def created_def)
  qed
  moreover have "marker_kept L resp ?s"
  proof -
    have "\<not> holds_marker (cache_procs s j)" if "cache_time s \<le> expiry_of (resp i)"
      and "marker_name_of L (resp j) = marker_name_of L (resp i)" for j
      using that inv same free unfolding race_inv_def marker_kept_def same_name_same_expiry_def
      by metis
    note others = this
    show ?thesis
      unfolding marker_kept_def
    proof (intro allI impI, elim conjE)
      fix k
      assume k: "cache_time ?s \<le> expiry_of (resp k)" "holds_marker (cache_procs ?s k)"
      show "cache_dir ?s (marker_name_of L (resp k)) \<noteq> None \<and>
        (\<forall>j. holds_marker (cache_procs ?s j) \<and>
          marker_name_of L (resp j) = marker_name_of L (resp k) \<longrightarrow> j = k)"
      proof (cases "k = i")
        case True
        with k others show ?thesis by (auto simp: created_def split: if_splits)
      next
        case False
        with k have "cache_time s \<le> expiry_of (resp k)" "holds_marker (cache_procs s k)"
          by (simp_all add: created_def)
        with inv have kept: "cache_dir s (marker_name_of L (resp k)) \<noteq> None"
          "holds_marker (cache_procs s j) \<Longrightarrow> marker_name_of L (resp j) = marker_name_of L (resp k) \<Longrightarrow> j = k"
          for j unfolding race_inv_def marker_kept_def by blast+
        with free have "marker_name_of L (resp i) \<noteq> marker_name_of L (resp k)" by auto
        with kept show ?thesis by (auto simp: created_def split: if_splits)
      qed
    qed
  qed
  ultimately show ?thesis by (simp add: race_inv_def)
qed

definition piece_written :: "string \<Rightarrow> string list \<Rightarrow> nat \<Rightarrow> nat \<Rightarrow> cache \<Rightarrow> cache" where
  "piece_written p ps i g s = moved i (Writing g ps)
    (s\<lparr>cache_inodes := (cache_inodes s)(g :=
        (fst (cache_inodes s g), snd (cache_inodes s g) @ p))\<rparr>)"

lemma race_inv_write:
  assumes inv: "race_inv L resp s" and same: "same_name_same_expiry L resp"
    and p: "cache_procs s i = Writing g (p # ps)"
  shows "race_inv L resp (piece_written p ps i g s)"
proof -
  let ?s = "piece_written p ps i g s" and ?ps = "marker_pieces (expiry_of (resp i))"
  from inv p have "proc_ok L resp s i (Writing g (p # ps))" by (metis race_inv_def)
  then obtain k where g: "g < cache_next s" "p # ps = drop k ?ps"
    "cache_inodes s g = (marker_name_of L (resp i), concat (take k ?ps))"
    by (auto simp: proc_ok_def)
  have "length ?ps = 3" by (simp add: marker_pieces_def)
  then have k: "k < 3" using g(2) by (metis drop_all leI list.distinct(1))
  with g(2) have next_piece: "ps = drop (Suc k) ?ps" "concat (take (Suc k) ?ps) = concat (take k ?ps) @ p"
    by (simp_all add: Cons_nth_drop_Suc [symmetric] take_Suc_conv_app_nth \<open>length ?ps = 3\<close>)
  have content: "cache_inodes ?s g = (marker_name_of L (resp i), concat (take (Suc k) ?ps))"
    using g(3) next_piece by (simp add: piece_written_def)
  have state: "concat (take (Suc k) ?ps) \<in> marker_states (expiry_of (resp j))"
    if "marker_name_of L (resp i) = marker_name_of L (resp j)" for j
  proof -
    have "expiry_of (resp i) = expiry_of (resp j)"
      using same that unfolding same_name_same_expiry_def by metis
    with k show ?thesis by (auto simp: marker_states_def)
  qed
  have inodes: "h \<noteq> g \<Longrightarrow> cache_inodes ?s h = cache_inodes s h" for h by (simp add: piece_written_def)
  have "files_ok L resp ?s"
    unfolding files_ok_def
  proof (intro conjI allI impI)
    fix n h
    assume "cache_dir ?s n = Some h"
    then have "cache_dir s n = Some h" by (simp add: piece_written_def)
    with inv have "h < cache_next s \<and> fst (cache_inodes s h) = n" by (simp add: race_inv_def files_ok_def)
    then show "h < cache_next ?s" "fst (cache_inodes ?s h) = n" by (auto simp: piece_written_def)
  next
    fix h j
    assume "h < cache_next ?s" "fst (cache_inodes ?s h) = marker_name_of L (resp j)"
    then show "snd (cache_inodes ?s h) \<in> marker_states (expiry_of (resp j))"
      using inv content state inodes [of h]
      by (cases "h = g") (auto simp: race_inv_def files_ok_def piece_written_def)
  qed
  moreover have "proc_ok L resp ?s j (cache_procs ?s j)" for j
  proof (cases "j = i")
    case True
    with k content next_piece g(1) show ?thesis
      by (auto simp: proc_ok_def piece_written_def intro!: exI [of _ "Suc k"])
  next
    case False
    with inv p have "cache_procs s j \<noteq> Writing g qs" for qs by (auto simp: race_inv_def writers_apart_def)
    moreover from inv have "proc_ok L resp s j (cache_procs s j)" by (simp add: race_inv_def)
    ultimately show ?thesis
      using False by (auto simp: proc_ok_def piece_written_def split: recorder.splits)
  qed
  moreover have "writers_apart ?s"
    using inv p by (auto simp: race_inv_def writers_apart_def piece_written_def split: if_splits)
  moreover have "marker_kept L resp ?s"
    using inv p unfolding race_inv_def marker_kept_def piece_written_def by (auto split: if_splits)
  ultimately show ?thesis by (simp add: race_inv_def)
qed

lemma race_inv_recorded:
  assumes "race_inv L resp s" and "cache_procs s i = Writing g ps"
  shows "race_inv L resp (moved i Recorded s)"
proof -
  have "proc_ok L resp (moved i Recorded s) j = proc_ok L resp s j" for j
    by (rule ext) (simp add: proc_ok_def split: recorder.splits)
  moreover have "proc_ok L resp s i Recorded" by (simp add: proc_ok_def)
  moreover have "marker_kept L resp (moved i Recorded s)"
    using assms unfolding race_inv_def marker_kept_def by (auto split: if_splits)
  ultimately show ?thesis using assms(1) by (auto simp: race_inv_def files_ok_def writers_apart_def)
qed

lemma race_inv_step:
  assumes "race_step L resp s s'" and "race_inv L resp s" and "same_name_same_expiry L resp"
  shows "race_inv L resp s'"
  using assms
proof (induction rule: race_step.induct)
  case (tick s t)
  then show ?case by (blast intro: race_inv_tick)
next
  case (read_clock s i)
  then show ?case by (intro race_inv_moved) (simp_all add: proc_ok_def)
next
  case (open_entry s i now n g)
  then have "proc_ok L resp s i (Cleaning now)" by (metis race_inv_def)
  with open_entry show ?case
    by (intro race_inv_moved) (auto simp: proc_ok_def race_inv_def files_ok_def)
next
  case (entry_stays s i now n g)
  then have "proc_ok L resp s i (Opened now n g)" by (metis race_inv_def)
  with entry_stays show ?case by (intro race_inv_moved) (auto simp: proc_ok_def)
next
  case (entry_expired s i now n g)
  then have "proc_ok L resp s i (Opened now n g)" by (metis race_inv_def)
  with entry_expired show ?case
    by (intro race_inv_moved) (auto simp: proc_ok_def intro: expired_marker)
next
  case (unlink_entry s i now n)
  then have "proc_ok L resp s i (Unlinking now n)" by (metis race_inv_def)
  with unlink_entry show ?case
    by (intro race_inv_moved race_inv_unlink) (auto simp: proc_ok_def)
next
  case (listing_done s i now)
  then show ?case by (intro race_inv_moved) (simp_all add: proc_ok_def)
next
  case (create_marker s i)
  then show ?case using race_inv_create [of L resp s i] by (simp add: created_def)
next
  case (marker_exists s i)
  then show ?case by (intro race_inv_moved) (simp_all add: proc_ok_def)
next
  case (write_piece s i g p ps)
  then show ?case using race_inv_write [of L resp s i g p ps] by (simp add: piece_written_def)
next
  case (written s i g)
  then show ?case by (blast intro: race_inv_recorded)
next
  case (io_failure s i)
  then show ?case by (intro race_inv_moved) (simp_all add: proc_ok_def)
qed

lemma race_inv_initial: "race_initial L resp s \<Longrightarrow> race_inv L resp s"
  by (auto simp: race_initial_def race_inv_def files_ok_def proc_ok_def writers_apart_def
      marker_kept_def)

lemma race_reachable_inv:
  assumes "race_reachable L resp s0 s" and "race_initial L resp s0" and "same_name_same_expiry L resp"
  shows "race_inv L resp s"
  using assms by (induction rule: race_reachable.induct) (auto intro: race_inv_initial race_inv_step)

end
