(* ===== verification/Helper_Props.thy ===== *)
theory Helper_Props
  imports Replay_Cleanup Demo_Run Replay_Race
begin

text \<open>
  The properties of the helper's components: trusted paths, key files, configuration, replay
  markers, the deadline stream and frames. The witnesses use the concrete system of \<open>Demo\<close>.
\<close>

section \<open>Trusted paths\<close>

text \<open>
  C18. Opening a trusted path implements its specification: it succeeds exactly when the path is
  absolute where that is required, has no parent components, and every object on the way, opened
  relative to the one before without following links, has the type, owner and mode that is
  asked for; the descriptor and the final state are those of that walk.
\<close>

theorem open_trusted_refines:
  "open_trusted S path ro dr pv w = (Ok f, w') \<longleftrightarrow>
    (ro \<longrightarrow> is_absolute path) \<and> (\<exists>seen. trusted_open S path ro dr pv w seen f w')"
  by (rule open_trusted_Ok)

theorem open_trusted_refines_witness:
  "\<exists>seen. trusted_open demo_sys ''/etc/host.key'' True False True demo_world seen 2 demo_world"
  using open_trusted_refines [of demo_sys "''/etc/host.key''" True False True demo_world 2 demo_world]
    demo_open(1) by simp

text \<open>
  C17. What a checked path is safe from: with root ownership required, the root directory and
  every object down to the one opened belong to root, none can be written by group or others,
  and a private file or directory grants them nothing at all.
\<close>

theorem trusted_path_safe:
  assumes "open_trusted S path True dr pv w = (Ok f, w')"
  shows "\<exists>seen. trusted_open S path True dr pv w seen f w' \<and> seen \<noteq> [] \<and>
    (\<forall>md \<in> set seen. md_uid md = 0 \<and> md_mode md AND 18 = 0) \<and>
    md_type (last seen) = (if dr then Directory else RegularFile) \<and>
    (pv \<longrightarrow> md_mode (last seen) AND 63 = 0)"
proof -
  from assms obtain seen where s: "trusted_open S path True dr pv w seen f w'"
    by (auto simp: open_trusted_Ok)
  with trusted_open_seen [OF s] trusted_open_last [OF s] show ?thesis
    by (auto simp: trusted_metadata_def)
qed

theorem trusted_path_safe_witness:
  "\<exists>seen. trusted_open demo_sys ''/etc/host.key'' True False True demo_world seen 2 demo_world \<and>
    (\<forall>md \<in> set seen. md_uid md = 0 \<and> md_mode md AND 18 = 0)"
  using trusted_path_safe [OF demo_open(1), of demo_world] by blast

text \<open>
  A path with a parent component is refused, with a permission error, before anything is
  opened.
\<close>

lemma parent_component_refused:
  assumes "is_absolute path" and "has_parent_component path"
  shows "\<exists>e. open_trusted S path ro dr pv w = (Err e, w) \<and> kind e = PermissionDenied"
proof -
  obtain e where "collect_components (components path) = Inl e"
    using assms(2) collect_components_Ok [of "components path"]
    by (cases "collect_components (components path)") (auto simp: has_parent_component_def)
  moreover from this have "kind e = PermissionDenied" by (rule collect_components_Err)
  ultimately show ?thesis using assms(1) by (simp add: open_trusted_def absolute_path_def)
qed

section \<open>Key files\<close>

lemma private_key_file_roundtrip:
  assumes "hex_lawful L" and "length key = 32"
    and "open_trusted S path ro False True w = (Ok f, w1)"
    and "sys_read_to_end S f (MAX_FRAME_LEN + 1) w1 =
      (Ok (as_bytes (private_key_line (hex_encode L key))), w')"
  shows "load_signing_key L S None (Some path) ro w = (Ok key, w')"
proof -
  have g: "list_all graphic (hex_encode L key)" using assms(1) by (rule hex_encode_graphic)
  have len: "length (private_key_line (hex_encode L key)) \<le> MAX_FRAME_LEN"
    using assms(1,2) by (simp add: private_key_line_def hex_lawful_def MAX_FRAME_LEN_def)
  have "read_key_material S path ro True w = (Ok (hex_encode L key), w')"
    using assms(3,4) len key_line_ascii(1) [OF g]
    by (simp add: read_key_material_def read_trusted_file_def read_to_string_def from_utf8_ascii
        written_key_material [OF g])
  then show ?thesis
    using assms(1,2)
    by (simp add: load_signing_key_def signing_key_from_hex_def trim_graphic [OF g] hex_lawful_def)
qed

lemma public_key_file_roundtrip:
  assumes "hex_lawful L" and "length key = 32"
    and "open_trusted S path ro False False w = (Ok f, w1)"
    and "sys_read_to_end S f (MAX_FRAME_LEN + 1) w1 =
      (Ok (as_bytes (public_key_line (hex_encode L key))), w')"
  shows "load_public_key L S None (Some path) label ro w = (Ok key, w')"
proof -
  have g: "list_all graphic (hex_encode L key)" using assms(1) by (rule hex_encode_graphic)
  have len: "length (public_key_line (hex_encode L key)) \<le> MAX_FRAME_LEN"
    using assms(1,2) by (simp add: public_key_line_def hex_lawful_def MAX_FRAME_LEN_def)
  have "read_key_material S path ro False w = (Ok (hex_encode L key), w')"
    using assms(3,4) len key_line_ascii(2) [OF g]
    by (simp add: read_key_material_def read_trusted_file_def read_to_string_def from_utf8_ascii
        written_key_material [OF g])
  then show ?thesis using assms(1,2) by (simp add: load_public_key_def hex_lawful_def)
qed

text \<open>
  Key files round trip: when a trusted file holds the line that \<open>write_private_key_file\<close> writes
  for a 32-byte key, loading it as a signing key gives that key, and when it holds the line that
  \<open>write_public_key_file\<close> writes, loading it as a public key does.
\<close>

lemma key_files_roundtrip:
  assumes "hex_lawful L" and "length key = 32"
  shows "(open_trusted S path ro False True w = (Ok f, w1) \<and>
      sys_read_to_end S f (MAX_FRAME_LEN + 1) w1 =
        (Ok (as_bytes (private_key_line (hex_encode L key))), w') \<longrightarrow>
      load_signing_key L S None (Some path) ro w = (Ok key, w')) \<and>
    (open_trusted S path ro False False w = (Ok f, w1) \<and>
      sys_read_to_end S f (MAX_FRAME_LEN + 1) w1 =
        (Ok (as_bytes (public_key_line (hex_encode L key))), w') \<longrightarrow>
      load_public_key L S None (Some path) label ro w = (Ok key, w'))"
  by (intro conjI impI; elim conjE)
    (rule private_key_file_roundtrip [OF assms] public_key_file_roundtrip [OF assms]; assumption)+

section \<open>Configuration\<close>

text \<open>
  The budget of an operation exists exactly when the timeout is positive and neither the
  64-bit expiry nor the deadline overflows; expiry and deadline then lie the timeout after the
  two clocks, without wrapping around.
\<close>

lemma operation_budget_spec:
  "operation_budget S timeout now w = (Ok (deadline, expiry), w') \<longleftrightarrow>
    timeout \<noteq> 0 \<and> unat expiry = unat now + unat timeout \<and>
    (\<exists>t. sys_instant_now S w = (t, w') \<and> deadline = t + unat timeout * 1000000 \<and>
      deadline \<le> INSTANT_MAX)"
  by (rule operation_budget_Ok)

text \<open>
  C36. A configuration that \<open>prepare_config\<close> prints is usable: read back, it has the three paths
  of the command line, absolute and without parent components, host id and host name that are
  not blank, and a timeout that is not zero. An existing replay cache is moved to the directory
  on the command line and never left where it was.
\<close>

theorem prepared_config_usable:
  assumes "toml_lawful T L get" and "prepare_config T L S args w = (Ok contents, w')"
  shows "\<exists>c. toml_to_config L contents = Ok c \<and> usable_config c \<and>
    cfg_socket_path c = Some (pc_socket args) \<and>
    cfg_host_key_file c = Some (pc_host_key_file args) \<and>
    cfg_agent_pubkey_file c = Some (pc_agent_pubkey_file args) \<and>
    cfg_replay_cache_dir c \<in> {None, pc_replay_cache_dir args}"
  using assms(2)
proof (rule prepare_config_Ok)
  fix v0 v1 v c w1 w2
  let ?s = "insert_settings T [(''host_id'', pc_host_id args), (''hostname'', pc_hostname args)] v1"
  assume i: "insert_paths T [(''socket_path'', pc_socket args),
      (''host_key_file'', pc_host_key_file args),
      (''agent_pubkey_file'', pc_agent_pubkey_file args)] v0 = Ok v1"
    and r: "relocate_replay_cache T (pc_replay_cache_dir args) ?s = Ok v"
    and p: "table_to_string_pretty T v = Ok contents" "toml_to_config L contents = Ok c"
    and val: "validate_config_fields S c w2 = (Inr (), w')"
  have get: "get (table_insert T k x t) = (get t)(k \<mapsto> x)" for k x t
    using assms(1) by (simp add: toml_lawful_def)
  have has: "get t k \<noteq> None \<Longrightarrow> table_contains_key T t k" for t k
    using assms(1) by (simp add: toml_lawful_def)
  have c: "cfg_socket_path c = get v ''socket_path''" "cfg_host_key_file c = get v ''host_key_file''"
    "cfg_agent_pubkey_file c = get v ''agent_pubkey_file''"
    "cfg_replay_cache_dir c = get v ''replay_cache_dir''"
    using assms(1) p by (simp_all add: toml_lawful_def)
  have s: "get ?s ''socket_path'' = Some (pc_socket args)"
    "get ?s ''host_key_file'' = Some (pc_host_key_file args)"
    "get ?s ''agent_pubkey_file'' = Some (pc_agent_pubkey_file args)"
    using insert_paths_Ok [OF i] by (auto simp: get split: option.splits)
  have v: "get v k = get ?s k" if "k \<noteq> ''replay_cache_dir''" for k
    using relocate_replay_cache_Ok [OF r] that by (auto simp: get)
  have "get v ''replay_cache_dir'' \<in> {None, pc_replay_cache_dir args}"
    using relocate_replay_cache_Ok [OF r] has [of ?s "''replay_cache_dir''"]
    by (cases "get ?s ''replay_cache_dir''") (auto simp: get simp del: insert_settings.simps)
  with c s v p(2) validate_config_fields_Ok [OF val] show ?thesis by simp
qed

text \<open>A table with one text, for a witness.\<close>

definition demo_prepare_args :: PrepareConfigArgs where
  "demo_prepare_args =
    \<lparr>pc_source = None, pc_socket = ''/run/agent.sock'', pc_host_key_file = ''/etc/host.key'',
     pc_agent_pubkey_file = ''/etc/agent.pub'', pc_host_id = Some ''host-abc'',
     pc_hostname = Some ''linux'', pc_replay_cache_dir = None\<rparr>"

definition demo_toml :: "(string \<rightharpoonup> string) toml_lib" where
  "demo_toml =
    \<lparr>table_new = Map.empty, table_parse = (\<lambda>_. Err ''not a table''),
     table_insert = (\<lambda>k v t. t(k \<mapsto> v)), table_contains_key = (\<lambda>t k. t k \<noteq> None),
     table_to_string_pretty =
       (\<lambda>t. if t ''socket_path'' = cfg_socket_path demo_config \<and>
             t ''host_key_file'' = cfg_host_key_file demo_config \<and>
             t ''agent_pubkey_file'' = cfg_agent_pubkey_file demo_config \<and>
             t ''host_id'' = cfg_host_id demo_config \<and> t ''hostname'' = cfg_hostname demo_config \<and>
             t ''replay_cache_dir'' = None
           then Ok ''config'' else Err ''unsupported'')\<rparr>"

definition config_lib :: helper_lib where
  "config_lib = demo_lib\<lparr>toml_to_config := (\<lambda>s. if s = ''config'' then Ok demo_config else Err ''bad'')\<rparr>"

lemma demo_toml_lawful: "toml_lawful demo_toml config_lib (\<lambda>t. t)"
  by (auto simp: toml_lawful_def demo_toml_def config_lib_def demo_config_def default_config_def
      split: if_splits)

lemma plain_demo_paths:
  "plain_path ''/etc/host.key''" "plain_path ''/etc/agent.pub''" "plain_path ''/run/agent.sock''"
  by (simp_all add: plain_path_def is_absolute_def has_parent_component_def components_def)

lemma demo_validate:
  "validate_config_fields demo_sys demo_config demo_world = (Ok (), demo_world\<lparr>d_clock := 1\<rparr>)"
proof -
  have "\<not> is_blank ''host-abc''" "\<not> is_blank ''linux''" "\<not> is_blank ''host-key-1''"
    "\<not> is_blank ''sudo''"
    using demo_blank by simp_all
  then show ?thesis
    by (simp add: validate_config_fields_def demo_config_def default_config_def plain_demo_paths
        demo_now demo_budget)
qed

lemma demo_prepare:
  "prepare_config demo_toml config_lib demo_sys demo_prepare_args demo_world =
    (Ok ''config'', demo_world\<lparr>d_clock := 1\<rparr>)"
proof -
  have str: "to_str p = Ok p" if "list_all is_ascii p" for p
    using that by (simp add: to_str_def from_utf8_ascii)
  then show ?thesis
    using demo_validate
    by (simp add: prepare_config_def load_source_def demo_prepare_args_def insert_path_def
        plain_demo_paths str is_ascii_def relocate_replay_cache_def config_lib_def demo_toml_def
        demo_config_def default_config_def)
qed

theorem prepared_config_usable_witness:
  "\<exists>c. toml_to_config config_lib ''config'' = Ok c \<and> usable_config c \<and>
    cfg_socket_path c = Some ''/run/agent.sock''"
  using prepared_config_usable [OF demo_toml_lawful demo_prepare]
  by (auto simp: demo_prepare_args_def)

section \<open>Replay markers\<close>

text \<open>
  C14. A response is accepted once: after it has been recorded, and as long as its marker stays
  in the cache and the clock has not passed the expiry it was recorded with, recording a
  response with the same signature again fails.
\<close>

theorem replay_rejected:
  assumes "marker_directory S d files fds"
    and "record_replay_marker L S d response w = Some (Ok (), w1)"
    and "files w2 (marker_name_of L response) = files w1 (marker_name_of L response)"
    and "srs_signature again = srs_signature response"
    and "unix_time_ms S w2 = (Ok now, w3)" and "now \<le> rs_expires_at_ms (srs_body response)"
    and "record_replay_marker L S d again w2 = Some (r, w4)"
  shows "is_err r"
proof -
  have name: "marker_name_of L again = marker_name_of L response"
    using assms(4) by (simp add: marker_name_of_def)
  have "files w2 (marker_name_of L again) =
    Some (marker_line (rs_expires_at_ms (srs_body response)))"
    using recorded_marker [OF assms(2,1)] assms(3) name by simp
  from marker_blocks [OF assms(7,1) this assms(5,6)] show ?thesis .
qed

theorem replay_rejected_witness:
  "\<exists>w1 r w2. record_replay_marker (agent_lib Approved) demo_sys 4 (demo_response Approved) demo_world =
      Some (Ok (), w1) \<and>
    record_replay_marker (agent_lib Approved) demo_sys 4 (demo_response Approved) w1 = Some (r, w2) \<and>
    is_err r"
proof -
  let ?r = "demo_response Approved"
  obtain w1 where w1: "record_replay_marker (agent_lib Approved) demo_sys 4 ?r demo_world =
      Some (Ok (), w1)"
    using demo_record [OF _ _ demo_marker_name, of demo_world Approved ?r] by (auto simp: demo_world_def)
  obtain r w2 where w2: "record_replay_marker (agent_lib Approved) demo_sys 4 ?r w1 = Some (r, w2)"
    using returnsD [OF record_replay_marker_returns [OF demo_listing]] by blast
  have "is_err r"
    by (rule replay_rejected [OF demo_markers w1 refl refl demo_now _ w2])
      (simp add: demo_response_ok)
  with w1 w2 show ?thesis by blast
qed

text \<open>
  Cleanup is complete: when the directory stream lists the entry and the process may open, read
  and unlink it, a marker whose expiry lies before \<open>now\<close> is gone afterwards, so that the cache does
  not grow with markers that have expired.
\<close>

lemma cleanup_removes_expired:
  assumes "marker_directory S d files fds" and "lists_entry S d files n pending"
    and "clears_entry S d files n" and "cleanup_markers S d now w = Some (Ok (), w')"
    and "is_marker_name n" and "files w n = Some (marker_line expiry)" and "expiry < now"
  shows "files w' n = None"
  using assms by (intro cleanup_markers_removes [OF assms(4,1-3,5-7)])

text \<open>The line written into a marker is read back as the expiry it was written for.\<close>

lemma marker_line_roundtrip:
  "parse_expires_at_ms (take 128 (marker_line expiry)) = Some expiry"
  using marker_line_short [of expiry] by (simp add: parse_marker_line)

text \<open>
  C15. Concurrent helpers: however the system calls of any number of processes on one cache
  interleave, at most one of those that record a response with the same signature succeeds
  before the response expires. The others find the marker, even while it is still empty, and a
  cleanup that runs between creation and writing does not remove it.
\<close>

theorem concurrent_replay_rejected:
  assumes "race_reachable L resp s0 s" and "race_initial L resp s0"
    and "same_name_same_expiry L resp"
    and "cache_procs s i = Recorded" and "cache_procs s j = Recorded"
    and "srs_signature (resp i) = srs_signature (resp j)"
    and "cache_time s \<le> expiry_of (resp i)"
  shows "i = j"
proof -
  have "marker_kept L resp s" using race_reachable_inv [OF assms(1-3)] by (simp add: race_inv_def)
  moreover have "marker_name_of L (resp j) = marker_name_of L (resp i)"
    using assms(6) by (simp add: marker_name_of_def)
  moreover have "holds_marker (cache_procs s i)" "holds_marker (cache_procs s j)"
    using assms(4,5) by simp_all
  ultimately show ?thesis using assms(7) unfolding marker_kept_def by blast
qed

definition empty_cache :: cache where
  "empty_cache =
    \<lparr>cache_time = 0, cache_dir = Map.empty, cache_inodes = (\<lambda>_. ([], [])), cache_next = 0,
     cache_procs = (\<lambda>_. Idle)\<rparr>"

text \<open>
  C16. The invariant of the replay cache: in every state that any number of helpers can reach,
  every directory entry is a file created under its name, every file under the name of a response
  holds a beginning of its marker line, no two processes write to one file, and as long as a response
  has not expired a process that holds its marker is the only one and the marker is in the directory.
\<close>

theorem replay_cache_invariant:
  assumes "race_reachable L resp s0 s" and "race_initial L resp s0" and "same_name_same_expiry L resp"
  shows "(\<forall>n g. cache_dir s n = Some g \<longrightarrow> g < cache_next s \<and> fst (cache_inodes s g) = n) \<and>
    (\<forall>g i. g < cache_next s \<and> fst (cache_inodes s g) = marker_name_of L (resp i) \<longrightarrow>
      (\<exists>k. snd (cache_inodes s g) = concat (take k (marker_pieces (expiry_of (resp i)))))) \<and>
    (\<forall>i j g ps qs. cache_procs s i = Writing g ps \<and> cache_procs s j = Writing g qs \<longrightarrow> i = j) \<and>
    (\<forall>i. cache_time s \<le> expiry_of (resp i) \<and> holds_marker (cache_procs s i) \<longrightarrow>
      cache_dir s (marker_name_of L (resp i)) \<noteq> None \<and>
      (\<forall>j. holds_marker (cache_procs s j) \<and>
        marker_name_of L (resp j) = marker_name_of L (resp i) \<longrightarrow> j = i))"
proof -
  have inv: "files_ok L resp s" "writers_apart s" "marker_kept L resp s"
    using race_reachable_inv [OF assms] by (simp_all add: race_inv_def)
  have "\<exists>k. snd (cache_inodes s g) = concat (take k (marker_pieces (expiry_of (resp i))))"
    if "g < cache_next s" "fst (cache_inodes s g) = marker_name_of L (resp i)" for g i
    using inv(1) that by (fastforce simp: files_ok_def marker_states_def)
  with inv show ?thesis
    unfolding files_ok_def writers_apart_def marker_kept_def by blast
qed

theorem replay_cache_invariant_witness:
  "\<exists>s. race_reachable demo_lib (\<lambda>_. demo_response Approved) empty_cache s \<and>
    cache_procs s 0 = Creating \<and> cache_dir s = Map.empty \<and>
    (\<forall>n g. cache_dir s n = Some g \<longrightarrow> g < cache_next s)"
proof -
  let ?r = "\<lambda>_ :: nat. demo_response Approved"
  let ?s = "moved 0 Creating (moved 0 (Cleaning 0) empty_cache)"
  have "race_reachable demo_lib ?r empty_cache (moved 0 (Cleaning 0) empty_cache)"
    using race_next [OF race_start race_step.read_clock [of empty_cache 0]] by (simp add: empty_cache_def)
  from race_next [OF this race_step.listing_done [of _ 0]]
  have s: "race_reachable demo_lib ?r empty_cache ?s" by simp
  have "race_initial demo_lib ?r empty_cache" by (simp add: race_initial_def empty_cache_def)
  moreover have "same_name_same_expiry demo_lib ?r" by (simp add: same_name_same_expiry_def)
  ultimately have "\<forall>n g. cache_dir ?s n = Some g \<longrightarrow> g < cache_next ?s"
    using replay_cache_invariant [OF s] by blast
  with s show ?thesis by (intro exI [of _ ?s]) (simp add: empty_cache_def)
qed

theorem concurrent_replay_rejected_witness:
  "\<exists>s. race_reachable demo_lib (\<lambda>_. demo_response Approved) empty_cache s \<and>
    cache_procs s 0 = Recorded \<and> cache_procs s 1 = Rejected \<and> cache_procs s 1 \<noteq> Recorded"
proof -
  let ?r = "\<lambda>_ :: nat. demo_response Approved"
  let ?reach = "race_reachable demo_lib ?r empty_cache"
  define s1 where "s1 = moved 1 Creating (moved 1 (Cleaning 0) (moved 0 Creating (moved 0 (Cleaning 0) empty_cache)))"
  have "?reach empty_cache" by (rule race_start)
  from race_next [OF this race_step.read_clock [of _ 0]]
  have "?reach (moved 0 (Cleaning 0) empty_cache)" by (simp add: empty_cache_def)
  from race_next [OF this race_step.listing_done [of _ 0]]
  have "?reach (moved 0 Creating (moved 0 (Cleaning 0) empty_cache))" by simp
  from race_next [OF this race_step.read_clock [of _ 1]]
  have "?reach (moved 1 (Cleaning 0) (moved 0 Creating (moved 0 (Cleaning 0) empty_cache)))"
    by (simp add: empty_cache_def)
  from race_next [OF this race_step.listing_done [of _ 1]] have s1: "?reach s1" by (simp add: s1_def)
  define s2 where "s2 = created demo_lib (demo_response Approved) 0 s1"
  have "?reach s2"
    using race_next [OF s1 race_step.create_marker [of _ 0]]
    by (simp add: s2_def created_def s1_def empty_cache_def)
  from race_next [OF this race_step.marker_exists [of _ 1]]
  have s3: "?reach (moved 1 Rejected s2)" by (simp add: s2_def created_def s1_def)
  let ?e = "expiry_of (demo_response Approved)"
  have w: "cache_procs s2 0 = Writing 0 [''expires_at_ms='', show_nat (unat ?e), [newline]]"
    by (simp add: s2_def created_def s1_def empty_cache_def marker_pieces_def)
  define s4 where "s4 = piece_written [newline] [] 0 0
    (piece_written (show_nat (unat ?e)) [[newline]] 0 0
      (piece_written ''expires_at_ms='' [show_nat (unat ?e), [newline]] 0 0 (moved 1 Rejected s2)))"
  have "?reach s4"
    unfolding s4_def piece_written_def
    by (intro race_next [OF race_next [OF race_next [OF s3 race_step.write_piece] race_step.write_piece]
          race_step.write_piece]) (simp_all add: w)
  define s where "s = moved 0 Recorded s4"
  have s: "?reach s"
    using race_next [OF \<open>?reach s4\<close> race_step.written [of _ 0 0]]
    by (simp add: s_def s4_def piece_written_def)
  have p: "cache_procs s 0 = Recorded" "cache_procs s 1 = Rejected" "cache_time s = 0"
    by (simp_all add: s_def s4_def s2_def s1_def piece_written_def created_def empty_cache_def)
  have "race_initial demo_lib ?r empty_cache" by (simp add: race_initial_def empty_cache_def)
  moreover have "same_name_same_expiry demo_lib ?r" by (simp add: same_name_same_expiry_def)
  ultimately have "cache_procs s 1 \<noteq> Recorded"
    using concurrent_replay_rejected [OF s, of 0 1] p by auto
  with s p show ?thesis by blast
qed

section \<open>The deadline stream\<close>

text \<open>
  No data is taken from the socket after the deadline: every successful read of a
  \<open>DeadlineStream\<close> is one read of the socket, of no more than the bytes asked for, directly after
  a reading of the clock before the deadline.
\<close>

lemma read_before_deadline:
  assumes "stream_read S ds n w = Some (Ok bs, w')"
  shows "length bs \<le> n \<and> (\<exists>w0 t w1. sys_instant_now S w0 = (t, w1) \<and> t < ds_deadline ds \<and>
    socket_read S (ds_stream ds) n w1 = (Ok bs, w'))"
  using deadline_reader.bounded [OF assms] transfer_Ok [OF _ refl] assms
  unfolding stream_read_def by fastforce

text \<open>
  Once the deadline has passed, reading a frame reports a timeout without touching the
  socket, and so does writing one whose payload can be encoded and fits.
\<close>

lemma expired_frames_time_out:
  assumes "check_deadline S (ds_deadline ds) w = (Err e, w')"
    and "to_vec v = Ok payload" and "length payload \<le> MAX_FRAME_LEN"
  shows "read_json_frame from_slice (stream_read S ds) w = Some (Err Timeout, w') \<and>
    write_json_frame to_vec (stream_write S ds) v w = Some (Err Timeout, w')"
proof -
  have "stream_read S ds n w = Some (Err (Simple TimedOut), w')"
    and "stream_write S ds bs w = Some (Err (Simple TimedOut), w')" for n bs
    using transfer_expired [OF assms(1)] by (simp_all add: stream_read_def stream_write_def)
  then have "read_exact (stream_read S ds) [] 4 w = Some (Err (Simple TimedOut), w')"
    and "bs \<noteq> [] \<Longrightarrow> write_all (stream_write S ds) bs w = Some (Err (Simple TimedOut), w')" for bs
    by (simp_all add: read_exact.simps write_all.simps)
  moreover have "nat_to_be 4 n \<noteq> []" for n by (metis length_nat_to_be list.size(3) zero_neq_numeral)
  ultimately show ?thesis
    using assms(2,3)
    by (simp add: read_json_frame_def write_json_frame_def transport_error_from_def Let_def
        del: nat_to_be_numeral)
qed

text \<open>
  A connection exists only for a path that fits a socket address, carries the deadline it was
  asked for, and was still within that deadline at the last reading of the clock.
\<close>

lemma connected_before_deadline:
  assumes "connect S path deadline w = Some (Ok ds, w')"
  shows "CHR 0x00 \<notin> set path \<and> length path < SUN_PATH_LEN \<and> ds_deadline ds = deadline \<and>
    (\<exists>w1 t. sys_instant_now S w1 = (t, w') \<and> t < deadline)"
  using assms
  by (auto simp: connect_def result_simps check_deadline_Ok not_le split: if_splits)

text \<open>
  Nothing on the socket hangs: when time passes, connecting, reading a frame and writing a
  frame all return.
\<close>

lemma stream_operations_return:
  assumes "time_passes S T"
  shows "returns (connect S path deadline w) \<and>
    returns (read_json_frame from_slice (stream_read S ds) w) \<and>
    returns (write_json_frame to_vec (stream_write S ds) v w)"
proof -
  have live: "\<exists>T. time_passes S T" using assms by blast
  show ?thesis
    by (simp add: connect_returns [OF assms] deadline_reader.read_json_frame_returns [OF live]
        deadline_writer.write_json_frame_returns [OF live])
qed

section \<open>Frames\<close>

text \<open>
  Frame round trip: when a value has been written as a frame, the bytes sent are a 4-byte
  big-endian length and the payload, and a stream that delivers these bytes, in whatever
  fragments and with whatever interruptions, is read back as that payload.
\<close>

lemma frame_roundtrip:
  assumes "write_json_frame to_vec (stream_write S ds) v w = Some (Ok (), w')"
  shows "\<exists>p w1. to_vec v = Ok p \<and> length p \<le> MAX_FRAME_LEN \<and>
    sends (stream_write S ds) (nat_to_be 4 (length p)) w w1 \<and> sends (stream_write S ds) p w1 w' \<and>
    (\<forall>u header u1 body u2. receives (stream_read S' ds') 4 u header u1 \<and>
      receives (stream_read S' ds') (length p) u1 body u2 \<and>
      header @ body = nat_to_be 4 (length p) @ p \<longrightarrow>
      read_json_frame from_slice (stream_read S' ds') u = Some (map_err Json (from_slice p), u2))"
proof -
  from assms obtain p w1 where p: "to_vec v = Ok p" "length p \<le> MAX_FRAME_LEN"
    "sends (stream_write S ds) (nat_to_be 4 (length p)) w w1" "sends (stream_write S ds) p w1 w'"
    by (auto simp: deadline_writer.write_json_frame_Ok)
  have "read_json_frame from_slice (stream_read S' ds') u = Some (map_err Json (from_slice p), u2)"
    if h: "receives (stream_read S' ds') 4 u header u1"
      and b: "receives (stream_read S' ds') (length p) u1 body u2"
      and eq: "header @ body = nat_to_be 4 (length p) @ p" for u header u1 body u2
  proof -
    note parts = frame_parts [OF deadline_reader.receives_length [OF h] eq p(2)]
    show ?thesis
      using deadline_reader.read_json_frame_payload [OF h, of body u2] b p(2) parts(2,3) by simp
  qed
  with p show ?thesis by blast
qed

text \<open>
  A frame that announces more than \<open>MAX_FRAME_LEN\<close> bytes is refused after its header, before
  any of its payload is read, and ends the request with the protocol exit code.
\<close>

lemma oversized_frame_refused:
  assumes "receives (stream_read S ds) 4 w header w1" and "MAX_FRAME_LEN < nat_from_be header"
  shows "read_json_frame from_slice (stream_read S ds) w =
      Some (Err (Oversized (nat_from_be header)), w1) \<and>
    transport_exit (Oversized (nat_from_be header)) = EXIT_PROTOCOL"
  using deadline_reader.read_json_frame_oversized [OF assms] by simp

end
