(* ===== verification/Command_Props.thy ===== *)
theory Command_Props
  imports Commands Helper_Props
begin

text \<open>
  What the development agent answers, and the commands around a request.
\<close>

section \<open>The development agent\<close>

text \<open>
  The agent answers nobody it cannot identify: on a request that does not verify under the
  host's key it sends nothing and reads no clock, and on one that is stale it sends nothing.
\<close>

lemma fake_agent_drops_bad_requests:
  assumes "read_json_frame (json_to_request L) (unix_read S stream) w = Some (Ok request, w1)"
    and "unix_time_ms S w1 = (Ok now, w2)"
    and "signed_request_verify L request host_pubkey \<noteq> Ok () \<or>
      request_verify_freshness (srq_body request) now 30000 \<noteq> Ok ()"
  shows "serve_connection L S host_pubkey agent_key decision agent_key_id stream w =
    Some (Ok (), if signed_request_verify L request host_pubkey \<noteq> Ok () then w1 else w2)"
  using assms serve_drops_unverified [OF assms(1)] serve_drops_stale [OF assms(1,2)] by auto

text \<open>
  Helper and agent agree: for a request that verifies and is fresh, the agent writes a
  response with its decision that the helper accepts for that request under the agent's public
  key and that is fresh at that moment.
\<close>

lemma fake_agent_answer_accepted:
  assumes "ed25519_correct L" and "request_canonical_bytes (srq_body request) = Ok m"
    and "length (sha256_digest L m) = 32" and "fits agent_key_id"
    and "read_json_frame (json_to_request L) (unix_read S stream) w = Some (Ok request, w1)"
    and "signed_request_verify L request host_pubkey = Ok ()"
    and "unix_time_ms S w1 = (Ok now, w2)" and "unat now + 10000 < 2 ^ 64"
    and "request_verify_freshness (srq_body request) now 30000 = Ok ()"
  shows "\<exists>response. serve_connection L S host_pubkey agent_key decision agent_key_id stream w =
      Option.bind (write_json_frame (json_of_response L) (unix_write S stream) response w2)
        (\<lambda>(_, w). Some (Ok (), w)) \<and>
    rs_decision (srs_body response) = decision \<and>
    verify_for_request L response (srq_body request) (ed25519_public L agent_key) = Ok () \<and>
    response_verify_freshness (srs_body response) now skew = Ok ()"
proof -
  from fake_response_accepted [OF assms(1-3) assms(8,4), of decision agent_key] obtain s
    where s: "fake_response L decision agent_key_id agent_key now (srq_body request) = Ok s"
      and d: "rs_decision (srs_body s) = decision" "rs_created_at_ms (srs_body s) = now"
        "unat (rs_expires_at_ms (srs_body s)) = unat now + 10000"
        "verify_for_request L s (srq_body request) (ed25519_public L agent_key) = Ok ()"
    by blast
  have "response_verify_freshness (srs_body s) now skew = Ok ()"
    using d by (simp add: response_window.fresh_iff)
  with d serve_answers [OF assms(5,6,7,9) s] show ?thesis by blast
qed

section \<open>Commands\<close>

text \<open>
  The process of a request ends with status 1 for an internal error or with one of the eight
  codes of a request, and with status 0 only when the request was approved.
\<close>

lemma process_status_of_request:
  assumes "main_program T L S (Request args) w = Some (code, w')"
  shows "code \<in> {0, 1, 10, 11, 12, 20, 30, 31, 32} \<and>
    (code = 0 \<longrightarrow> run_request L S args w = Some (Ok EXIT_APPROVED, w'))"
  using request_exit_status [OF assms] run_request_codes [of L S args w code w']
  by (auto simp: EXIT_APPROVED_def)

text \<open>
  \<open>config-key-path\<close> prints a path only for a configuration that is usable and whose two key
  files hold keys of 32 bytes, and it prints the path of the key that was asked for.
\<close>

lemma config_key_path_checked:
  assumes "config_key_path L S path key w = (Ok u, w')"
  shows "\<exists>c host agent sk pk v v' v''. usable_config c \<and> cfg_host_key_file c = Some host \<and>
    cfg_agent_pubkey_file c = Some agent \<and> plain_path host \<and> plain_path agent \<and>
    load_signing_key L S None (Some host) False v = (Ok sk, v') \<and> length sk = 32 \<and>
    load_public_key L S None (Some agent) ''agent public key'' False v' = (Ok pk, v'') \<and>
    length pk = 32 \<and> w' = println S (case key of HostKey \<Rightarrow> host | AgentKey \<Rightarrow> agent) v''"
  using assms
proof (rule config_key_path_Ok)
  fix c host agent w1 w2 w3 w4 sk pk
  assume "validate_config_fields S c w1 = (Inr (), w2)"
    and f: "cfg_host_key_file c = Some host" "cfg_agent_pubkey_file c = Some agent"
    and k: "load_signing_key L S None (Some host) False w2 = (Inr sk, w3)"
      "load_public_key L S None (Some agent) ''agent public key'' False w3 = (Inr pk, w4)"
    and w': "w' = println S (case key of HostKey \<Rightarrow> host | AgentKey \<Rightarrow> agent) w4"
  then have c: "usable_config c" by (auto dest: validate_config_fields_Ok)
  with f have p: "plain_path host" "plain_path agent" by (auto simp: usable_config_def)
  show ?thesis
    by (intro exI conjI) (rule c f p k w' load_key_length(1) [OF k(1)] load_key_length(2) [OF k(2)])+
qed

definition any_config_lib :: helper_lib where
  "any_config_lib = demo_lib\<lparr>toml_to_config := (\<lambda>_. Ok demo_config)\<rparr>"

lemma demo_config_key_path:
  "\<exists>w'. config_key_path any_config_lib demo_sys ''/etc/agent.pub'' HostKey demo_world = (Ok (), w')"
proof -
  have h: "d_handles demo_world = Map.empty" "d_handles (demo_world\<lparr>d_clock := 1\<rparr>) = Map.empty"
    by (simp_all add: demo_world_def)
  have trim: "trim (demo_hex_encode bs) = demo_hex_encode bs" for bs
    by (rule trim_graphic) (rule demo_hex_graphic)
  have "load_helper_config any_config_lib demo_sys (Some ''/etc/agent.pub'') False demo_world =
      (Ok demo_config, demo_world)"
    by (simp add: load_helper_config_def read_trusted_file_def demo_open demo_read_file
        demo_contents_ok h MAX_FRAME_LEN_def any_config_lib_def)
  moreover have "cfg_host_key_file demo_config = Some ''/etc/host.key''"
      "cfg_agent_pubkey_file demo_config = Some ''/etc/agent.pub''"
    by (simp_all add: demo_config_def)
  moreover have "load_signing_key any_config_lib demo_sys None (Some ''/etc/host.key'') False v = (Ok host_secret, v)"
      "load_public_key any_config_lib demo_sys None (Some ''/etc/agent.pub'') l False v = (Ok agent_secret, v)"
    if "d_handles v = Map.empty" for l v
    using that
    by (simp_all add: load_signing_key_def load_public_key_def demo_keys signing_key_from_hex_def trim
        any_config_lib_def demo_lib_def demo_hex_roundtrip) (simp_all add: host_secret_def agent_secret_def)
  moreover have "to_str ''/etc/host.key'' = Ok ''/etc/host.key''"
    by (simp add: to_str_def from_utf8_ascii is_ascii_def)
  ultimately show ?thesis
    using h(2) by (simp add: config_key_path_def demo_validate)
qed

text \<open>
  \<open>gen-key\<close> writes a private key file with the exclusive creation and the mode 0600 of
  \<open>write_private_key_file\<close>, and what it writes is a line from which the generated key is read
  back.
\<close>

lemma gen_key_private_file:
  assumes "hex_lawful L" and "gen_key L S (Some path) public_key_file w = (Ok u, w')"
  shows "\<exists>key w1 f w2 w3. sys_generate_key S w = (key, w1) \<and>
    sys_create_new S path 0x180 w1 = (Ok f, w2) \<and>
    sys_write_all S f (as_bytes (private_key_line (hex_encode L key))) w2 = (Ok (), w3) \<and>
    key_material_of_lines (lines (private_key_line (hex_encode L key))) = Some (hex_encode L key)"
proof -
  obtain key w1 where k: "sys_generate_key S w = (key, w1)" by fastforce
  with assms(2) show ?thesis
    using written_key_material(1) [OF hex_encode_graphic [OF assms(1)]]
    by (auto simp: gen_key_def write_if_given_def write_private_key_file_def result_simps)
qed

end
