(* ===== verification/Pam_Props.thy ===== *)
theory Pam_Props
  imports Pam_Demo Command_Props
begin

text \<open>
  Properties of the PAM module \<open>pam/pam_macos_auth.c\<close>, alone and together with the helper it
  starts.
\<close>

section \<open>What is executed\<close>

text \<open>
  C12. The helper is executed only when root controls it: a descriptor is returned only for an
  absolute path whose root directory and every component were opened without following links, are
  owned by root and writable by nobody else, all directories but the last, which is a regular
  executable file.
\<close>

theorem helper_executable_trusted:
  assumes "validate_helper_path S path w = (Some f, w')"
  shows "\<exists>p v root v1 root_md v2 mds. path = Some p \<and> is_absolute p \<and>
    ''.'' \<notin> set (path_tokens p) \<and> ''..'' \<notin> set (path_tokens p) \<and>
    sys_open_root S v = (Ok root, v1) \<and> sys_fstat S root v1 = (Ok root_md, v2) \<and>
    helper_opened S root v2 (path_tokens p) mds f w' \<and> length mds = length (path_tokens p) \<and>
    (\<forall>md \<in> set (root_md # mds). md_uid md = 0 \<and> md_mode md AND 18 = 0) \<and>
    (\<forall>md \<in> set (root_md # butlast mds). md_type md = Directory) \<and>
    mds \<noteq> [] \<and> md_type (last mds) = RegularFile \<and> md_mode (last mds) AND 64 \<noteq> 0"
  using assms
proof (rule validate_helper_path_Some)
  fix p v root v1 md v2 mds
  assume p: "path = Some p" "is_absolute p" "path_tokens p \<noteq> []"
    and r: "sys_open_root S v = (Inr root, v1)" "sys_fstat S root v1 = (Inr md, v2)"
      "pam_trusted_metadata md True"
    and o: "helper_opened S root v2 (path_tokens p) mds f w'"
  note m = helper_opened_metadata [OF o]
  have "mds \<noteq> []" using m p(3) by auto
  moreover have "md_uid md = 0 \<and> md_mode md AND 18 = 0 \<and> md_type md = Directory"
    using r(3) by (simp add: pam_trusted_metadata_def)
  ultimately show ?thesis using p r(1,2) o m by (intro exI conjI) auto
qed

theorem helper_executable_trusted_witness:
  "\<exists>root v mds. helper_opened demo_pam root v helper_node mds 6
      (pam_world\<lparr>p_table := (6, helper_node) # p_table pam_world\<rparr>) \<and>
    length mds = 3 \<and> md_type (last mds) = RegularFile"
proof -
  have "length helper_node = 3" by (simp add: helper_node_def)
  with helper_executable_trusted [OF demo_validate_helper] show ?thesis
    by (auto simp: demo_tokens)
qed

text \<open>
  C31. The command line of the helper is fixed: whatever the PAM items hold, the array of 24
  pointers is large enough, ends with a null pointer, and what \<open>fexecve\<close> reads from it is the
  helper's path, \<open>request\<close>, \<open>--require-root-owned\<close>, the configuration, the user, and one pair for
  each item that is set and not empty.
\<close>

theorem helper_command_line:
  "\<exists>exec_argv index. push_arguments options user service ruser rhost tty = Some (exec_argv, index) \<and>
    length exec_argv = 24 \<and> index < 24 \<and> exec_argv ! index = None \<and>
    argv_strings exec_argv = [helper_path options, ''request'', ''--require-root-owned'', ''--config'',
      config_path options, ''--user'', user] @ pair_args (optional_pair ''--service'' service @
      optional_pair ''--ruser'' ruser @ optional_pair ''--rhost'' rhost @ optional_pair ''--tty'' tty)"
proof -
  obtain v where v: "push_arguments options user service ruser rhost tty = Some v"
    and h: "holds_args (helper_args options user service ruser rhost tty) v"
    using push_arguments_holds by blast
  have "length (fst v) = 24" "snd v < 24" "fst v ! snd v = None"
    using h by (auto simp: holds_args_def nth_append)
  with v argv_strings_holds [OF h] show ?thesis
    by (cases v) (auto simp: helper_args_def helper_pairs_def)
qed

text \<open>
  C32. The child that executes the helper has closed every descriptor but the standard streams
  and descriptor 3, also when \<open>close_range\<close> is missing and the descriptors are listed instead, and
  it passes the argument vector with the fixed environment.
\<close>

theorem helper_inherits_nothing:
  assumes "child_descriptors S opened pending"
    and "helper_child S helper_fd exec_argv w = Some (ChildExec f argv envp, w')"
  shows "opened w' \<subseteq> {0, 1, 2, 3} \<and> f = 3 \<and> argv = argv_strings exec_argv \<and>
    envp = [''PATH=/usr/sbin:/usr/bin:/sbin:/bin'', ''LC_ALL=C'']"
proof -
  have "g \<in> {0, 1, 2, 3}" if "g < 4" for g :: nat using that by auto
  with helper_child_inherits [OF assms] show ?thesis by (auto simp: helper_envp_def)
qed

theorem helper_inherits_nothing_witness:
  "\<exists>w'. p_opened w' \<subseteq> {0, 1, 2, 3} \<and>
    helper_child demo_pam 6 [Some ''helper'', None] \<lparr>p_table = [], p_time = 0, p_polls = 0, p_child = None, p_entries = []\<rparr> =
      Some (ChildExec 3 (argv_strings [Some ''helper'', None]) helper_envp, w')"
proof -
  obtain w' where w: "helper_child demo_pam 6 [Some ''helper'', None]
      \<lparr>p_table = [], p_time = 0, p_polls = 0, p_child = None, p_entries = []\<rparr> =
      Some (ChildExec 3 (argv_strings [Some ''helper'', None]) helper_envp, w')"
    using demo_child by blast
  from helper_inherits_nothing [OF pam_demo_child w] w show ?thesis by blast
qed

section \<open>The application\<close>





section \<open>Timeouts\<close>

text \<open>
  The timeout of the module is always between 1 and 600000 milliseconds, whatever its
  arguments are, and \<open>timeout_ms=n\<close> sets it to \<open>n\<close> when \<open>n\<close> is in that range.
\<close>

lemma timeout_option_bounded:
  "timeout_ms (parse_options argv) \<noteq> 0 \<and> timeout_ms (parse_options argv) \<le> 600000 \<and>
    (n \<noteq> 0 \<and> n \<le> 600000 \<longrightarrow>
      timeout_ms (parse_options (argv @ [''timeout_ms='' @ show_nat (unat n)])) = n)"
proof -
  have "parse_uint_option (Some (show_nat (unat n))) d = n" if n: "n \<noteq> 0" "n \<le> 600000" for d
  proof -
    have "digits_val (show_nat (unat n)) < 2 ^ 64"
      using n by (simp add: digits_val_show_nat word_le_nat_alt)
    then have s: "strtoul (show_nat (unat n)) = (word_of_nat (unat n), [], False)"
      using strtoul_digits show_nat_digits digits_val_show_nat by metis
    have u: "unat (word_of_nat (unat n) :: u64) = unat n"
      using unat_u32_as_u64 [of n] by simp
    have "word_of_nat (unat n) \<noteq> (0 :: u64)" "\<not> 600000 < (word_of_nat (unat n) :: u64)"
      using n u by (auto simp: word_less_nat_alt word_le_nat_alt unat_eq_0 [symmetric])
    moreover have "ucast (word_of_nat (unat n) :: u64) = n"
      by (rule bit_word_eqI) (simp add: bit_simps)
    moreover have "[] \<noteq> show_nat (unat n)" using show_nat_digits [of "unat n"] by metis
    ultimately show ?thesis using s by (simp add: parse_uint_option_def)
  qed
  then show ?thesis
    using parse_options_timeout [of argv]
    by (simp add: parse_options_def parse_option_def starts_with_def)
qed

text \<open>
  Once the clock shows that the timeout has passed while the helper is running, its result no
  longer counts: the code is that of a timeout or of a failure, neither of which is a success.
\<close>

lemma timed_out_helper_fails:
  assumes "pam_wait_nohang S pid w = (NotYet, w1)" and "monotonic_ms S w1 = (Some now, w2)"
    and "ucast timeout \<le> now - start_ms"
    and "wait_loop S pid start_ms timeout w = Some (r, w')"
  shows "\<exists>code. r = Err code \<and> code \<in> {10, 127} \<and> map_exit_to_pam code \<noteq> PAM_SUCCESS"
proof -
  from assms obtain code where "r = Inl code"
    by (auto simp: wait_loop.simps [of S] split: if_splits)
  with wait_loop_code [OF assms(4)] show ?thesis
    by (auto simp: MACOS_AUTH_HELPER_TIMEOUT_EXIT_def map_exit_to_pam_def)
qed

section \<open>Exit codes\<close>

text \<open>
  C13. The exit codes of the helper and the switch of the module agree: the status of the helper's
  process, cut to eight bits, becomes a success exactly when the request was approved, a code that
  lets the stack go on for the decisions and errors that mean the agent could not be asked, and a
  failure for a denial, tampering, an unsafe configuration, a broken protocol and internal errors.
\<close>

theorem pam_code_of_request:
  assumes "main_program T L S (Request args) w = Some (code, w')"
  shows "(map_exit_to_pam (uint (word_of_int code :: u8)) = PAM_SUCCESS \<longleftrightarrow>
      run_request L S args w = Some (Ok EXIT_APPROVED, w')) \<and>
    (map_exit_to_pam (uint (word_of_int code :: u8)) = PAM_AUTHINFO_UNAVAIL \<longleftrightarrow>
      (\<exists>c \<in> {EXIT_UNAVAILABLE, EXIT_CANCELLED, EXIT_FAILED}. run_request L S args w = Some (Ok c, w'))) \<and>
    (map_exit_to_pam (uint (word_of_int code :: u8)) = PAM_AUTH_ERR \<longleftrightarrow>
      (\<exists>e. run_request L S args w = Some (Err e, w')) \<or>
      (\<exists>c \<in> {EXIT_DENIED, EXIT_TAMPER, EXIT_UNSAFE_CONFIG, EXIT_PROTOCOL}.
        run_request L S args w = Some (Ok c, w')))"
proof -
  from assms obtain r where r: "run_request L S args w = Some (r, w')"
    and code: "code = exit_status (map_sum id Some r)"
    by (cases "run_request L S args w")
      (auto simp: main_program_def bind_io_def split: prod.splits sum.splits)
  show ?thesis
  proof (cases r)
    case (Inl e)
    with r code show ?thesis by (simp add: map_exit_to_pam_def)
  next
    case (Inr c)
    have "c \<in> {0, 10, 11, 12, 20, 30, 31, 32}" by (rule run_request_codes [OF r [unfolded Inr]])
    then have "uint (word_of_int c :: u8) = c" by auto
    moreover have "code = c" using code Inr by simp
    ultimately show ?thesis
      using Inr r \<open>c \<in> _\<close> by (simp add: map_exit_to_pam_def exit_code_defs) auto
  qed
qed

theorem pam_code_of_request_witness:
  "\<exists>code w'. main_program demo_toml (agent_lib Denied) demo_sys (Request demo_args) demo_world = Some (code, w') \<and>
    map_exit_to_pam (uint (word_of_int code :: u8)) = PAM_AUTH_ERR"
proof -
  obtain w' where r: "run_request (agent_lib Denied) demo_sys demo_args demo_world = Some (Ok EXIT_DENIED, w')"
    using demo_run [of Denied] by auto
  then have m: "main_program demo_toml (agent_lib Denied) demo_sys (Request demo_args) demo_world =
      Some (EXIT_DENIED, w')"
    by (simp add: main_program_def)
  from pam_code_of_request [OF m] r
  have "map_exit_to_pam (uint (word_of_int EXIT_DENIED :: u8)) = PAM_AUTH_ERR" by simp
  with m show ?thesis by blast
qed

end
