(* ===== verification/Agent_Messages.thy ===== *)
theory Agent_Messages
  imports Protocol System
begin

text \<open>
  The messages of the macOS agent (\<open>agent/Sources/MacosAuthAgent/main.swift\<close>): the Swift structures
  \<open>AuthRequestBody\<close> and \<open>AuthResponseBody\<close>, which spell the algorithm as text, their encoders and
  their methods. The two programs share the canonical bytes: the Swift encoders succeed exactly
  where the Rust encoders do, with the same bytes.

  A Swift \<open>String\<close> is represented by its UTF-8 code units, as a Rust one. An error that is thrown is a
  value of \<open>AgentError\<close>; \<open>Thrown\<close> stands for an error of a system framework and \<open>Trap\<close> for
  the end of the process by an arithmetic overflow.
\<close>

unbundle bit_operations_syntax

section \<open>Errors\<close>

datatype AgentError =
    Usage string
  | InvalidHex string
  | InvalidKeyLength string
  | InvalidPayload string
  | InvalidSignature
  | SocketError string
  | AgentIo string
  | AgentTimeout
  | Thrown string
  | Trap

text \<open>Addition traps when it overflows.\<close>

definition swift_add :: "'a::len word \<Rightarrow> 'a word \<Rightarrow> ('a word, AgentError) result" where
  "swift_add a b = ok_or (checked_add a b) Trap"

section \<open>Data\<close>

definition supportedProtocolVersion :: u16 where
  "supportedProtocolVersion = 1"

definition nonceLength :: nat where
  "nonceLength = 32"

definition requestDomain :: bytes where
  "requestDomain = as_bytes ''macos-auth/auth-request/v1''"

definition responseDomain :: bytes where
  "responseDomain = as_bytes ''macos-auth/auth-response/v1''"

record SwiftRequestBody =
  req_protocolVersion :: u16
  req_requestId :: string
  req_nonce :: bytes
  req_createdAtMs :: u64
  req_expiresAtMs :: u64
  req_linuxHostId :: string
  req_linuxHostname :: string
  req_pamService :: string
  req_pamUser :: string
  req_pamRuser :: "string option"
  req_pamRhost :: "string option"
  req_pamTty :: "string option"
  req_sudoCommand :: "string option"
  req_clientPid :: "u32 option"
  req_keyId :: string
  req_alg :: string

record SwiftSignedRequest =
  sreq_body :: SwiftRequestBody
  sreq_signature :: bytes

record SwiftResponseBody =
  resp_protocolVersion :: u16
  resp_requestId :: string
  resp_nonce :: bytes
  resp_requestHash :: bytes
  resp_linuxHostId :: string
  resp_pamService :: string
  resp_pamUser :: string
  resp_decision :: Decision
  resp_authMethod :: AuthMethod
  resp_createdAtMs :: u64
  resp_expiresAtMs :: u64
  resp_agentKeyId :: string
  resp_alg :: string
  resp_errorCode :: "string option"
  resp_errorMessage :: "string option"

record SwiftSignedResponse =
  sresp_body :: SwiftResponseBody
  sresp_signature :: bytes

fun decision_rawValue :: "Decision \<Rightarrow> string" where
  "decision_rawValue Approved = ''approved''"
| "decision_rawValue Denied = ''denied''"
| "decision_rawValue Unavailable = ''unavailable''"
| "decision_rawValue Cancelled = ''cancelled''"
| "decision_rawValue Failed = ''failed''"

fun method_rawValue :: "AuthMethod \<Rightarrow> string" where
  "method_rawValue Watch = ''watch''"
| "method_rawValue TouchId = ''touch-id''"
| "method_rawValue BiometricOrWatch = ''biometric-or-watch''"
| "method_rawValue UnknownMethod = ''unknown''"
| "method_rawValue NoMethod = ''none''"

definition canonicalName :: "AuthMethod \<Rightarrow> string" where
  "canonicalName m = (if m = TouchId then ''touchid'' else method_rawValue m)"

text \<open>
  \<open>lowercased()\<close>, as far as the comparison with \<open>ed25519\<close> can see: no character outside ASCII becomes one of
  its letters.
\<close>

definition ascii_lower :: "char \<Rightarrow> char" where
  "ascii_lower c = (if of_char c \<in> {65..90 :: nat} then char_of (of_char c + 32 :: nat) else c)"

definition canonicalAlgorithmName :: "string \<Rightarrow> string option" where
  "canonicalAlgorithmName v = (if map ascii_lower v = ''ed25519'' then Some ''Ed25519'' else None)"

section \<open>Encoders\<close>

definition byte_at :: "nat \<Rightarrow> 'a::len word \<Rightarrow> u8" where
  "byte_at shift v = ucast (drop_bit shift v AND 0xff)"

definition encodeUInt16 :: "bytes \<Rightarrow> u16 \<Rightarrow> bytes" where
  "encodeUInt16 out v = out @ [byte_at 8 v] @ [byte_at 0 v]"

definition encodeUInt32 :: "bytes \<Rightarrow> u32 \<Rightarrow> bytes" where
  "encodeUInt32 out v = out @ [byte_at 24 v] @ [byte_at 16 v] @ [byte_at 8 v] @ [byte_at 0 v]"

definition encodeUInt64 :: "bytes \<Rightarrow> u64 \<Rightarrow> bytes" where
  "encodeUInt64 out v = foldl (\<lambda>out shift. out @ [byte_at shift v]) out [56, 48, 40, 32, 24, 16, 8, 0]"

definition encodeBytes :: "bytes \<Rightarrow> bytes \<Rightarrow> (bytes, AgentError) result" where
  "encodeBytes out v =
    (if \<not> length v \<le> 4294967295 then Err (InvalidPayload ''field too large'')
     else Ok (encodeUInt32 out (word_of_nat (length v)) @ v))"

definition encodeString :: "bytes \<Rightarrow> string \<Rightarrow> (bytes, AgentError) result" where
  "encodeString out v = encodeBytes out (as_bytes v)"

definition encodeOptionalString :: "bytes \<Rightarrow> string option \<Rightarrow> (bytes, AgentError) result" where
  "encodeOptionalString out v =
    (case v of None \<Rightarrow> Ok (out @ [0]) | Some s \<Rightarrow> encodeString (out @ [1]) s)"

definition encodeOptionalUInt32 :: "bytes \<Rightarrow> u32 option \<Rightarrow> bytes" where
  "encodeOptionalUInt32 out v =
    (case v of None \<Rightarrow> out @ [0] | Some n \<Rightarrow> encodeUInt32 (out @ [1]) n)"

section \<open>Requests\<close>

definition swift_request_validate :: "SwiftRequestBody \<Rightarrow> (unit, AgentError) result" where
  "swift_request_validate r =
    (if req_protocolVersion r \<noteq> supportedProtocolVersion then
       Err (InvalidPayload (''unsupported protocol version '' @ show_nat (unat (req_protocolVersion r))))
     else if canonicalAlgorithmName (req_alg r) = None then
       Err (InvalidPayload (''unsupported algorithm '' @ req_alg r))
     else if length (req_nonce r) \<noteq> nonceLength then
       Err (InvalidPayload (''invalid nonce length '' @ show_nat (length (req_nonce r))))
     else if \<not> req_createdAtMs r < req_expiresAtMs r then
       Err (InvalidPayload ''invalid validity window'')
     else Ok ())"

definition swift_request_canonicalBytes :: "SwiftRequestBody \<Rightarrow> (bytes, AgentError) result" where
  "swift_request_canonicalBytes r =
    and_then (swift_request_validate r) (\<lambda>_.
    and_then (encodeBytes [] requestDomain) (\<lambda>out.
    and_then (encodeString (encodeUInt16 out (req_protocolVersion r)) (req_requestId r)) (\<lambda>out.
    and_then (encodeBytes out (req_nonce r)) (\<lambda>out.
    and_then (encodeString (encodeUInt64 (encodeUInt64 out (req_createdAtMs r)) (req_expiresAtMs r))
      (req_linuxHostId r)) (\<lambda>out.
    and_then (encodeString out (req_linuxHostname r)) (\<lambda>out.
    and_then (encodeString out (req_pamService r)) (\<lambda>out.
    and_then (encodeString out (req_pamUser r)) (\<lambda>out.
    and_then (encodeOptionalString out (req_pamRuser r)) (\<lambda>out.
    and_then (encodeOptionalString out (req_pamRhost r)) (\<lambda>out.
    and_then (encodeOptionalString out (req_pamTty r)) (\<lambda>out.
    and_then (encodeOptionalString out (req_sudoCommand r)) (\<lambda>out.
    and_then (encodeString (encodeOptionalUInt32 out (req_clientPid r)) (req_keyId r)) (\<lambda>out.
    encodeString out (the (canonicalAlgorithmName (req_alg r))))))))))))))))"

definition swift_request_sha256 ::
    "'z crypto_scheme \<Rightarrow> SwiftRequestBody \<Rightarrow> (bytes, AgentError) result" where
  "swift_request_sha256 C r = and_then (swift_request_canonicalBytes r) (\<lambda>b. Ok (sha256_digest C b))"

definition verifyFreshness :: "SwiftRequestBody \<Rightarrow> u64 \<Rightarrow> u64 \<Rightarrow> (unit, AgentError) result" where
  "verifyFreshness r nowMs allowedFutureSkewMs =
    (if nowMs \<ge> req_expiresAtMs r then Err (InvalidPayload ''request expired'')
     else if req_createdAtMs r > nowMs \<and> req_createdAtMs r - nowMs > allowedFutureSkewMs then
       Err (InvalidPayload ''request created too far in the future'')
     else Ok ())"

section \<open>Responses\<close>

definition forRequest ::
    "'z crypto_scheme \<Rightarrow> SwiftRequestBody \<Rightarrow> Decision \<Rightarrow> AuthMethod \<Rightarrow> u64 \<Rightarrow> string \<Rightarrow>
     (SwiftResponseBody, AgentError) result" where
  "forRequest C request decision authMethod nowMs agentKeyId =
    (if \<not> nowMs < req_expiresAtMs request then Err AgentTimeout
     else
     and_then (swift_request_sha256 C request) (\<lambda>requestHash.
     and_then (swift_add nowMs (min 10000 (req_expiresAtMs request - nowMs))) (\<lambda>expiresAtMs.
     Ok \<lparr>resp_protocolVersion = req_protocolVersion request, resp_requestId = req_requestId request,
         resp_nonce = req_nonce request, resp_requestHash = requestHash,
         resp_linuxHostId = req_linuxHostId request, resp_pamService = req_pamService request,
         resp_pamUser = req_pamUser request, resp_decision = decision, resp_authMethod = authMethod,
         resp_createdAtMs = nowMs, resp_expiresAtMs = expiresAtMs, resp_agentKeyId = agentKeyId,
         resp_alg = ''ed25519'', resp_errorCode = None, resp_errorMessage = None\<rparr>)))"

definition swift_response_validate :: "SwiftResponseBody \<Rightarrow> (unit, AgentError) result" where
  "swift_response_validate r =
    (if resp_protocolVersion r \<noteq> supportedProtocolVersion then
       Err (InvalidPayload (''unsupported protocol version '' @ show_nat (unat (resp_protocolVersion r))))
     else if canonicalAlgorithmName (resp_alg r) = None then
       Err (InvalidPayload (''unsupported algorithm '' @ resp_alg r))
     else if length (resp_nonce r) \<noteq> nonceLength then
       Err (InvalidPayload (''invalid nonce length '' @ show_nat (length (resp_nonce r))))
     else if \<not> resp_createdAtMs r < resp_expiresAtMs r then
       Err (InvalidPayload ''invalid validity window'')
     else Ok ())"

definition swift_response_canonicalBytes :: "SwiftResponseBody \<Rightarrow> (bytes, AgentError) result" where
  "swift_response_canonicalBytes r =
    and_then (swift_response_validate r) (\<lambda>_.
    and_then (encodeBytes [] responseDomain) (\<lambda>out.
    and_then (encodeString (encodeUInt16 out (resp_protocolVersion r)) (resp_requestId r)) (\<lambda>out.
    and_then (encodeBytes out (resp_nonce r)) (\<lambda>out.
    and_then (encodeBytes out (resp_requestHash r)) (\<lambda>out.
    and_then (encodeString out (resp_linuxHostId r)) (\<lambda>out.
    and_then (encodeString out (resp_pamService r)) (\<lambda>out.
    and_then (encodeString out (resp_pamUser r)) (\<lambda>out.
    and_then (encodeString out (decision_rawValue (resp_decision r))) (\<lambda>out.
    and_then (encodeString out (canonicalName (resp_authMethod r))) (\<lambda>out.
    and_then (encodeString (encodeUInt64 (encodeUInt64 out (resp_createdAtMs r)) (resp_expiresAtMs r))
      (resp_agentKeyId r)) (\<lambda>out.
    and_then (encodeString out (the (canonicalAlgorithmName (resp_alg r)))) (\<lambda>out.
    and_then (encodeOptionalString out (resp_errorCode r)) (\<lambda>out.
    encodeOptionalString out (resp_errorMessage r))))))))))))))"

section \<open>The encoders agree with those of the protocol crate\<close>

lemma unat_byte_at: "unat (byte_at shift (v :: 'a::len word)) = unat v div 2 ^ shift mod 256"
proof -
  have "(0xff :: 'a word) = mask 8" by (simp add: mask_eq_exp_minus_1)
  then have "byte_at shift v = ucast (take_bit 8 (drop_bit shift v))"
    by (simp add: byte_at_def take_bit_eq_mask)
  then have "unat (byte_at shift v) = take_bit 8 (drop_bit shift (unat v))"
    by (simp only: unsigned_ucast_eq unsigned_take_bit_eq unsigned_drop_bit_eq)
      (simp add: take_bit_nat_eq_self)
  then show ?thesis by (simp add: drop_bit_eq_div take_bit_eq_mod)
qed

lemma byte_at_eq: "byte_at shift v = word_of_nat (unat v div 2 ^ shift mod 256)"
  by (rule word_unat_eq_iff [THEN iffD2]) (simp add: unat_byte_at unat_of_nat)

lemma encodeUInt_eqs:
  "encodeUInt16 out v = out @ u16_field v"
  "encodeUInt32 out w = out @ u32_field w"
  "encodeUInt64 out x = out @ u64_field x"
  by (simp_all add: encodeUInt16_def encodeUInt32_def encodeUInt64_def u16_field_def u32_field_def
      u64_field_def byte_at_eq div_mult2_eq [symmetric])

lemma encodeBytes_Ok: "encodeBytes out v = Ok b \<longleftrightarrow> fits v \<and> b = out @ bytes_field v"
  by (auto simp: encodeBytes_def encodeUInt_eqs fits_def bytes_field_def u32_field_def unat_of_nat
      simp del: nat_to_be_numeral)

lemma encodeString_Ok: "encodeString out s = Ok b \<longleftrightarrow> fits s \<and> b = out @ str_field s"
  by (simp add: encodeString_def encodeBytes_Ok str_field_def fits_def)

lemma encodeOptionalString_Ok:
  "encodeOptionalString out v = Ok b \<longleftrightarrow> opt_fits v \<and> b = out @ opt_str_field v"
  by (auto simp: encodeOptionalString_def encodeString_Ok opt_str_field_def opt_fits_def
      split: option.splits)

lemma encodeOptionalUInt32_eq: "encodeOptionalUInt32 out v = out @ opt_u32_field v"
  by (simp add: encodeOptionalUInt32_def encodeUInt_eqs opt_u32_field_def split: option.splits)

lemmas swift_encode_simps = encodeUInt_eqs encodeBytes_Ok encodeString_Ok encodeOptionalString_Ok
  encodeOptionalUInt32_eq

lemma agent_constants [simp]:
  "requestDomain = REQUEST_DOMAIN" "responseDomain = RESPONSE_DOMAIN"
  "supportedProtocolVersion = PROTOCOL_VERSION" "nonceLength = NONCE_LEN"
  by (simp_all add: requestDomain_def REQUEST_DOMAIN_def responseDomain_def RESPONSE_DOMAIN_def
      supportedProtocolVersion_def PROTOCOL_VERSION_def nonceLength_def NONCE_LEN_def)

lemma swift_names [simp]: "decision_rawValue d = decision_name d" "canonicalName m = method_name m"
  by (cases d; simp) (cases m; simp add: canonicalName_def)

lemma canonicalAlgorithmName_Some:
  "canonicalAlgorithmName v = Some a \<Longrightarrow> a = algorithm_name Ed25519"
  by (simp add: canonicalAlgorithmName_def split: if_splits)

lemma fits_algorithm: "fits ''Ed25519''"
  by (simp add: fits_def)

section \<open>The same message in the two programs\<close>

text \<open>What the Rust program holds for a Swift message; the spelling of the algorithm is lost.\<close>

definition of_swift_request :: "SwiftRequestBody \<Rightarrow> AuthRequestBody" where
  "of_swift_request r =
    \<lparr>rq_protocol_version = req_protocolVersion r, rq_request_id = req_requestId r,
     rq_nonce = req_nonce r, rq_created_at_ms = req_createdAtMs r,
     rq_expires_at_ms = req_expiresAtMs r, rq_linux_host_id = req_linuxHostId r,
     rq_linux_hostname = req_linuxHostname r, rq_pam_service = req_pamService r,
     rq_pam_user = req_pamUser r, rq_pam_ruser = req_pamRuser r, rq_pam_rhost = req_pamRhost r,
     rq_pam_tty = req_pamTty r, rq_sudo_command = req_sudoCommand r,
     rq_client_pid = req_clientPid r, rq_key_id = req_keyId r, rq_alg = Ed25519\<rparr>"

definition of_swift_response :: "SwiftResponseBody \<Rightarrow> AuthResponseBody" where
  "of_swift_response r =
    \<lparr>rs_protocol_version = resp_protocolVersion r, rs_request_id = resp_requestId r,
     rs_nonce = resp_nonce r, rs_request_hash = resp_requestHash r,
     rs_linux_host_id = resp_linuxHostId r, rs_pam_service = resp_pamService r,
     rs_pam_user = resp_pamUser r, rs_decision = resp_decision r,
     rs_auth_method = resp_authMethod r, rs_created_at_ms = resp_createdAtMs r,
     rs_expires_at_ms = resp_expiresAtMs r, rs_agent_key_id = resp_agentKeyId r,
     rs_alg = Ed25519, rs_error_code = resp_errorCode r, rs_error_message = resp_errorMessage r\<rparr>"

text \<open>What the Swift program decodes for a Rust message.\<close>

definition to_swift_request :: "AuthRequestBody \<Rightarrow> SwiftRequestBody" where
  "to_swift_request r =
    \<lparr>req_protocolVersion = rq_protocol_version r, req_requestId = rq_request_id r,
     req_nonce = rq_nonce r, req_createdAtMs = rq_created_at_ms r,
     req_expiresAtMs = rq_expires_at_ms r, req_linuxHostId = rq_linux_host_id r,
     req_linuxHostname = rq_linux_hostname r, req_pamService = rq_pam_service r,
     req_pamUser = rq_pam_user r, req_pamRuser = rq_pam_ruser r, req_pamRhost = rq_pam_rhost r,
     req_pamTty = rq_pam_tty r, req_sudoCommand = rq_sudo_command r,
     req_clientPid = rq_client_pid r, req_keyId = rq_key_id r, req_alg = ''ed25519''\<rparr>"

lemma of_to_swift_request [simp]: "of_swift_request (to_swift_request r) = r"
  by (cases "rq_alg r") (simp add: of_swift_request_def to_swift_request_def)

lemma swift_request_validate_Ok:
  "swift_request_validate r = Ok () \<longleftrightarrow>
    canonicalAlgorithmName (req_alg r) \<noteq> None \<and> request_validate (of_swift_request r) = Ok ()"
  by (auto simp: swift_request_validate_def request_validate_Ok of_swift_request_def not_less)

lemma swift_response_validate_Ok:
  "swift_response_validate r = Ok () \<longleftrightarrow>
    canonicalAlgorithmName (resp_alg r) \<noteq> None \<and> response_validate (of_swift_response r) = Ok ()"
  by (auto simp: swift_response_validate_def response_validate_Ok of_swift_response_def not_less)

lemma swift_request_canonical:
  "swift_request_canonicalBytes r = Ok b \<longleftrightarrow>
    canonicalAlgorithmName (req_alg r) \<noteq> None \<and> request_canonical_bytes (of_swift_request r) = Ok b"
  by (cases "canonicalAlgorithmName (req_alg r)")
    (auto simp: swift_request_canonicalBytes_def result_simps swift_encode_simps
      swift_request_validate_Ok request_canonical_bytes_Ok request_fields_def request_fits_def
      of_swift_request_def fits_algorithm dest!: canonicalAlgorithmName_Some)

lemma swift_response_canonical:
  "swift_response_canonicalBytes r = Ok b \<longleftrightarrow>
    canonicalAlgorithmName (resp_alg r) \<noteq> None \<and> response_canonical_bytes (of_swift_response r) = Ok b"
  by (cases "canonicalAlgorithmName (resp_alg r)")
    (auto simp: swift_response_canonicalBytes_def result_simps swift_encode_simps
      swift_response_validate_Ok response_canonical_bytes_Ok response_fields_def response_fits_def
      of_swift_response_def fits_algorithm dest!: canonicalAlgorithmName_Some)

section \<open>Freshness and responses\<close>

lemma verifyFreshness_Ok:
  "verifyFreshness r now skew = Ok () \<longleftrightarrow>
    now < req_expiresAtMs r \<and> unat (req_createdAtMs r) \<le> unat now + unat skew"
proof -
  have "(now < req_createdAtMs r \<and> skew < req_createdAtMs r - now) \<longleftrightarrow>
      unat now + unat skew < unat (req_createdAtMs r)"
    by (auto simp: word_less_nat_alt unat_sub word_le_nat_alt)
  then show ?thesis by (auto simp: verifyFreshness_def not_less not_le)
qed

text \<open>The agent is stricter than the protocol crate by the last millisecond of the window.\<close>

lemma verifyFreshness_request_fresh:
  "verifyFreshness r now skew = Ok () \<longleftrightarrow>
    request_verify_freshness (of_swift_request r) now skew = Ok () \<and> now \<noteq> req_expiresAtMs r"
  by (auto simp: verifyFreshness_Ok request_window.fresh_iff of_swift_request_def word_le_nat_alt
      word_less_nat_alt word_unat_eq_iff)

lemma response_window:
  fixes now expires :: u64
  assumes "now < expires"
  shows "unat now + unat (min 10000 (expires - now)) = min (unat now + 10000) (unat expires)"
    and "swift_add now (min 10000 (expires - now)) = Ok (now + min 10000 (expires - now))"
    and "unat (now + min 10000 (expires - now)) = min (unat now + 10000) (unat expires)"
proof -
  have "unat (expires - now) = unat expires - unat now"
    using assms by (intro unat_sub) simp
  then show sum: "unat now + unat (min 10000 (expires - now)) = min (unat now + 10000) (unat expires)"
    using assms by (auto simp: min_def word_le_nat_alt word_less_nat_alt)
  have "unat expires < 2 ^ LENGTH(64)" by (rule unsigned_less)
  with sum have fits: "unat now + unat (min 10000 (expires - now)) < 2 ^ LENGTH(64)" by linarith
  then show "swift_add now (min 10000 (expires - now)) = Ok (now + min 10000 (expires - now))"
    by (simp add: swift_add_def checked_add_def)
  from unat_plus_no_overflow [OF fits] sum
  show "unat (now + min 10000 (expires - now)) = min (unat now + 10000) (unat expires)" by simp
qed

lemma canonicalAlgorithmName_own [simp]: "canonicalAlgorithmName ''ed25519'' = Some ''Ed25519''"
  by (simp add: canonicalAlgorithmName_def ascii_lower_def)

lemma forRequest_Ok:
  assumes "forRequest C request d am now key_id = Ok resp"
  shows "now < req_expiresAtMs request"
    and "for_request C (of_swift_request request) d am now (resp_expiresAtMs resp) key_id =
      Ok (of_swift_response resp)"
    and "unat (resp_expiresAtMs resp) = min (unat now + 10000) (unat (req_expiresAtMs request))"
    and "resp_createdAtMs resp = now" and "resp_decision resp = d" and "resp_authMethod resp = am"
    and "resp_alg resp = ''ed25519''"
proof -
  from assms show now: "now < req_expiresAtMs request" by (simp add: forRequest_def split: if_splits)
  from assms show "for_request C (of_swift_request request) d am now (resp_expiresAtMs resp) key_id =
      Ok (of_swift_response resp)"
    by (auto simp: forRequest_def for_request_def result_simps swift_request_sha256_def
        request_sha256_def swift_request_canonical of_swift_response_def split: if_splits)
      (simp_all add: of_swift_request_def)
  from assms show "unat (resp_expiresAtMs resp) = min (unat now + 10000) (unat (req_expiresAtMs request))"
    "resp_createdAtMs resp = now" "resp_decision resp = d" "resp_authMethod resp = am"
    "resp_alg resp = ''ed25519''"
    using response_window [OF now]
    by (auto simp: forRequest_def result_simps split: if_splits)
qed

lemma forRequest_plain:
  "forRequest C request d am now key_id = Ok resp \<Longrightarrow>
    resp_agentKeyId resp = key_id \<and> resp_errorCode resp = None \<and> resp_errorMessage resp = None"
  by (auto simp: forRequest_def result_simps split: if_splits)

lemma forRequest_returns:
  assumes "swift_request_canonicalBytes request = Ok b" and "now < req_expiresAtMs request"
  shows "\<exists>resp. forRequest C request d am now key_id = Ok resp"
  using assms response_window [OF assms(2)] by (simp add: forRequest_def swift_request_sha256_def)

lemma swift_request_errors:
  "swift_request_canonicalBytes request = Err e \<Longrightarrow> \<exists>msg. e = InvalidPayload msg"
  by (auto simp: swift_request_canonicalBytes_def result_simps swift_request_validate_def encodeBytes_def
      encodeString_def encodeOptionalString_def split: if_splits option.splits)

lemma forRequest_no_trap: "forRequest C request d am now key_id \<noteq> Err Trap"
proof
  assume trap: "forRequest C request d am now key_id = Err Trap"
  then have now: "now < req_expiresAtMs request" by (auto simp: forRequest_def split: if_splits)
  with trap response_window [OF now] have "swift_request_canonicalBytes request = Err Trap"
    by (auto simp: forRequest_def swift_request_sha256_def result_simps)
  then show False by (auto dest: swift_request_errors)
qed

end
