(* ===== verification/Agent_Transport.thy ===== *)
theory Agent_Transport
  imports Agent_Messages Frame
begin

unbundle bit_operations_syntax

text \<open>
  The transport of the macOS agent (\<open>agent/Sources/MacosAuthAgent/Transport.swift\<close>): deadlines on
  the uptime clock, waiting for a socket, frames, and the lifetime of a request, which ends for
  good when its deadline or expiry passes or the peer disconnects.

  The effects of the agent are the fields of \<open>agent_sys\<close>, over an arbitrary type of worlds as in
  \<open>System\<close>: other threads of the agent, its main thread and the device owner are part of the
  world. The flag of a lifetime is a cell, made by \<open>a_new_flag\<close>. \<open>a_lock_events\<close> takes the lock of the
  rate limiter and reads the dictionary under it, \<open>a_unlock_events\<close> stores it and gives the lock back.

  Text is compared by canonical equivalence, so that \<open>a_nfc\<close> gives the key under which a dictionary
  stores it, and counted in \<open>Character\<close>s, into which \<open>a_characters\<close> divides it. Signatures are those of
  CryptoKit.
\<close>

section \<open>The system as the agent sees it\<close>

text \<open>
  The last group of fields belongs to the authentication: the semaphore of the coordinator, the
  session it starts, with the cell that holds the session's result, and, on the main thread, the
  alert and LocalAuthentication.
\<close>

datatype la_error = UserCancel | SystemCancel | AppCancel | BiometryNotAvailable | BiometryNotEnrolled
  | BiometryLockout | WatchNotAvailable | OtherLAError

datatype la_reply = LASuccess | LAFailure "la_error option"

type_synonym rate_events = "string \<Rightarrow> u64 list"

record lifetime =
  lt_fd :: fd
  lt_expiresAtMs :: u64
  lt_deadline :: u64
  lt_flag :: nat

record 'w agent_sys =
  a_uptime_ns :: "'w \<Rightarrow> u64 \<times> 'w"
  a_wall_ms :: "'w \<Rightarrow> u64 \<times> 'w"
  a_strerror :: "errno \<Rightarrow> string"
  a_poll :: "fd \<Rightarrow> poll_event \<Rightarrow> int \<Rightarrow> 'w \<Rightarrow> poll_result \<times> 'w"
  a_recv :: "fd \<Rightarrow> nat \<Rightarrow> 'w \<Rightarrow> (bytes, errno) result \<times> 'w"
  a_peek :: "fd \<Rightarrow> 'w \<Rightarrow> (bytes, errno) result \<times> 'w"
  a_send :: "fd \<Rightarrow> bytes \<Rightarrow> 'w \<Rightarrow> (nat, errno) result \<times> 'w"
  a_log :: "string \<Rightarrow> 'w \<Rightarrow> 'w"
  a_new_flag :: "'w \<Rightarrow> nat \<times> 'w"
  a_flag :: "nat \<Rightarrow> 'w \<Rightarrow> bool \<times> 'w"
  a_set_flag :: "nat \<Rightarrow> 'w \<Rightarrow> 'w"
  a_lock_events :: "'w \<Rightarrow> rate_events \<times> 'w"
  a_unlock_events :: "rate_events \<Rightarrow> 'w \<Rightarrow> 'w"
  a_nfc :: "string \<Rightarrow> string"
  a_characters :: "string \<Rightarrow> string list"
  a_isValidSignature :: "bytes \<Rightarrow> bytes \<Rightarrow> bytes \<Rightarrow> bool"
  a_sign :: "bytes \<Rightarrow> bytes \<Rightarrow> 'w \<Rightarrow> (bytes, string) result \<times> 'w"
  a_slot_wait :: "'w \<Rightarrow> bool \<times> 'w"
  a_slot_signal :: "'w \<Rightarrow> 'w"
  a_session_start :: "SwiftRequestBody \<Rightarrow> bool \<Rightarrow> lifetime \<Rightarrow> 'w \<Rightarrow> nat \<times> 'w"
  a_session_result :: "nat \<Rightarrow> 'w \<Rightarrow> Decision option \<times> 'w"
  a_ready_wait :: "nat \<Rightarrow> 'w \<Rightarrow> 'w"
  a_session_cancel :: "nat \<Rightarrow> 'w \<Rightarrow> 'w"
  a_run_modal :: "string \<Rightarrow> 'w \<Rightarrow> bool \<times> 'w"
  a_can_evaluate :: "'w \<Rightarrow> bool \<times> 'w"
  a_evaluate :: "string \<Rightarrow> 'w \<Rightarrow> la_reply \<times> 'w"

section \<open>Deadlines\<close>

text \<open>A deadline is a reading of the uptime clock, in nanoseconds.\<close>

type_synonym deadline = u64

definition deadline_init :: "'w agent_sys \<Rightarrow> u64 \<Rightarrow> 'w \<Rightarrow> deadline \<times> 'w" where
  "deadline_init A milliseconds w =
    (case a_uptime_ns A w of (now, w) \<Rightarrow>
      let overflow = (unat milliseconds * 1000000 \<ge> 2 ^ 64);
          duration = milliseconds * 1000000;
          endOverflow = (unat now + unat duration \<ge> 2 ^ 64)
      in (if overflow \<or> endOverflow then - 1 else now + duration, w))"

definition capped :: "'w agent_sys \<Rightarrow> deadline \<Rightarrow> u64 \<Rightarrow> 'w \<Rightarrow> deadline \<times> 'w" where
  "capped A d milliseconds w =
    (case deadline_init A milliseconds w of (d', w) \<Rightarrow> (min d d', w))"

definition remainingMilliseconds :: "'w agent_sys \<Rightarrow> deadline \<Rightarrow> 'w \<Rightarrow> int \<times> 'w" where
  "remainingMilliseconds A d w =
    (case a_uptime_ns A w of (now, w) \<Rightarrow>
      if \<not> now < d then (0, w)
      else (uint (min 2147483647 ((d - now - 1) div 1000000 + 1)), w))"

definition deadline_check :: "'w agent_sys \<Rightarrow> deadline \<Rightarrow> 'w \<Rightarrow> (unit, AgentError) result \<times> 'w" where
  "deadline_check A d w =
    (case remainingMilliseconds A d w of (r, w) \<Rightarrow> (if r > 0 then Ok () else Err AgentTimeout, w))"

section \<open>Waiting, reading and writing\<close>

partial_function (option) waitForSocket ::
    "'w agent_sys \<Rightarrow> fd \<Rightarrow> poll_event \<Rightarrow> deadline \<Rightarrow> 'w \<Rightarrow> ((unit, AgentError) result \<times> 'w) option" where
  "waitForSocket A fd events d w =
    (case deadline_check A d w of
       (Inl e, w) \<Rightarrow> Some (Err e, w)
     | (Inr _, w) \<Rightarrow> (case remainingMilliseconds A d w of (ms, w) \<Rightarrow>
        (case a_poll A fd events ms w of
           (PollFailed e, w) \<Rightarrow>
             if e = EINTR then waitForSocket A fd events d w
             else Some (Err (AgentIo (a_strerror A e)), w)
         | (PollTimeout, w) \<Rightarrow> Some (Err AgentTimeout, w)
         | (PollReady nval, w) \<Rightarrow> (case deadline_check A d w of
             (Inl e, w) \<Rightarrow> Some (Err e, w)
           | (Inr _, w) \<Rightarrow> Some (if nval then Err (AgentIo ''socket closed'') else Ok (), w)))))"

text \<open>
  \<open>recv\<close> and \<open>send\<close> with their buffers. \<open>got\<close> is the part of the reader's buffer that is filled, \<open>n\<close> the
  length of the rest. The text after \<open>write:\<close> is that of \<open>errno\<close>, which a \<open>send\<close> that sends nothing
  does not set: it is left out there.
\<close>

definition agent_recv :: "'w agent_sys \<Rightarrow> fd \<Rightarrow> nat \<Rightarrow> 'w \<Rightarrow> (bytes, errno) result \<times> 'w" where
  "agent_recv A fd n w =
    (case a_recv A fd n w of (Inl e, w) \<Rightarrow> (Err e, w) | (Inr c, w) \<Rightarrow> (Ok (take n c), w))"

definition agent_send :: "'w agent_sys \<Rightarrow> fd \<Rightarrow> bytes \<Rightarrow> 'w \<Rightarrow> (nat, errno) result \<times> 'w" where
  "agent_send A fd bs w =
    (case a_send A fd bs w of (Inl e, w) \<Rightarrow> (Err e, w) | (Inr n, w) \<Rightarrow> (Ok (min n (length bs)), w))"

partial_function (option) readExactly ::
    "'w agent_sys \<Rightarrow> fd \<Rightarrow> deadline \<Rightarrow> bytes \<Rightarrow> nat \<Rightarrow> 'w \<Rightarrow> ((bytes, AgentError) result \<times> 'w) option" where
  "readExactly A fd d got n w =
    (if n = 0 then Some (Ok got, w)
     else Option.bind (waitForSocket A fd POLLIN d w) (\<lambda>(r, w). case r of
         Inl e \<Rightarrow> Some (Err e, w)
       | Inr _ \<Rightarrow> (case agent_recv A fd n w of
           (Inl e, w) \<Rightarrow>
             if e = EINTR \<or> e = EAGAIN then readExactly A fd d got n w
             else Some (Err (AgentIo (''read: '' @ a_strerror A e)), w)
         | (Inr chunk, w) \<Rightarrow>
             if chunk = [] then Some (Err (AgentIo ''unexpected EOF''), w)
             else readExactly A fd d (got @ chunk) (n - length chunk) w)))"

partial_function (option) sendAll ::
    "'w agent_sys \<Rightarrow> fd \<Rightarrow> deadline \<Rightarrow> bytes \<Rightarrow> 'w \<Rightarrow> ((unit, AgentError) result \<times> 'w) option" where
  "sendAll A fd d buffer w =
    (if buffer = [] then Some (Ok (), w)
     else Option.bind (waitForSocket A fd POLLOUT d w) (\<lambda>(r, w). case r of
         Inl e \<Rightarrow> Some (Err e, w)
       | Inr _ \<Rightarrow> (case agent_send A fd buffer w of
           (Inl e, w) \<Rightarrow>
             if e = EINTR \<or> e = EAGAIN then sendAll A fd d buffer w
             else Some (Err (AgentIo (''write: '' @ a_strerror A e)), w)
         | (Inr n, w) \<Rightarrow>
             if n = 0 then Some (Err (AgentIo ''write: ''), w)
             else sendAll A fd d (drop n buffer) w)))"

definition maxFrameLength :: nat where
  "maxFrameLength = 1024 * 1024"

text \<open>\<open>JSONDecoder\<close> and \<open>JSONEncoder\<close> at the type of the frame are arguments.\<close>

definition readJSONFrame ::
    "'w agent_sys \<Rightarrow> (bytes \<Rightarrow> ('a, string) result) \<Rightarrow> fd \<Rightarrow> deadline \<Rightarrow> 'w \<Rightarrow>
     (('a, AgentError) result \<times> 'w) option" where
  "readJSONFrame A decode fd d w =
    bind_io (readExactly A fd d [] 4 w) (\<lambda>lengthData w.
    let len = foldl (\<lambda>a b. push_bit 8 a OR ucast b) (0 :: u32) lengthData in
    if \<not> unat len \<le> maxFrameLength then
      Some (Err (AgentIo (''frame too large: '' @ show_nat (unat len))), w)
    else
    bind_io (readExactly A fd d [] (unat len) w) (\<lambda>bodyData w.
    Some (map_err Thrown (decode bodyData), w)))"

definition writeJSONFrame ::
    "'w agent_sys \<Rightarrow> ('a \<Rightarrow> (bytes, string) result) \<Rightarrow> 'a \<Rightarrow> fd \<Rightarrow> deadline \<Rightarrow> 'w \<Rightarrow>
     ((unit, AgentError) result \<times> 'w) option" where
  "writeJSONFrame A encode v fd d w =
    bind_io (Some (map_err Thrown (encode v), w)) (\<lambda>body w.
    if \<not> length body \<le> maxFrameLength then
      Some (Err (AgentIo (''frame too large: '' @ show_nat (length body))), w)
    else sendAll A fd d (nat_to_be 4 (unat (word_of_nat (length body) :: u32)) @ body) w)"

section \<open>The lifetime of a request\<close>

definition lifetime_init :: "'w agent_sys \<Rightarrow> fd \<Rightarrow> u64 \<Rightarrow> deadline \<Rightarrow> 'w \<Rightarrow> lifetime \<times> 'w" where
  "lifetime_init A fd expiresAtMs connectionDeadline w =
    (case a_new_flag A w of (flag, w) \<Rightarrow>
     case a_wall_ms A w of (now, w) \<Rightarrow>
     case capped A connectionDeadline (if expiresAtMs > now then expiresAtMs - now else 0) w of (d, w) \<Rightarrow>
       (\<lparr>lt_fd = fd, lt_expiresAtMs = expiresAtMs, lt_deadline = d, lt_flag = flag\<rparr>, w))"

text \<open>The part of \<open>RequestLifetime.check\<close> inside its \<open>do\<close> block.\<close>

definition lifetime_conditions :: "'w agent_sys \<Rightarrow> lifetime \<Rightarrow> 'w \<Rightarrow> (unit, AgentError) result \<times> 'w" where
  "lifetime_conditions A lt w =
    bind_w (deadline_check A (lt_deadline lt) w) (\<lambda>_ w.
    case a_wall_ms A w of (now, w) \<Rightarrow>
    if \<not> now < lt_expiresAtMs lt then (Err AgentTimeout, w)
    else (case a_peek A (lt_fd lt) w of (r, w) \<Rightarrow>
      if r = Err EAGAIN \<or> r = Err EINTR then (Ok (), w)
      else (Err (AgentIo ''peer disconnected or sent trailing data''), w)))"

definition lifetime_check :: "'w agent_sys \<Rightarrow> lifetime \<Rightarrow> 'w \<Rightarrow> (unit, AgentError) result \<times> 'w" where
  "lifetime_check A lt w =
    (case a_flag A (lt_flag lt) w of (cancelled, w) \<Rightarrow>
      if cancelled then (Err (AgentIo ''request cancelled''), w)
      else (case lifetime_conditions A lt w of
         (Inr _, w) \<Rightarrow> (Ok (), w)
       | (Inl e, w) \<Rightarrow> (Err e, a_set_flag A (lt_flag lt) w)))"

definition isActive :: "'w agent_sys \<Rightarrow> lifetime \<Rightarrow> 'w \<Rightarrow> bool \<times> 'w" where
  "isActive A lt w = (case lifetime_check A lt w of (r, w) \<Rightarrow> (\<not> is_err r, w))"

definition lifetime_cancel :: "'w agent_sys \<Rightarrow> lifetime \<Rightarrow> 'w \<Rightarrow> 'w" where
  "lifetime_cancel A lt w = a_set_flag A (lt_flag lt) w"

section \<open>Facts about deadlines\<close>

lemma deadline_init_spec:
  assumes "a_uptime_ns A w = (now, w')"
  shows "\<exists>d. deadline_init A ms w = (d, w') \<and>
    unat d = min (unat now + unat ms * 1000000) (2 ^ 64 - 1)"
proof (cases "unat ms * 1000000 < 2 ^ 64")
  case True
  then have ms: "unat (ms * 1000000) = unat ms * 1000000" by (simp add: unat_word_ariths)
  show ?thesis
  proof (cases "unat now + unat ms * 1000000 < 2 ^ 64")
    case True
    then have "unat (now + ms * 1000000) = unat now + unat ms * 1000000"
      using ms by (simp add: unat_plus_no_overflow)
    with True ms assms show ?thesis by (auto simp: deadline_init_def Let_def not_le)
  next
    case False
    with ms assms show ?thesis
      by (auto simp: deadline_init_def Let_def not_less unsigned_minus_1_eq_mask mask_eq_exp_minus_1)
  qed
next
  case False
  with assms show ?thesis
    by (auto simp: deadline_init_def Let_def not_less unsigned_minus_1_eq_mask mask_eq_exp_minus_1)
qed

text \<open>The remaining time is rounded up, so that it is positive until the deadline, and fits an \<open>Int32\<close>.\<close>

lemma remainingMilliseconds_spec:
  assumes "a_uptime_ns A w = (now, w')"
  obtains r where "remainingMilliseconds A d w = (r, w')" and "0 < r \<longleftrightarrow> now < d" and "0 \<le> r"
    and "r \<le> 2 ^ 31 - 1" and "r < 2 ^ 31 - 1 \<Longrightarrow> int (unat d) - int (unat now) \<le> r * 1000000"
    and "0 < r \<Longrightarrow> (r - 1) * 1000000 < int (unat d) - int (unat now)"
proof (cases "now < d")
  case False
  then show ?thesis
    using assms that [of 0] by (simp add: remainingMilliseconds_def word_le_def not_less)
next
  case True
  define q where "q = (unat d - unat now - 1) div 1000000"
  have lt: "unat now < unat d" using True by (simp add: word_less_nat_alt)
  have sub: "unat (d - now) = unat d - unat now" using True by (intro unat_sub) simp
  have "(1 :: u64) \<le> d - now" using sub lt by (simp add: word_le_nat_alt)
  then have "unat (d - now - 1) = unat d - unat now - 1" using sub by (simp add: unat_sub)
  then have quotient: "unat ((d - now - 1) div 1000000) = q" by (simp add: unat_div q_def)
  have "unat d < 2 ^ 64" using unsigned_less [of d] by simp
  then have "q < 2 ^ 64 - 1" by (simp add: q_def div_less_iff_less_mult)
  then have "unat ((d - now - 1) div 1000000 + 1) = q + 1"
    using quotient by (simp add: unat_plus_no_overflow)
  then have "unat (min 2147483647 ((d - now - 1) div 1000000 + 1)) = min 2147483647 (q + 1)"
    by (auto simp: min_def word_le_nat_alt)
  then have r: "remainingMilliseconds A d w = (int (min 2147483647 (q + 1)), w')"
    using assms True by (simp add: remainingMilliseconds_def uint_nat)
  have "q * 1000000 \<le> unat d - unat now - 1" "unat d - unat now - 1 < (q + 1) * 1000000"
    unfolding q_def by (simp_all add: dividend_less_div_times)
  note q = this
  have R: "min 2147483647 (q + 1) \<le> 2147483647" "min 2147483647 (q + 1) \<le> q + 1"
      "0 < min 2147483647 (q + 1)" "min 2147483647 (q + 1) < 2147483647 \<Longrightarrow> min 2147483647 (q + 1) = q + 1"
    by auto
  show ?thesis
  proof (rule that [OF r])
    show "int (unat d) - int (unat now) \<le> int (min 2147483647 (q + 1)) * 1000000"
      if "int (min 2147483647 (q + 1)) < 2 ^ 31 - 1"
    proof -
      have "min 2147483647 (q + 1) = q + 1" using that by (intro R(4)) simp
      then show ?thesis using q(2) lt by (simp only:)
    qed
    have "int (min 2147483647 (q + 1)) - 1 \<le> int q" using R(2) by linarith
    then have "(int (min 2147483647 (q + 1)) - 1) * 1000000 \<le> int q * 1000000"
      by (rule mult_right_mono) simp
    also have "\<dots> < int (unat d) - int (unat now)" using q(1) lt by linarith
    finally show "(int (min 2147483647 (q + 1)) - 1) * 1000000 < int (unat d) - int (unat now)" .
  qed (use R True in auto)
qed

lemma deadline_check_eq:
  "a_uptime_ns A w = (now, w') \<Longrightarrow>
    deadline_check A d w = (if now < d then Ok () else Err AgentTimeout, w')"
  by (erule remainingMilliseconds_spec [where d = d]) (auto simp: deadline_check_def)

lemma deadline_check_Ok:
  "deadline_check A d w = (Inr (), w') \<longleftrightarrow> (\<exists>now. a_uptime_ns A w = (now, w') \<and> now < d)"
  by (cases "a_uptime_ns A w") (auto simp: deadline_check_eq)

lemma lifetime_check_Ok:
  "lifetime_check A lt w = (Inr (), w') \<longleftrightarrow>
    (\<exists>w1 up w2 now w3 e. a_flag A (lt_flag lt) w = (False, w1) \<and>
      a_uptime_ns A w1 = (up, w2) \<and> up < lt_deadline lt \<and>
      a_wall_ms A w2 = (now, w3) \<and> now < lt_expiresAtMs lt \<and>
      a_peek A (lt_fd lt) w3 = (Inl e, w') \<and> e \<in> {EAGAIN, EINTR})"
proof -
  obtain c w1 where f: "a_flag A (lt_flag lt) w = (c, w1)" by fastforce
  obtain up w2 where u: "a_uptime_ns A w1 = (up, w2)" by fastforce
  obtain now w3 where n: "a_wall_ms A w2 = (now, w3)" by fastforce
  obtain r w4 where p: "a_peek A (lt_fd lt) w3 = (r, w4)" by fastforce
  show ?thesis
    by (auto simp: lifetime_check_def lifetime_conditions_def f u n p deadline_check_eq [OF u])
qed

section \<open>Frames\<close>

text \<open>
  The loops of the agent over \<open>Frame\<close>'s fragmented transfers: one round of \<open>readExactly\<close> as a reader
  and one of \<open>sendAll\<close> as a writer.
\<close>

fun socket_error :: "errno \<Rightarrow> io_error" where
  "socket_error e = (if e = EINTR \<or> e = EAGAIN then Simple Interrupted else Custom OtherKind [])"

definition agent_reader :: "'w agent_sys \<Rightarrow> fd \<Rightarrow> deadline \<Rightarrow> 'w reader" where
  "agent_reader A fd d n w = Option.bind (waitForSocket A fd POLLIN d w) (\<lambda>(r, w). case r of
       Inl e \<Rightarrow> Some (Err (Custom OtherKind []), w)
     | Inr _ \<Rightarrow> Some (map_err_w socket_error (agent_recv A fd n w)))"

definition agent_writer :: "'w agent_sys \<Rightarrow> fd \<Rightarrow> deadline \<Rightarrow> 'w writer" where
  "agent_writer A fd d bs w = Option.bind (waitForSocket A fd POLLOUT d w) (\<lambda>(r, w). case r of
       Inl e \<Rightarrow> Some (Err (Custom OtherKind []), w)
     | Inr _ \<Rightarrow> Some (map_err_w socket_error (agent_send A fd bs w)))"

interpretation agent_reader: byte_reader "agent_reader A fd d" False for A fd d
  by unfold_locales
    (auto simp: agent_reader_def agent_recv_def bind_eq_Some_conv split: prod.splits sum.splits)

interpretation agent_writer: byte_writer "agent_writer A fd d" False for A fd d
  by unfold_locales
    (auto simp: agent_writer_def agent_send_def bind_eq_Some_conv split: prod.splits sum.splits)

lemmas readExactly_induct = readExactly.raw_induct [rotated 1, consumes 1, case_names step]
lemmas sendAll_induct = sendAll.raw_induct [rotated 1, consumes 1, case_names step]

lemma agent_reader_Ok:
  "agent_reader A fd d n w = Some (Inr c, w') \<longleftrightarrow>
    (\<exists>v. waitForSocket A fd POLLIN d w = Some (Inr (), v) \<and> agent_recv A fd n v = (Inr c, w'))"
  by (auto simp: agent_reader_def bind_eq_Some_conv result_simps split: sum.splits)

lemma agent_reader_retry:
  assumes "agent_reader A fd d n w = Some (Inl e, w')" and "kind e = Interrupted"
  obtains v e' where "waitForSocket A fd POLLIN d w = Some (Inr (), v)"
    and "agent_recv A fd n v = (Inl e', w')" and "e' = EINTR \<or> e' = EAGAIN"
  using assms
  by (auto simp: agent_reader_def bind_eq_Some_conv result_simps split: sum.splits if_splits)

lemma receives_readExactly:
  "receives (agent_reader A fd d) n w bs w' \<Longrightarrow> readExactly A fd d got n w = Some (Ok (got @ bs), w')"
proof (induction arbitrary: got rule: receives.induct)
  case (received w)
  then show ?case by (simp add: readExactly.simps)
next
  case (fragment n w c w1 bs w2)
  then show ?case
    by (auto simp: readExactly.simps [of A fd d got n w] agent_reader_Ok)
next
  case (interrupted n w e w1 bs w2)
  from interrupted.hyps(2,3) obtain v e' where "waitForSocket A fd POLLIN d w = Some (Inr (), v)"
    "agent_recv A fd n v = (Inl e', w1)" "e' = EINTR \<or> e' = EAGAIN" by (rule agent_reader_retry)
  with interrupted show ?case by (auto simp: readExactly.simps [of A fd d got n w])
qed

lemma sendAll_sends:
  assumes "sendAll A fd d bs w = Some rw" and "rw = (Inr u, w')"
  shows "sends (agent_writer A fd d) bs w w'"
  using assms
proof (induction rule: sendAll_induct)
  case (step rec A fd d bs w rw)
  show ?case
  proof (cases "bs = []")
    case True
    with step.hyps step.prems show ?thesis by (auto intro: sent)
  next
    case False
    with step.hyps step.prems obtain x w1 where wait: "waitForSocket A fd POLLOUT d w = Some (Inr x, w1)"
      by (cases "waitForSocket A fd POLLOUT d w") (auto split: sum.splits)
    obtain r w2 where send: "agent_send A fd bs w1 = (r, w2)" by fastforce
    show ?thesis
    proof (cases r)
      case (Inl e)
      have "rec A fd d bs w2 = Some rw \<and> (e = EINTR \<or> e = EAGAIN)"
        using step.hyps step.prems False by (simp add: wait send Inl split: if_splits)
      then have again: "sends (agent_writer A fd d) bs w2 w'" and e: "e = EINTR \<or> e = EAGAIN"
        using step.IH step.prems by blast+
      have "agent_writer A fd d bs w = Some (Inl (Simple Interrupted), w2)"
        using e by (auto simp: agent_writer_def wait send Inl)
      then show ?thesis using False again by (auto intro: retried)
    next
      case (Inr n)
      have "rec A fd d (drop n bs) w2 = Some rw \<and> n \<noteq> 0"
        using step.hyps step.prems False by (simp add: wait send Inr split: if_splits)
      then have again: "sends (agent_writer A fd d) (drop n bs) w2 w'" and n: "n \<noteq> 0"
        using step.IH step.prems by blast+
      have "agent_writer A fd d bs w = Some (Inr n, w2)" by (simp add: agent_writer_def wait send Inr)
      from accepted [OF False this n again] show ?thesis .
    qed
  qed
qed

lemma header_step:
  fixes a :: u32
  assumes "unat a < 2 ^ 24"
  shows "unat (push_bit 8 a OR ucast (b :: u8)) = unat a * 256 + unat b"
proof -
  have "push_bit 8 a AND (ucast b :: u32) = 0"
    by (rule bit_eqI) (auto simp: bit_simps dest: bit_imp_le_length)
  then have "push_bit 8 a OR ucast b = push_bit 8 a + (ucast b :: u32)"
    by (rule disjunctive_add_eq_or [symmetric])
  moreover have "unat (push_bit 8 a) = unat a * 256"
    using assms by (simp add: push_bit_eq_mult unat_word_ariths)
  moreover have "unat (ucast b :: u32) = unat b" using unat_u8_less [of b] by (simp add: unsigned_ucast_eq take_bit_nat_eq_self)
  ultimately show ?thesis
    using assms unat_u8_less [of b] by (simp add: unat_plus_no_overflow)
qed

lemma header_value:
  "length bs \<le> 4 \<Longrightarrow>
    unat (foldl (\<lambda>a b. push_bit 8 a OR ucast b) (0 :: u32) bs) = nat_from_be bs"
proof (induction bs rule: rev_induct)
  case Nil
  then show ?case by simp
next
  case (snoc b bs)
  have "nat_from_be bs < 256 ^ length bs" by (rule nat_from_be_less)
  also have "\<dots> \<le> 256 ^ 3" using snoc.prems by (intro power_increasing) auto
  finally show ?case using snoc by (simp add: header_step)
qed

lemma readJSONFrame_payload:
  assumes "receives (agent_reader A fd d) 4 w header w1" and "nat_from_be header \<le> MAX_FRAME_LEN"
    and "receives (agent_reader A fd d) (nat_from_be header) w1 payload w2"
  shows "readJSONFrame A decode fd d w = Some (map_err Thrown (decode payload), w2)"
proof -
  have "length header = 4" using agent_reader.receives_length [OF assms(1)] .
  then have "unat (foldl (\<lambda>a b. push_bit 8 a OR ucast b) (0 :: u32) header) = nat_from_be header"
    by (intro header_value) simp
  with assms(2) show ?thesis
    using receives_readExactly [OF assms(1), of "[]"] receives_readExactly [OF assms(3), of "[]"]
    by (simp add: readJSONFrame_def maxFrameLength_def MAX_FRAME_LEN_def)
qed

lemma writeJSONFrame_Ok:
  assumes "writeJSONFrame A encode v fd d w = Some (Ok (), w')"
  obtains body where "encode v = Ok body" and "length body \<le> MAX_FRAME_LEN"
    and "sends (agent_writer A fd d) (nat_to_be 4 (length body) @ body) w w'"
  using assms
  by (auto simp: writeJSONFrame_def result_simps maxFrameLength_def MAX_FRAME_LEN_def unat_of_nat
      dest!: sendAll_sends simp del: nat_to_be_numeral split: if_splits)

section \<open>Termination\<close>

lemma returns_bind:
  "returns m \<Longrightarrow> (\<And>r w. m = Some (r, w) \<Longrightarrow> returns (f (r, w))) \<Longrightarrow> returns (Option.bind m f)"
  by (cases m) (auto simp: returns_def)

text \<open>
  Time passes: a reading of the uptime clock takes some time and is not behind, unless the counter
  has reached its end, and no other call goes back in time.
\<close>

definition agent_time :: "'w agent_sys \<Rightarrow> ('w \<Rightarrow> nat) \<Rightarrow> bool" where
  "agent_time A T \<longleftrightarrow>
    (\<forall>w t w'. a_uptime_ns A w = (t, w') \<longrightarrow> min (T w) (2 ^ 64 - 1) \<le> unat t \<and> T w < T w') \<and>
    (\<forall>w t w'. a_wall_ms A w = (t, w') \<longrightarrow> T w \<le> T w') \<and>
    (\<forall>f ev n w r w'. a_poll A f ev n w = (r, w') \<longrightarrow> T w \<le> T w') \<and>
    (\<forall>f n w r w'. a_recv A f n w = (r, w') \<longrightarrow> T w \<le> T w') \<and>
    (\<forall>f w r w'. a_peek A f w = (r, w') \<longrightarrow> T w \<le> T w') \<and>
    (\<forall>f bs w r w'. a_send A f bs w = (r, w') \<longrightarrow> T w \<le> T w') \<and>
    (\<forall>k w c w'. a_flag A k w = (c, w') \<longrightarrow> T w \<le> T w') \<and>
    (\<forall>k w. T w \<le> T (a_set_flag A k w)) \<and>
    (\<forall>w c w'. a_slot_wait A w = (c, w') \<longrightarrow> T w \<le> T w') \<and>
    (\<forall>k w c w'. a_session_result A k w = (c, w') \<longrightarrow> T w \<le> T w') \<and>
    (\<forall>k w. T w \<le> T (a_ready_wait A k w))"

lemma agent_time_uptime:
  assumes "agent_time A T" and "a_uptime_ns A w = (t, w')"
  shows "T w < T w'" and "t < d \<Longrightarrow> T w < unat d"
proof -
  from assms(1) have "\<forall>w t w'. a_uptime_ns A w = (t, w') \<longrightarrow> min (T w) (2 ^ 64 - 1) \<le> unat t \<and> T w < T w'"
    unfolding agent_time_def by (rule conjunct1)
  with assms(2) have t: "min (T w) (2 ^ 64 - 1) \<le> unat t \<and> T w < T w'" by blast
  then show "T w < T w'" by simp
  have "unat d < 2 ^ 64" using unsigned_less [of d] by simp
  then show "T w < unat d" if "t < d" using t that by (auto simp: word_less_nat_alt min_def split: if_splits)
qed

lemma agent_time_calls:
  assumes "agent_time A T"
  shows "a_wall_ms A w = (t, w') \<Longrightarrow> T w \<le> T w'"
    and "a_poll A f ev n w = (p, w') \<Longrightarrow> T w \<le> T w'"
    and "a_recv A f m w = (r, w') \<Longrightarrow> T w \<le> T w'"
    and "a_peek A f w = (r, w') \<Longrightarrow> T w \<le> T w'"
    and "a_send A f bs w = (s, w') \<Longrightarrow> T w \<le> T w'"
    and "a_flag A k w = (c, w') \<Longrightarrow> T w \<le> T w'"
    and "T w \<le> T (a_set_flag A k w)"
    and "a_slot_wait A w = (c, w') \<Longrightarrow> T w \<le> T w'"
    and "a_session_result A k w = (d, w') \<Longrightarrow> T w \<le> T w'"
    and "T w \<le> T (a_ready_wait A k w)"
  using assms unfolding agent_time_def by metis+

lemma deadline_check_time:
  assumes "agent_time A T" and "deadline_check A d w = (r, w')"
  shows "T w < T w'" and "r = Inr u \<Longrightarrow> T w < unat d"
proof -
  obtain now v where now: "a_uptime_ns A w = (now, v)" by fastforce
  with agent_time_uptime [OF assms(1) now] assms(2)
  show "T w < T w'" "r = Inr u \<Longrightarrow> T w < unat d"
    by (auto simp: deadline_check_eq [OF now] split: if_splits)
qed

lemma remaining_time:
  assumes "agent_time A T" and "remainingMilliseconds A d w = (r, w')"
  shows "T w < T w'"
  using assms agent_time_uptime [OF assms(1)]
  by (auto simp: remainingMilliseconds_def split: prod.splits if_splits)

lemma waitForSocket_returns:
  assumes time: "agent_time A T"
  shows "\<exists>r w'. waitForSocket A fd ev d w = Some (r, w') \<and> T w < T w' \<and> (\<forall>u. r = Inr u \<longrightarrow> T w < unat d)"
proof (induction "unat d - T w" arbitrary: w rule: less_induct)
  case less
  obtain r w1 where c: "deadline_check A d w = (r, w1)" by fastforce
  then have T1: "T w < T w1" by (rule deadline_check_time(1) [OF time])
  show ?case
  proof (cases r)
    case (Inl e)
    with c T1 show ?thesis by (auto simp: waitForSocket.simps [of A fd ev d w])
  next
    case (Inr u)
    then have d: "T w < unat d" using deadline_check_time(2) [OF time c] by blast
    obtain ms w2 where ms: "remainingMilliseconds A d w1 = (ms, w2)" by fastforce
    then have T2: "T w1 < T w2" by (rule remaining_time [OF time])
    obtain p w3 where p: "a_poll A fd ev ms w2 = (p, w3)" by fastforce
    then have T3: "T w2 \<le> T w3" by (rule agent_time_calls(2) [OF time])
    obtain q w4 where q: "deadline_check A d w3 = (q, w4)" by fastforce
    then have T4: "T w3 < T w4" by (rule deadline_check_time(1) [OF time])
    have "unat d - T w3 < unat d - T w" using d T1 T2 T3 by linarith
    from less [OF this] obtain r' w' where "waitForSocket A fd ev d w3 = Some (r', w')" "T w3 < T w'"
      by blast
    then show ?thesis
      using c Inr ms p q d T1 T2 T3 T4
      by (auto simp: waitForSocket.simps [of A fd ev d w] split: poll_result.splits sum.splits)
  qed
qed

text \<open>One round of a loop that waits for the socket first takes time that the deadline still allows.\<close>

lemma socket_round:
  assumes time: "agent_time A T"
    and round: "\<And>v. T w < T v \<Longrightarrow> T w < unat d \<Longrightarrow> returns (k (Inr ()) v)" and "\<And>e v. returns (k (Inl e) v)"
  shows "returns (Option.bind (waitForSocket A fd ev d w) (\<lambda>(r, w). k r w))"
proof -
  obtain r w' where w: "waitForSocket A fd ev d w = Some (r, w')" "T w < T w'" "\<forall>u. r = Inr u \<longrightarrow> T w < unat d"
    using waitForSocket_returns [OF time] by blast
  then show ?thesis using assms(2,3) by (cases r) auto
qed

lemma readExactly_returns:
  assumes time: "agent_time A T"
  shows "returns (readExactly A fd d got n w)"
proof (induction "unat d - T w" arbitrary: got n w rule: less_induct)
  case less
  have "returns (case agent_recv A fd n v of
      (Inl e, w) \<Rightarrow> if e = EINTR \<or> e = EAGAIN then readExactly A fd d got n w
        else Some (Err (AgentIo (''read: '' @ a_strerror A e)), w)
    | (Inr chunk, w) \<Rightarrow> if chunk = [] then Some (Err (AgentIo ''unexpected EOF''), w)
        else readExactly A fd d (got @ chunk) (n - length chunk) w)"
    if v: "T w < T v" "T w < unat d" for v
  proof -
    obtain r v' where r: "agent_recv A fd n v = (r, v')" by fastforce
    then have "T v \<le> T v'"
      using agent_time_calls(3) [OF time] by (auto simp: agent_recv_def split: prod.splits sum.splits)
    with v have "unat d - T v' < unat d - T w" by linarith
    from less [OF this] show ?thesis by (auto simp: r split: sum.splits)
  qed
  then show ?case
    unfolding readExactly.simps [of A fd d got n w] by (auto intro!: socket_round [OF time, of w d])
qed

lemma sendAll_returns:
  assumes time: "agent_time A T"
  shows "returns (sendAll A fd d bs w)"
proof (induction "unat d - T w" arbitrary: bs w rule: less_induct)
  case less
  have "returns (case agent_send A fd bs v of
      (Inl e, w) \<Rightarrow> if e = EINTR \<or> e = EAGAIN then sendAll A fd d bs w
        else Some (Err (AgentIo (''write: '' @ a_strerror A e)), w)
    | (Inr n, w) \<Rightarrow> if n = 0 then Some (Err (AgentIo ''write: ''), w)
        else sendAll A fd d (drop n bs) w)"
    if v: "T w < T v" "T w < unat d" for v
  proof -
    obtain r v' where r: "agent_send A fd bs v = (r, v')" by fastforce
    then have "T v \<le> T v'"
      using agent_time_calls(5) [OF time] by (auto simp: agent_send_def split: prod.splits sum.splits)
    with v have "unat d - T v' < unat d - T w" by linarith
    from less [OF this] show ?thesis by (auto simp: r split: sum.splits)
  qed
  then show ?case
    unfolding sendAll.simps [of A fd d bs w] by (auto intro!: socket_round [OF time, of w d])
qed

lemma frames_return:
  assumes "agent_time A T"
  shows "returns (readJSONFrame A decode fd d w)" and "returns (writeJSONFrame A encode v fd d w)"
  using readExactly_returns [OF assms] sendAll_returns [OF assms]
  by (auto simp: readJSONFrame_def writeJSONFrame_def Let_def)

lemma lifetime_check_time:
  assumes time: "agent_time A T" and "lifetime_check A lt w = (r, w')"
  shows "T w \<le> T w'" and "r = Inr u \<Longrightarrow> T w < T w' \<and> T w < unat (lt_deadline lt)"
proof -
  obtain c w1 where f: "a_flag A (lt_flag lt) w = (c, w1)" by fastforce
  obtain up w2 where up: "a_uptime_ns A w1 = (up, w2)" by fastforce
  obtain now w3 where n: "a_wall_ms A w2 = (now, w3)" by fastforce
  obtain p w4 where p: "a_peek A (lt_fd lt) w3 = (p, w4)" by fastforce
  have T: "T w \<le> T w1" "T w1 < T w2" "T w2 \<le> T w3" "T w3 \<le> T w4"
    using agent_time_calls(6) [OF time f] agent_time_uptime(1) [OF time up] agent_time_calls(1) [OF time n]
      agent_time_calls(4) [OF time p] by simp_all
  have set: "T v \<le> T (a_set_flag A (lt_flag lt) v)" for v by (rule agent_time_calls(7) [OF time])
  show "T w \<le> T w'"
    using assms(2) T set [of w2] set [of w3] set [of w4]
    by (auto simp: lifetime_check_def lifetime_conditions_def f n p deadline_check_eq [OF up]
        split: if_splits)
  show "T w < T w' \<and> T w < unat (lt_deadline lt)" if "r = Inr u"
    using assms(2) that T agent_time_uptime(2) [OF time up, of "lt_deadline lt"]
    by (auto simp: lifetime_check_Ok f up n p)
qed

end
