(* ===== verification/Agent_Limit.thy ===== *)
theory Agent_Limit
  imports Agent_Transport
begin

text \<open>
  The rate limiter of the macOS agent (\<open>RateLimiter\<close> of \<open>main.swift\<close>). Calls are serialized by its
  lock and read the clock under it, so that a history of the limiter is a list of calls in the order
  in which they took the lock. With a clock that does not go back, no window of the configured
  length has more than the configured number of admitted requests of one host, service and user.
\<close>

section \<open>The limiter\<close>

definition saturatingMilliseconds :: "u64 \<Rightarrow> u64" where
  "saturatingMilliseconds seconds = (if unat seconds * 1000 \<ge> 2 ^ 64 then - 1 else seconds * 1000)"

record RateLimiter =
  windowMs :: u64
  maxRequests :: int

definition limiter_init :: "u64 \<Rightarrow> int \<Rightarrow> RateLimiter" where
  "limiter_init windowSeconds maxReqs =
    \<lparr>windowMs = saturatingMilliseconds windowSeconds, maxRequests = maxReqs\<rparr>"

definition limit_key :: "SwiftRequestBody \<Rightarrow> string" where
  "limit_key r = req_linuxHostId r @ ''|'' @ req_pamService r @ ''|'' @ req_pamUser r"

text \<open>The dictionary, from the reading of the clock to the return.\<close>

definition allow_at :: "RateLimiter \<Rightarrow> string \<Rightarrow> u64 \<Rightarrow> rate_events \<Rightarrow> bool \<times> rate_events" where
  "allow_at l key now eventsByKey =
    (let cutoff = (if now > windowMs l then now - windowMs l else 0);
         events = filter (\<lambda>e. e \<ge> cutoff) (eventsByKey key)
     in if int (length events) \<ge> maxRequests l then (False, eventsByKey(key := events))
        else (True, eventsByKey(key := events @ [now])))"

definition allow :: "'w agent_sys \<Rightarrow> RateLimiter \<Rightarrow> SwiftRequestBody \<Rightarrow> 'w \<Rightarrow> bool \<times> 'w" where
  "allow A l request w =
    (case a_lock_events A w of (eventsByKey, w) \<Rightarrow>
     if maxRequests l \<le> 0 then (True, a_unlock_events A eventsByKey w)
     else (case a_wall_ms A w of (now, w) \<Rightarrow>
       case allow_at l (a_nfc A (limit_key request)) now eventsByKey of (r, eventsByKey) \<Rightarrow>
         (r, a_unlock_events A eventsByKey w)))"

section \<open>Histories\<close>

text \<open>A history: the keys and clock readings of the calls, and the answer to each.\<close>

fun limiter_run :: "RateLimiter \<Rightarrow> (string \<times> u64) list \<Rightarrow> rate_events \<Rightarrow> bool list" where
  "limiter_run l [] ev = []"
| "limiter_run l ((key, now) # calls) ev =
    (case allow_at l key now ev of (r, ev) \<Rightarrow> r # limiter_run l calls ev)"

definition admitted :: "RateLimiter \<Rightarrow> (string \<times> u64) list \<Rightarrow> rate_events \<Rightarrow> (string \<times> u64) list" where
  "admitted l calls ev = map fst (filter snd (zip calls (limiter_run l calls ev)))"

text \<open>The admitted calls of a key in a window that starts at \<open>t\<close>.\<close>

definition admitted_in :: "RateLimiter \<Rightarrow> (string \<times> u64) list \<Rightarrow> rate_events \<Rightarrow> string \<Rightarrow> u64 \<Rightarrow> nat" where
  "admitted_in l calls ev key t = length (filter
    (\<lambda>(k, now). k = key \<and> t \<le> now \<and> unat now \<le> unat t + unat (windowMs l)) (admitted l calls ev))"

definition events_in :: "RateLimiter \<Rightarrow> u64 \<Rightarrow> u64 list \<Rightarrow> nat" where
  "events_in l t es = length (filter (\<lambda>e. t \<le> e \<and> unat e \<le> unat t + unat (windowMs l)) es)"

lemma saturatingMilliseconds_spec:
  "unat (saturatingMilliseconds s) = min (unat s * 1000) (2 ^ 64 - 1)"
proof (cases "unat s * 1000 < 2 ^ 64")
  case True
  then have "unat (s * 1000) = unat s * 1000" by (simp add: unat_word_ariths)
  with True show ?thesis by (simp add: saturatingMilliseconds_def)
next
  case False
  then show ?thesis
    by (simp add: saturatingMilliseconds_def unsigned_minus_1_eq_mask mask_eq_exp_minus_1)
qed

lemma admitted_simps [simp]:
  "admitted l [] ev = []"
  "admitted l ((key, now) # calls) ev =
    (if fst (allow_at l key now ev) then [(key, now)] else []) @
      admitted l calls (snd (allow_at l key now ev))"
  by (auto simp: admitted_def split: prod.splits)

lemma cutoff_le:
  assumes "unat now \<le> unat t + unat (window :: u64)"
  shows "(if now > window then now - window else 0) \<le> t"
  using assms by (auto simp: word_le_nat_alt word_less_nat_alt unat_sub)

text \<open>
  What the dictionary forgets lies before the cutoff: for a window that reaches the reading of the
  clock it holds all events.
\<close>

lemma kept_events:
  assumes "unat now \<le> unat t + unat (windowMs l)"
  shows "filter (\<lambda>e. t \<le> e \<and> unat e \<le> unat t + unat (windowMs l))
      (filter (\<lambda>e. (if now > windowMs l then now - windowMs l else 0) \<le> e) es) =
    filter (\<lambda>e. t \<le> e \<and> unat e \<le> unat t + unat (windowMs l)) es"
  using cutoff_le [OF assms] by (auto intro!: filter_cong)

lemma allow_at_events:
  assumes "allow_at l key now ev = (r, ev')" and "unat now \<le> unat t + unat (windowMs l)" and "t \<le> now"
  shows "events_in l t (ev' key) = events_in l t (ev key) + (if r then 1 else 0)"
    and "r \<Longrightarrow> int (events_in l t (ev key)) < maxRequests l"
    and "k \<noteq> key \<Longrightarrow> ev' k = ev k"
proof -
  let ?kept = "filter (\<lambda>e. (if now > windowMs l then now - windowMs l else 0) \<le> e) (ev key)"
  have "events_in l t ?kept = events_in l t (ev key)"
    by (simp only: events_in_def kept_events [OF assms(2)])
  moreover have "events_in l t ?kept \<le> length ?kept" unfolding events_in_def by (rule length_filter_le)
  ultimately have kept: "events_in l t ?kept = events_in l t (ev key)" "events_in l t (ev key) \<le> length ?kept"
    by simp_all
  have ev': "ev' = ev(key := ?kept @ (if r then [now] else []))" and r: "r \<longleftrightarrow> int (length ?kept) < maxRequests l"
    using assms(1) by (auto simp: allow_at_def Let_def not_le split: if_splits)
  show "events_in l t (ev' key) = events_in l t (ev key) + (if r then 1 else 0)"
    using kept(1) assms(2,3) by (simp add: ev' events_in_def del: filter_filter)
  show "r \<Longrightarrow> int (events_in l t (ev key)) < maxRequests l" using kept(2) r by linarith
  show "k \<noteq> key \<Longrightarrow> ev' k = ev k" by (simp add: ev')
qed

text \<open>A call of another time or key leaves the window alone.\<close>

lemma allow_at_late:
  assumes "allow_at l k now ev = (r, ev')"
  shows "set (ev' key) \<subseteq> insert now (set (ev key))"
  using assms by (auto simp: allow_at_def Let_def split: if_splits)

lemma events_in_0: "\<forall>e \<in> set es. e < t \<Longrightarrow> events_in l t es = 0"
  by (auto simp: events_in_def filter_empty_conv)

lemma admitted_set: "set (admitted l calls ev) \<subseteq> set calls"
  by (auto simp: admitted_def dest: set_zip_leftD)

lemma admitted_in_Cons:
  assumes "allow_at l k now ev = (r, ev')"
  shows "admitted_in l ((k, now) # calls) ev key t =
    (if r \<and> k = key \<and> t \<le> now \<and> unat now \<le> unat t + unat (windowMs l) then 1 else 0) +
      admitted_in l calls ev' key t"
  using assms by (simp add: admitted_in_def)

lemma admitted_after_window:
  "\<forall>c \<in> set calls. unat t + unat (windowMs l) < unat (snd c) \<Longrightarrow> admitted_in l calls ev key t = 0"
  using admitted_set [of l calls ev] by (force simp: admitted_in_def filter_empty_conv)

lemma admitted_bound:
  assumes "sorted (map snd calls)" and "\<forall>e \<in> set (ev key). \<forall>c \<in> set calls. e \<le> snd c"
    and "int (events_in l t (ev key)) \<le> maxRequests l"
  shows "int (admitted_in l calls ev key t + events_in l t (ev key)) \<le> maxRequests l"
  using assms
proof (induction calls arbitrary: ev)
  case Nil
  then show ?case by (simp add: admitted_in_def)
next
  case (Cons c calls)
  obtain k now where c: "c = (k, now)" by fastforce
  obtain r ev' where a: "allow_at l k now ev = (r, ev')" by fastforce
  have sorted: "sorted (map snd calls)" and later: "\<forall>c \<in> set calls. now \<le> snd c"
    using Cons.prems(1) by (auto simp: c)
  have old: "\<forall>e \<in> set (ev' key). \<forall>c \<in> set calls. e \<le> snd c"
    using allow_at_late [OF a, of key] Cons.prems(2) later by auto
  consider "now < t" | "t \<le> now" "unat now \<le> unat t + unat (windowMs l)"
    | "unat t + unat (windowMs l) < unat now" by fastforce
  then show ?case
  proof cases
    case 1
    have "\<forall>e \<in> set (ev key). e < t" using Cons.prems(2) 1 by (auto simp: c intro: le_less_trans)
    moreover from this have "\<forall>e \<in> set (ev' key). e < t" using allow_at_late [OF a, of key] 1 by auto
    ultimately have "events_in l t (ev key) = 0" "events_in l t (ev' key) = 0" by (simp_all add: events_in_0)
    then show ?thesis
      using Cons.IH [of ev', OF sorted old] Cons.prems(3) 1 by (auto simp: c admitted_in_Cons [OF a])
  next
    case 2
    then have "int (events_in l t (ev' key)) \<le> maxRequests l"
      using allow_at_events [OF a 2(2,1)] Cons.prems(3) by (cases "k = key"; cases r; simp)
    from Cons.IH [of ev', OF sorted old this] show ?thesis
      unfolding c admitted_in_Cons [OF a]
      using 2 allow_at_events [OF a 2(2,1)] by (cases "k = key"; cases r; simp)
  next
    case 3
    have "\<forall>x \<in> set (c # calls). unat t + unat (windowMs l) < unat (snd x)"
      using 3 later by (auto simp: c word_le_nat_alt intro: less_le_trans)
    then have "admitted_in l (c # calls) ev key t = 0" by (rule admitted_after_window)
    with Cons.prems(3) show ?thesis by simp
  qed
qed

lemma allow_unlimited: "maxRequests l \<le> 0 \<Longrightarrow> fst (allow A l request w)"
  by (simp add: allow_def split: prod.splits)

text \<open>
  The key does not separate its parts: a service or user that contains the separator shares the
  limit of another pair.
\<close>

lemma limit_keys_coincide:
  assumes "req_linuxHostId r = req_linuxHostId s" and "req_pamService r = a @ ''|'' @ b" and "req_pamUser r = c"
    and "req_pamService s = a" and "req_pamUser s = b @ ''|'' @ c"
  shows "limit_key r = limit_key s"
  using assms by (simp add: limit_key_def)

text \<open>One call is one entry of the history, made with the dictionary that the lock protects.\<close>

lemma allow_step:
  assumes "0 < maxRequests l" and "a_lock_events A w = (ev, w1)" and "a_wall_ms A w1 = (now, w2)"
    and "allow A l request w = (r, w')"
  shows "\<exists>ev'. allow_at l (a_nfc A (limit_key request)) now ev = (r, ev') \<and> w' = a_unlock_events A ev' w2"
  using assms by (auto simp: allow_def split: prod.splits)

end
