(* ===== verification/Agent_Auth.thy ===== *)
theory Agent_Auth
  imports Agent_Limit
begin

text \<open>
  Asking the device owner (\<open>Authentication.swift\<close> and the functions of \<open>main.swift\<close> that it calls). A
  session puts one closure on the run loop of the main thread, \<open>session_block\<close> here, which shows the
  confirmation, when the configuration asks for one, and then calls LocalAuthentication; the
  coordinator runs one session at a time and polls its result until the lifetime of the request ends.
\<close>

section \<open>Results\<close>

record AuthenticationResult =
  ar_decision :: Decision

definition authMethod :: "AuthenticationResult \<Rightarrow> AuthMethod" where
  "authMethod r = (if ar_decision r = Approved then BiometricOrWatch else NoMethod)"

text \<open>The cell that holds the result of a session: the first completion wins.\<close>

definition complete :: "'a \<Rightarrow> 'a option \<Rightarrow> 'a option" where
  "complete v result = (if result = None then Some v else result)"

section \<open>What the owner reads\<close>

definition truncate :: "'w agent_sys \<Rightarrow> string \<Rightarrow> nat \<Rightarrow> string" where
  "truncate A v maxLength =
    (if length (a_characters A v) \<le> maxLength then v
     else concat (take maxLength (a_characters A v)) @ map char_of [226, 128, 166 :: nat])"

definition optional_line :: "string \<Rightarrow> string option \<Rightarrow> string list" where
  "optional_line label v = (case v of None \<Rightarrow> [] | Some s \<Rightarrow> if s = [] then [] else [label @ s])"

definition joined_lines :: "string list \<Rightarrow> string" where
  "joined_lines ls = concat (case ls of [] \<Rightarrow> [] | l # ls \<Rightarrow> l # map ((#) newline) ls)"

definition localAuthenticationReason :: "'w agent_sys \<Rightarrow> SwiftRequestBody \<Rightarrow> string" where
  "localAuthenticationReason A r = joined_lines
    ([''Approve '' @ req_pamService r @ '' on '' @ req_linuxHostname r, ''User: '' @ req_pamUser r] @
     optional_line ''Requester: '' (req_pamRuser r) @
     optional_line ''TTY: '' (req_pamTty r) @
     (case req_sudoCommand r of None \<Rightarrow> []
      | Some c \<Rightarrow> if c = [] then [] else [''Command: '' @ truncate A c 120]))"

definition confirmationText :: "'w agent_sys \<Rightarrow> SwiftRequestBody \<Rightarrow> string" where
  "confirmationText A r = joined_lines
    ([''Host: '' @ req_linuxHostname r, ''Host ID: '' @ req_linuxHostId r,
      ''Service: '' @ req_pamService r, ''User: '' @ req_pamUser r] @
     optional_line ''Requester: '' (req_pamRuser r) @
     optional_line ''Remote host: '' (req_pamRhost r) @
     optional_line ''TTY: '' (req_pamTty r) @
     (case req_sudoCommand r of None \<Rightarrow> []
      | Some c \<Rightarrow> if c = [] then [] else [''Command: '' @ truncate A c 300]) @
     [''Request ID: '' @ req_requestId r])"

section \<open>The session\<close>

text \<open>
  \<open>a_run_modal\<close> is the alert with the text: whether its first button ended it. A timer that finds the
  lifetime ended aborts it, which is another way to end.
\<close>

definition showConfirmationAlert ::
    "'w agent_sys \<Rightarrow> SwiftRequestBody \<Rightarrow> lifetime \<Rightarrow> 'w \<Rightarrow> bool \<times> 'w" where
  "showConfirmationAlert A request lt w =
    (case isActive A lt w of (active, w) \<Rightarrow>
     if \<not> active then (False, w)
     else (case a_run_modal A (confirmationText A request) w of (first, w) \<Rightarrow>
       case isActive A lt w of (active, w) \<Rightarrow> (active \<and> first, w)))"

fun reply_decision :: "la_reply \<Rightarrow> Decision" where
  "reply_decision LASuccess = Approved"
| "reply_decision (LAFailure (Some e)) =
    (if e \<in> {UserCancel, SystemCancel, AppCancel} then Cancelled
     else if e \<in> {BiometryNotAvailable, BiometryNotEnrolled, BiometryLockout, WatchNotAvailable}
     then Unavailable
     else Failed)"
| "reply_decision (LAFailure None) = Failed"

text \<open>
  The closure of \<open>LocalAuthenticationSession.start\<close> with the reply of \<open>evaluatePolicy\<close>: the decision it completes with, or
  nothing where it returns without completing.
\<close>

definition session_block ::
    "'w agent_sys \<Rightarrow> SwiftRequestBody \<Rightarrow> bool \<Rightarrow> lifetime \<Rightarrow> 'w \<Rightarrow> Decision option \<times> 'w" where
  "session_block A request requireConfirmation lt w =
    (case isActive A lt w of (active, w) \<Rightarrow>
     if \<not> active then (None, w)
     else (case (if requireConfirmation then showConfirmationAlert A request lt w else (True, w)) of
       (confirmed, w) \<Rightarrow>
       if \<not> confirmed then (Some Cancelled, w)
       else (case isActive A lt w of (active, w) \<Rightarrow>
         if \<not> active then (None, w)
         else (case a_can_evaluate A w of (can, w) \<Rightarrow>
           if \<not> can then (Some Unavailable, w)
           else (case isActive A lt w of (active, w) \<Rightarrow>
             if \<not> active then (None, w)
             else (case a_evaluate A (localAuthenticationReason A request) w of (reply, w) \<Rightarrow>
               (Some (reply_decision reply), w)))))))"

section \<open>The coordinator\<close>

partial_function (option) slot_loop ::
    "'w agent_sys \<Rightarrow> lifetime \<Rightarrow> 'w \<Rightarrow> ((unit, AgentError) result \<times> 'w) option" where
  "slot_loop A lt w =
    (case a_slot_wait A w of (success, w) \<Rightarrow>
     if success then Some (Ok (), w)
     else (case lifetime_check A lt w of
        (Inl e, w) \<Rightarrow> Some (Err e, w)
      | (Inr _, w) \<Rightarrow> slot_loop A lt w))"

partial_function (option) result_loop ::
    "'w agent_sys \<Rightarrow> nat \<Rightarrow> lifetime \<Rightarrow> 'w \<Rightarrow> ((unit, AgentError) result \<times> 'w) option" where
  "result_loop A k lt w =
    (case a_session_result A k w of
       (Some _, w) \<Rightarrow> Some (Ok (), w)
     | (None, w) \<Rightarrow> (case lifetime_check A lt w of
          (Inl e, w) \<Rightarrow> Some (Err e, w)
        | (Inr _, w) \<Rightarrow> result_loop A k lt (a_ready_wait A k w)))"

text \<open>
  \<open>evaluate\<close> from the start of the session to its return, and with what its \<open>defer\<close> statements do
  around that, last one first. \<open>result.value!\<close> traps on an empty cell.
\<close>

definition evaluate_session ::
    "'w agent_sys \<Rightarrow> nat \<Rightarrow> lifetime \<Rightarrow> 'w \<Rightarrow> ((AuthenticationResult, AgentError) result \<times> 'w) option" where
  "evaluate_session A k lt w =
    bind_io (result_loop A k lt w) (\<lambda>_ w.
    bind_io (Some (lifetime_check A lt w)) (\<lambda>_ w.
    case a_session_result A k w of
      (None, w) \<Rightarrow> Some (Err Trap, w)
    | (Some d, w) \<Rightarrow> Some (Ok \<lparr>ar_decision = d\<rparr>, w)))"

definition evaluate ::
    "'w agent_sys \<Rightarrow> SwiftRequestBody \<Rightarrow> bool \<Rightarrow> lifetime \<Rightarrow> 'w \<Rightarrow>
     ((AuthenticationResult, AgentError) result \<times> 'w) option" where
  "evaluate A request requireConfirmation lt w =
    bind_io (slot_loop A lt w) (\<lambda>_ w.
    Option.bind
      (bind_io (Some (lifetime_check A lt w)) (\<lambda>_ w.
       case a_session_start A request requireConfirmation lt w of (k, w) \<Rightarrow>
       Option.bind (evaluate_session A k lt w) (\<lambda>(r, w). Some (r, a_session_cancel A k w))))
      (\<lambda>(r, w). Some (r, a_slot_signal A w)))"

section \<open>An approval needs the owner\<close>

lemma isActive_True: "isActive A lt w = (True, w') \<longleftrightarrow> lifetime_check A lt w = (Inr (), w')"
  by (auto simp: isActive_def result_simps split: prod.splits)

lemma reply_decision_Approved [simp]: "reply_decision r = Approved \<longleftrightarrow> r = LASuccess"
  by (cases r rule: reply_decision.cases) auto

lemma authMethod_none [simp]: "authMethod r = NoMethod \<longleftrightarrow> ar_decision r \<noteq> Approved"
  by (simp add: authMethod_def)

lemma complete_once [simp]: "complete v (complete u result) = complete u result"
  by (simp add: complete_def)

text \<open>
  The lifetime was active directly before the owner was asked and, with a confirmation, directly
  after its first button was pressed.
\<close>

lemma session_block_Approved:
  assumes "session_block A request conf lt w = (Some Approved, w')"
  shows "\<exists>u v. lifetime_check A lt u = (Ok (), v) \<and>
      a_evaluate A (localAuthenticationReason A request) v = (LASuccess, w')"
    and "conf \<Longrightarrow> \<exists>u v x. a_run_modal A (confirmationText A request) u = (True, v) \<and>
      lifetime_check A lt v = (Ok (), x)"
proof -
  obtain a1 w1 where 1: "isActive A lt w = (a1, w1)" by fastforce
  obtain c w2 where 2: "(if conf then showConfirmationAlert A request lt w1 else (True, w1)) = (c, w2)"
    by fastforce
  obtain a3 w3 where 3: "isActive A lt w2 = (a3, w3)" by fastforce
  obtain can w4 where 4: "a_can_evaluate A w3 = (can, w4)" by fastforce
  obtain a5 w5 where 5: "isActive A lt w4 = (a5, w5)" by fastforce
  have "a1" "c" "a3" "can" and a5: "a5"
    and reply: "a_evaluate A (localAuthenticationReason A request) w5 = (LASuccess, w')"
    using assms by (auto simp: session_block_def 1 2 3 4 5 split: if_splits prod.splits)
  with 5 show "\<exists>u v. lifetime_check A lt u = (Ok (), v) \<and>
      a_evaluate A (localAuthenticationReason A request) v = (LASuccess, w')"
    by (auto simp: isActive_True)
  show "\<exists>u v x. a_run_modal A (confirmationText A request) u = (True, v) \<and> lifetime_check A lt v = (Ok (), x)"
    if conf
    using 2 that \<open>c\<close> by (auto simp: showConfirmationAlert_def isActive_True split: if_splits prod.splits)
qed

text \<open>
  The law of sessions: \<open>sessions w k\<close> is what session \<open>k\<close> was started for. The cell of a session only ever
  holds what its closure completes with, and polling forgets no session.
\<close>

definition polling_keeps :: "'w agent_sys \<Rightarrow> ('w \<Rightarrow> nat \<Rightarrow> 'x option) \<Rightarrow> bool" where
  "polling_keeps A s \<longleftrightarrow>
    (\<forall>w. map_le (s w) (s (snd (a_uptime_ns A w)))) \<and>
    (\<forall>w. map_le (s w) (s (snd (a_wall_ms A w)))) \<and>
    (\<forall>f w. map_le (s w) (s (snd (a_peek A f w)))) \<and>
    (\<forall>k w. map_le (s w) (s (snd (a_flag A k w)))) \<and>
    (\<forall>k w. map_le (s w) (s (a_set_flag A k w))) \<and>
    (\<forall>k w. map_le (s w) (s (snd (a_session_result A k w)))) \<and>
    (\<forall>k w. map_le (s w) (s (a_ready_wait A k w)))"

definition session_table ::
    "'w agent_sys \<Rightarrow> ('w \<Rightarrow> nat \<Rightarrow> (SwiftRequestBody \<times> bool \<times> lifetime) option) \<Rightarrow> bool" where
  "session_table A sessions \<longleftrightarrow>
    polling_keeps A sessions \<and>
    (\<forall>request conf lt w k w'. a_session_start A request conf lt w = (k, w') \<longrightarrow>
      sessions w' k = Some (request, conf, lt)) \<and>
    (\<forall>k w d w' request conf lt. a_session_result A k w = (Some d, w') \<longrightarrow>
      sessions w k = Some (request, conf, lt) \<longrightarrow>
      (\<exists>u u'. session_block A request conf lt u = (Some d, u')))"

lemma polling_keeps_calls:
  assumes "polling_keeps A s" and "s w k = Some x"
  shows "a_uptime_ns A w = (t, w') \<Longrightarrow> s w' k = Some x"
    and "a_wall_ms A w = (t, w') \<Longrightarrow> s w' k = Some x"
    and "a_peek A f w = (p, w') \<Longrightarrow> s w' k = Some x"
    and "a_flag A j w = (c, w') \<Longrightarrow> s w' k = Some x"
    and "s (a_set_flag A j w) k = Some x"
    and "a_session_result A j w = (d, w') \<Longrightarrow> s w' k = Some x"
    and "s (a_ready_wait A j w) k = Some x"
proof -
  have le: "s v k = Some x" if "map_le (s w) (s v)" for v
    using that assms(2) by (auto simp: map_le_def dom_def)
  show "a_uptime_ns A w = (t, w') \<Longrightarrow> s w' k = Some x"
    and "a_wall_ms A w = (t, w') \<Longrightarrow> s w' k = Some x"
    and "a_peek A f w = (p, w') \<Longrightarrow> s w' k = Some x"
    and "a_flag A j w = (c, w') \<Longrightarrow> s w' k = Some x"
    and "s (a_set_flag A j w) k = Some x"
    and "a_session_result A j w = (d, w') \<Longrightarrow> s w' k = Some x"
    and "s (a_ready_wait A j w) k = Some x"
    using assms(1) le unfolding polling_keeps_def by (metis snd_conv)+
qed

lemma lifetime_check_keeps:
  assumes "polling_keeps A s" and "s w k = Some x" and "lifetime_check A lt w = (r, w')"
  shows "s w' k = Some x"
proof -
  note keeps = polling_keeps_calls [OF assms(1)]
  obtain c w1 where f: "a_flag A (lt_flag lt) w = (c, w1)" by fastforce
  obtain up w2 where up: "a_uptime_ns A w1 = (up, w2)" by fastforce
  obtain now w3 where n: "a_wall_ms A w2 = (now, w3)" by fastforce
  obtain p w4 where p: "a_peek A (lt_fd lt) w3 = (p, w4)" by fastforce
  have s: "s w1 k = Some x" "s w2 k = Some x" "s w3 k = Some x" "s w4 k = Some x"
    using keeps(4) [OF assms(2) f] keeps(1) [OF _ up] keeps(2) [OF _ n] keeps(3) [OF _ p] by simp_all
  have "s (a_set_flag A j v) k = Some x" if "s v k = Some x" for j v by (rule keeps(5) [OF that])
  with s assms(3) show ?thesis
    by (auto simp: lifetime_check_def lifetime_conditions_def f n p deadline_check_eq [OF up]
        split: if_splits)
qed

lemmas result_loop_induct = result_loop.raw_induct [rotated 1, consumes 1, case_names step]

lemma result_loop_keeps:
  assumes "result_loop A k lt w = Some rw" and "polling_keeps A s" and "s w j = Some x"
  shows "s (snd rw) j = Some x"
  using assms
proof (induction rule: result_loop_induct)
  case (step rec A k lt w rw)
  note keeps = polling_keeps_calls [OF step.prems(1)]
  obtain d w1 where d: "a_session_result A k w = (d, w1)" by fastforce
  obtain r w2 where c: "lifetime_check A lt w1 = (r, w2)" by fastforce
  have s1: "s w1 j = Some x" by (rule keeps(6) [OF step.prems(2) d])
  have s2: "s w2 j = Some x" by (rule lifetime_check_keeps [OF step.prems(1) s1 c])
  show ?case
    using step.hyps step.IH [OF _ step.prems(1) keeps(7) [OF s2]] s1 s2
    by (auto simp: d c split: option.splits sum.splits)
qed

lemma evaluate_session_Ok:
  assumes "evaluate_session A k lt w = Some (Ok res, w')"
  obtains w1 w2 where "result_loop A k lt w = Some (Ok (), w1)" and "lifetime_check A lt w1 = (Ok (), w2)"
    and "a_session_result A k w2 = (Some (ar_decision res), w')"
proof -
  from assms obtain w1 w2 where "result_loop A k lt w = Some (Ok (), w1)" "lifetime_check A lt w1 = (Ok (), w2)"
    "(case a_session_result A k w2 of (None, w) \<Rightarrow> Some (Err Trap, w)
      | (Some d, w) \<Rightarrow> Some (Ok \<lparr>ar_decision = d\<rparr>, w)) = Some (Ok res, w')"
    by (auto simp: evaluate_session_def result_simps)
  then show thesis using that by (auto split: prod.split_asm option.split_asm)
qed

lemma evaluate_Ok:
  assumes "evaluate A request conf lt w = Some (Ok res, w')"
  obtains w1 w2 k w3 w4 where "lifetime_check A lt w1 = (Ok (), w2)"
    and "a_session_start A request conf lt w2 = (k, w3)" and "evaluate_session A k lt w3 = Some (Ok res, w4)"
proof -
  from assms obtain w1 w2 where "lifetime_check A lt w1 = (Ok (), w2)"
    "\<exists>v. (case a_session_start A request conf lt w2 of (k, w) \<Rightarrow>
      Option.bind (evaluate_session A k lt w) (\<lambda>(r, w). Some (r, a_session_cancel A k w))) = Some (Ok res, v)"
    by (auto simp: evaluate_def result_simps bind_eq_Some_conv)
  then show thesis using that by (auto simp: bind_eq_Some_conv split: prod.split_asm)
qed

lemma evaluate_decided:
  assumes "evaluate A request conf lt w = Some (Ok res, w')" and table: "session_table A sessions"
  shows "\<exists>u u'. session_block A request conf lt u = (Some (ar_decision res), u')"
  using assms(1)
proof (rule evaluate_Ok)
  fix w1 w2 k w3 w4
  assume start: "a_session_start A request conf lt w2 = (k, w3)"
    and session: "evaluate_session A k lt w3 = Some (Ok res, w4)"
  from session obtain w5 w6 where loop: "result_loop A k lt w3 = Some (Ok (), w5)"
    and check: "lifetime_check A lt w5 = (Ok (), w6)"
    and res: "a_session_result A k w6 = (Some (ar_decision res), w4)" by (rule evaluate_session_Ok)
  from table have keeps: "polling_keeps A sessions" by (simp add: session_table_def)
  have "sessions w3 k = Some (request, conf, lt)" using table start by (simp add: session_table_def)
  from result_loop_keeps [OF loop keeps this] have "sessions w5 k = Some (request, conf, lt)" by simp
  from lifetime_check_keeps [OF keeps this check] have "sessions w6 k = Some (request, conf, lt)" .
  with table res show ?thesis unfolding session_table_def by blast
qed

section \<open>Termination\<close>

lemma slot_loop_returns:
  assumes time: "agent_time A T"
  shows "returns (slot_loop A lt w)"
proof (induction "unat (lt_deadline lt) - T w" arbitrary: w rule: less_induct)
  case less
  obtain success w1 where s: "a_slot_wait A w = (success, w1)" by fastforce
  then have T1: "T w \<le> T w1" by (rule agent_time_calls(8) [OF time])
  obtain r w2 where c: "lifetime_check A lt w1 = (r, w2)" by fastforce
  show ?case
  proof (cases r)
    case (Inl e)
    then show ?thesis by (simp add: slot_loop.simps [of A lt w] s c)
  next
    case (Inr u)
    from lifetime_check_time(2) [OF time c Inr] T1
    have "unat (lt_deadline lt) - T w2 < unat (lt_deadline lt) - T w" by linarith
    from less [OF this] show ?thesis by (simp add: slot_loop.simps [of A lt w] s c Inr)
  qed
qed

lemma result_loop_returns:
  assumes time: "agent_time A T"
  shows "returns (result_loop A k lt w)"
proof (induction "unat (lt_deadline lt) - T w" arbitrary: w rule: less_induct)
  case less
  obtain d w1 where d: "a_session_result A k w = (d, w1)" by fastforce
  then have T1: "T w \<le> T w1" by (rule agent_time_calls(9) [OF time])
  obtain r w2 where c: "lifetime_check A lt w1 = (r, w2)" by fastforce
  have T3: "T w2 \<le> T (a_ready_wait A k w2)" by (rule agent_time_calls(10) [OF time])
  show ?case
  proof (cases r)
    case (Inl e)
    then show ?thesis by (cases d) (simp_all add: result_loop.simps [of A k lt w] d c)
  next
    case (Inr u)
    from lifetime_check_time(2) [OF time c Inr] T1 T3
    have "unat (lt_deadline lt) - T (a_ready_wait A k w2) < unat (lt_deadline lt) - T w" by linarith
    from less [OF this] show ?thesis
      by (cases d) (simp_all add: result_loop.simps [of A k lt w] d c Inr)
  qed
qed

lemma evaluate_returns:
  assumes "agent_time A T"
  shows "returns (evaluate A request conf lt w)"
  using slot_loop_returns [OF assms] result_loop_returns [OF assms]
  by (auto simp: evaluate_def evaluate_session_def intro!: returns_bind_io returns_bind split: prod.splits option.splits)

end
