(* ===== verification/Agent_Serve.thy ===== *)
theory Agent_Serve
  imports Agent_Auth
begin

text \<open>
  The request handlers of the macOS agent (\<open>handleServeRequest\<close>, \<open>handleRequest\<close> and what they call in
  \<open>main.swift\<close>). \<open>C\<close> is the digest library, \<open>decode\<close> and \<open>encode\<close> are \<open>JSONDecoder\<close> for requests
  and \<open>JSONEncoder\<close> for responses.
\<close>

section \<open>State\<close>

record HostVerifier =
  hv_hostId :: string
  hv_publicKey :: bytes

record AgentRuntime =
  rt_hostVerifiers :: "string \<Rightarrow> HostVerifier option"
  rt_agentPrivateKey :: bytes
  rt_agentKeyId :: string
  rt_allowedFutureSkewMs :: u64
  rt_requireConfirmation :: bool
  rt_rateLimiter :: RateLimiter

section \<open>Verification\<close>

definition verifyRequest ::
    "'w agent_sys \<Rightarrow> SwiftSignedRequest \<Rightarrow> bytes \<Rightarrow> u64 \<Rightarrow> 'w \<Rightarrow> (unit, AgentError) result \<times> 'w" where
  "verifyRequest A request hostPublicKey allowedFutureSkewMs w =
    bind_w (swift_request_canonicalBytes (sreq_body request), w) (\<lambda>requestBytes w.
    if \<not> a_isValidSignature A hostPublicKey (sreq_signature request) requestBytes then
      (Err InvalidSignature, w)
    else (case a_wall_ms A w of (now, w) \<Rightarrow>
      (verifyFreshness (sreq_body request) now allowedFutureSkewMs, w)))"

definition verifiedRequest ::
    "'w agent_sys \<Rightarrow> (bytes \<Rightarrow> (SwiftSignedRequest, string) result) \<Rightarrow> fd \<Rightarrow> bytes \<Rightarrow> u64 \<Rightarrow> deadline \<Rightarrow> 'w \<Rightarrow>
     ((SwiftSignedRequest, AgentError) result \<times> 'w) option" where
  "verifiedRequest A decode fd hostPublicKey allowedFutureSkewMs d w =
    bind_io (readJSONFrame A decode fd d w) (\<lambda>request w.
    bind_io (Some (verifyRequest A request hostPublicKey allowedFutureSkewMs w)) (\<lambda>_ w.
    Some (Ok request, w)))"

definition host_verifier :: "'w agent_sys \<Rightarrow> AgentRuntime \<Rightarrow> string \<Rightarrow> HostVerifier option" where
  "host_verifier A rt hostId =
    opt_or (rt_hostVerifiers rt (a_nfc A hostId)) (rt_hostVerifiers rt (a_nfc A ''*''))"

section \<open>Serving\<close>

definition request_context :: "SwiftRequestBody \<Rightarrow> string" where
  "request_context r =
    ''macos-auth-agent request request_id='' @ req_requestId r @ '' host_id='' @ req_linuxHostId r @
    '' host='' @ req_linuxHostname r @ '' service='' @ req_pamService r @ '' user='' @ req_pamUser r @
    '' ruser='' @ unwrap_or (req_pamRuser r) [] @ '' tty='' @ unwrap_or (req_pamTty r) [] @ [newline]"

definition logRequestContext :: "'w agent_sys \<Rightarrow> SwiftRequestBody \<Rightarrow> 'w \<Rightarrow> 'w" where
  "logRequestContext A request w = a_log A (request_context request) w"

text \<open>
  \<open>handleServeRequest\<close> in three parts: \<open>accept_request\<close> up to the lifetime of the request,
  \<open>authenticate\<close> for the value of \<open>authResult\<close>, and \<open>signed_response\<close> for the response.
\<close>

definition accept_request ::
    "'w agent_sys \<Rightarrow> (bytes \<Rightarrow> (SwiftSignedRequest, string) result) \<Rightarrow> AgentRuntime \<Rightarrow> fd \<Rightarrow> deadline \<Rightarrow> 'w \<Rightarrow>
     ((SwiftRequestBody \<times> lifetime, AgentError) result \<times> 'w) option" where
  "accept_request A decode rt fd d w =
    (case capped A d 2000 w of (d', w) \<Rightarrow>
    bind_io (readJSONFrame A decode fd d' w) (\<lambda>request w.
    case host_verifier A rt (req_linuxHostId (sreq_body request)) of
      None \<Rightarrow> Some (Err (InvalidPayload
        (''host '' @ req_linuxHostId (sreq_body request) @ '' is not allowed'')), w)
    | Some verifier \<Rightarrow>
      bind_io (Some (verifyRequest A request (hv_publicKey verifier) (rt_allowedFutureSkewMs rt) w)) (\<lambda>_ w.
      case lifetime_init A fd (req_expiresAtMs (sreq_body request)) d w of (lt, w) \<Rightarrow>
        Some (Ok (sreq_body request, lt), w))))"

definition authenticate ::
    "'w agent_sys \<Rightarrow> AgentRuntime \<Rightarrow> SwiftRequestBody \<Rightarrow> lifetime \<Rightarrow> 'w \<Rightarrow>
     ((AuthenticationResult, AgentError) result \<times> 'w) option" where
  "authenticate A rt request lt w =
    (case allow A (rt_rateLimiter rt) request w of (allowed, w) \<Rightarrow>
     if allowed then evaluate A request (rt_requireConfirmation rt) lt w
     else Some (Ok \<lparr>ar_decision = Cancelled\<rparr>,
       a_log A (''macos-auth-agent rate limit exceeded for host_id='' @ req_linuxHostId request @
         '' service='' @ req_pamService request @ '' user='' @ req_pamUser request @ [newline]) w))"

definition signed_response ::
    "'z crypto_scheme \<Rightarrow> 'w agent_sys \<Rightarrow> bytes \<Rightarrow> string \<Rightarrow> SwiftRequestBody \<Rightarrow> Decision \<Rightarrow> AuthMethod \<Rightarrow> 'w \<Rightarrow>
     (SwiftSignedResponse, AgentError) result \<times> 'w" where
  "signed_response C A privateKey keyId request decision method w =
    (case a_wall_ms A w of (now, w) \<Rightarrow>
    bind_w (forRequest C request decision method now keyId, w) (\<lambda>responseBody w.
    bind_w (swift_response_canonicalBytes responseBody, w) (\<lambda>bs w.
    bind_w (map_err_w Thrown (a_sign A privateKey bs w)) (\<lambda>signature w.
    (Ok \<lparr>sresp_body = responseBody, sresp_signature = signature\<rparr>, w)))))"

definition prepare_response ::
    "'z crypto_scheme \<Rightarrow> 'w agent_sys \<Rightarrow> AgentRuntime \<Rightarrow> SwiftRequestBody \<Rightarrow> lifetime \<Rightarrow> 'w \<Rightarrow>
     ((SwiftSignedResponse, AgentError) result \<times> 'w) option" where
  "prepare_response C A rt request lt w =
    bind_io (Some (lifetime_check A lt w)) (\<lambda>_ w.
    bind_io (authenticate A rt request lt (logRequestContext A request w)) (\<lambda>authResult w.
    bind_io (Some (lifetime_check A lt w)) (\<lambda>_ w.
    Some (signed_response C A (rt_agentPrivateKey rt) (rt_agentKeyId rt) request
      (ar_decision authResult) (authMethod authResult) w))))"

definition handleServeRequest ::
    "'z crypto_scheme \<Rightarrow> 'w agent_sys \<Rightarrow> (bytes \<Rightarrow> (SwiftSignedRequest, string) result) \<Rightarrow>
     (SwiftSignedResponse \<Rightarrow> (bytes, string) result) \<Rightarrow> AgentRuntime \<Rightarrow> fd \<Rightarrow> deadline \<Rightarrow> 'w \<Rightarrow>
     ((unit, AgentError) result \<times> 'w) option" where
  "handleServeRequest C A decode encode rt fd d w =
    bind_io (accept_request A decode rt fd d w) (\<lambda>(request, lt) w.
    Option.bind
      (bind_io (prepare_response C A rt request lt w) (\<lambda>response w.
       bind_io (Some (lifetime_check A lt w)) (\<lambda>_ w.
       writeJSONFrame A encode response fd (lt_deadline lt) w)))
      (\<lambda>(r, w). Some (r, lifetime_cancel A lt w)))"

section \<open>The fake agent\<close>

record FakeAgentOptions =
  fo_socketPath :: string
  fo_hostPublicKeyHex :: "string option"
  fo_hostPublicKeyFile :: "string option"
  fo_agentKeyHex :: "string option"
  fo_agentKeyFile :: "string option"
  fo_agentKeyId :: string
  fo_decision :: Decision
  fo_once :: bool

definition handleRequest ::
    "'z crypto_scheme \<Rightarrow> 'w agent_sys \<Rightarrow> (bytes \<Rightarrow> (SwiftSignedRequest, string) result) \<Rightarrow>
     (SwiftSignedResponse \<Rightarrow> (bytes, string) result) \<Rightarrow> bytes \<Rightarrow> bytes \<Rightarrow> FakeAgentOptions \<Rightarrow> fd \<Rightarrow> deadline \<Rightarrow>
     'w \<Rightarrow> ((unit, AgentError) result \<times> 'w) option" where
  "handleRequest C A decode encode hostPublicKey agentPrivateKey options fd d w =
    (case capped A d 2000 w of (d', w) \<Rightarrow>
    bind_io (verifiedRequest A decode fd hostPublicKey 30000 d' w) (\<lambda>request w.
    case lifetime_init A fd (req_expiresAtMs (sreq_body request)) d w of (lt, w) \<Rightarrow>
    Option.bind
      (bind_io (Some (lifetime_check A lt w)) (\<lambda>_ w.
       bind_io (Some (signed_response C A agentPrivateKey (fo_agentKeyId options) (sreq_body request)
         (fo_decision options) (if fo_decision options = Approved then BiometricOrWatch else NoMethod) w))
         (\<lambda>response w.
       bind_io (Some (lifetime_check A lt w)) (\<lambda>_ w.
       writeJSONFrame A encode response fd (lt_deadline lt) w))))
      (\<lambda>(r, w). Some (r, lifetime_cancel A lt w))))"

section \<open>What is verified, and what is signed\<close>

definition of_swift_signed_request :: "SwiftSignedRequest \<Rightarrow> SignedAuthRequest" where
  "of_swift_signed_request s =
    \<lparr>srq_body = of_swift_request (sreq_body s), srq_signature = sreq_signature s\<rparr>"

definition of_swift_signed_response :: "SwiftSignedResponse \<Rightarrow> SignedAuthResponse" where
  "of_swift_signed_response s =
    \<lparr>srs_body = of_swift_response (sresp_body s), srs_signature = sresp_signature s\<rparr>"

lemma verifyRequest_Ok:
  "verifyRequest A request pk skew w = (Inr (), w') \<longleftrightarrow>
    (\<exists>m now. canonicalAlgorithmName (req_alg (sreq_body request)) \<noteq> None \<and>
      request_canonical_bytes (of_swift_request (sreq_body request)) = Ok m \<and>
      a_isValidSignature A pk (sreq_signature request) m \<and> a_wall_ms A w = (now, w') \<and>
      verifyFreshness (sreq_body request) now skew = Ok ())"
  by (auto simp: verifyRequest_def result_simps swift_request_canonical split: prod.splits)

lemma lifetime_init_eq:
  assumes "lifetime_init A fd expires d w = (lt, w')"
  shows "lt_fd lt = fd" and "lt_expiresAtMs lt = expires" and "lt_deadline lt \<le> d"
  using assms by (auto simp: lifetime_init_def capped_def split: prod.splits)

text \<open>The request that \<open>accept_request\<close> goes on with: read from the connection and verified.\<close>

definition request_verified ::
    "'w agent_sys \<Rightarrow> AgentRuntime \<Rightarrow> SwiftSignedRequest \<Rightarrow> bool" where
  "request_verified A rt request \<longleftrightarrow>
    (\<exists>verifier m v now v'. host_verifier A rt (req_linuxHostId (sreq_body request)) = Some verifier \<and>
      request_canonical_bytes (of_swift_request (sreq_body request)) = Ok m \<and>
      a_isValidSignature A (hv_publicKey verifier) (sreq_signature request) m \<and>
      a_wall_ms A v = (now, v') \<and>
      verifyFreshness (sreq_body request) now (rt_allowedFutureSkewMs rt) = Ok ())"

lemma accept_request_Ok:
  assumes "accept_request A decode rt fd d w = Some (Ok (request, lt), w')"
  obtains signed d' v v1 v2 where "sreq_body signed = request"
    and "readJSONFrame A decode fd d' v = Some (Ok signed, v1)" and "request_verified A rt signed"
    and "lifetime_init A fd (req_expiresAtMs request) d v2 = (lt, w')"
proof -
  obtain d' v where c: "capped A d 2000 w = (d', v)" by fastforce
  with assms obtain signed v1 verifier v2 where r: "readJSONFrame A decode fd d' v = Some (Ok signed, v1)"
    and h: "host_verifier A rt (req_linuxHostId (sreq_body signed)) = Some verifier"
    and s: "verifyRequest A signed (hv_publicKey verifier) (rt_allowedFutureSkewMs rt) v1 = (Inr (), v2)"
    and i: "(case lifetime_init A fd (req_expiresAtMs (sreq_body signed)) d v2 of (lt, w) \<Rightarrow>
        Some (Ok (sreq_body signed, lt) :: (SwiftRequestBody \<times> lifetime, AgentError) result, w)) = Some (Ok (request, lt), w')"
    by (auto simp: accept_request_def result_simps split: option.split_asm)
  from i have l: "sreq_body signed = request" "lifetime_init A fd (req_expiresAtMs request) d v2 = (lt, w')"
    by (auto split: prod.split_asm)
  from s have "request_verified A rt signed"
    unfolding verifyRequest_Ok request_verified_def using h by blast
  from that [OF l(1) r this l(2)] show thesis .
qed

lemma signed_response_steps:
  assumes "signed_response C A sk key_id request d am w = (Ok resp, w')"
  obtains now v m where "a_wall_ms A w = (now, v)"
    and "forRequest C request d am now key_id = Ok (sresp_body resp)"
    and "swift_response_canonicalBytes (sresp_body resp) = Ok m"
    and "a_sign A sk m v = (Ok (sresp_signature resp), w')"
proof -
  obtain now v where n: "a_wall_ms A w = (now, v)" by fastforce
  with assms show thesis using that by (auto simp: signed_response_def result_simps)
qed

lemma signed_response_Ok:
  assumes "signed_response C A sk key_id request d am w = (Ok resp, w')"
  obtains now v m where "a_wall_ms A w = (now, v)" and "now < req_expiresAtMs request"
    and "for_request C (of_swift_request request) d am now (resp_expiresAtMs (sresp_body resp)) key_id =
      Ok (of_swift_response (sresp_body resp))"
    and "unat (resp_expiresAtMs (sresp_body resp)) = min (unat now + 10000) (unat (req_expiresAtMs request))"
    and "resp_createdAtMs (sresp_body resp) = now" and "resp_decision (sresp_body resp) = d"
    and "response_canonical_bytes (of_swift_response (sresp_body resp)) = Ok m"
    and "a_sign A sk m v = (Ok (sresp_signature resp), w')"
  using assms
proof (rule signed_response_steps)
  fix now v m
  assume n: "a_wall_ms A w = (now, v)" and f: "forRequest C request d am now key_id = Ok (sresp_body resp)"
    and m: "swift_response_canonicalBytes (sresp_body resp) = Ok m"
    and g: "a_sign A sk m v = (Ok (sresp_signature resp), w')"
  from m have "response_canonical_bytes (of_swift_response (sresp_body resp)) = Ok m"
    by (simp add: swift_response_canonical)
  from that [OF n forRequest_Ok(1-5) [OF f] this g] f show thesis by blast
qed

lemma signed_response_returns:
  assumes "swift_request_canonicalBytes request = Ok b" and "length (sha256_digest C b) = 32"
    and "a_wall_ms A w = (now, v)" and "now < req_expiresAtMs request" and "fits key_id"
    and "\<And>m. \<exists>sig v'. a_sign A sk m v = (Ok sig, v')"
  shows "\<exists>resp w'. signed_response C A sk key_id request d am w = (Ok resp, w')"
proof -
  obtain body where f: "forRequest C request d am now key_id = Ok body"
    using forRequest_returns [OF assms(1,4)] by blast
  from assms(1) have m: "request_canonical_bytes (of_swift_request request) = Ok b"
    by (simp add: swift_request_canonical)
  have "now < resp_expiresAtMs body"
    using forRequest_Ok(3) [OF f] assms(4) by (simp add: word_less_nat_alt)
  from for_request_canonical [OF forRequest_Ok(2) [OF f] m assms(2) this assms(5)]
  have "\<exists>m. response_canonical_bytes (of_swift_response body) = Ok m" .
  then obtain bs where "swift_response_canonicalBytes body = Ok bs"
    using forRequest_Ok(7) [OF f] by (auto simp: swift_response_canonical)
  moreover obtain sig v' where "a_sign A sk bs v = (Ok sig, v')" using assms(6) by blast
  ultimately show ?thesis using assms(3) f by (simp add: signed_response_def)
qed

section \<open>A response of the agent\<close>

text \<open>The responses that the agent signs on a connection.\<close>

definition agent_signs ::
    "'z crypto_scheme \<Rightarrow> 'w agent_sys \<Rightarrow> (bytes \<Rightarrow> (SwiftSignedRequest, string) result) \<Rightarrow> AgentRuntime \<Rightarrow>
     fd \<Rightarrow> deadline \<Rightarrow> 'w \<Rightarrow> SwiftSignedResponse \<Rightarrow> bool" where
  "agent_signs C A decode rt fd d w resp \<longleftrightarrow>
    (\<exists>request lt w1 w2. accept_request A decode rt fd d w = Some (Ok (request, lt), w1) \<and>
      prepare_response C A rt request lt w1 = Some (Ok resp, w2))"

text \<open>
  The device owner approved: LocalAuthentication succeeded for the reason that names the request,
  asked while the request was active, after the confirmation when the configuration wants one.
\<close>

definition owner_approved :: "'w agent_sys \<Rightarrow> AgentRuntime \<Rightarrow> SwiftRequestBody \<Rightarrow> bool" where
  "owner_approved A rt request \<longleftrightarrow>
    (\<exists>lt u v w. lt_expiresAtMs lt = req_expiresAtMs request \<and> lifetime_check A lt u = (Ok (), v) \<and>
      a_evaluate A (localAuthenticationReason A request) v = (LASuccess, w)) \<and>
    (rt_requireConfirmation rt \<longrightarrow>
      (\<exists>u v. a_run_modal A (confirmationText A request) u = (True, v))) \<and>
    (\<exists>u v. allow A (rt_rateLimiter rt) request u = (True, v))"

lemma prepare_response_Ok:
  assumes "prepare_response C A rt request lt w = Some (Ok resp, w')"
  obtains w1 res w2 w3 where "lifetime_check A lt w = (Ok (), w1)"
    and "authenticate A rt request lt (logRequestContext A request w1) = Some (Ok res, w2)"
    and "lifetime_check A lt w2 = (Ok (), w3)"
    and "signed_response C A (rt_agentPrivateKey rt) (rt_agentKeyId rt) request
      (ar_decision res) (authMethod res) w3 = (Ok resp, w')"
  using assms by (auto simp: prepare_response_def result_simps)

lemma authenticate_Approved:
  assumes "authenticate A rt request lt w = Some (Ok res, w')" and "ar_decision res = Approved"
    and "session_table A sessions" and "lt_expiresAtMs lt = req_expiresAtMs request"
  shows "owner_approved A rt request"
proof -
  obtain allowed w1 where a: "allow A (rt_rateLimiter rt) request w = (allowed, w1)" by fastforce
  then have allowed: "allow A (rt_rateLimiter rt) request w = (True, w1)"
    and e: "evaluate A request (rt_requireConfirmation rt) lt w1 = Some (Ok res, w')"
    using assms(1,2) by (auto simp: authenticate_def split: if_splits)
  from evaluate_decided [OF e assms(3)] obtain u u'
    where s: "session_block A request (rt_requireConfirmation rt) lt u = (Some Approved, u')"
    unfolding assms(2) by blast
  from session_block_Approved [OF s] show ?thesis
    using allowed assms(4) unfolding owner_approved_def by blast
qed

lemma agent_approval:
  assumes "agent_signs C A decode rt fd d w resp" and "resp_decision (sresp_body resp) = Approved"
    and "session_table A sessions"
  shows "\<exists>signed created expires. request_verified A rt signed \<and> owner_approved A rt (sreq_body signed) \<and>
    (\<exists>d' v v'. readJSONFrame A decode fd d' v = Some (Ok signed, v')) \<and>
    for_request C (of_swift_request (sreq_body signed)) Approved BiometricOrWatch created expires
      (rt_agentKeyId rt) = Ok (of_swift_response (sresp_body resp))"
proof -
  from assms(1) obtain request lt w1 w2
    where accept: "accept_request A decode rt fd d w = Some (Ok (request, lt), w1)"
      and prepare: "prepare_response C A rt request lt w1 = Some (Ok resp, w2)"
    unfolding agent_signs_def by blast
  from accept obtain signed d' v v1 v2 where signed: "sreq_body signed = request"
      "readJSONFrame A decode fd d' v = Some (Ok signed, v1)" "request_verified A rt signed"
    and lt: "lifetime_init A fd (req_expiresAtMs request) d v2 = (lt, w1)" by (rule accept_request_Ok)
  from prepare obtain u res u2 u3
    where res: "authenticate A rt request lt (logRequestContext A request u) = Some (Ok res, u2)"
      and sign: "signed_response C A (rt_agentPrivateKey rt) (rt_agentKeyId rt) request
        (ar_decision res) (authMethod res) u3 = (Ok resp, w2)" by (rule prepare_response_Ok)
  from sign obtain created where r: "ar_decision res = resp_decision (sresp_body resp)"
      "for_request C (of_swift_request request) (ar_decision res) (authMethod res) created
        (resp_expiresAtMs (sresp_body resp)) (rt_agentKeyId rt) = Ok (of_swift_response (sresp_body resp))"
    by (rule signed_response_Ok) simp
  with assms(2) have approved: "ar_decision res = Approved" by simp
  from authenticate_Approved [OF res this assms(3)] lifetime_init_eq(2) [OF lt]
  have "owner_approved A rt request" by simp
  with signed r(2) approved show ?thesis by (auto simp: authMethod_def)
qed

lemma agent_signs_canonical:
  assumes "agent_signs C A decode rt fd d w resp"
  obtains m where "swift_response_canonicalBytes (sresp_body resp) = Ok m"
  using assms unfolding agent_signs_def by (elim exE conjE prepare_response_Ok signed_response_steps)

text \<open>
  The law of CryptoKit and the helper's library: what one signs with a key, the other accepts under
  the public key.
\<close>

definition cryptokit_signs :: "'w agent_sys \<Rightarrow> 'z crypto_scheme \<Rightarrow> bool" where
  "cryptokit_signs A C \<longleftrightarrow>
    (\<forall>sk m w sig w'. a_sign A sk m w = (Ok sig, w') \<longrightarrow>
      length sig = ED25519_SIGNATURE_LEN \<and> ed25519_verify C (ed25519_public C sk) m sig)"

lemma signed_response_accepted:
  assumes "signed_response C A sk key_id request d am w = (Ok resp, w')"
    and "ed25519_correct C" and "cryptokit_signs A C"
  shows "verify_for_request C (of_swift_signed_response resp) (of_swift_request request)
      (ed25519_public C sk) = Ok ()"
    and "resp_createdAtMs (sresp_body resp) \<le> now \<Longrightarrow> now \<le> resp_expiresAtMs (sresp_body resp) \<Longrightarrow>
      response_verify_freshness (of_swift_response (sresp_body resp)) now skew = Ok ()"
proof -
  from assms(1) obtain now v m where f: "for_request C (of_swift_request request) d am now
        (resp_expiresAtMs (sresp_body resp)) key_id = Ok (of_swift_response (sresp_body resp))"
    and m: "response_canonical_bytes (of_swift_response (sresp_body resp)) = Ok m"
    and sig: "a_sign A sk m v = (Ok (sresp_signature resp), w')" by (rule signed_response_Ok)
  have "length (sresp_signature resp) = ED25519_SIGNATURE_LEN \<and>
      ed25519_verify C (ed25519_public C sk) m (sresp_signature resp)"
    using assms(3) sig unfolding cryptokit_signs_def by blast
  then have "signed_response_verify C (of_swift_signed_response resp) (ed25519_public C sk) = Ok ()"
    using m assms(2)
    by (auto simp: signed_response_verify_def of_swift_signed_response_def verify_ed25519_Ok
        ed25519_correct_def ED25519_PUBLIC_KEY_LEN_def)
  with for_request_Ok [OF f]
  show "verify_for_request C (of_swift_signed_response resp) (of_swift_request request)
      (ed25519_public C sk) = Ok ()"
    by (simp add: verify_for_request_Ok of_swift_signed_response_def)
  show "response_verify_freshness (of_swift_response (sresp_body resp)) now skew = Ok ()"
    if "resp_createdAtMs (sresp_body resp) \<le> now" "now \<le> resp_expiresAtMs (sresp_body resp)" for now
    using that by (simp add: response_window.fresh_iff of_swift_response_def word_le_nat_alt)
qed

text \<open>A frame is written only right after a check that finds the request active.\<close>

lemma handleServeRequest_Ok:
  assumes "handleServeRequest C A decode encode rt fd d w = Some (Ok (), w')"
  obtains request lt w1 resp w2 w3 w4
    where "accept_request A decode rt fd d w = Some (Ok (request, lt), w1)"
      and "prepare_response C A rt request lt w1 = Some (Ok resp, w2)"
      and "lifetime_check A lt w2 = (Ok (), w3)"
      and "writeJSONFrame A encode resp fd (lt_deadline lt) w3 = Some (Ok (), w4)"
  using assms
  by (auto simp: handleServeRequest_def result_simps bind_eq_Some_conv split: prod.split_asm)

section \<open>Termination\<close>

lemma accept_request_returns:
  assumes "agent_time A T"
  shows "returns (accept_request A decode rt fd d w)"
  using frames_return(1) [OF assms]
  by (auto simp: accept_request_def split: prod.splits option.splits)

lemma prepare_response_returns:
  assumes "agent_time A T"
  shows "returns (prepare_response C A rt request lt w)"
  using evaluate_returns [OF assms]
  by (auto simp: prepare_response_def authenticate_def split: prod.splits)

lemma handleServeRequest_returns:
  assumes "agent_time A T"
  shows "returns (handleServeRequest C A decode encode rt fd d w)"
  unfolding handleServeRequest_def
  using accept_request_returns [OF assms] prepare_response_returns [OF assms] frames_return(2) [OF assms]
  by (auto intro!: returns_bind_io returns_bind split: prod.splits)

lemma handleRequest_returns:
  assumes "agent_time A T"
  shows "returns (handleRequest C A decode encode hpk sk options fd d w)"
  unfolding handleRequest_def verifiedRequest_def
  using frames_return [OF assms]
  by (auto intro!: returns_bind_io returns_bind split: prod.splits)

end
