(* ===== verification/Agent_Demo.thy ===== *)
theory Agent_Demo
  imports Agent_Serve Demo_Run
begin

text \<open>
  A concrete macOS agent for the witnesses: the peer has sent the request of \<open>Demo_Run\<close>, the socket
  delivers it in fragments, the uptime clock advances with every reading, and the device owner
  confirms and authenticates. The agent answers with the response of \<open>Demo_Run\<close>.
\<close>

section \<open>The system\<close>

record agent_world =
  aw_uptime :: nat
  aw_inbox :: bytes
  aw_outbox :: bytes
  aw_events :: rate_events
  aw_cancelled :: bool
  aw_session :: "(SwiftRequestBody \<times> bool \<times> lifetime) option"

definition agent_idle :: agent_world where
  "agent_idle = \<lparr>aw_uptime = 0, aw_inbox = [0, 0, 0, 1, 1], aw_outbox = [], aw_events = (\<lambda>_. []),
    aw_cancelled = False, aw_session = None\<rparr>"

definition demo_result :: "(SwiftRequestBody \<times> bool \<times> lifetime) option \<Rightarrow> Decision option" where
  "demo_result s = (case s of None \<Rightarrow> None
    | Some (_, _, lt) \<Rightarrow>
        if 1700000000000 < lt_expiresAtMs lt \<and> 10 < lt_deadline lt then Some Approved else None)"

definition demo_agent :: "agent_world agent_sys" where
  "demo_agent =
    \<lparr>a_uptime_ns = (\<lambda>w. (word_of_nat (min (aw_uptime w) (2 ^ 64 - 1)), w\<lparr>aw_uptime := Suc (aw_uptime w)\<rparr>)),
     a_wall_ms = (\<lambda>w. (1700000000000, w)),
     a_strerror = (\<lambda>_. ''error''),
     a_poll = (\<lambda>_ _ _ w. (PollReady False, w)),
     a_recv = (\<lambda>_ n w. (Ok (take (min n 3) (aw_inbox w)), w\<lparr>aw_inbox := drop (min n 3) (aw_inbox w)\<rparr>)),
     a_peek = (\<lambda>_ w. (if aw_inbox w = [] then Err EAGAIN else Ok (take 1 (aw_inbox w)), w)),
     a_send = (\<lambda>_ bs w. (Ok (length bs), w\<lparr>aw_outbox := aw_outbox w @ bs\<rparr>)),
     a_log = (\<lambda>_ w. w),
     a_new_flag = (\<lambda>w. (0, w\<lparr>aw_cancelled := False\<rparr>)),
     a_flag = (\<lambda>_ w. (aw_cancelled w, w)),
     a_set_flag = (\<lambda>_ w. w\<lparr>aw_cancelled := True\<rparr>),
     a_lock_events = (\<lambda>w. (aw_events w, w)),
     a_unlock_events = (\<lambda>ev w. w\<lparr>aw_events := ev\<rparr>),
     a_nfc = (\<lambda>s. s),
     a_characters = map (\<lambda>c. [c]),
     a_isValidSignature = (\<lambda>pk sig m. sig = pad 64 (pk @ m)),
     a_sign = (\<lambda>sk m w. (Ok (pad 64 (pad 32 sk @ m)), w)),
     a_slot_wait = (\<lambda>w. (True, w)),
     a_slot_signal = (\<lambda>w. w),
     a_session_start = (\<lambda>request conf lt w. (0, w\<lparr>aw_session := Some (request, conf, lt)\<rparr>)),
     a_session_result = (\<lambda>_ w. (demo_result (aw_session w), w)),
     a_ready_wait = (\<lambda>_ w. w),
     a_session_cancel = (\<lambda>_ w. w\<lparr>aw_session := None\<rparr>),
     a_run_modal = (\<lambda>_ w. (True, w)),
     a_can_evaluate = (\<lambda>w. (True, w)),
     a_evaluate = (\<lambda>_ w. (LASuccess, w))\<rparr>"

definition demo_runtime :: AgentRuntime where
  "demo_runtime =
    \<lparr>rt_hostVerifiers = [''host-abc'' \<mapsto> \<lparr>hv_hostId = ''host-abc'', hv_publicKey = host_secret\<rparr>],
     rt_agentPrivateKey = agent_secret, rt_agentKeyId = ''agent-key-1'',
     rt_allowedFutureSkewMs = 30000, rt_requireConfirmation = True, rt_rateLimiter = limiter_init 60 5\<rparr>"

definition demo_swift_request :: SwiftSignedRequest where
  "demo_swift_request =
    \<lparr>sreq_body = to_swift_request demo_request, sreq_signature = srq_signature demo_signed_request\<rparr>"

definition demo_decode :: "bytes \<Rightarrow> (SwiftSignedRequest, string) result" where
  "demo_decode bs = (if bs = [1] then Ok demo_swift_request else Err ''not a request'')"

definition demo_encode :: "SwiftSignedResponse \<Rightarrow> (bytes, string) result" where
  "demo_encode r = Ok [1]"

section \<open>The laws\<close>

lemma demo_agent_clock:
  "a_uptime_ns demo_agent w = (word_of_nat (min (aw_uptime w) (2 ^ 64 - 1)), w\<lparr>aw_uptime := Suc (aw_uptime w)\<rparr>)"
  "a_wall_ms demo_agent w = (1700000000000, w)"
  by (simp_all add: demo_agent_def)

lemma demo_agent_calls:
  "a_poll demo_agent f ev k w = (PollReady False, w)"
  "a_recv demo_agent f n w = (Ok (take (min n 3) (aw_inbox w)), w\<lparr>aw_inbox := drop (min n 3) (aw_inbox w)\<rparr>)"
  "a_send demo_agent f bs w = (Ok (length bs), w\<lparr>aw_outbox := aw_outbox w @ bs\<rparr>)"
  "a_log demo_agent s w = w" "a_nfc demo_agent s = s"
  "a_new_flag demo_agent w = (0, w\<lparr>aw_cancelled := False\<rparr>)"
  "a_set_flag demo_agent j w = w\<lparr>aw_cancelled := True\<rparr>"
  "a_lock_events demo_agent w = (aw_events w, w)"
  "a_unlock_events demo_agent es w = w\<lparr>aw_events := es\<rparr>"
  "a_isValidSignature demo_agent pk sig m \<longleftrightarrow> sig = pad 64 (pk @ m)"
  "a_sign demo_agent sk m w = (Ok (pad 64 (pad 32 sk @ m)), w)"
  "a_slot_wait demo_agent w = (True, w)" "a_slot_signal demo_agent w = w"
  "a_session_start demo_agent request conf lt w = (0, w\<lparr>aw_session := Some (request, conf, lt)\<rparr>)"
  "a_session_result demo_agent j w = (demo_result (aw_session w), w)"
  "a_session_cancel demo_agent j w = w\<lparr>aw_session := None\<rparr>"
  by (simp_all add: demo_agent_def)

lemma demo_agent_time: "agent_time demo_agent aw_uptime"
proof -
  have "unat (word_of_nat (min n (2 ^ 64 - 1)) :: u64) = min n (2 ^ 64 - 1)" for n
    by (simp add: unat_of_nat min_def)
  then have "min (aw_uptime w) (2 ^ 64 - 1) \<le> unat t \<and> aw_uptime w < aw_uptime w'"
    if "a_uptime_ns demo_agent w = (t, w')" for w t w'
    using that by (auto simp: demo_agent_clock)
  then show ?thesis unfolding agent_time_def by (simp add: demo_agent_def)
qed

lemma demo_lifetime_check:
  assumes "aw_uptime w < 15000000000" and "of_nat (aw_uptime w) < lt_deadline lt"
    and "1700000000000 < lt_expiresAtMs lt" and "\<not> aw_cancelled w" and "aw_inbox w = []"
  shows "lifetime_check demo_agent lt w = (Ok (), w\<lparr>aw_uptime := Suc (aw_uptime w)\<rparr>)"
proof -
  have "min (aw_uptime w) (2 ^ 64 - 1) = aw_uptime w" using assms(1) by simp
  then have "a_uptime_ns demo_agent w = (of_nat (aw_uptime w), w\<lparr>aw_uptime := Suc (aw_uptime w)\<rparr>)"
    by (simp add: demo_agent_clock)
  with assms show ?thesis by (simp add: lifetime_check_Ok demo_agent_def)
qed

lemma demo_session_block:
  assumes "10 < lt_deadline lt" and "1700000000000 < lt_expiresAtMs lt"
  shows "\<exists>w'. session_block demo_agent request conf lt (agent_idle\<lparr>aw_inbox := []\<rparr>) = (Some Approved, w')"
proof -
  have "(of_nat n :: u64) < lt_deadline lt" if "n < 10" for n
    using that assms(1) by (simp add: word_less_nat_alt unat_of_nat)
  then have active: "isActive demo_agent lt w = (True, w\<lparr>aw_uptime := Suc (aw_uptime w)\<rparr>)"
    if "aw_uptime w < 10" "\<not> aw_cancelled w" "aw_inbox w = []" for w
    using that assms(2) unfolding isActive_True by (intro demo_lifetime_check) simp_all
  have owner: "a_run_modal demo_agent t w = (True, w)" "a_can_evaluate demo_agent w = (True, w)"
    "a_evaluate demo_agent t w = (LASuccess, w)" for t w
    by (simp_all add: demo_agent_def)
  show ?thesis
    by (cases conf) (simp_all add: session_block_def showConfirmationAlert_def active owner agent_idle_def)
qed

lemma demo_sessions: "session_table demo_agent (\<lambda>w _. aw_session w)"
proof -
  have "polling_keeps demo_agent (\<lambda>w (_ :: nat). aw_session w)"
    unfolding polling_keeps_def by (simp add: demo_agent_def)
  moreover have "\<exists>u u'. session_block demo_agent request conf lt u = (Some d, u')"
    if "a_session_result demo_agent k w = (Some d, w')" "aw_session w = Some (request, conf, lt)"
    for k w d w' request conf lt
    using that demo_session_block [of lt request conf]
    by (auto simp: demo_agent_def demo_result_def split: if_splits)
  ultimately show ?thesis
    unfolding session_table_def by (auto simp: demo_agent_def)
qed

lemma demo_cryptokit: "cryptokit_signs demo_agent demo_lib"
  by (simp add: cryptokit_signs_def demo_agent_def demo_lib_def ED25519_SIGNATURE_LEN_def)

section \<open>One request\<close>

lemma demo_deadline_check:
  assumes "aw_uptime w < 15000000000" and "of_nat (aw_uptime w) < d"
  shows "deadline_check demo_agent d w = (Ok (), w\<lparr>aw_uptime := Suc (aw_uptime w)\<rparr>)"
proof -
  have "min (aw_uptime w) (2 ^ 64 - 1) = aw_uptime w" using assms(1) by simp
  with assms(2) show ?thesis by (simp add: deadline_check_Ok demo_agent_clock)
qed

lemma demo_wait:
  assumes "aw_uptime w < 1000" and "1003 < d"
  shows "waitForSocket demo_agent fd ev d w = Some (Ok (), w\<lparr>aw_uptime := aw_uptime w + 3\<rparr>)"
proof -
  have lt: "(of_nat n :: u64) < d" if "n \<le> 1003" for n
    using that assms(2) by (simp add: word_less_nat_alt unat_of_nat)
  have "\<exists>ms. remainingMilliseconds demo_agent d v = (ms, v\<lparr>aw_uptime := Suc (aw_uptime v)\<rparr>)" for v
    by (simp add: remainingMilliseconds_def demo_agent_clock)
  from this [of "w\<lparr>aw_uptime := Suc (aw_uptime w)\<rparr>"] obtain ms where ms: "remainingMilliseconds demo_agent d (w\<lparr>aw_uptime := Suc (aw_uptime w)\<rparr>) =
      (ms, w\<lparr>aw_uptime := aw_uptime w + 2\<rparr>)" by auto
  have check: "deadline_check demo_agent d v = (Ok (), v\<lparr>aw_uptime := Suc (aw_uptime v)\<rparr>)"
    if "aw_uptime v \<le> 1003" for v
    using that lt [of "aw_uptime v"] by (intro demo_deadline_check) simp_all
  show ?thesis
    using assms(1) by (simp add: waitForSocket.simps check ms demo_agent_calls numeral_3_eq_3)
qed

lemma demo_readJSONFrame:
  assumes "1003 < d" and "aw_uptime w < 900"
  shows "readJSONFrame demo_agent demo_decode fd d (w\<lparr>aw_inbox := [0, 0, 0, 1, 1]\<rparr>) =
    Some (Ok demo_swift_request, w\<lparr>aw_uptime := aw_uptime w + 9, aw_inbox := []\<rparr>)"
proof -
  have read: "readExactly demo_agent fd d got n v =
      (if n = 0 then Some (Ok got, v)
       else if aw_inbox v = [] then Some (Err (AgentIo ''unexpected EOF''), v\<lparr>aw_uptime := aw_uptime v + 3\<rparr>)
       else readExactly demo_agent fd d (got @ take (min n 3) (aw_inbox v)) (n - min (length (aw_inbox v)) (min n 3))
         (v\<lparr>aw_uptime := aw_uptime v + 3, aw_inbox := drop (min n 3) (aw_inbox v)\<rparr>))"
    if "aw_uptime v < 1000" for got n v
    using that assms(1)
    by (subst readExactly.simps) (auto simp: demo_wait agent_recv_def demo_agent_calls)
  show ?thesis
    using assms(2) by (simp add: readJSONFrame_def read maxFrameLength_def demo_decode_def Let_def)
qed

definition demo_lifetime :: lifetime where
  "demo_lifetime = \<lparr>lt_fd = 7, lt_expiresAtMs = 1700000015000, lt_deadline = 15000000000, lt_flag = 0\<rparr>"

lemma demo_verifyRequest:
  "verifyRequest demo_agent demo_swift_request host_secret 30000 w = (Ok (), w)"
proof -
  have "pad 32 host_secret = host_secret" by (simp add: pad_def host_secret_def)
  then show ?thesis
    using demo_request_canonical
    by (auto simp: verifyRequest_Ok demo_swift_request_def demo_agent_calls demo_agent_clock
        demo_signed_request_def verifyFreshness_Ok)
      (simp_all add: to_swift_request_def demo_request_def)
qed

lemma demo_accept_request:
  "accept_request demo_agent demo_decode demo_runtime 7 15000000000 agent_idle =
    Some (Ok (to_swift_request demo_request, demo_lifetime), agent_idle\<lparr>aw_uptime := 11, aw_inbox := []\<rparr>)"
proof -
  have "capped demo_agent 15000000000 2000 agent_idle = (2000000000, agent_idle\<lparr>aw_uptime := 1\<rparr>)"
    by (simp add: capped_def deadline_init_def demo_agent_clock Let_def agent_idle_def)
  moreover have "req_linuxHostId (to_swift_request demo_request) = ''host-abc''"
    "req_expiresAtMs (to_swift_request demo_request) = 1700000015000"
    by (simp_all add: to_swift_request_def demo_request_def)
  moreover have "host_verifier demo_agent demo_runtime ''host-abc'' =
      Some \<lparr>hv_hostId = ''host-abc'', hv_publicKey = host_secret\<rparr>"
    by (simp add: host_verifier_def demo_runtime_def demo_agent_calls)
  moreover have "sreq_body demo_swift_request = to_swift_request demo_request"
    "rt_allowedFutureSkewMs demo_runtime = 30000"
    by (simp_all add: demo_swift_request_def demo_runtime_def)
  moreover have "readJSONFrame demo_agent demo_decode 7 2000000000 (agent_idle\<lparr>aw_uptime := 1\<rparr>) =
      Some (Ok demo_swift_request, agent_idle\<lparr>aw_uptime := 10, aw_inbox := []\<rparr>)"
    using demo_readJSONFrame [of 2000000000 "agent_idle\<lparr>aw_uptime := 1\<rparr>"] by (simp add: agent_idle_def)
  moreover have "lifetime_init demo_agent 7 1700000015000 15000000000 (agent_idle\<lparr>aw_uptime := 10, aw_inbox := []\<rparr>) =
      (demo_lifetime, agent_idle\<lparr>aw_uptime := 11, aw_inbox := []\<rparr>)"
    by (simp add: lifetime_init_def capped_def deadline_init_def demo_agent_clock demo_agent_calls
        Let_def demo_lifetime_def agent_idle_def)
  ultimately show ?thesis
    by (simp add: accept_request_def demo_verifyRequest del: One_nat_def)
qed

text \<open>The response is the one that the helper of \<open>Demo_Run\<close> receives.\<close>

lemma demo_signed_response:
  "\<exists>resp. of_swift_signed_response resp = demo_response Approved \<and>
    (\<forall>w. signed_response demo_lib demo_agent agent_secret ''agent-key-1'' (to_swift_request demo_request)
      Approved BiometricOrWatch w = (Ok resp, w))"
proof -
  have c: "swift_request_canonicalBytes (to_swift_request demo_request) = Ok (request_fields demo_request)"
    using demo_request_canonical by (simp add: swift_request_canonical) (simp add: to_swift_request_def)
  have "length (sha256_digest demo_lib (request_fields demo_request)) = 32" by (simp add: demo_lib_def)
  moreover have "1700000000000 < req_expiresAtMs (to_swift_request demo_request)"
    by (simp add: to_swift_request_def demo_request_def)
  ultimately have "\<exists>resp w'. signed_response demo_lib demo_agent agent_secret ''agent-key-1''
      (to_swift_request demo_request) Approved BiometricOrWatch agent_idle = (Ok resp, w')"
    by (intro signed_response_returns [OF c]) (auto simp: demo_agent_clock demo_agent_calls fits_def)
  then obtain resp w' where resp: "signed_response demo_lib demo_agent agent_secret ''agent-key-1''
      (to_swift_request demo_request) Approved BiometricOrWatch agent_idle = (Ok resp, w')" by blast
  then obtain now v m where n: "a_wall_ms demo_agent agent_idle = (now, v)"
    and e: "unat (resp_expiresAtMs (sresp_body resp)) =
      min (unat now + 10000) (unat (req_expiresAtMs (to_swift_request demo_request)))"
    and f: "for_request demo_lib (of_swift_request (to_swift_request demo_request)) Approved BiometricOrWatch now
      (resp_expiresAtMs (sresp_body resp)) ''agent-key-1'' = Ok (of_swift_response (sresp_body resp))"
    and m: "response_canonical_bytes (of_swift_response (sresp_body resp)) = Ok m"
    and s: "a_sign demo_agent agent_secret m v = (Ok (sresp_signature resp), w')" by (rule signed_response_Ok)
  have now: "now = 1700000000000" using n by (simp add: demo_agent_clock)
  have "resp_expiresAtMs (sresp_body resp) = 1700000010000"
    using e by (intro word_unat_eq_iff [THEN iffD2]) (simp add: now to_swift_request_def demo_request_def)
  with f m s have "demo_reply Approved = Ok (of_swift_signed_response resp)"
    by (simp add: demo_reply_def now response_sign_def of_swift_signed_response_def)
      (simp add: demo_agent_calls demo_lib_def)
  then have "of_swift_signed_response resp = demo_response Approved" by (simp add: demo_response_def)
  moreover have "signed_response demo_lib demo_agent agent_secret ''agent-key-1''
      (to_swift_request demo_request) Approved BiometricOrWatch w = (Ok resp, w)" for w
    using resp by (auto simp: signed_response_def demo_agent_clock demo_agent_calls result_simps)
  ultimately show ?thesis by blast
qed

lemma demo_active:
  assumes "aw_uptime w < 1000" and "\<not> aw_cancelled w" and "aw_inbox w = []"
  shows "lifetime_check demo_agent demo_lifetime w = (Ok (), w\<lparr>aw_uptime := Suc (aw_uptime w)\<rparr>)"
proof -
  have "(of_nat (aw_uptime w) :: u64) < 15000000000"
    using assms(1) by (simp add: word_less_nat_alt unat_of_nat)
  with assms show ?thesis by (intro demo_lifetime_check) (simp_all add: demo_lifetime_def)
qed

lemma demo_evaluate:
  assumes "aw_uptime w < 900" and "\<not> aw_cancelled w" and "aw_inbox w = []"
  shows "evaluate demo_agent request conf demo_lifetime w =
    Some (Ok \<lparr>ar_decision = Approved\<rparr>, w\<lparr>aw_uptime := aw_uptime w + 2, aw_session := None\<rparr>)"
proof -
  have "demo_result (Some (request, conf, demo_lifetime)) = Some Approved"
    by (simp add: demo_result_def demo_lifetime_def)
  with assms show ?thesis
    by (simp add: evaluate_def evaluate_session_def slot_loop.simps result_loop.simps demo_agent_calls demo_active)
qed

lemma demo_prepare_response:
  "\<exists>resp w'. of_swift_signed_response resp = demo_response Approved \<and>
    prepare_response demo_lib demo_agent demo_runtime (to_swift_request demo_request) demo_lifetime
      (agent_idle\<lparr>aw_uptime := 11, aw_inbox := []\<rparr>) = Some (Ok resp, w') \<and>
    aw_uptime w' = 15 \<and> \<not> aw_cancelled w' \<and> aw_inbox w' = [] \<and> aw_outbox w' = []"
proof -
  obtain resp where resp: "of_swift_signed_response resp = demo_response Approved"
      "\<And>w. signed_response demo_lib demo_agent agent_secret ''agent-key-1'' (to_swift_request demo_request)
        Approved BiometricOrWatch w = (Ok resp, w)"
    using demo_signed_response by blast
  let ?w = "agent_idle\<lparr>aw_inbox := [], aw_uptime := 12\<rparr>"
  have "\<exists>es. allow demo_agent (limiter_init 60 5) (to_swift_request demo_request) ?w = (True, ?w\<lparr>aw_events := es\<rparr>)"
    by (simp add: allow_def allow_at_def limiter_init_def demo_agent_calls demo_agent_clock agent_idle_def Let_def)
  then obtain es where es: "allow demo_agent (limiter_init 60 5) (to_swift_request demo_request) ?w =
      (True, ?w\<lparr>aw_events := es\<rparr>)" by blast
  have rt: "rt_agentPrivateKey demo_runtime = agent_secret" "rt_agentKeyId demo_runtime = ''agent-key-1''"
    "rt_requireConfirmation demo_runtime" "rt_rateLimiter demo_runtime = limiter_init 60 5"
    by (simp_all add: demo_runtime_def)
  have idle: "\<not> aw_cancelled agent_idle" "aw_outbox agent_idle = []" by (simp_all add: agent_idle_def)
  have "prepare_response demo_lib demo_agent demo_runtime (to_swift_request demo_request) demo_lifetime
      (agent_idle\<lparr>aw_uptime := 11, aw_inbox := []\<rparr>) =
    Some (Ok resp, ?w\<lparr>aw_events := es, aw_uptime := 15, aw_session := None\<rparr>)"
    using es idle
    by (simp add: prepare_response_def authenticate_def logRequestContext_def demo_agent_calls demo_active
        demo_evaluate rt authMethod_def resp(2))
  with resp(1) idle show ?thesis by auto
qed

lemma demo_agent_signs:
  "\<exists>resp. of_swift_signed_response resp = demo_response Approved \<and>
    agent_signs demo_lib demo_agent demo_decode demo_runtime 7 15000000000 agent_idle resp"
  using demo_prepare_response demo_accept_request unfolding agent_signs_def by blast

lemma demo_handle:
  "\<exists>w'. handleServeRequest demo_lib demo_agent demo_decode demo_encode demo_runtime 7 15000000000 agent_idle =
    Some (Ok (), w') \<and> aw_outbox w' = [0, 0, 0, 1, 1]"
proof -
  obtain resp w' where p: "prepare_response demo_lib demo_agent demo_runtime (to_swift_request demo_request)
      demo_lifetime (agent_idle\<lparr>aw_uptime := 11, aw_inbox := []\<rparr>) = Some (Ok resp, w')"
    and w': "aw_uptime w' = 15" "\<not> aw_cancelled w'" "aw_inbox w' = []" "aw_outbox w' = []"
    using demo_prepare_response by blast
  let ?w = "w'\<lparr>aw_uptime := 16\<rparr>"
  have "waitForSocket demo_agent 7 POLLOUT 15000000000 ?w = Some (Ok (), ?w\<lparr>aw_uptime := 19\<rparr>)"
    using demo_wait [of ?w 15000000000] by simp
  then have "writeJSONFrame demo_agent demo_encode resp 7 15000000000 ?w =
      Some (Ok (), w'\<lparr>aw_uptime := 19, aw_outbox := [0, 0, 0, 1, 1]\<rparr>)"
    using w' by (simp add: writeJSONFrame_def demo_encode_def sendAll.simps agent_send_def
        demo_agent_calls maxFrameLength_def)
  moreover have "lt_deadline demo_lifetime = 15000000000" by (simp add: demo_lifetime_def)
  ultimately show ?thesis
    using w' by (simp add: handleServeRequest_def demo_accept_request p demo_active lifetime_cancel_def demo_agent_calls)
qed

end
