(* ===== verification/Agent_Server.thy ===== *)
theory Agent_Server
  imports Agent_Serve
begin

text \<open>
  The server of the macOS agent (\<open>ConnectionPool\<close> and \<open>runSocketServer\<close> of \<open>Transport.swift\<close>) with the
  slot of the \<open>AuthenticationCoordinator\<close>: one thread accepts connections, the pool runs the handler of
  each on its own thread, at most eight at a time, and the handlers share one authentication slot.
  \<open>server_step\<close> is one step of one of these threads; their steps interleave in any order.
\<close>

section \<open>Semaphores\<close>

text \<open>
  The contract of a \<open>DispatchSemaphore\<close> whose waits and signals are paired by holders: a step of the
  program leaves it alone, or takes a unit for a new holder, or gives the unit of a holder back.
\<close>

locale semaphore =
  fixes step :: "'s \<Rightarrow> 's \<Rightarrow> bool" and units :: "'s \<Rightarrow> nat" and holds :: "'s \<Rightarrow> 'h set"
  assumes steps: "step s s' \<Longrightarrow>
      units s' = units s \<and> holds s' = holds s \<or>
      (\<exists>h. 0 < units s \<and> h \<notin> holds s \<and> units s' = units s - 1 \<and> holds s' = insert h (holds s)) \<or>
      (\<exists>h. h \<in> holds s \<and> units s' = units s + 1 \<and> holds s' = holds s - {h})"
begin

lemma conserved:
  assumes "step\<^sup>*\<^sup>* s s'" and "finite (holds s)"
  shows "finite (holds s') \<and> units s' + card (holds s') = units s + card (holds s)"
  using assms(1)
proof induction
  case base
  then show ?case using assms(2) by simp
next
  case (step x y)
  from steps [OF step.hyps(2)] show ?case
  proof (elim disjE exE conjE)
    fix h assume h: "h \<in> holds x" and y: "units y = units x + 1" "holds y = holds x - {h}"
    have "card (holds y) = card (holds x) - 1" using h by (simp add: y)
    moreover have "0 < card (holds x)" using h step.IH by (metis card_gt_0_iff empty_iff)
    ultimately show ?thesis using y step.IH by (metis Suc_diff_1 Suc_eq_plus1 add_Suc_shift finite_Diff)
  qed (use step.IH in auto)
qed

lemma limited:
  assumes "step\<^sup>*\<^sup>* s s'" and "holds s = {}"
  shows "finite (holds s') \<and> card (holds s') \<le> units s"
  using conserved [OF assms(1)] assms(2) by simp

end

section \<open>The server\<close>

text \<open>
  A connection is not yet accepted, closed at once for want of a slot in the pool, in its handler
  (before or after it asks the owner), waiting for the owner, or done.
\<close>

datatype connection = Unseen | Refused | Handling | Evaluating | Answering | Finished

text \<open>The accepting thread is in its loop or has left it.\<close>

record server =
  sv_once :: bool
  sv_accepting :: bool
  sv_pool :: nat
  sv_slot :: nat
  sv_connections :: "nat \<Rightarrow> connection"
  sv_completion :: "(unit, AgentError) result option"

definition server_start :: "bool \<Rightarrow> server" where
  "server_start once = \<lparr>sv_once = once, sv_accepting = True, sv_pool = 8, sv_slot = 1,
    sv_connections = (\<lambda>_. Unseen), sv_completion = None\<rparr>"

text \<open>\<open>ConnectionPool.submit\<close>: whether a unit was free, and the units after.\<close>

definition submit :: "nat \<Rightarrow> bool \<times> nat" where
  "submit slots = (if slots = 0 then (False, slots) else (True, slots - 1))"

text \<open>One round of the accepting loop, on connection \<open>i\<close>.\<close>

definition accepted_connection :: "nat \<Rightarrow> server \<Rightarrow> server" where
  "accepted_connection i s =
    (case submit (sv_pool s) of (free, slots) \<Rightarrow>
      s\<lparr>sv_accepting := \<not> sv_once s, sv_pool := slots,
        sv_connections := (sv_connections s)(i := if free then Handling else Refused)\<rparr>)"

text \<open>The end of the work of a connection: the handle is closed, and the unit of the pool given back.\<close>

definition finished_connection :: "nat \<Rightarrow> server \<Rightarrow> server" where
  "finished_connection i s =
    s\<lparr>sv_pool := sv_pool s + 1, sv_connections := (sv_connections s)(i := Finished),
      sv_completion := (if sv_once s then complete (Ok ()) (sv_completion s) else sv_completion s)\<rparr>"

inductive server_step :: "server \<Rightarrow> server \<Rightarrow> bool" where
  accepts: "\<lbrakk> sv_accepting s; sv_connections s i = Unseen \<rbrakk> \<Longrightarrow> server_step s (accepted_connection i s)"
| accept_fails: "sv_accepting s \<Longrightarrow>
    server_step s (s\<lparr>sv_accepting := False, sv_completion := complete (Err e) (sv_completion s)\<rparr>)"
| takes_slot: "\<lbrakk> sv_connections s i = Handling; 0 < sv_slot s \<rbrakk> \<Longrightarrow>
    server_step s (s\<lparr>sv_slot := sv_slot s - 1, sv_connections := (sv_connections s)(i := Evaluating)\<rparr>)"
| leaves_slot: "sv_connections s i = Evaluating \<Longrightarrow>
    server_step s (s\<lparr>sv_slot := sv_slot s + 1, sv_connections := (sv_connections s)(i := Answering)\<rparr>)"
| handled: "sv_connections s i \<in> {Handling, Answering} \<Longrightarrow> server_step s (finished_connection i s)"

text \<open>
  \<open>runSocketServer\<close> returns the first completion. The connections that hold a unit of the pool and of
  the slot:
\<close>

definition active :: "server \<Rightarrow> nat set" where
  "active s = {i. sv_connections s i \<in> {Handling, Evaluating, Answering}}"

definition evaluating :: "server \<Rightarrow> nat set" where
  "evaluating s = {i. sv_connections s i = Evaluating}"

lemma sets_other [simp]:
  "active (s\<lparr>sv_accepting := a\<rparr>) = active s" "active (s\<lparr>sv_pool := n\<rparr>) = active s"
  "active (s\<lparr>sv_slot := n\<rparr>) = active s" "active (s\<lparr>sv_completion := c\<rparr>) = active s"
  "evaluating (s\<lparr>sv_accepting := a\<rparr>) = evaluating s" "evaluating (s\<lparr>sv_pool := n\<rparr>) = evaluating s"
  "evaluating (s\<lparr>sv_slot := n\<rparr>) = evaluating s" "evaluating (s\<lparr>sv_completion := c\<rparr>) = evaluating s"
  by (simp_all add: active_def evaluating_def)

lemma in_active: "i \<in> active s \<longleftrightarrow> sv_connections s i \<in> {Handling, Evaluating, Answering}"
  by (simp add: active_def)

lemma active_change:
  "server_step s s' \<Longrightarrow>
    sv_pool s' = sv_pool s \<and> active s' = active s \<or>
    (\<exists>h. 0 < sv_pool s \<and> h \<notin> active s \<and> sv_pool s' = sv_pool s - 1 \<and> active s' = insert h (active s)) \<or>
    (\<exists>h. h \<in> active s \<and> sv_pool s' = sv_pool s + 1 \<and> active s' = active s - {h})"
proof (induction rule: server_step.induct)
  case (accepts s i)
  then have "i \<notin> active s" by (simp add: in_active)
  then show ?case
    by (cases "sv_pool s = 0")
      (auto simp: accepted_connection_def submit_def active_def fun_upd_def)
next
  case (takes_slot s i)
  then have "active (s\<lparr>sv_slot := sv_slot s - 1, sv_connections := (sv_connections s)(i := Evaluating)\<rparr>) = active s"
    by (auto simp: active_def)
  then show ?case by simp
next
  case (leaves_slot s i)
  then have "active (s\<lparr>sv_slot := sv_slot s + 1, sv_connections := (sv_connections s)(i := Answering)\<rparr>) = active s"
    by (auto simp: active_def)
  then show ?case by simp
next
  case (handled s i)
  then have "i \<in> active s \<and> active (finished_connection i s) = active s - {i}"
    by (auto simp: finished_connection_def active_def)
  then show ?case by (auto simp: finished_connection_def)
qed simp

lemma evaluating_change:
  "server_step s s' \<Longrightarrow>
    sv_slot s' = sv_slot s \<and> evaluating s' = evaluating s \<or>
    (\<exists>h. 0 < sv_slot s \<and> h \<notin> evaluating s \<and> sv_slot s' = sv_slot s - 1 \<and> evaluating s' = insert h (evaluating s)) \<or>
    (\<exists>h. h \<in> evaluating s \<and> sv_slot s' = sv_slot s + 1 \<and> evaluating s' = evaluating s - {h})"
proof (induction rule: server_step.induct)
  case (accepts s i)
  then have "evaluating (accepted_connection i s) = evaluating s"
    by (auto simp: accepted_connection_def submit_def evaluating_def)
  then show ?case by (simp add: accepted_connection_def submit_def)
next
  case (takes_slot s i)
  then have "i \<notin> evaluating s \<and>
      evaluating (s\<lparr>sv_slot := sv_slot s - 1, sv_connections := (sv_connections s)(i := Evaluating)\<rparr>) = insert i (evaluating s)"
    by (auto simp: evaluating_def)
  with takes_slot show ?case by auto
next
  case (leaves_slot s i)
  then have "i \<in> evaluating s \<and>
      evaluating (s\<lparr>sv_slot := sv_slot s + 1, sv_connections := (sv_connections s)(i := Answering)\<rparr>) = evaluating s - {i}"
    by (auto simp: evaluating_def)
  then show ?case by auto
next
  case (handled s i)
  then have "evaluating (finished_connection i s) = evaluating s"
    by (auto simp: finished_connection_def evaluating_def)
  then show ?case by (simp add: finished_connection_def)
qed simp

interpretation pool: semaphore server_step sv_pool active
  by unfold_locales (rule active_change)

interpretation slot: semaphore server_step sv_slot evaluating
  by unfold_locales (rule evaluating_change)

section \<open>Invariants\<close>

definition server_inv :: "bool \<Rightarrow> server \<Rightarrow> bool" where
  "server_inv once s \<longleftrightarrow> sv_once s = once \<and>
    sv_pool s + card (active s) = 8 \<and> finite (active s) \<and>
    sv_slot s + card (evaluating s) = 1 \<and> finite (evaluating s) \<and>
    (once \<and> sv_accepting s \<longrightarrow> (\<forall>i. sv_connections s i = Unseen)) \<and>
    (once \<longrightarrow> (\<forall>i. sv_connections s i \<noteq> Refused)) \<and>
    (sv_completion s = Some (Ok ()) \<longrightarrow> once \<and> (\<exists>i. sv_connections s i = Finished))"

lemma server_inv_start: "server_inv once (server_start once)"
  by (simp add: server_inv_def server_start_def active_def evaluating_def)

lemma complete_eq_Ok: "complete v r = Some x \<longleftrightarrow> r = Some x \<or> r = None \<and> v = x"
  by (auto simp: complete_def)

text \<open>The part of the invariant that is not about the semaphores.\<close>

lemma server_step_rest:
  assumes "server_step s s'" and "server_inv once s"
  shows "sv_once s' = once \<and> (once \<and> sv_accepting s' \<longrightarrow> (\<forall>i. sv_connections s' i = Unseen)) \<and>
    (once \<longrightarrow> (\<forall>i. sv_connections s' i \<noteq> Refused)) \<and>
    (sv_completion s' = Some (Ok ()) \<longrightarrow> once \<and> (\<exists>i. sv_connections s' i = Finished))"
  using assms
proof (induction rule: server_step.induct)
  case (accepts s i)
  have "once \<longrightarrow> sv_pool s = 8" using accepts by (auto simp: server_inv_def active_def)
  with accepts show ?case by (auto simp: server_inv_def accepted_connection_def submit_def)
next
  case (takes_slot s i)
  then have "j \<noteq> i" if "sv_connections s j = Finished" for j using that by auto
  with takes_slot show ?case by (auto simp: server_inv_def)
next
  case (leaves_slot s i)
  then have "j \<noteq> i" if "sv_connections s j = Finished" for j using that by auto
  with leaves_slot show ?case by (auto simp: server_inv_def)
next
  case (handled s i)
  then show ?case by (auto simp: server_inv_def finished_connection_def complete_eq_Ok)
qed (auto simp: server_inv_def complete_eq_Ok)

lemma server_inv_step:
  assumes "server_step s s'" and "server_inv once s"
  shows "server_inv once s'"
proof -
  have step: "server_step\<^sup>*\<^sup>* s s'" using assms(1) by (rule r_into_rtranclp)
  show ?thesis
    using assms(2) pool.conserved [OF step] slot.conserved [OF step] server_step_rest [OF assms]
    by (simp add: server_inv_def)
qed

lemma server_reachable: "server_step\<^sup>*\<^sup>* (server_start once) s \<Longrightarrow> server_inv once s"
  by (induction rule: rtranclp_induct) (auto intro: server_inv_start server_inv_step)

lemma completion_stays:
  "server_step\<^sup>*\<^sup>* s s' \<Longrightarrow> sv_completion s = Some r \<Longrightarrow> sv_completion s' = Some r"
proof (induction rule: rtranclp_induct)
  case (step x y)
  from step.hyps(2) step.IH [OF step.prems] show ?case
    by (induction rule: server_step.induct)
      (auto simp: accepted_connection_def submit_def finished_connection_def complete_def)
qed

text \<open>A connection is refused exactly when eight are active.\<close>

lemma refused_when_full:
  assumes "server_inv once s"
  shows "sv_connections (accepted_connection i s) i = Refused \<longleftrightarrow> card (active s) = 8"
  using assms by (auto simp: server_inv_def accepted_connection_def submit_def)

end
