(* ===== verification/Agent_Props.thy ===== *)
theory Agent_Props
  imports Agent_Demo Agent_Server
begin

text \<open>
  The properties of the macOS agent and of its messages, with their witnesses on the concrete agent
  of \<open>Agent_Demo\<close>.
\<close>

section \<open>Approvals\<close>



text \<open>
  C6. Helper and agent agree. When the handler has served a connection, it read and verified a
  request and wrote the frame of a response that the helper accepts for that request under the
  agent's public key, that is fresh from its creation to its expiry, and that expires with the
  request or ten seconds after its creation, whichever is first; directly before the frame was
  written, the request was found active.
\<close>

theorem agent_answer_accepted:
  assumes "handleServeRequest C A decode encode rt fd d w = Some (Ok (), w')"
    and "ed25519_correct C" and "cryptokit_signs A C"
  shows "\<exists>signed resp lt v v1 v2. request_verified A rt signed \<and>
    lifetime_check A lt v = (Ok (), v1) \<and> lt_expiresAtMs lt = req_expiresAtMs (sreq_body signed) \<and>
    writeJSONFrame A encode resp fd (lt_deadline lt) v1 = Some (Ok (), v2) \<and>
    verify_for_request C (of_swift_signed_response resp) (of_swift_request (sreq_body signed))
      (ed25519_public C (rt_agentPrivateKey rt)) = Ok () \<and>
    unat (resp_expiresAtMs (sresp_body resp)) =
      min (unat (resp_createdAtMs (sresp_body resp)) + 10000) (unat (req_expiresAtMs (sreq_body signed))) \<and>
    (\<forall>now skew. resp_createdAtMs (sresp_body resp) \<le> now \<and> now \<le> resp_expiresAtMs (sresp_body resp) \<longrightarrow>
      response_verify_freshness (of_swift_response (sresp_body resp)) now skew = Ok ())"
proof -
  from assms(1) obtain request lt w1 resp w2 w3 w4
    where accept: "accept_request A decode rt fd d w = Some (Ok (request, lt), w1)"
      and prepare: "prepare_response C A rt request lt w1 = Some (Ok resp, w2)"
      and check: "lifetime_check A lt w2 = (Ok (), w3)"
      and frame: "writeJSONFrame A encode resp fd (lt_deadline lt) w3 = Some (Ok (), w4)"
    by (rule handleServeRequest_Ok)
  from accept obtain signed v2 where signed: "sreq_body signed = request" "request_verified A rt signed"
    and lt: "lifetime_init A fd (req_expiresAtMs request) d v2 = (lt, w1)" by (rule accept_request_Ok)
  from prepare obtain res u where sign: "signed_response C A (rt_agentPrivateKey rt) (rt_agentKeyId rt) request
      (ar_decision res) (authMethod res) u = (Ok resp, w2)" by (rule prepare_response_Ok)
  then have "unat (resp_expiresAtMs (sresp_body resp)) =
      min (unat (resp_createdAtMs (sresp_body resp)) + 10000) (unat (req_expiresAtMs request))"
    by (rule signed_response_Ok) simp
  with signed signed_response_accepted [OF sign assms(2,3)] check frame lifetime_init_eq(2) [OF lt]
  show ?thesis by blast
qed

theorem agent_answer_accepted_witness:
  "\<exists>resp signed. request_verified demo_agent demo_runtime signed \<and>
    verify_for_request demo_lib (of_swift_signed_response resp) (of_swift_request (sreq_body signed))
      (ed25519_public demo_lib agent_secret) = Ok ()"
proof -
  obtain w' where "handleServeRequest demo_lib demo_agent demo_decode demo_encode demo_runtime 7
      15000000000 agent_idle = Some (Ok (), w')" using demo_handle by blast
  moreover have "rt_agentPrivateKey demo_runtime = agent_secret" by (simp add: demo_runtime_def)
  ultimately show ?thesis using agent_answer_accepted [OF _ demo_lib_crypto demo_cryptokit] by metis
qed

text \<open>
  C35. Every response that the agent signs is well formed: it passes validation in both programs and
  has canonical bytes, over which its signature was made with the agent's key, it has no error
  fields, and it names a method exactly when it approves.
\<close>

theorem agent_responses_well_formed:
  assumes "agent_signs C A decode rt fd d w resp"
  shows "\<exists>m v v'. swift_response_canonicalBytes (sresp_body resp) = Ok m \<and>
    response_canonical_bytes (of_swift_response (sresp_body resp)) = Ok m \<and>
    a_sign A (rt_agentPrivateKey rt) m v = (Ok (sresp_signature resp), v') \<and>
    resp_agentKeyId (sresp_body resp) = rt_agentKeyId rt \<and>
    resp_errorCode (sresp_body resp) = None \<and> resp_errorMessage (sresp_body resp) = None \<and>
    resp_authMethod (sresp_body resp) =
      (if resp_decision (sresp_body resp) = Approved then BiometricOrWatch else NoMethod)"
proof -
  from assms obtain request lt w1 w2 where "prepare_response C A rt request lt w1 = Some (Ok resp, w2)"
    unfolding agent_signs_def by blast
  then obtain res u where sign: "signed_response C A (rt_agentPrivateKey rt) (rt_agentKeyId rt) request
      (ar_decision res) (authMethod res) u = (Ok resp, w2)" by (rule prepare_response_Ok)
  then show ?thesis
  proof (rule signed_response_steps)
    fix now v m
    assume f: "forRequest C request (ar_decision res) (authMethod res) now (rt_agentKeyId rt) = Ok (sresp_body resp)"
      and m: "swift_response_canonicalBytes (sresp_body resp) = Ok m"
      and g: "a_sign A (rt_agentPrivateKey rt) m v = (Ok (sresp_signature resp), w2)"
    from m g forRequest_plain [OF f] forRequest_Ok(5,6) [OF f] show ?thesis
      by (simp add: swift_response_canonical authMethod_def) blast
  qed
qed

theorem agent_responses_well_formed_witness:
  "\<exists>resp m. of_swift_signed_response resp = demo_response Approved \<and>
    swift_response_canonicalBytes (sresp_body resp) = Ok m"
proof -
  obtain resp where r: "of_swift_signed_response resp = demo_response Approved"
    and s: "agent_signs demo_lib demo_agent demo_decode demo_runtime 7 15000000000 agent_idle resp"
    using demo_agent_signs by blast
  from agent_responses_well_formed [OF s] r show ?thesis by blast
qed

section \<open>Refusals\<close>

text \<open>
  C24. A request of a host that is not allowed, with a signature that does not verify under the
  host's key, or outside its validity window ends the connection with an error: nothing is logged,
  asked of the owner, signed or sent after the verdict.
\<close>

theorem agent_refuses_bad_requests:
  assumes "capped A d 2000 w = (d', w0)" and "readJSONFrame A decode fd d' w0 = Some (Ok request, w1)"
    and "a_wall_ms A w1 = (now, w2)"
    and "\<not> (\<exists>verifier m. host_verifier A rt (req_linuxHostId (sreq_body request)) = Some verifier \<and>
      request_canonical_bytes (of_swift_request (sreq_body request)) = Ok m \<and>
      a_isValidSignature A (hv_publicKey verifier) (sreq_signature request) m \<and>
      now < req_expiresAtMs (sreq_body request) \<and>
      unat (req_createdAtMs (sreq_body request)) \<le> unat now + unat (rt_allowedFutureSkewMs rt))"
  shows "\<exists>e v. handleServeRequest C A decode encode rt fd d w = Some (Err e, v) \<and> v \<in> {w1, w2} \<and>
    (e = InvalidSignature \<or> (\<exists>msg. e = InvalidPayload msg))"
proof (cases "host_verifier A rt (req_linuxHostId (sreq_body request))")
  case None
  with assms(1,2) show ?thesis by (simp add: handleServeRequest_def accept_request_def)
next
  case (Some verifier)
  obtain r v where r: "verifyRequest A request (hv_publicKey verifier) (rt_allowedFutureSkewMs rt) w1 = (r, v)"
    by fastforce
  with assms(3,4) Some have "r \<noteq> Inr ()" by (auto simp: verifyRequest_Ok verifyFreshness_Ok)
  then obtain e where e: "r = Inl e" by (cases r) auto
  have "v \<in> {w1, w2} \<and> (e = InvalidSignature \<or> (\<exists>msg. e = InvalidPayload msg))"
    using r e assms(3) swift_request_errors [of "sreq_body request"]
    by (auto simp: verifyRequest_def verifyFreshness_def result_simps split: if_splits)
  with assms(1,2) Some r e show ?thesis by (simp add: handleServeRequest_def accept_request_def)
qed

lemma demo_foreign_host:
  "host_verifier demo_agent (demo_runtime\<lparr>rt_hostVerifiers := Map.empty\<rparr>) h = None"
  by (simp add: host_verifier_def)

theorem agent_refuses_bad_requests_witness:
  "\<exists>e v. handleServeRequest demo_lib demo_agent demo_decode demo_encode
      (demo_runtime\<lparr>rt_hostVerifiers := Map.empty\<rparr>) 7 15000000000 agent_idle = Some (Err e, v) \<and>
    (e = InvalidSignature \<or> (\<exists>msg. e = InvalidPayload msg))"
proof -
  have "capped demo_agent 15000000000 2000 agent_idle = (2000000000, agent_idle\<lparr>aw_uptime := 1\<rparr>)"
    by (simp add: capped_def deadline_init_def demo_agent_clock Let_def agent_idle_def)
  moreover have "readJSONFrame demo_agent demo_decode 7 2000000000 (agent_idle\<lparr>aw_uptime := 1\<rparr>) =
      Some (Ok demo_swift_request, agent_idle\<lparr>aw_uptime := 10, aw_inbox := []\<rparr>)"
    using demo_readJSONFrame [of 2000000000 "agent_idle\<lparr>aw_uptime := 1\<rparr>"] by (simp add: agent_idle_def)
  ultimately show ?thesis
    using agent_refuses_bad_requests [OF _ _ demo_agent_clock(2),
        where rt = "demo_runtime\<lparr>rt_hostVerifiers := Map.empty\<rparr>" and C = demo_lib and encode = demo_encode]
    by (simp add: demo_foreign_host) blast
qed

text \<open>
  C22. The rate limit holds. In every history of the limiter whose clock does not go back, each
  window of the configured length, limited to 64 bits, has at most the configured number of
  admitted requests of one key, which all requests of one host, service and user share.
\<close>

theorem rate_limit_holds:
  assumes "0 < m" and "sorted (map snd calls)"
  shows "int (admitted_in (limiter_init seconds m) calls (\<lambda>_. []) key t) \<le> m \<and>
    unat (windowMs (limiter_init seconds m)) = min (unat seconds * 1000) (2 ^ 64 - 1)"
  using admitted_bound [of calls "\<lambda>_. []" key "limiter_init seconds m" t] assms
  by (simp add: events_in_def limiter_init_def saturatingMilliseconds_spec)

theorem rate_limit_holds_witness:
  "int (admitted_in (limiter_init 60 2) [(''k'', 1), (''k'', 2), (''j'', 3), (''k'', 4), (''k'', 60002)]
      (\<lambda>_. []) ''k'' 1) \<le> 2 \<and>
    limiter_run (limiter_init 60 2) [(''k'', 1), (''k'', 2), (''j'', 3), (''k'', 4), (''k'', 60002)] (\<lambda>_. []) =
      [True, True, True, False, True]"
  using rate_limit_holds [of 2 "[(''k'', 1), (''k'', 2), (''j'', 3), (''k'', 4), (''k'', 60002)]" 60 "''k''" 1]
  by (simp add: limiter_init_def saturatingMilliseconds_def allow_at_def Let_def word_le_nat_alt)

section \<open>The server\<close>

text \<open>
  C23. The server limits its work. However the steps of its threads interleave, at most eight
  connections are being handled and at most one of them asks the owner; a further connection is
  refused exactly when eight are active; a server for one connection refuses none and ends with
  success only after one was handled, a permanent server ends only with an error; and the first
  result stays.
\<close>

theorem server_limits_work:
  assumes "server_step\<^sup>*\<^sup>* (server_start once) s"
  shows "finite (active s) \<and> card (active s) \<le> 8 \<and> card (evaluating s) \<le> 1 \<and>
    (sv_connections (accepted_connection i s) i = Refused \<longleftrightarrow> card (active s) = 8) \<and>
    (once \<longrightarrow> sv_connections s i \<noteq> Refused) \<and>
    (sv_completion s = Some (Ok ()) \<longrightarrow> once \<and> (\<exists>j. sv_connections s j = Finished)) \<and>
    (\<forall>s' r. server_step\<^sup>*\<^sup>* s s' \<and> sv_completion s = Some r \<longrightarrow> sv_completion s' = Some r)"
proof -
  have inv: "server_inv once s" using assms by (rule server_reachable)
  then have "finite (active s) \<and> card (active s) \<le> 8 \<and> card (evaluating s) \<le> 1"
    by (auto simp: server_inv_def)
  moreover have "(once \<longrightarrow> sv_connections s i \<noteq> Refused) \<and>
      (sv_completion s = Some (Ok ()) \<longrightarrow> once \<and> (\<exists>j. sv_connections s j = Finished))"
    using inv by (simp add: server_inv_def)
  ultimately show ?thesis using refused_when_full [OF inv] completion_stays by blast
qed

theorem server_limits_work_witness:
  "\<exists>s. server_step\<^sup>*\<^sup>* (server_start False) s \<and> sv_connections s 0 = Evaluating \<and> sv_connections s 1 = Handling \<and>
    card (evaluating s) \<le> 1"
proof -
  let ?s1 = "accepted_connection 0 (server_start False)"
  let ?s2 = "accepted_connection 1 ?s1"
  let ?s3 = "?s2\<lparr>sv_slot := sv_slot ?s2 - 1, sv_connections := (sv_connections ?s2)(0 := Evaluating)\<rparr>"
  note run = accepted_connection_def submit_def server_start_def
  have "server_step (server_start False) ?s1" by (rule accepts) (simp_all add: run)
  moreover have "server_step ?s1 ?s2" by (rule accepts) (simp_all add: run)
  moreover have "server_step ?s2 ?s3" by (rule takes_slot) (simp_all add: run)
  ultimately have reach: "server_step\<^sup>*\<^sup>* (server_start False) ?s3" by (meson converse_rtranclp_into_rtranclp rtranclp.rtrancl_refl)
  moreover have "sv_connections ?s3 0 = Evaluating" "sv_connections ?s3 1 = Handling" by (simp_all add: run)
  ultimately show ?thesis using server_limits_work [OF reach] by blast
qed

section \<open>The two programs\<close>

text \<open>
  C21. The same bytes are signed in both programs: the Swift and the Rust encoder succeed on the same
  messages with a supported algorithm, with the same bytes, for requests and for responses, and the
  digest that binds a response to its request is the same.
\<close>

theorem canonical_bytes_agree:
  "(swift_request_canonicalBytes r = Ok b \<longleftrightarrow>
      canonicalAlgorithmName (req_alg r) \<noteq> None \<and> request_canonical_bytes (of_swift_request r) = Ok b) \<and>
   (swift_response_canonicalBytes s = Ok b \<longleftrightarrow>
      canonicalAlgorithmName (resp_alg s) \<noteq> None \<and> response_canonical_bytes (of_swift_response s) = Ok b) \<and>
   (swift_request_sha256 C r = Ok h \<longleftrightarrow>
      canonicalAlgorithmName (req_alg r) \<noteq> None \<and> request_sha256 C (of_swift_request r) = Ok h)"
  by (auto simp: swift_request_canonical swift_response_canonical swift_request_sha256_def
      request_sha256_def result_simps)

text \<open>
  C38. Freshness in both programs: a request or response is fresh for the helper exactly when it has
  not expired and was created no later than now plus the allowed skew, computed without wrap-around;
  the agent takes a request as fresh under the same conditions, except in the millisecond of its
  expiry, where the helper still does.
\<close>

theorem freshness_agrees:
  "(request_verify_freshness (of_swift_request r) now skew = Ok () \<longleftrightarrow>
      now \<le> req_expiresAtMs r \<and> unat (req_createdAtMs r) \<le> unat now + unat skew) \<and>
   (verifyFreshness r now skew = Ok () \<longleftrightarrow>
      now \<noteq> req_expiresAtMs r \<and> request_verify_freshness (of_swift_request r) now skew = Ok ()) \<and>
   (response_verify_freshness s now skew = Ok () \<longleftrightarrow>
      now \<le> rs_expires_at_ms s \<and> unat (rs_created_at_ms s) \<le> unat now + unat skew)"
  by (auto simp: verifyFreshness_request_fresh request_window.fresh_iff response_window.fresh_iff
      of_swift_request_def word_le_nat_alt)

text \<open>
  C27. Frames pass between the two programs: what the helper writes as a frame the agent reads as
  that payload, from a socket that delivers the bytes in any fragments with any interruptions, and
  what the agent writes the helper reads, so that each side applies its decoder to the payload
  that the encoder of the other side produced.
\<close>

theorem frames_interoperate:
  "(write_json_frame to_vec (stream_write S ds) v w = Some (Ok (), w') \<longrightarrow>
     (\<exists>p w1. to_vec v = Ok p \<and> sends (stream_write S ds) (nat_to_be 4 (length p)) w w1 \<and>
       sends (stream_write S ds) p w1 w' \<and>
       (\<forall>u h u1 b u2. receives (agent_reader A fd d) 4 u h u1 \<and>
         receives (agent_reader A fd d) (length p) u1 b u2 \<and> h @ b = nat_to_be 4 (length p) @ p \<longrightarrow>
         readJSONFrame A decode fd d u = Some (map_err Thrown (decode p), u2)))) \<and>
   (writeJSONFrame A encode x fd d y = Some (Ok (), y') \<longrightarrow>
     (\<exists>p. encode x = Ok p \<and> sends (agent_writer A fd d) (nat_to_be 4 (length p) @ p) y y' \<and>
       (\<forall>u h u1 b u2. receives (stream_read S ds) 4 u h u1 \<and>
         receives (stream_read S ds) (length p) u1 b u2 \<and> h @ b = nat_to_be 4 (length p) @ p \<longrightarrow>
         read_json_frame from_slice (stream_read S ds) u = Some (map_err Json (from_slice p), u2))))"
proof (intro conjI impI)
  assume "write_json_frame to_vec (stream_write S ds) v w = Some (Ok (), w')"
  then obtain p w1 where p: "to_vec v = Ok p" "length p \<le> MAX_FRAME_LEN"
    "sends (stream_write S ds) (nat_to_be 4 (length p)) w w1" "sends (stream_write S ds) p w1 w'"
    by (auto simp: deadline_writer.write_json_frame_Ok)
  have "readJSONFrame A decode fd d u = Some (map_err Thrown (decode p), u2)"
    if h: "receives (agent_reader A fd d) 4 u h u1" and b: "receives (agent_reader A fd d) (length p) u1 b u2"
      and eq: "h @ b = nat_to_be 4 (length p) @ p" for u h u1 b u2
    using readJSONFrame_payload [OF h, of b u2] b p(2)
      frame_parts(2,3) [OF agent_reader.receives_length [OF h] eq p(2)] by simp
  with p show "\<exists>p w1. to_vec v = Ok p \<and> sends (stream_write S ds) (nat_to_be 4 (length p)) w w1 \<and>
       sends (stream_write S ds) p w1 w' \<and>
       (\<forall>u h u1 b u2. receives (agent_reader A fd d) 4 u h u1 \<and>
         receives (agent_reader A fd d) (length p) u1 b u2 \<and> h @ b = nat_to_be 4 (length p) @ p \<longrightarrow>
         readJSONFrame A decode fd d u = Some (map_err Thrown (decode p), u2))" by blast
next
  assume "writeJSONFrame A encode x fd d y = Some (Ok (), y')"
  then obtain p where p: "encode x = Ok p" "length p \<le> MAX_FRAME_LEN"
    "sends (agent_writer A fd d) (nat_to_be 4 (length p) @ p) y y'" by (rule writeJSONFrame_Ok)
  have "read_json_frame from_slice (stream_read S ds) u = Some (map_err Json (from_slice p), u2)"
    if h: "receives (stream_read S ds) 4 u h u1" and b: "receives (stream_read S ds) (length p) u1 b u2"
      and eq: "h @ b = nat_to_be 4 (length p) @ p" for u h u1 b u2
    using deadline_reader.read_json_frame_payload [OF h, of b u2] b p(2)
      frame_parts(2,3) [OF deadline_reader.receives_length [OF h] eq p(2)] by simp
  with p show "\<exists>p. encode x = Ok p \<and> sends (agent_writer A fd d) (nat_to_be 4 (length p) @ p) y y' \<and>
       (\<forall>u h u1 b u2. receives (stream_read S ds) 4 u h u1 \<and>
         receives (stream_read S ds) (length p) u1 b u2 \<and> h @ b = nat_to_be 4 (length p) @ p \<longrightarrow>
         read_json_frame from_slice (stream_read S ds) u = Some (map_err Json (from_slice p), u2))" by blast
qed

text \<open>The header of the demonstration frame, in the fragments in which the agent receives it.\<close>

lemma demo_agent_receives:
  "receives (agent_reader demo_agent 7 2000000000) 4 agent_idle [0, 0, 0, 1]
     (agent_idle\<lparr>aw_uptime := 6, aw_inbox := [1]\<rparr>)"
  "receives (agent_reader demo_agent 7 2000000000) 1 (agent_idle\<lparr>aw_uptime := 6, aw_inbox := [1]\<rparr>) [1]
     (agent_idle\<lparr>aw_uptime := 9, aw_inbox := []\<rparr>)"
proof -
  have read: "agent_reader demo_agent 7 2000000000 n w = Some (Ok (take (min n 3) (aw_inbox w)),
      w\<lparr>aw_uptime := aw_uptime w + 3, aw_inbox := drop (min n 3) (aw_inbox w)\<rparr>)"
    if "aw_uptime w < 1000" for n w
    using that by (simp add: agent_reader_def demo_wait agent_recv_def demo_agent_calls min.commute)
  have "read_exact (agent_reader demo_agent 7 2000000000) [] 4 agent_idle =
      Some (Ok [0, 0, 0, 1], agent_idle\<lparr>aw_uptime := 6, aw_inbox := [1]\<rparr>)"
    "read_exact (agent_reader demo_agent 7 2000000000) [] 1 (agent_idle\<lparr>aw_uptime := 6, aw_inbox := [1]\<rparr>) =
      Some (Ok [1], agent_idle\<lparr>aw_uptime := 9, aw_inbox := []\<rparr>)"
    by (simp_all add: read_exact.simps read agent_idle_def)
  then show "receives (agent_reader demo_agent 7 2000000000) 4 agent_idle [0, 0, 0, 1]
     (agent_idle\<lparr>aw_uptime := 6, aw_inbox := [1]\<rparr>)"
    "receives (agent_reader demo_agent 7 2000000000) 1 (agent_idle\<lparr>aw_uptime := 6, aw_inbox := [1]\<rparr>) [1]
     (agent_idle\<lparr>aw_uptime := 9, aw_inbox := []\<rparr>)"
    by (simp_all only: agent_reader.read_exact_iff)
qed

theorem frames_interoperate_witness:
  "readJSONFrame demo_agent demo_decode 7 2000000000 agent_idle =
    Some (Ok demo_swift_request, agent_idle\<lparr>aw_uptime := 9, aw_inbox := []\<rparr>)"
proof -
  let ?L = "delivering_lib (only_reply Approved) (demo_response Approved)"
  have one: "json_of_request ?L demo_signed_request = Ok [1]" by (simp add: delivering_lib_def demo_lib_def)
  obtain p where "json_of_request ?L demo_signed_request = Ok p"
    and all: "\<forall>u h u1 b u2. receives (agent_reader demo_agent 7 2000000000) 4 u h u1 \<and>
         receives (agent_reader demo_agent 7 2000000000) (length p) u1 b u2 \<and>
         h @ b = nat_to_be 4 (length p) @ p \<longrightarrow>
       readJSONFrame demo_agent demo_decode 7 2000000000 u = Some (map_err Thrown (demo_decode p), u2)"
    using frames_interoperate [where A = demo_agent and fd = 7 and d = 2000000000 and decode = demo_decode,
        THEN conjunct1, THEN mp, OF demo_write_frame [of "only_reply Approved" "demo_response Approved"]]
    by (elim exE conjE) (rule that)
  with one have p: "p = [1]" by simp
  have "readJSONFrame demo_agent demo_decode 7 2000000000 agent_idle =
      Some (map_err Thrown (demo_decode p), agent_idle\<lparr>aw_uptime := 9, aw_inbox := []\<rparr>)"
    using demo_agent_receives
    by (intro all [rule_format, of _ "[0, 0, 0, 1]" "agent_idle\<lparr>aw_uptime := 6, aw_inbox := [1]\<rparr>" "[1]"])
      (simp add: p)
  then show ?thesis by (simp add: p demo_decode_def)
qed

section \<open>Time\<close>

text \<open>
  C26. The handlers of the agent return, whatever the peer sends or withholds and whatever the owner
  does, when the uptime clock advances: for requests to the owner and for the fake agent.
\<close>

theorem agent_handlers_return:
  assumes "agent_time A T"
  shows "returns (handleServeRequest C A decode encode rt fd d w) \<and>
    returns (handleRequest C A decode encode hostPublicKey agentPrivateKey options fd d w)"
  using handleServeRequest_returns [OF assms] handleRequest_returns [OF assms] by blast

theorem agent_handlers_return_witness:
  "returns (handleServeRequest demo_lib demo_agent demo_decode demo_encode demo_runtime 7 15000000000 agent_idle)"
  using agent_handlers_return [OF demo_agent_time] by blast

text \<open>
  Deadlines are exact: a deadline lies the given time after the reading of the clock, limited to
  64 bits, and capping one with another takes the earlier; the time that is left, rounded up to
  milliseconds, fits the argument of \<open>poll\<close>, is positive exactly before the deadline, and reaches past
  it by less than a millisecond.
\<close>

lemma agent_deadlines_exact:
  assumes "a_uptime_ns A w = (now, w')"
  shows "\<exists>d' r. deadline_init A ms w = (d', w') \<and>
    unat d' = min (unat now + unat ms * 1000000) (2 ^ 64 - 1) \<and> capped A d ms w = (min d d', w') \<and>
    remainingMilliseconds A d w = (r, w') \<and> 0 \<le> r \<and> r \<le> 2 ^ 31 - 1 \<and> (0 < r \<longleftrightarrow> now < d) \<and>
    (r < 2 ^ 31 - 1 \<longrightarrow> int (unat d) \<le> int (unat now) + r * 1000000) \<and>
    (0 < r \<longrightarrow> int (unat now) + (r - 1) * 1000000 < int (unat d))"
proof -
  from deadline_init_spec [OF assms, of ms] obtain d' where d': "deadline_init A ms w = (d', w')"
    "unat d' = min (unat now + unat ms * 1000000) (2 ^ 64 - 1)" by blast
  then have c: "capped A d ms w = (min d d', w')" by (simp add: capped_def)
  from assms show ?thesis
  proof (rule remainingMilliseconds_spec [where d = d])
    fix r assume r: "remainingMilliseconds A d w = (r, w')" "0 < r \<longleftrightarrow> now < d" "0 \<le> r" "r \<le> 2 ^ 31 - 1"
      "r < 2 ^ 31 - 1 \<Longrightarrow> int (unat d) - int (unat now) \<le> r * 1000000"
      "0 < r \<Longrightarrow> (r - 1) * 1000000 < int (unat d) - int (unat now)"
    have "r < 2 ^ 31 - 1 \<longrightarrow> int (unat d) \<le> int (unat now) + r * 1000000" using r(5) by linarith
    moreover have "0 < r \<longrightarrow> int (unat now) + (r - 1) * 1000000 < int (unat d)" using r(6) by linarith
    ultimately show ?thesis using d' c r(1-4) by blast
  qed
qed

end
