(* ===== verification/Agent_Files.thy ===== *)
theory Agent_Files
  imports Agent_Transport
begin

text \<open>
  Files of the macOS agent (\<open>SecureFiles.swift\<close>, \<open>writeNewFile\<close> of \<open>main.swift\<close>): files that only root
  or the user controls, and the replacement of the configuration file. The record \<open>file_sys\<close> adds the
  calls on files to \<open>agent_sys\<close>.
\<close>

unbundle bit_operations_syntax

section \<open>The system\<close>

record stat = metadata +
  st_gid :: u32
  st_dev :: int
  st_ino :: u64

text \<open>
  \<open>f_parent_path\<close> and \<open>f_last_component\<close> are the parts of a path as \<open>URL\<close> gives them, the parent with
  its links resolved; \<open>f_contents\<close> is \<open>Data(contentsOf:)\<close> and \<open>f_read_to_end\<close> is \<open>readToEnd\<close>,
  with no data as empty data. \<open>f_trim\<close> removes white
  space and newlines at both ends of a text. \<open>f_private_key\<close> and \<open>f_public_key\<close> make CryptoKit keys of
  their raw representation; a key is its raw representation. The calls on the keychain give an
  \<open>OSStatus\<close>, and a successful read the data of the item, if it has any.
\<close>

record 'w file_sys = "'w agent_sys" +
  f_geteuid :: u32
  f_parent_path :: "string \<Rightarrow> 'w \<Rightarrow> string \<times> 'w"
  f_last_component :: "string \<Rightarrow> string"
  f_uuid :: "'w \<Rightarrow> string \<times> 'w"
  f_open :: "string \<Rightarrow> oflag set \<Rightarrow> 'w \<Rightarrow> (fd, errno) result \<times> 'w"
  f_create :: "string \<Rightarrow> oflag set \<Rightarrow> u32 \<Rightarrow> 'w \<Rightarrow> (fd, errno) result \<times> 'w"
  f_openat :: "fd \<Rightarrow> string \<Rightarrow> oflag set \<Rightarrow> 'w \<Rightarrow> (fd, errno) result \<times> 'w"
  f_createat :: "fd \<Rightarrow> string \<Rightarrow> oflag set \<Rightarrow> u32 \<Rightarrow> 'w \<Rightarrow> (fd, errno) result \<times> 'w"
  f_fstat :: "fd \<Rightarrow> 'w \<Rightarrow> (stat, errno) result \<times> 'w"
  f_fstatat :: "fd \<Rightarrow> string \<Rightarrow> 'w \<Rightarrow> (stat, errno) result \<times> 'w"
  f_contents :: "string \<Rightarrow> 'w \<Rightarrow> (bytes, string) result \<times> 'w"
  f_read_to_end :: "fd \<Rightarrow> 'w \<Rightarrow> (bytes, string) result \<times> 'w"
  f_write :: "fd \<Rightarrow> bytes \<Rightarrow> 'w \<Rightarrow> (nat, errno) result \<times> 'w"
  f_fchown :: "fd \<Rightarrow> u32 \<Rightarrow> u32 \<Rightarrow> 'w \<Rightarrow> (unit, errno) result \<times> 'w"
  f_fchmod :: "fd \<Rightarrow> u32 \<Rightarrow> 'w \<Rightarrow> (unit, errno) result \<times> 'w"
  f_fsync :: "fd \<Rightarrow> 'w \<Rightarrow> (unit, errno) result \<times> 'w"
  f_close :: "fd \<Rightarrow> 'w \<Rightarrow> (unit, errno) result \<times> 'w"
  f_renameat :: "fd \<Rightarrow> string \<Rightarrow> string \<Rightarrow> 'w \<Rightarrow> (unit, errno) result \<times> 'w"
  f_unlinkat :: "fd \<Rightarrow> string \<Rightarrow> 'w \<Rightarrow> 'w"
  f_print :: "string \<Rightarrow> 'w \<Rightarrow> 'w"
  f_trim :: "string \<Rightarrow> string"
  f_private_key :: "bytes \<Rightarrow> (bytes, string) result"
  f_public_key :: "bytes \<Rightarrow> (bytes, string) result"
  f_generate_key :: "'w \<Rightarrow> bytes \<times> 'w"
  f_public_of :: "bytes \<Rightarrow> bytes"
  f_keychain_update :: "string \<Rightarrow> string \<Rightarrow> bytes \<Rightarrow> 'w \<Rightarrow> int \<times> 'w"
  f_keychain_add :: "string \<Rightarrow> string \<Rightarrow> bytes \<Rightarrow> 'w \<Rightarrow> int \<times> 'w"
  f_keychain_copy :: "string \<Rightarrow> string \<Rightarrow> 'w \<Rightarrow> (int \<times> bytes option) \<times> 'w"
  f_status_message :: "int \<Rightarrow> string option"

section \<open>Deferred calls\<close>

text \<open>A \<open>defer\<close> statement around the rest of a function, and a \<open>catch\<close> clause that throws again.\<close>

definition finally_w :: "'r \<times> 'w \<Rightarrow> ('w \<Rightarrow> 'w) \<Rightarrow> 'r \<times> 'w" where
  "finally_w p f = (fst p, f (snd p))"

definition finally_io :: "('r \<times> 'w) option \<Rightarrow> ('w \<Rightarrow> 'w) \<Rightarrow> ('r \<times> 'w) option" where
  "finally_io m f = map_option (\<lambda>p. finally_w p f) m"

definition on_error_w :: "('a, 'e) result \<times> 'w \<Rightarrow> ('w \<Rightarrow> 'w) \<Rightarrow> ('a, 'e) result \<times> 'w" where
  "on_error_w p f = (fst p, if is_err (fst p) then f (snd p) else snd p)"

lemma finally_w_eq [result_simps]: "finally_w p f = (r, w') \<longleftrightarrow> (\<exists>v. p = (r, v) \<and> w' = f v)"
  by (cases p) (auto simp: finally_w_def)

lemma finally_io_eq [result_simps]: "finally_io m f = Some (r, w') \<longleftrightarrow> (\<exists>v. m = Some (r, v) \<and> w' = f v)"
  by (auto simp: finally_io_def finally_w_eq)

lemma on_error_w_Ok [result_simps]: "on_error_w p f = (Inr x, w') \<longleftrightarrow> p = (Inr x, w')"
  by (cases p) (auto simp: on_error_w_def)

section \<open>Reading\<close>

fun show_octal :: "nat \<Rightarrow> string" where
  "show_octal n = (if n < 8 then [digit_char n] else show_octal (n div 8) @ [digit_char (n mod 8)])"

declare show_octal.simps [simp del]

definition validateFileMetadata :: "stat \<Rightarrow> string \<Rightarrow> bool \<Rightarrow> u32 \<Rightarrow> (unit, AgentError) result" where
  "validateFileMetadata st label privateMaterial effectiveUID =
    (if md_type st \<noteq> RegularFile then Err (InvalidPayload (label @ '' is not a regular file''))
     else if \<not> (md_uid st = effectiveUID \<or> md_uid st = 0) then
       Err (InvalidPayload (label @ '' must be owned by the effective user or root''))
     else let forbidden = (if privateMaterial then 63 else 18) in
       if md_mode st AND forbidden \<noteq> 0 then
         Err (InvalidPayload (label @ '' has unsafe permissions: '' @ show_octal (unat (md_mode st AND 511))))
       else Ok ())"

definition safe_flags :: "oflag set" where
  "safe_flags = {O_RDONLY, O_NOFOLLOW, O_NONBLOCK, O_CLOEXEC}"

definition fstat_labelled :: "'w file_sys \<Rightarrow> fd \<Rightarrow> string \<Rightarrow> 'w \<Rightarrow> (stat, AgentError) result \<times> 'w" where
  "fstat_labelled F fd label w =
    map_err_w (\<lambda>e. AgentIo (''fstat '' @ label @ '': '' @ a_strerror F e)) (f_fstat F fd w)"

definition openSafeFile ::
    "'w file_sys \<Rightarrow> string \<Rightarrow> string \<Rightarrow> bool \<Rightarrow> 'w \<Rightarrow> (fd, AgentError) result \<times> 'w" where
  "openSafeFile F path label privateMaterial w =
    bind_w (map_err_w (\<lambda>e. AgentIo (''open '' @ label @ '': '' @ a_strerror F e)) (f_open F path safe_flags w)) (\<lambda>fd w.
    on_error_w
      (bind_w (fstat_labelled F fd label w) (\<lambda>st w.
       bind_w (validateFileMetadata st label privateMaterial (f_geteuid F), w) (\<lambda>_ w.
       (Ok fd, w))))
      (\<lambda>w. snd (f_close F fd w)))"

definition readSafeFile ::
    "'w file_sys \<Rightarrow> string \<Rightarrow> string \<Rightarrow> bool \<Rightarrow> 'w \<Rightarrow> (bytes \<times> stat, AgentError) result \<times> 'w" where
  "readSafeFile F path label privateMaterial w =
    bind_w (openSafeFile F path label privateMaterial w) (\<lambda>fd w.
    finally_w
      (bind_w (fstat_labelled F fd label w) (\<lambda>st w.
       bind_w (map_err_w Thrown (f_read_to_end F fd w)) (\<lambda>data w.
       (Ok (data, st), w))))
      (\<lambda>w. snd (f_close F fd w)))"

section \<open>Writing\<close>

definition file_write :: "'w file_sys \<Rightarrow> fd \<Rightarrow> bytes \<Rightarrow> 'w \<Rightarrow> (nat, errno) result \<times> 'w" where
  "file_write F fd bs w =
    (case f_write F fd bs w of (Inl e, w) \<Rightarrow> (Err e, w) | (Inr n, w) \<Rightarrow> (Ok (min n (length bs)), w))"

partial_function (option) writeAll ::
    "'w file_sys \<Rightarrow> bytes \<Rightarrow> fd \<Rightarrow> 'w \<Rightarrow> ((unit, AgentError) result \<times> 'w) option" where
  "writeAll F data fd w =
    (if data = [] then Some (Ok (), w)
     else (case file_write F fd data w of
        (Inl e, w) \<Rightarrow>
          if e = EINTR then writeAll F data fd w
          else Some (Err (AgentIo (''write: '' @ a_strerror F e)), w)
      | (Inr n, w) \<Rightarrow>
          if n = 0 then Some (Err (AgentIo ''write: ''), w)
          else writeAll F (drop n data) fd w))"

text \<open>A call that reports its \<open>errno\<close> under a label.\<close>

definition labelled :: "'w file_sys \<Rightarrow> string \<Rightarrow> ('a, errno) result \<times> 'w \<Rightarrow> ('a, AgentError) result \<times> 'w" where
  "labelled F label p = map_err_w (\<lambda>e. AgentIo (label @ '': '' @ a_strerror F e)) p"

definition new_file_flags :: "oflag set" where
  "new_file_flags = {O_WRONLY, O_CREAT, O_EXCL, O_NOFOLLOW, O_CLOEXEC}"

definition writeNewFile ::
    "'w file_sys \<Rightarrow> string \<Rightarrow> string \<Rightarrow> u32 \<Rightarrow> 'w \<Rightarrow> ((unit, AgentError) result \<times> 'w) option" where
  "writeNewFile F path contents mode w =
    bind_io (Some (labelled F (''failed to create '' @ path) (f_create F path new_file_flags mode w))) (\<lambda>fd w.
    finally_io
      (bind_io (writeAll F (as_bytes contents) fd w) (\<lambda>_ w.
       Some (labelled F (''failed to sync '' @ path) (f_fsync F fd w))))
      (\<lambda>w. snd (f_close F fd w)))"

section \<open>Replacing the configuration\<close>

definition sameFile :: "stat \<Rightarrow> stat \<Rightarrow> bool" where
  "sameFile lhs rhs \<longleftrightarrow> st_dev lhs = st_dev rhs \<and> st_ino lhs = st_ino rhs \<and> md_type lhs = md_type rhs"

definition safe_directory :: "u32 \<Rightarrow> (stat, errno) result \<Rightarrow> bool" where
  "safe_directory euid r = (case r of Inl _ \<Rightarrow> False
    | Inr st \<Rightarrow> (md_uid st = euid \<or> md_uid st = 0) \<and> md_mode st AND 18 = 0)"

text \<open>
  \<open>replaceConfigFile\<close> in parts: \<open>write_replacement\<close> on the new file up to its \<open>close\<close>, with the state of
  \<open>isOpen\<close> in the result, \<open>swap_replacement\<close> from the comparison of the file with the one that was opened,
  \<open>replace_in\<close> and \<open>replace_original\<close> with the \<open>defer\<close> statements for the two files, and the function with
  the one for the directory.
\<close>

definition write_replacement ::
    "'w file_sys \<Rightarrow> fd \<Rightarrow> bytes \<Rightarrow> stat \<Rightarrow> bool \<Rightarrow> 'w \<Rightarrow> (((unit, AgentError) result \<times> bool) \<times> 'w) option" where
  "write_replacement F fd data metadata privateMaterial w =
    Option.bind (writeAll F data fd w) (\<lambda>(r, w). case r of
        Inl e \<Rightarrow> Some ((Err e, True), w)
      | Inr _ \<Rightarrow> (let mode = md_mode metadata AND (if privateMaterial then 384 else 511) in
          case bind_w (f_fchown F fd (md_uid metadata) (st_gid metadata) w) (\<lambda>_ w.
              bind_w (f_fchmod F fd mode w) (\<lambda>_ w. f_fsync F fd w)) of
            (Inl e, w) \<Rightarrow> Some ((Err (AgentIo (''secure config replacement: '' @ a_strerror F e)), True), w)
          | (Inr _, w) \<Rightarrow> (case labelled F ''close config replacement'' (f_close F fd w) of
              (r, w) \<Rightarrow> Some ((r, False), w))))"

definition swap_replacement ::
    "'w file_sys \<Rightarrow> fd \<Rightarrow> string \<Rightarrow> string \<Rightarrow> stat \<Rightarrow> 'w \<Rightarrow> (unit, AgentError) result \<times> 'w" where
  "swap_replacement F parent name replacement metadata w =
    (case f_fstatat F parent name w of (current, w) \<Rightarrow>
     if (case current of Inl _ \<Rightarrow> True | Inr st \<Rightarrow> \<not> sameFile metadata st) then
       (Err (AgentIo ''config changed during replacement''), w)
     else bind_w (labelled F ''replace config'' (f_renameat F parent replacement name w)) (\<lambda>_ w.
       labelled F ''sync config directory'' (f_fsync F parent w)))"

definition replacement_name :: "string \<Rightarrow> string \<Rightarrow> string" where
  "replacement_name name uuid = ''.'' @ name @ ''.replacement.'' @ uuid"

definition replace_in ::
    "'w file_sys \<Rightarrow> fd \<Rightarrow> string \<Rightarrow> bytes \<Rightarrow> stat \<Rightarrow> bool \<Rightarrow> 'w \<Rightarrow> ((unit, AgentError) result \<times> 'w) option" where
  "replace_in F parent name data metadata privateMaterial w =
    (case f_uuid F w of (uuid, w) \<Rightarrow>
     let replacement = replacement_name name uuid in
     bind_io (Some (labelled F ''create config replacement''
       (f_createat F parent replacement new_file_flags 384 w))) (\<lambda>fd w.
     Option.bind (write_replacement F fd data metadata privateMaterial w) (\<lambda>((r, isOpen), w).
     case (case r of Inl e \<Rightarrow> (Err e, w) | Inr _ \<Rightarrow> swap_replacement F parent name replacement metadata w) of
       (r, w) \<Rightarrow>
         Some (r, f_unlinkat F parent replacement (if isOpen then snd (f_close F fd w) else w)))))"

definition replace_original ::
    "'w file_sys \<Rightarrow> fd \<Rightarrow> string \<Rightarrow> bytes \<Rightarrow> bool \<Rightarrow> 'w \<Rightarrow> ((unit, AgentError) result \<times> 'w) option" where
  "replace_original F parent name data privateMaterial w =
    bind_io (Some (labelled F ''open config'' (f_openat F parent name safe_flags w))) (\<lambda>original w.
    finally_io
      (bind_io (Some (labelled F ''stat config'' (f_fstat F original w))) (\<lambda>metadata w.
       bind_io (Some (validateFileMetadata metadata ''agent config'' False (f_geteuid F), w)) (\<lambda>_ w.
       replace_in F parent name data metadata privateMaterial w)))
      (\<lambda>w. snd (f_close F original w)))"

definition directory_flags :: "oflag set" where
  "directory_flags = {O_RDONLY, O_DIRECTORY, O_NOFOLLOW, O_CLOEXEC}"

definition replaceConfigFile ::
    "'w file_sys \<Rightarrow> string \<Rightarrow> bytes \<Rightarrow> bool \<Rightarrow> 'w \<Rightarrow> ((unit, AgentError) result \<times> 'w) option" where
  "replaceConfigFile F path data privateMaterial w =
    (case f_parent_path F path w of (directory, w) \<Rightarrow>
     bind_io (Some (labelled F ''open config directory''
       (f_open F directory directory_flags w))) (\<lambda>parent w.
     finally_io
       (case f_fstat F parent w of (r, w) \<Rightarrow>
        if \<not> safe_directory (f_geteuid F) r then
          Some (Err (AgentIo ''config directory must be owned by the effective user or root and not group/world writable''), w)
        else
          replace_original F parent (f_last_component F path) data privateMaterial w)
       (\<lambda>w. snd (f_close F parent w))))"

section \<open>What is read\<close>

text \<open>A file as its label demands: only root or the user can change it, and read it when it is private.\<close>

definition safe_file :: "u32 \<Rightarrow> bool \<Rightarrow> stat \<Rightarrow> bool" where
  "safe_file euid privateMaterial st \<longleftrightarrow>
    md_type st = RegularFile \<and> (md_uid st = euid \<or> md_uid st = 0) \<and> md_mode st AND 18 = 0 \<and>
    (privateMaterial \<longrightarrow> md_mode st AND 63 = 0)"

lemma validateFileMetadata_Ok:
  "validateFileMetadata st label privateMaterial euid = Ok () \<longleftrightarrow> safe_file euid privateMaterial st"
proof -
  have "m AND 18 = 0" if "m AND 63 = 0" for m :: u32
  proof -
    have "m AND 18 = (m AND 63) AND 18" by (simp add: and.assoc)
    with that show ?thesis by simp
  qed
  then show ?thesis by (auto simp: validateFileMetadata_def safe_file_def Let_def)
qed

lemma readSafeFile_Ok:
  assumes "readSafeFile F path label privateMaterial w = (Ok (data, st), w')"
  shows "\<exists>fd w1 st' w2 w3 w4. f_open F path safe_flags w = (Ok fd, w1) \<and> f_fstat F fd w1 = (Ok st', w2) \<and>
    safe_file (f_geteuid F) privateMaterial st' \<and> f_fstat F fd w2 = (Ok st, w3) \<and>
    f_read_to_end F fd w3 = (Ok data, w4) \<and> w' = snd (f_close F fd w4)"
  using assms
  by (auto simp: readSafeFile_def openSafeFile_def fstat_labelled_def result_simps validateFileMetadata_Ok)

section \<open>Atomic replacement\<close>

text \<open>
  The law of a directory: \<open>files w\<close> are its entries with their contents, \<open>fds w\<close> the entries that the
  descriptors created in it write to.
\<close>

definition keeps_entries :: "'w file_sys \<Rightarrow> ('w \<Rightarrow> string \<Rightarrow> bytes option) \<Rightarrow> bool" where
  "keeps_entries F files \<longleftrightarrow>
    (\<forall>p w. files (snd (f_parent_path F p w)) = files w) \<and>
    (\<forall>p fl w. files (snd (f_open F p fl w)) = files w) \<and>
    (\<forall>f w. files (snd (f_read_to_end F f w)) = files w) \<and>
    (\<forall>w. files (snd (f_uuid F w)) = files w) \<and>
    (\<forall>d n fl w. files (snd (f_openat F d n fl w)) = files w) \<and>
    (\<forall>f w. files (snd (f_fstat F f w)) = files w) \<and>
    (\<forall>d n w. files (snd (f_fstatat F d n w)) = files w) \<and>
    (\<forall>f u g w. files (snd (f_fchown F f u g w)) = files w) \<and>
    (\<forall>f m w. files (snd (f_fchmod F f m w)) = files w) \<and>
    (\<forall>f w. files (snd (f_fsync F f w)) = files w) \<and>
    (\<forall>f w. files (snd (f_close F f w)) = files w)"

type_synonym 'w entries = "'w \<Rightarrow> string \<Rightarrow> bytes option"
type_synonym 'w writers = "'w \<Rightarrow> fd \<Rightarrow> string option"

definition config_creates :: "'w file_sys \<Rightarrow> fd \<Rightarrow> 'w entries \<Rightarrow> 'w writers \<Rightarrow> bool" where
  "config_creates F parent files fds \<longleftrightarrow>
    (\<forall>n fl mode w r w'. f_createat F parent n fl mode w = (r, w') \<and> O_EXCL \<in> fl \<longrightarrow>
      (case r of Inl _ \<Rightarrow> files w' = files w
       | Inr f \<Rightarrow> files w n = None \<and> files w' = (files w)(n \<mapsto> []) \<and> fds w' f = Some n))"

definition config_writes :: "'w file_sys \<Rightarrow> 'w entries \<Rightarrow> 'w writers \<Rightarrow> bool" where
  "config_writes F files fds \<longleftrightarrow>
    (\<forall>f bs w r w' n c. f_write F f bs w = (r, w') \<and> fds w f = Some n \<and> files w n = Some c \<longrightarrow>
      fds w' = fds w \<and>
      files w' = (case r of Inl _ \<Rightarrow> files w | Inr k \<Rightarrow> (files w)(n \<mapsto> c @ take k bs)))"

definition config_renames :: "'w file_sys \<Rightarrow> fd \<Rightarrow> 'w entries \<Rightarrow> bool" where
  "config_renames F parent files \<longleftrightarrow>
    (\<forall>a b w r w'. f_renameat F parent a b w = (r, w') \<longrightarrow>
      files w' = (case r of Inl _ \<Rightarrow> files w | Inr _ \<Rightarrow> (files w)(a := None, b := files w a)))"

definition config_directory :: "'w file_sys \<Rightarrow> fd \<Rightarrow> 'w entries \<Rightarrow> 'w writers \<Rightarrow> bool" where
  "config_directory F parent files fds \<longleftrightarrow>
    keeps_entries F files \<and> config_creates F parent files fds \<and> config_writes F files fds \<and>
    config_renames F parent files \<and> (\<forall>n w. files (f_unlinkat F parent n w) = (files w)(n := None))"

text \<open>The directory that is opened for the configuration at \<open>path\<close>.\<close>

definition config_parent :: "'w file_sys \<Rightarrow> string \<Rightarrow> fd \<Rightarrow> bool" where
  "config_parent F path parent \<longleftrightarrow>
    (\<forall>w d w1 f w2. f_parent_path F path w = (d, w1) \<and> f_open F d directory_flags w1 = (Ok f, w2) \<longrightarrow> f = parent)"

text \<open>Interruptions of \<open>write\<close> run out.\<close>

definition interrupts_end :: "'w file_sys \<Rightarrow> ('w \<Rightarrow> nat) \<Rightarrow> bool" where
  "interrupts_end F I \<longleftrightarrow> (\<forall>f bs w w'. f_write F f bs w = (Inl EINTR, w') \<longrightarrow> I w' < I w)"

lemma directory_keeps:
  assumes "config_directory F parent files fds"
  shows "files (snd (f_uuid F w)) = files w" "files (snd (f_openat F d n fl w)) = files w"
    "files (snd (f_fstat F f w)) = files w" "files (snd (f_fstatat F d n w)) = files w"
    "files (snd (f_fchown F f uid g w)) = files w" "files (snd (f_fchmod F f m w)) = files w"
    "files (snd (f_fsync F f w)) = files w" "files (snd (f_close F f w)) = files w"
    "files (f_unlinkat F parent n w) = (files w)(n := None)"
    "files (snd (f_parent_path F p w)) = files w" "files (snd (f_open F p fl w)) = files w"
    "files (snd (f_read_to_end F f w)) = files w"
  using assms by (simp_all add: config_directory_def keeps_entries_def)

lemma config_create:
  assumes "config_directory F parent files fds" and "f_createat F parent n new_file_flags mode w = (r, w')"
  shows "case r of Inl _ \<Rightarrow> files w' = files w
    | Inr f \<Rightarrow> files w n = None \<and> files w' = (files w)(n \<mapsto> []) \<and> fds w' f = Some n"
proof -
  have "O_EXCL \<in> new_file_flags" by (simp add: new_file_flags_def)
  moreover from assms(1) have "config_creates F parent files fds" by (simp add: config_directory_def)
  ultimately show ?thesis using assms(2) unfolding config_creates_def by blast
qed

lemma config_write:
  assumes "config_directory F parent files fds" and "file_write F f bs w = (r, w')"
    and "fds w f = Some n" and "files w n = Some c"
  shows "fds w' = fds w \<and> files w' = (case r of Inl _ \<Rightarrow> files w | Inr k \<Rightarrow> (files w)(n \<mapsto> c @ take k bs))"
proof -
  obtain q v where q: "f_write F f bs w = (q, v)" by fastforce
  have "config_writes F files fds" using assms(1) by (simp add: config_directory_def)
  with assms(3,4) q have "fds v = fds w \<and>
      files v = (case q of Inl _ \<Rightarrow> files w | Inr k \<Rightarrow> (files w)(n \<mapsto> c @ take k bs))"
    unfolding config_writes_def by blast
  with assms(2) q show ?thesis by (cases q) (auto simp: file_write_def min_def)
qed

lemma config_rename:
  assumes "config_directory F parent files fds" and "f_renameat F parent a b w = (r, w')"
  shows "files w' = (case r of Inl _ \<Rightarrow> files w | Inr _ \<Rightarrow> (files w)(a := None, b := files w a))"
proof -
  have "config_renames F parent files" using assms(1) by (simp add: config_directory_def)
  with assms(2) show ?thesis unfolding config_renames_def by blast
qed

text \<open>One round of \<open>writeAll\<close>: it gives up, is interrupted, or has written a piece.\<close>

lemma writeAll_round:
  assumes dir: "config_directory F parent files fds" and ends: "interrupts_end F I"
    and open_file: "fds w fd = Some n" "files w n = Some c" and "data \<noteq> []"
  obtains (stops) e v where "writeAll F data fd w = Some (Err e, v)" "files v = files w"
    | (again) v where "writeAll F data fd w = writeAll F data fd v" "files v = files w" "fds v = fds w" "I v < I w"
    | (more) k v where "writeAll F data fd w = writeAll F (drop k data) fd v" "0 < k" "fds v = fds w"
        "files v = (files w)(n \<mapsto> c @ take k data)"
proof -
  obtain q v where q: "file_write F fd data w = (q, v)" by fastforce
  note wrote = config_write [OF dir q open_file]
  consider e where "q = Err e" "e \<noteq> EINTR" | "q = Err EINTR" | "q = Ok 0" | k where "q = Ok k" "0 < k"
    by (cases q) auto
  then show thesis
  proof cases
    case 2
    then have "I v < I w" using ends q
      by (auto simp: interrupts_end_def file_write_def split: sum.splits prod.splits)
    with 2 wrote q assms(5) show thesis by (intro again [of v]) (simp_all add: writeAll.simps [of F data])
  next
    case (4 k)
    with wrote q assms(5) show thesis by (intro more [of k v]) (simp_all add: writeAll.simps [of F data])
  qed (use wrote q assms(5) open_file(2) in \<open>auto simp: writeAll.simps [of F data] fun_upd_idem intro!: stops\<close>)
qed

lemma writeAll_entries:
  assumes dir: "config_directory F parent files fds" and ends: "interrupts_end F I"
  shows "fds w fd = Some n \<Longrightarrow> files w n = Some c \<Longrightarrow>
    \<exists>r w' p. writeAll F data fd w = Some (r, w') \<and> files w' = (files w)(n \<mapsto> c @ p) \<and> (r = Ok () \<longrightarrow> p = data)"
proof (induction "(length data, I w)" arbitrary: data w c
    rule: wf_induct_rule [OF wf_lex_prod [OF wf_less_than wf_less_than], case_names less])
  case less
  show ?case
  proof (cases "data = []")
    case True
    with less.prems show ?thesis by (intro exI [of _ "Ok ()"]) (auto simp: writeAll.simps)
  next
    case False
    from dir ends less.prems this show ?thesis
    proof (cases rule: writeAll_round)
      case (stops e v)
      with less.prems(2) show ?thesis by (intro exI [of _ "Err e"] exI [of _ v] exI [of _ "[]"]) (simp add: fun_upd_idem)
    next
      case (again v)
      with less.hyps [of data v c] less.prems show ?thesis by simp
    next
      case (more k v)
      with False have "((length (drop k data), I v), length data, I w) \<in> less_than <*lex*> less_than" by simp
      moreover have "fds v fd = Some n" "files v n = Some (c @ take k data)" using more less.prems by simp_all
      ultimately obtain r w' p where "writeAll F (drop k data) fd v = Some (r, w')"
        "files w' = (files v)(n \<mapsto> (c @ take k data) @ p)" "r = Ok () \<longrightarrow> p = drop k data"
        using less.hyps [of "drop k data" v "c @ take k data"] by blast
      with more show ?thesis by (intro exI [of _ r] exI [of _ w'] exI [of _ "take k data @ p"]) simp
    qed
  qed
qed

text \<open>The directory after the work on the replacement: it holds a file of its own, complete on success.\<close>

lemma write_replacement_entries:
  assumes dir: "config_directory F parent files fds" and "interrupts_end F I"
    and "fds w fd = Some n" and "files w n = Some []"
  shows "\<exists>r isOpen w' p. write_replacement F fd data md pm w = Some ((r, isOpen), w') \<and>
    files w' = (files w)(n \<mapsto> p) \<and> (r = Ok () \<longrightarrow> p = data)"
proof -
  from writeAll_entries [OF assms] obtain r v p where w: "writeAll F data fd w = Some (r, v)"
    "files v = (files w)(n \<mapsto> p)" "r = Ok () \<longrightarrow> p = data" by fastforce
  note keeps = directory_keeps(5-8) [OF dir]
  define mode where "mode = md_mode md AND (if pm then 384 else 511 :: u32)"
  obtain r1 v1 where 1: "f_fchown F fd (md_uid md) (st_gid md) v = (r1, v1)" by fastforce
  obtain r2 v2 where 2: "f_fchmod F fd mode v1 = (r2, v2)" by fastforce
  obtain r3 v3 where 3: "f_fsync F fd v2 = (r3, v3)" by fastforce
  obtain r4 v4 where 4: "f_close F fd v3 = (r4, v4)" by fastforce
  have "files v1 = files v" "files v2 = files v1" "files v3 = files v2" "files v4 = files v3"
    using keeps(1) [of fd "md_uid md" "st_gid md" v] keeps(2) [of fd mode v1] keeps(3) [of fd v2]
      keeps(4) [of fd v3] 1 2 3 4 by simp_all
  with w 1 2 3 4 show ?thesis
    by (cases r; cases r1; cases r2; cases r3)
      (auto simp: write_replacement_def labelled_def Let_def mode_def [symmetric] map_err_w_def)
qed

lemma swap_replacement_entries:
  assumes dir: "config_directory F parent files fds" and "swap_replacement F parent name replacement md w = (r, w')"
  shows "files w' = files w \<and> r \<noteq> Ok () \<or>
    files w' = (files w)(replacement := None, name := files w replacement)"
proof -
  obtain c v where 1: "f_fstatat F parent name w = (c, v)" by fastforce
  obtain q u where 2: "f_renameat F parent replacement name v = (q, u)" by fastforce
  obtain s x where 3: "f_fsync F parent u = (s, x)" by fastforce
  have "files v = files w" "files x = files u"
    using directory_keeps(4) [OF dir, of parent name w] directory_keeps(7) [OF dir, of parent u] 1 3 by simp_all
  with assms(2) config_rename [OF dir 2] show ?thesis
    by (cases q) (auto simp: swap_replacement_def 1 2 3 labelled_def map_err_w_def split: if_splits)
qed

lemma replacement_other: "replacement_name name uuid \<noteq> name"
proof
  assume "replacement_name name uuid = name"
  then have "length (replacement_name name uuid) = length name" by (rule arg_cong)
  then show False by (simp add: replacement_name_def)
qed

lemma replace_in_entries:
  assumes dir: "config_directory F parent files fds" and ends: "interrupts_end F I"
  shows "\<exists>r w'. replace_in F parent name data md pm w = Some (r, w') \<and>
    (files w' = files w \<and> r \<noteq> Ok () \<or> files w' = (files w)(name \<mapsto> data))"
proof -
  obtain uuid w1 where u: "f_uuid F w = (uuid, w1)" by fastforce
  then have w1: "files w1 = files w" using directory_keeps(1) [OF dir, of w] by simp
  define n where "n = replacement_name name uuid"
  obtain q w2 where c: "f_createat F parent n new_file_flags 384 w1 = (q, w2)" by fastforce
  note created = config_create [OF dir c]
  show ?thesis
  proof (cases q)
    case (Inl e)
    with created w1 u c show ?thesis by (simp add: replace_in_def labelled_def Let_def flip: n_def)
  next
    case (Inr fd)
    with created have w2: "files w n = None" "files w2 = (files w)(n \<mapsto> [])" "fds w2 fd = Some n"
      by (simp_all add: w1)
    then have "files w2 n = Some []" by simp
    from write_replacement_entries [OF dir ends w2(3) this]
    obtain r isOpen w3 p where w3: "write_replacement F fd data md pm w2 = Some ((r, isOpen), w3)"
      "files w3 = (files w2)(n \<mapsto> p)" "r = Ok () \<longrightarrow> p = data" by blast
    define t where "t = (case r of Inl e \<Rightarrow> (Err e, w3) | Inr _ \<Rightarrow> swap_replacement F parent name n md w3)"
    obtain r' w4 where t: "t = (r', w4)" by fastforce
    define w5 where "w5 = f_unlinkat F parent n (if isOpen then snd (f_close F fd w4) else w4)"
    have result: "replace_in F parent name data md pm w = Some (r', w5)"
      using u c Inr w3(1) t
      by (cases r) (auto simp: replace_in_def labelled_def Let_def t_def w5_def simp flip: n_def)
    have w5: "files w5 = (files w4)(n := None)"
      using directory_keeps(8,9) [OF dir] by (simp add: w5_def)
    have "files w4 = files w3 \<and> r' \<noteq> Ok () \<or>
        r = Ok () \<and> files w4 = (files w3)(n := None, name := files w3 n)"
    proof (cases r)
      case (Inl e)
      then show ?thesis using t by (auto simp: t_def)
    next
      case (Inr x)
      then have "swap_replacement F parent name n md w3 = (r', w4)" using t by (simp add: t_def)
      from swap_replacement_entries [OF dir this] show ?thesis using Inr by simp
    qed
    moreover have "(files w)(n := None) = files w" using w2(1) by (simp add: fun_upd_idem)
    ultimately have "files w5 = files w \<and> r' \<noteq> Ok () \<or> files w5 = (files w)(name \<mapsto> data)"
      using w5 w3(2,3) w2(2) replacement_other [of name uuid, folded n_def] by (auto simp: fun_upd_twist)
    with result show ?thesis by blast
  qed
qed

lemma replace_original_entries:
  assumes dir: "config_directory F parent files fds" and ends: "interrupts_end F I"
  shows "\<exists>r w'. replace_original F parent name data pm w = Some (r, w') \<and>
    (files w' = files w \<and> r \<noteq> Ok () \<or> files w' = (files w)(name \<mapsto> data))"
proof -
  note keeps = directory_keeps [OF dir]
  obtain q w1 where 1: "f_openat F parent name safe_flags w = (q, w1)" by fastforce
  obtain m w2 where 2: "f_fstat F (projr q) w1 = (m, w2)" by fastforce
  have w: "files w1 = files w" "files w2 = files w"
    using keeps(2) [of parent name safe_flags w] keeps(3) [of "projr q" w1] 1 2 by simp_all
  note steps = replace_original_def 1 2 labelled_def finally_io_def finally_w_def keeps w
  show ?thesis
  proof (cases "\<exists>f md. q = Ok f \<and> m = Ok md \<and> validateFileMetadata md ''agent config'' False (f_geteuid F) = Ok ()")
    case True
    then obtain f md where md: "q = Ok f" "m = Ok md"
      "validateFileMetadata md ''agent config'' False (f_geteuid F) = Ok ()" by blast
    obtain r w3 where "replace_in F parent name data md pm w2 = Some (r, w3)"
      "files w3 = files w2 \<and> r \<noteq> Ok () \<or> files w3 = (files w2)(name \<mapsto> data)"
      using replace_in_entries [OF dir ends] by blast
    with md 2 show ?thesis by (auto simp: steps)
  next
    case False
    with 2 show ?thesis
      by (cases q; cases m; cases "validateFileMetadata (projr m) ''agent config'' False (f_geteuid F)") (auto simp: steps)
  qed
qed

text \<open>The whole function: it returns, and leaves the old file or the new one.\<close>

lemma replaceConfigFile_entries:
  assumes dir: "config_directory F parent files fds" and ends: "interrupts_end F I"
    and parent: "config_parent F path parent"
  shows "\<exists>r w'. replaceConfigFile F path data pm w = Some (r, w') \<and>
    (files w' = files w \<and> r \<noteq> Ok () \<or> files w' = (files w)(f_last_component F path \<mapsto> data))"
proof -
  note keeps = directory_keeps [OF dir]
  let ?n = "f_last_component F path"
  obtain directory w0 where 0: "f_parent_path F path w = (directory, w0)" by fastforce
  obtain p w1 where 1: "f_open F directory directory_flags w0 = (p, w1)" by fastforce
  obtain s w2 where 2: "f_fstat F parent w1 = (s, w2)" by fastforce
  have w: "files w0 = files w" "files w1 = files w" "files w2 = files w"
    using keeps(10) [of path w] keeps(11) [of directory directory_flags w0] keeps(3) [of parent w1] 0 1 2
    by simp_all
  note steps = replaceConfigFile_def 0 1 2 labelled_def finally_io_def finally_w_def keeps w
  obtain r w3 where "replace_original F parent ?n data pm w2 = Some (r, w3)"
    "files w3 = files w2 \<and> r \<noteq> Ok () \<or> files w3 = (files w2)(?n \<mapsto> data)"
    using replace_original_entries [OF dir ends] by blast
  moreover have "p = Ok f \<Longrightarrow> f = parent" for f using parent 0 1 unfolding config_parent_def by blast
  ultimately show ?thesis
    by (cases p; cases "safe_directory (f_geteuid F) s") (auto simp: steps)
qed

text \<open>Reading leaves the directory alone.\<close>

lemma readSafeFile_entries:
  assumes dir: "config_directory F parent files fds"
  shows "files (snd (readSafeFile F path label pm w)) = files w"
proof -
  note keeps = directory_keeps [OF dir]
  obtain p w1 where 1: "f_open F path safe_flags w = (p, w1)" by fastforce
  have w1: "files w1 = files w" using keeps(11) [of path safe_flags w] 1 by simp
  show ?thesis
  proof (cases p)
    case (Inl e)
    then show ?thesis by (simp add: readSafeFile_def openSafeFile_def 1 w1)
  next
    case (Inr fd)
    obtain s w2 where 2: "f_fstat F fd w1 = (s, w2)" by fastforce
    obtain t w3 where 3: "f_fstat F fd w2 = (t, w3)" by fastforce
    obtain d w4 where 4: "f_read_to_end F fd w3 = (d, w4)" by fastforce
    have "files w2 = files w" "files w3 = files w" "files w4 = files w"
      using keeps(3) [of fd w1] keeps(3) [of fd w2] keeps(12) [of fd w3] w1 2 3 4 by simp_all
    then show ?thesis
      by (cases s; cases "validateFileMetadata (projr s) label pm (f_geteuid F)"; cases t; cases d)
        (simp_all add: readSafeFile_def openSafeFile_def fstat_labelled_def map_err_w_def on_error_w_def finally_w_def
          1 2 3 4 Inr keeps)
  qed
qed

end
