(* ===== verification/Agent_Config.thy ===== *)
theory Agent_Config
  imports Agent_Files Agent_Serve Keys
begin

text \<open>
  Keys and configuration of the macOS agent (\<open>main.swift\<close>): key files, hex,
  the keychain, and the runtime that \<open>serve\<close> starts with. \<open>decode\<close> and \<open>encode\<close> are the JSON coders for
  the configuration. Text is taken apart in \<open>Character\<close>s: a carriage return and a newline are one of them.
\<close>

section \<open>Hex\<close>

definition hex_digits :: string where
  "hex_digits = ''0123456789abcdef''"

definition hexEncode :: "bytes \<Rightarrow> string" where
  "hexEncode bytes = concat (map (\<lambda>b. [hex_digits ! (unat b div 16), hex_digits ! (unat b mod 16)]) bytes)"

text \<open>\<open>UInt8(_, radix: 16)\<close>: an optional sign and digits.\<close>

definition hex_digit_value :: "char \<Rightarrow> nat option" where
  "hex_digit_value c =
    (let n = of_char c in
     if n \<in> {48..57} then Some (n - 48)
     else if n \<in> {97..102} then Some (n - 87)
     else if n \<in> {65..70} then Some (n - 55)
     else None)"

fun hex_digits_value :: "nat \<Rightarrow> string \<Rightarrow> nat option" where
  "hex_digits_value n [] = Some n"
| "hex_digits_value n (c # cs) =
    (case hex_digit_value c of None \<Rightarrow> None | Some d \<Rightarrow> hex_digits_value (16 * n + d) cs)"

definition uint8_radix16 :: "string \<Rightarrow> u8 option" where
  "uint8_radix16 s =
    (let negative = (s \<noteq> [] \<and> hd s = CHR ''-'');
         digits = (if s \<noteq> [] \<and> hd s \<in> {CHR ''+'', CHR ''-''} then tl s else s)
     in if digits = [] then None
        else (case hex_digits_value 0 digits of
            None \<Rightarrow> None
          | Some n \<Rightarrow> if n < 256 \<and> (negative \<longrightarrow> n = 0) then Some (word_of_nat n) else None))"

fun hex_pairs :: "string list \<Rightarrow> (bytes, AgentError) result" where
  "hex_pairs (a # b # cs) =
    (case uint8_radix16 (a @ b) of
       None \<Rightarrow> Err (InvalidHex (a @ b))
     | Some byte \<Rightarrow> and_then (hex_pairs cs) (\<lambda>bytes. Ok (byte # bytes)))"
| "hex_pairs _ = Ok []"

definition hexDecode :: "'w file_sys \<Rightarrow> string \<Rightarrow> (bytes, AgentError) result" where
  "hexDecode F s =
    (let trimmed = a_characters F (f_trim F s)
     in if length trimmed mod 2 \<noteq> 0 then Err (InvalidHex ''odd length'') else hex_pairs trimmed)"

section \<open>Key material\<close>

fun split_characters :: "string list \<Rightarrow> string list list" where
  "split_characters [] = [[]]"
| "split_characters (c # cs) =
    (case split_characters cs of l # ls \<Rightarrow> if c = [newline] then [] # l # ls else (c # l) # ls)"

text \<open>The loop over the lines; \<open>rawLine\<close> is given by its \<open>Character\<close>s.\<close>

fun material_of_lines :: "'w file_sys \<Rightarrow> string list list \<Rightarrow> string option" where
  "material_of_lines F [] = None"
| "material_of_lines F (rawLine # rest) =
    (let line = f_trim F (concat rawLine); cs = a_characters F line
     in if line = [] \<or> take 1 cs = [''#''] then material_of_lines F rest
        else if ''='' \<in> set cs
        then Some (f_trim F (concat (tl (dropWhile (\<lambda>c. c \<noteq> ''='') cs))))
        else Some line)"

definition readKeyMaterial ::
    "'w file_sys \<Rightarrow> string option \<Rightarrow> string option \<Rightarrow> string \<Rightarrow> bool \<Rightarrow> 'w \<Rightarrow> (string, AgentError) result \<times> 'w" where
  "readKeyMaterial F hex file label privateMaterial w =
    (case (hex, file) of
       (Some _, Some _) \<Rightarrow> (Err (Usage (''provide only one source for '' @ label)), w)
     | (Some h, None) \<Rightarrow> (Ok (f_trim F h), w)
     | (None, None) \<Rightarrow> (Err (Usage (''missing '' @ label)), w)
     | (None, Some path) \<Rightarrow>
         bind_w (readSafeFile F path label privateMaterial w) (\<lambda>(data, _) w.
         bind_w (ok_or (from_utf8 data) (InvalidPayload (label @ '' is not UTF-8'')), w) (\<lambda>contents w.
         (ok_or (material_of_lines F (split_characters (a_characters F contents)))
            (InvalidPayload (label @ '' file is empty'')), w))))"

definition validateFilePermissions ::
    "'w file_sys \<Rightarrow> string \<Rightarrow> string \<Rightarrow> bool \<Rightarrow> 'w \<Rightarrow> (unit, AgentError) result \<times> 'w" where
  "validateFilePermissions F path label privateMaterial w =
    bind_w (openSafeFile F path label privateMaterial w) (\<lambda>fd w. (Ok (), snd (f_close F fd w)))"

text \<open>A key from its hex, as CryptoKit takes it.\<close>

definition key_of_hex ::
    "'w file_sys \<Rightarrow> (bytes \<Rightarrow> (bytes, string) result) \<Rightarrow> string \<Rightarrow> (bytes, AgentError) result" where
  "key_of_hex F mk h = and_then (hexDecode F h) (\<lambda>raw. map_err Thrown (mk raw))"

section \<open>The keychain\<close>

definition errSecSuccess :: int where "errSecSuccess = 0"
definition errSecItemNotFound :: int where "errSecItemNotFound = - 25300"

definition show_int :: "int \<Rightarrow> string" where
  "show_int i = (if i < 0 then ''-'' @ show_nat (nat (- i)) else show_nat (nat i))"

definition secStatusDescription :: "'w file_sys \<Rightarrow> int \<Rightarrow> string" where
  "secStatusDescription F status =
    (case f_status_message F status of
       Some message \<Rightarrow> message @ '' ('' @ show_int status @ '')''
     | None \<Rightarrow> ''OSStatus '' @ show_int status)"

definition storePrivateKeyInKeychain ::
    "'w file_sys \<Rightarrow> bytes \<Rightarrow> string \<Rightarrow> string \<Rightarrow> bool \<Rightarrow> 'w \<Rightarrow> (unit, AgentError) result \<times> 'w" where
  "storePrivateKeyInKeychain F privateKey service account overwrite w =
    (let add = (\<lambda>w. case f_keychain_add F service account privateKey w of (status, w) \<Rightarrow>
        if status \<noteq> errSecSuccess
        then (Err (AgentIo (''failed to add keychain item: '' @ secStatusDescription F status)), w)
        else (Ok (), w))
     in if overwrite then
          (case f_keychain_update F service account privateKey w of (status, w) \<Rightarrow>
            if status = errSecSuccess then (Ok (), w)
            else if status \<noteq> errSecItemNotFound
            then (Err (AgentIo (''failed to update keychain item: '' @ secStatusDescription F status)), w)
            else add w)
        else add w)"

definition loadPrivateKeyFromKeychain ::
    "'w file_sys \<Rightarrow> string \<Rightarrow> string \<Rightarrow> 'w \<Rightarrow> (bytes, AgentError) result \<times> 'w" where
  "loadPrivateKeyFromKeychain F service account w =
    (case f_keychain_copy F service account w of ((status, item), w) \<Rightarrow>
      if status \<noteq> errSecSuccess
      then (Err (AgentIo (''failed to read keychain item: '' @ secStatusDescription F status)), w)
      else (case item of
          None \<Rightarrow> (Err (AgentIo ''keychain item did not contain data''), w)
        | Some data \<Rightarrow> (map_err Thrown (f_private_key F data), w)))"

section \<open>Configuration\<close>

record AllowedHost =
  ah_hostId :: string
  ah_publicKeyHex :: "string option"
  ah_publicKeyFile :: "string option"

record AgentConfig =
  ac_socketPath :: string
  ac_hosts :: "AllowedHost list option"
  ac_hostPublicKeyHex :: "string option"
  ac_hostPublicKeyFile :: "string option"
  ac_agentKeyHex :: "string option"
  ac_agentKeyFile :: "string option"
  ac_agentKeychainService :: "string option"
  ac_agentKeychainAccount :: "string option"
  ac_agentKeyId :: "string option"
  ac_allowedFutureSkewMs :: "u64 option"
  ac_requireConfirmation :: "bool option"
  ac_rateLimitWindowSeconds :: "u64 option"
  ac_rateLimitMaxRequests :: "int option"

text \<open>\<open>config.hosts ?? []\<close>.\<close>

definition config_hosts :: "AgentConfig \<Rightarrow> AllowedHost list" where
  "config_hosts config = unwrap_or (ac_hosts config) []"

definition loadAgentConfig ::
    "'w file_sys \<Rightarrow> (bytes \<Rightarrow> (AgentConfig, string) result) \<Rightarrow> string \<Rightarrow> 'w \<Rightarrow>
     (AgentConfig, AgentError) result \<times> 'w" where
  "loadAgentConfig F decode path w =
    bind_w (readSafeFile F path ''agent config'' False w) (\<lambda>(data, metadata) w.
    bind_w (map_err Thrown (decode data), w) (\<lambda>config w.
    if ac_agentKeyHex config \<noteq> None then
      bind_w (validateFileMetadata metadata ''agent config with inline private key'' True (f_geteuid F), w) (\<lambda>_ w.
      (Ok config, w))
    else (Ok config, w)))"

definition writeAgentConfig ::
    "'w file_sys \<Rightarrow> (AgentConfig \<Rightarrow> (bytes, string) result) \<Rightarrow> AgentConfig \<Rightarrow> string \<Rightarrow> 'w \<Rightarrow>
     ((unit, AgentError) result \<times> 'w) option" where
  "writeAgentConfig F encode config path w =
    bind_io (Some (map_err Thrown (encode config), w)) (\<lambda>data w.
    replaceConfigFile F path data (ac_agentKeyHex config \<noteq> None) w)"

fun host_verifiers_loop ::
    "'w file_sys \<Rightarrow> AllowedHost list \<Rightarrow> (string \<Rightarrow> HostVerifier option) \<Rightarrow> 'w \<Rightarrow>
     (string \<Rightarrow> HostVerifier option, AgentError) result \<times> 'w" where
  "host_verifiers_loop F [] verifiers w = (Ok verifiers, w)"
| "host_verifiers_loop F (host # hosts) verifiers w =
    bind_w (readKeyMaterial F (ah_publicKeyHex host) (ah_publicKeyFile host)
      (''host public key for '' @ ah_hostId host) False w) (\<lambda>publicKeyHex w.
    if verifiers (a_nfc F (ah_hostId host)) \<noteq> None then
      (Err (InvalidPayload (''duplicate host_id '' @ ah_hostId host)), w)
    else
    bind_w (key_of_hex F (f_public_key F) publicKeyHex, w) (\<lambda>publicKey w.
    host_verifiers_loop F hosts
      (verifiers(a_nfc F (ah_hostId host) \<mapsto> \<lparr>hv_hostId = ah_hostId host, hv_publicKey = publicKey\<rparr>)) w))"

definition hostVerifiers ::
    "'w file_sys \<Rightarrow> AgentConfig \<Rightarrow> 'w \<Rightarrow> (string \<Rightarrow> HostVerifier option, AgentError) result \<times> 'w" where
  "hostVerifiers F config w =
    (if ac_hosts config \<noteq> None \<and> ac_hosts config \<noteq> Some [] then
       host_verifiers_loop F (the (ac_hosts config)) Map.empty w
     else
       bind_w (readKeyMaterial F (ac_hostPublicKeyHex config) (ac_hostPublicKeyFile config)
         ''host public key'' False w) (\<lambda>publicKeyHex w.
       bind_w (key_of_hex F (f_public_key F) publicKeyHex, w) (\<lambda>publicKey w.
       (Ok [a_nfc F ''*'' \<mapsto> \<lparr>hv_hostId = ''*'', hv_publicKey = publicKey\<rparr>], w))))"

definition runtime :: "'w file_sys \<Rightarrow> AgentConfig \<Rightarrow> 'w \<Rightarrow> (AgentRuntime, AgentError) result \<times> 'w" where
  "runtime F config w =
    bind_w (hostVerifiers F config w) (\<lambda>verifiers w.
    bind_w
      (case (ac_agentKeychainService config, ac_agentKeychainAccount config) of
         (Some service, Some account) \<Rightarrow>
           if ac_agentKeyHex config \<noteq> None \<or> ac_agentKeyFile config \<noteq> None then
             (Err (Usage ''provide either agent key file/hex or keychain source, not both''), w)
           else loadPrivateKeyFromKeychain F service account w
       | _ \<Rightarrow>
           bind_w (readKeyMaterial F (ac_agentKeyHex config) (ac_agentKeyFile config)
             ''agent private key'' True w) (\<lambda>agentKeyHex w.
           (key_of_hex F (f_private_key F) agentKeyHex, w)))
      (\<lambda>agentPrivateKey w.
    (Ok \<lparr>rt_hostVerifiers = verifiers, rt_agentPrivateKey = agentPrivateKey,
         rt_agentKeyId = unwrap_or (ac_agentKeyId config) ''agent-key-1'',
         rt_allowedFutureSkewMs = unwrap_or (ac_allowedFutureSkewMs config) 30000,
         rt_requireConfirmation = unwrap_or (ac_requireConfirmation config) False,
         rt_rateLimiter = limiter_init (unwrap_or (ac_rateLimitWindowSeconds config) 60)
           (unwrap_or (ac_rateLimitMaxRequests config) 5)\<rparr>, w)))"

section \<open>Text and hex\<close>

text \<open>
  The laws of text: ASCII text without carriage returns has one \<open>Character\<close> for each of its bytes, and
  the white space of ASCII is what \<open>str::trim\<close> removes too.
\<close>

definition swift_text :: "'w file_sys \<Rightarrow> bool" where
  "swift_text F \<longleftrightarrow>
    (\<forall>s. list_all is_ascii s \<and> CHR 0x0D \<notin> set s \<longrightarrow> a_characters F s = map (\<lambda>c. [c]) s) \<and>
    (\<forall>s. list_all is_ascii s \<longrightarrow> f_trim F s = trim s)"

lemma swift_text_graphic:
  assumes "swift_text F" and "list_all graphic s"
  shows "a_characters F s = map (\<lambda>c. [c]) s" and "f_trim F s = s"
proof -
  have a: "list_all is_ascii s" using assms(2) by (auto simp: list_all_iff graphic_ascii)
  have "CHR 0x0D \<notin> set s" using assms(2) by (auto simp: list_all_iff graphic_def)
  with a assms show "a_characters F s = map (\<lambda>c. [c]) s" "f_trim F s = s"
    by (simp_all add: swift_text_def trim_graphic)
qed

lemma less_16_cases: "n < (16 :: nat) \<Longrightarrow> n \<in> {0, 1, 2, 3, 4, 5, 6, 7, 8, 9, 10, 11, 12, 13, 14, 15}"
  by (simp only: insert_iff empty_iff) presburger

lemma hex_digit_value_nth: "n < 16 \<Longrightarrow> hex_digit_value (hex_digits ! n) = Some n"
  by (drule less_16_cases) (auto simp: hex_digits_def hex_digit_value_def Let_def)

lemma byte_nibbles: "unat (b :: u8) div 16 < 16" "unat b mod 16 < 16"
proof -
  have "unat b < 256" using unsigned_less [of b] by simp
  then show "unat b div 16 < 16" "unat b mod 16 < 16" by auto
qed

lemma hex_digit_plain:
  assumes "n < 16"
  shows "hex_digits ! n \<in> set hex_digits"
    and "hex_digits ! n \<noteq> CHR ''+''" and "hex_digits ! n \<noteq> CHR ''-''"
  using less_16_cases [OF assms] by (auto simp: hex_digits_def)

lemma uint8_radix16_byte:
  "uint8_radix16 [hex_digits ! (unat b div 16), hex_digits ! (unat (b :: u8) mod 16)] = Some b"
proof -
  have b: "unat b < 256" using unsigned_less [of b] by simp
  then show ?thesis
    using hex_digit_plain(2,3) [OF byte_nibbles(1)]
    by (simp add: uint8_radix16_def hex_digit_value_nth byte_nibbles)
qed

lemma hexEncode_Cons: "hexEncode (b # bs) =
    [hex_digits ! (unat b div 16), hex_digits ! (unat b mod 16)] @ hexEncode bs"
  by (simp add: hexEncode_def)

lemma hexEncode_digits: "set (hexEncode bs) \<subseteq> set hex_digits"
proof (induction bs)
  case Nil
  then show ?case by (simp add: hexEncode_def)
next
  case (Cons b bs)
  show ?case
    unfolding hexEncode_Cons set_append list.set
    by (intro Un_least insert_subsetI empty_subsetI Cons.IH hex_digit_plain(1) byte_nibbles)
qed

lemma hexEncode_graphic: "list_all graphic (hexEncode bs)"
  using hexEncode_digits [of bs] hex_char_graphic by (auto simp: list_all_iff hex_digits_def)

lemma hex_pairs_hexEncode: "hex_pairs (map (\<lambda>c. [c]) (hexEncode bs)) = Ok bs"
proof (induction bs)
  case Nil
  then show ?case by (simp add: hexEncode_def)
next
  case (Cons b bs)
  then show ?case by (simp add: hexEncode_Cons uint8_radix16_byte)
qed

lemma length_hexEncode: "length (hexEncode bs) = 2 * length bs"
  by (induction bs) (simp_all add: hexEncode_def)

lemma hexDecode_hexEncode:
  assumes "swift_text F"
  shows "hexDecode F (hexEncode bs) = Ok bs"
  using swift_text_graphic [OF assms hexEncode_graphic]
  by (simp add: hexDecode_def Let_def hex_pairs_hexEncode length_hexEncode)

section \<open>Key files\<close>

lemma split_characters_line:
  assumes "[newline] \<notin> set cs"
  shows "split_characters (cs @ [[newline]]) = [cs, []]"
  using assms by (induction cs) auto

lemma material_of_key_line:
  assumes F: "swift_text F" and "list_all graphic label" and "label \<noteq> []" and "CHR ''='' \<notin> set label"
    and "hd label \<noteq> CHR ''#''" and "list_all graphic v"
  shows "material_of_lines F (split_characters (a_characters F ((label @ ''='' @ v) @ [newline]))) = Some v"
proof -
  let ?l = "label @ ''='' @ v"
  have g: "list_all graphic ?l" using assms by (simp add: graphic_def)
  have "graphic c \<Longrightarrow> c \<noteq> CHR 0x0D" for c by (auto simp: graphic_def)
  with g have "list_all is_ascii (?l @ [newline])" "CHR 0x0D \<notin> set (?l @ [newline])"
    by (auto simp: list_all_iff newline_def graphic_ascii) (simp_all add: is_ascii_def)
  with F have "a_characters F (?l @ [newline]) = map (\<lambda>c. [c]) ?l @ [[newline]]"
    by (simp add: swift_text_def)
  moreover have "[newline] \<notin> set (map (\<lambda>c. [c]) ?l)"
    using g by (auto simp: list_all_iff dest: graphic_not_newline)
  ultimately have "split_characters (a_characters F (?l @ [newline])) = [map (\<lambda>c. [c]) ?l, []]"
    by (metis split_characters_line)
  moreover have "concat (map (\<lambda>c. [c]) s) = s" for s :: string by (induction s) auto
  moreover have "dropWhile (\<lambda>c. c \<noteq> ''='') (map (\<lambda>c. [c]) ?l) = map (\<lambda>c. [c]) (''='' @ v)"
    using assms(4) by (auto simp: dropWhile_append)
  moreover have "take 1 (map (\<lambda>c. [c]) ?l) \<noteq> [''#'']" using assms(3,5) by (cases label) auto
  ultimately show ?thesis
    using swift_text_graphic [OF F g] swift_text_graphic(2) [OF F assms(6)] assms(3) by (simp add: Let_def)
qed

lemma key_lines_read:
  assumes "swift_text F" and "list_all graphic v"
  shows "material_of_lines F (split_characters (a_characters F (private_key_line v))) = Some v"
    and "material_of_lines F (split_characters (a_characters F (public_key_line v))) = Some v"
  using material_of_key_line [OF assms(1), of "''private_key_hex''" v]
    material_of_key_line [OF assms(1), of "''public_key_hex''" v] assms(2)
  by (simp_all add: private_key_line_def public_key_line_def graphic_def)

text \<open>A key file with the line of either kind, in a file that passes its checks.\<close>

lemma key_file_read:
  assumes F: "swift_text F"
    and "readSafeFile F path label pm w = (Ok (as_bytes line, st), w')"
    and "line = private_key_line (hexEncode key) \<or> line = public_key_line (hexEncode key)"
  shows "readKeyMaterial F None (Some path) label pm w = (Ok (hexEncode key), w')"
    and "key_of_hex F mk (hexEncode key) = map_err Thrown (mk key)"
proof -
  note g = hexEncode_graphic [of key]
  have "from_utf8 (as_bytes line) = Some line"
    using assms(3) key_line_ascii [OF g] by (auto intro: from_utf8_ascii)
  moreover have "material_of_lines F (split_characters (a_characters F line)) = Some (hexEncode key)"
    using assms(3) key_lines_read [OF F g] by auto
  ultimately show "readKeyMaterial F None (Some path) label pm w = (Ok (hexEncode key), w')"
    using assms(2) by (simp add: readKeyMaterial_def)
  show "key_of_hex F mk (hexEncode key) = map_err Thrown (mk key)"
    by (simp add: key_of_hex_def hexDecode_hexEncode [OF F])
qed

section \<open>The keys of a configuration\<close>

text \<open>A key that is given in hex, or by a file that passed the checks on its owner and permissions.\<close>

definition key_given ::
    "'w file_sys \<Rightarrow> (bytes \<Rightarrow> (bytes, string) result) \<Rightarrow> string option \<Rightarrow> string option \<Rightarrow> bool \<Rightarrow> bytes \<Rightarrow> bool" where
  "key_given F mk hex file pm key \<longleftrightarrow>
    (\<exists>h. key_of_hex F mk h = Ok key \<and>
      (file = None \<and> (\<exists>t. hex = Some t \<and> h = f_trim F t) \<or>
       hex = None \<and> (\<exists>path fd st w w1 w2. file = Some path \<and> f_open F path safe_flags w = (Ok fd, w1) \<and>
         f_fstat F fd w1 = (Ok st, w2) \<and> safe_file (f_geteuid F) pm st)))"

lemma readKeyMaterial_given:
  assumes "readKeyMaterial F hex file label pm w = (Ok h, w')" and "key_of_hex F mk h = Ok key"
  shows "key_given F mk hex file pm key"
proof (cases hex)
  case None
  with assms(1) obtain path data st v where "file = Some path" "readSafeFile F path label pm w = (Ok (data, st), v)"
    by (auto simp: readKeyMaterial_def result_simps split: option.splits)
  with readSafeFile_Ok [OF this(2)] None assms(2) show ?thesis unfolding key_given_def by blast
next
  case (Some t)
  with assms show ?thesis by (auto simp: readKeyMaterial_def key_given_def split: option.splits)
qed

definition host_key :: "'w file_sys \<Rightarrow> AllowedHost \<Rightarrow> bytes \<Rightarrow> bool" where
  "host_key F host key \<longleftrightarrow>
    key_given F (f_public_key F) (ah_publicKeyHex host) (ah_publicKeyFile host) False key"

definition host_ids :: "'w file_sys \<Rightarrow> AllowedHost list \<Rightarrow> string list" where
  "host_ids F hosts = map (\<lambda>host. a_nfc F (ah_hostId host)) hosts"

lemma host_verifiers_loop_Ok:
  assumes "host_verifiers_loop F hosts verifiers w = (Ok verifiers', w')"
  shows "distinct (host_ids F hosts) \<and> dom verifiers \<inter> set (host_ids F hosts) = {} \<and>
    (\<forall>k. k \<notin> set (host_ids F hosts) \<longrightarrow> verifiers' k = verifiers k) \<and>
    (\<forall>host \<in> set hosts. \<exists>key. host_key F host key \<and>
      verifiers' (a_nfc F (ah_hostId host)) = Some \<lparr>hv_hostId = ah_hostId host, hv_publicKey = key\<rparr>)"
  using assms
proof (induction hosts arbitrary: verifiers w)
  case Nil
  then show ?case by (simp add: host_ids_def)
next
  case (Cons host hosts)
  let ?id = "a_nfc F (ah_hostId host)"
  from Cons.prems obtain h key v where h: "verifiers ?id = None"
    "readKeyMaterial F (ah_publicKeyHex host) (ah_publicKeyFile host) (''host public key for '' @ ah_hostId host) False w = (Ok h, v)"
    "key_of_hex F (f_public_key F) h = Ok key"
    "host_verifiers_loop F hosts (verifiers(?id \<mapsto> \<lparr>hv_hostId = ah_hostId host, hv_publicKey = key\<rparr>)) v = (Ok verifiers', w')"
    by (auto simp: result_simps split: if_splits)
  have key: "host_key F host key" using readKeyMaterial_given [OF h(2,3)] by (simp add: host_key_def)
  have IH: "distinct (host_ids F hosts)"
    "insert ?id (dom verifiers) \<inter> set (host_ids F hosts) = {}"
    "\<And>k. k \<notin> set (host_ids F hosts) \<Longrightarrow>
      verifiers' k = (verifiers(?id \<mapsto> \<lparr>hv_hostId = ah_hostId host, hv_publicKey = key\<rparr>)) k"
    "\<forall>host \<in> set hosts. \<exists>key. host_key F host key \<and>
      verifiers' (a_nfc F (ah_hostId host)) = Some \<lparr>hv_hostId = ah_hostId host, hv_publicKey = key\<rparr>"
    using Cons.IH [OF h(4)] by (simp_all only: dom_fun_upd option.simps if_False) blast+
  have ids: "host_ids F (host # hosts) = ?id # host_ids F hosts" by (simp add: host_ids_def)
  have "?id \<notin> set (host_ids F hosts)" using IH(2) by blast
  with IH(3) have new: "verifiers' ?id = Some \<lparr>hv_hostId = ah_hostId host, hv_publicKey = key\<rparr>" by simp
  show ?case
    unfolding ids using IH h(1) key new by (auto simp: domIff)
qed

text \<open>The verifiers of a configuration with hosts, and of one without.\<close>

lemma hostVerifiers_Ok:
  assumes "hostVerifiers F config w = (Ok verifiers, w')"
  shows "if config_hosts config \<noteq> [] then
      distinct (host_ids F (config_hosts config)) \<and> dom verifiers = set (host_ids F (config_hosts config)) \<and>
      (\<forall>host \<in> set (config_hosts config). \<exists>key. host_key F host key \<and>
        verifiers (a_nfc F (ah_hostId host)) = Some \<lparr>hv_hostId = ah_hostId host, hv_publicKey = key\<rparr>)
    else (\<exists>key. key_given F (f_public_key F) (ac_hostPublicKeyHex config) (ac_hostPublicKeyFile config) False key \<and>
      verifiers = [a_nfc F ''*'' \<mapsto> \<lparr>hv_hostId = ''*'', hv_publicKey = key\<rparr>])"
proof (cases "config_hosts config = []")
  case True
  then have "\<not> (ac_hosts config \<noteq> None \<and> ac_hosts config \<noteq> Some [])"
    by (cases "ac_hosts config") (simp_all add: config_hosts_def)
  with assms obtain h key v where
    "readKeyMaterial F (ac_hostPublicKeyHex config) (ac_hostPublicKeyFile config) ''host public key'' False w = (Ok h, v)"
    "key_of_hex F (f_public_key F) h = Ok key" "verifiers = [a_nfc F ''*'' \<mapsto> \<lparr>hv_hostId = ''*'', hv_publicKey = key\<rparr>]"
    by (auto simp: hostVerifiers_def result_simps)
  with readKeyMaterial_given [OF this(1,2)] True show ?thesis by auto
next
  case False
  then have "ac_hosts config = Some (config_hosts config)"
    by (cases "ac_hosts config") (simp_all add: config_hosts_def)
  with assms False have loop: "host_verifiers_loop F (config_hosts config) Map.empty w = (Ok verifiers, w')"
    by (simp add: hostVerifiers_def)
  note ok = host_verifiers_loop_Ok [OF this]
  have "k \<in> dom verifiers" if "k \<in> set (host_ids F (config_hosts config))" for k
    using ok that by (fastforce simp: host_ids_def)
  with ok have "dom verifiers = set (host_ids F (config_hosts config))" by auto
  with ok False show ?thesis by simp
qed

text \<open>The key that verifies requests of a host is the one the configuration gives for it.\<close>

definition configured_key :: "'w file_sys \<Rightarrow> AgentConfig \<Rightarrow> string \<Rightarrow> bytes \<Rightarrow> bool" where
  "configured_key F config hostId key \<longleftrightarrow>
    (if config_hosts config = [] then
       key_given F (f_public_key F) (ac_hostPublicKeyHex config) (ac_hostPublicKeyFile config) False key
     else \<exists>host \<in> set (config_hosts config). host_key F host key \<and>
       a_nfc F (ah_hostId host) =
         (if a_nfc F hostId \<in> set (host_ids F (config_hosts config)) then a_nfc F hostId else a_nfc F ''*''))"

lemma host_verifier_configured:
  assumes "hostVerifiers F config w = (Ok (rt_hostVerifiers rt), w')"
    and "host_verifier (agent_sys.truncate F) rt hostId = Some verifier"
  shows "configured_key F config hostId (hv_publicKey verifier)"
proof -
  let ?vs = "rt_hostVerifiers rt"
  define k where "k = (if a_nfc F hostId \<in> dom ?vs then a_nfc F hostId else a_nfc F ''*'')"
  have k: "?vs k = Some verifier"
    using assms(2)
    by (cases "?vs (a_nfc F hostId)") (simp_all add: host_verifier_def k_def agent_sys.truncate_def domIff)
  show ?thesis
  proof (cases "config_hosts config = []")
    case True
    with hostVerifiers_Ok [OF assms(1)] k show ?thesis by (auto simp: configured_key_def split: if_splits)
  next
    case False
    with hostVerifiers_Ok [OF assms(1)]
    have vs: "dom ?vs = set (host_ids F (config_hosts config))"
      "\<forall>host \<in> set (config_hosts config). \<exists>key. host_key F host key \<and>
        ?vs (a_nfc F (ah_hostId host)) = Some \<lparr>hv_hostId = ah_hostId host, hv_publicKey = key\<rparr>"
      by simp_all
    from k vs(1) obtain host where host: "host \<in> set (config_hosts config)" "a_nfc F (ah_hostId host) = k"
      unfolding host_ids_def by (metis (no_types, lifting) domI imageE list.set_map)
    with vs(2) k have "host_key F host (hv_publicKey verifier)" by fastforce
    with host False show ?thesis by (auto simp: configured_key_def k_def vs(1))
  qed
qed

lemma runtime_Ok:
  assumes "runtime F config w = (Ok rt, w')"
  shows "\<exists>v. hostVerifiers F config w = (Ok (rt_hostVerifiers rt), v)"
  using assms by (auto simp: runtime_def result_simps)

end
