(* ===== verification/Agent_Commands.thy ===== *)
theory Agent_Commands
  imports Agent_Config
begin

text \<open>
  The commands of the macOS agent other than its servers (\<open>main.swift\<close>): \<open>hosts\<close>, \<open>init-key\<close>,
  \<open>print-public-key\<close>, \<open>keychain-init\<close>, \<open>keychain-public-key\<close> and \<open>verify-vector\<close>, on parsed options.
  \<open>decode\<close> and \<open>encode\<close> are the JSON coders. Texts are equal when they are canonically equivalent.
\<close>

section \<open>Options\<close>

record InitKeyOptions =
  ik_privateKeyFile :: string
  ik_publicKeyFile :: "string option"

record PrintPublicKeyOptions =
  pk_agentKeyHex :: "string option"
  pk_agentKeyFile :: "string option"
  pk_keychainService :: "string option"
  pk_keychainAccount :: "string option"

record KeychainInitOptions =
  ki_service :: string
  ki_account :: string
  ki_overwrite :: bool

record KeychainPublicKeyOptions =
  kp_service :: string
  kp_account :: string

record VerifyVectorOptions =
  vv_path :: string

record HostsOptions =
  ho_command :: string
  ho_configPath :: string
  ho_hostId :: "string option"
  ho_publicKeyHex :: "string option"
  ho_publicKeyFile :: "string option"

section \<open>Hosts\<close>

text \<open>A forced unwrapping of an option that is not there ends the process.\<close>

definition unwrapped :: "'a option \<Rightarrow> ('a, AgentError) result" where
  "unwrapped x = ok_or x Trap"

definition same_text :: "'w file_sys \<Rightarrow> string \<Rightarrow> string \<Rightarrow> bool" where
  "same_text F a b \<longleftrightarrow> a_nfc F a = a_nfc F b"

definition host_line :: "AllowedHost \<Rightarrow> string" where
  "host_line host =
    ah_hostId host @ '' '' @
    unwrap_or (ah_publicKeyFile host) (if ah_publicKeyHex host \<noteq> None then ''<inline>'' else ''<missing>'')"

definition hosts_add ::
    "'w file_sys \<Rightarrow> AgentConfig \<Rightarrow> AllowedHost \<Rightarrow> (AgentConfig, AgentError) result" where
  "hosts_add F config host =
    (if \<exists>h \<in> set (config_hosts config). same_text F (ah_hostId h) (ah_hostId host) then
       Err (InvalidPayload (''host already exists: '' @ ah_hostId host))
     else Ok (config\<lparr>ac_hosts := Some (config_hosts config @ [host])\<rparr>))"

definition hosts_remove :: "'w file_sys \<Rightarrow> AgentConfig \<Rightarrow> string \<Rightarrow> (AgentConfig, AgentError) result" where
  "hosts_remove F config hostId =
    (let newHosts = filter (\<lambda>h. \<not> same_text F (ah_hostId h) hostId) (config_hosts config)
     in if length newHosts = length (config_hosts config) then
          Err (InvalidPayload (''host not found: '' @ hostId))
        else Ok (config\<lparr>ac_hosts := Some newHosts\<rparr>))"

definition runHosts ::
    "'w file_sys \<Rightarrow> (bytes \<Rightarrow> (AgentConfig, string) result) \<Rightarrow> (AgentConfig \<Rightarrow> (bytes, string) result) \<Rightarrow>
     HostsOptions \<Rightarrow> 'w \<Rightarrow> ((unit, AgentError) result \<times> 'w) option" where
  "runHosts F decode encode options w =
    bind_io (Some (loadAgentConfig F decode (ho_configPath options) w)) (\<lambda>config w.
    if ho_command options = ''list'' then
      Some (Ok (), fold (\<lambda>host. f_print F (host_line host)) (config_hosts config) w)
    else if ho_command options = ''add'' then
      bind_io (Some (unwrapped (ho_hostId options), w)) (\<lambda>hostId w.
      bind_io (Some (hosts_add F config \<lparr>ah_hostId = hostId, ah_publicKeyHex = ho_publicKeyHex options,
        ah_publicKeyFile = ho_publicKeyFile options\<rparr>, w)) (\<lambda>config w.
      writeAgentConfig F encode config (ho_configPath options) w))
    else if ho_command options = ''remove'' then
      bind_io (Some (unwrapped (ho_hostId options), w)) (\<lambda>hostId w.
      bind_io (Some (hosts_remove F config hostId, w)) (\<lambda>config w.
      writeAgentConfig F encode config (ho_configPath options) w))
    else Some (Err (Usage (''unknown hosts subcommand '' @ ho_command options)), w))"

section \<open>Keys\<close>

definition key_text :: "string \<Rightarrow> bytes \<Rightarrow> string" where
  "key_text label key = label @ ''='' @ hexEncode key"

definition runInitKey ::
    "'w file_sys \<Rightarrow> InitKeyOptions \<Rightarrow> 'w \<Rightarrow> ((unit, AgentError) result \<times> 'w) option" where
  "runInitKey F options w =
    (case f_generate_key F w of (privateKey, w) \<Rightarrow>
     let publicKey = f_public_of F privateKey in
     bind_io (writeNewFile F (ik_privateKeyFile options)
       (key_text ''private_key_hex'' privateKey @ [newline]) 384 w) (\<lambda>_ w.
     bind_io
       (case ik_publicKeyFile options of
          None \<Rightarrow> Some (Ok (), w)
        | Some publicKeyFile \<Rightarrow>
            writeNewFile F publicKeyFile (key_text ''public_key_hex'' publicKey @ [newline]) 420 w) (\<lambda>_ w.
     Some (Ok (), f_print F (key_text ''public_key_hex'' publicKey) w))))"

definition runPrintPublicKey ::
    "'w file_sys \<Rightarrow> PrintPublicKeyOptions \<Rightarrow> 'w \<Rightarrow> (unit, AgentError) result \<times> 'w" where
  "runPrintPublicKey F options w =
    bind_w
      (case (pk_keychainService options, pk_keychainAccount options) of
         (Some service, Some account) \<Rightarrow> loadPrivateKeyFromKeychain F service account w
       | _ \<Rightarrow>
           bind_w (readKeyMaterial F (pk_agentKeyHex options) (pk_agentKeyFile options)
             ''agent private key'' True w) (\<lambda>agentKeyHex w.
           (key_of_hex F (f_private_key F) agentKeyHex, w)))
      (\<lambda>privateKey w.
    (Ok (), f_print F (key_text ''public_key_hex'' (f_public_of F privateKey)) w))"

definition runKeychainInit ::
    "'w file_sys \<Rightarrow> KeychainInitOptions \<Rightarrow> 'w \<Rightarrow> (unit, AgentError) result \<times> 'w" where
  "runKeychainInit F options w =
    (case f_generate_key F w of (privateKey, w) \<Rightarrow>
     bind_w (storePrivateKeyInKeychain F privateKey (ki_service options) (ki_account options)
       (ki_overwrite options) w) (\<lambda>_ w.
     (Ok (), f_print F (key_text ''public_key_hex'' (f_public_of F privateKey)) w)))"

definition runKeychainPublicKey ::
    "'w file_sys \<Rightarrow> KeychainPublicKeyOptions \<Rightarrow> 'w \<Rightarrow> (unit, AgentError) result \<times> 'w" where
  "runKeychainPublicKey F options w =
    bind_w (loadPrivateKeyFromKeychain F (kp_service options) (kp_account options) w) (\<lambda>privateKey w.
    (Ok (), f_print F (key_text ''public_key_hex'' (f_public_of F privateKey)) w))"

section \<open>Test vectors\<close>

record ProtocolTestVector =
  ptv_hostPublicKeyHex :: string
  ptv_agentPublicKeyHex :: string
  ptv_requestHashHex :: string
  ptv_request :: SwiftSignedRequest
  ptv_response :: SwiftSignedResponse

definition response_bound :: "'w file_sys \<Rightarrow> SwiftRequestBody \<Rightarrow> bytes \<Rightarrow> SwiftResponseBody \<Rightarrow> bool" where
  "response_bound F request requestHash response \<longleftrightarrow>
    same_text F (resp_requestId response) (req_requestId request) \<and>
    resp_nonce response = req_nonce request \<and>
    resp_requestHash response = requestHash \<and>
    same_text F (resp_linuxHostId response) (req_linuxHostId request) \<and>
    same_text F (resp_pamService response) (req_pamService request) \<and>
    same_text F (resp_pamUser response) (req_pamUser request)"

definition check_vector ::
    "'z crypto_scheme \<Rightarrow> 'w file_sys \<Rightarrow> ProtocolTestVector \<Rightarrow> (unit, AgentError) result" where
  "check_vector C F vector =
    and_then (key_of_hex F (f_public_key F) (ptv_hostPublicKeyHex vector)) (\<lambda>hostPublicKey.
    and_then (key_of_hex F (f_public_key F) (ptv_agentPublicKeyHex vector)) (\<lambda>agentPublicKey.
    let request = sreq_body (ptv_request vector); response = sresp_body (ptv_response vector) in
    and_then (swift_request_canonicalBytes request) (\<lambda>requestBytes.
    if \<not> a_isValidSignature F hostPublicKey (sreq_signature (ptv_request vector)) requestBytes then
      Err InvalidSignature
    else
    and_then (swift_request_sha256 C request) (\<lambda>requestHash.
    if \<not> same_text F (hexEncode requestHash) (ptv_requestHashHex vector) then
      Err (InvalidPayload ''request hash mismatch'')
    else if \<not> response_bound F request requestHash response then
      Err (InvalidPayload ''response binding mismatch'')
    else
    and_then (swift_response_canonicalBytes response) (\<lambda>responseBytes.
    if \<not> a_isValidSignature F agentPublicKey (sresp_signature (ptv_response vector)) responseBytes then
      Err InvalidSignature
    else Ok ())))))"

definition runVerifyVector ::
    "'z crypto_scheme \<Rightarrow> 'w file_sys \<Rightarrow> (bytes \<Rightarrow> (ProtocolTestVector, string) result) \<Rightarrow>
     VerifyVectorOptions \<Rightarrow> 'w \<Rightarrow> (unit, AgentError) result \<times> 'w" where
  "runVerifyVector C F decode options w =
    bind_w (map_err_w Thrown (f_contents F (vv_path options) w)) (\<lambda>data w.
    bind_w (map_err Thrown (decode data), w) (\<lambda>vector w.
    bind_w (check_vector C F vector, w) (\<lambda>_ w.
    (Ok (), f_print F ''ok'' w))))"

section \<open>Lists of hosts\<close>

text \<open>The contract of a list with keys: a step adds a key that is new, or takes a key away.\<close>

locale keyed_list =
  fixes keys :: "'s \<Rightarrow> 'k list" and step :: "'s \<Rightarrow> 's \<Rightarrow> bool"
  assumes steps: "step s s' \<Longrightarrow>
    (\<exists>k. k \<notin> set (keys s) \<and> keys s' = keys s @ [k]) \<or> (\<exists>k. keys s' = filter (\<lambda>x. x \<noteq> k) (keys s))"
begin

lemma distinct_step: "step s s' \<Longrightarrow> distinct (keys s) \<Longrightarrow> distinct (keys s')"
  using steps by fastforce

lemma distinct_kept: "step\<^sup>*\<^sup>* s s' \<Longrightarrow> distinct (keys s) \<Longrightarrow> distinct (keys s')"
  by (induction rule: rtranclp_induct) (auto intro: distinct_step)

end

text \<open>The hosts of a configuration under \<open>hosts add\<close> and \<open>hosts remove\<close>.\<close>

definition config_ids :: "'w file_sys \<Rightarrow> AgentConfig \<Rightarrow> string list" where
  "config_ids F config = host_ids F (config_hosts config)"

inductive hosts_step :: "'w file_sys \<Rightarrow> AgentConfig \<Rightarrow> AgentConfig \<Rightarrow> bool" for F where
  add: "hosts_add F config host = Ok config' \<Longrightarrow> hosts_step F config config'"
| remove: "hosts_remove F config hostId = Ok config' \<Longrightarrow> hosts_step F config config'"

lemma hosts_add_ids:
  assumes "hosts_add F config host = Ok config'"
  shows "a_nfc F (ah_hostId host) \<notin> set (config_ids F config)"
    and "config_hosts config' = config_hosts config @ [host]"
    and "config_ids F config' = config_ids F config @ [a_nfc F (ah_hostId host)]"
  using assms
  by (auto simp: hosts_add_def same_text_def config_ids_def host_ids_def config_hosts_def split: if_splits)

lemma hosts_remove_ids:
  assumes "hosts_remove F config hostId = Ok config'"
  shows "a_nfc F hostId \<in> set (config_ids F config)"
    and "config_hosts config' = filter (\<lambda>h. a_nfc F (ah_hostId h) \<noteq> a_nfc F hostId) (config_hosts config)"
    and "config_ids F config' = filter (\<lambda>k. k \<noteq> a_nfc F hostId) (config_ids F config)"
proof -
  from assms show hosts: "config_hosts config' = filter (\<lambda>h. a_nfc F (ah_hostId h) \<noteq> a_nfc F hostId) (config_hosts config)"
    by (auto simp: hosts_remove_def same_text_def Let_def config_hosts_def split: if_splits)
  from assms have "length (config_hosts config') \<noteq> length (config_hosts config)"
    by (auto simp: hosts_remove_def same_text_def Let_def config_hosts_def split: if_splits)
  with hosts have "filter (\<lambda>h. a_nfc F (ah_hostId h) \<noteq> a_nfc F hostId) (config_hosts config) \<noteq> config_hosts config" by auto
  then show "a_nfc F hostId \<in> set (config_ids F config)"
    by (force simp: config_ids_def host_ids_def filter_id_conv)
  show "config_ids F config' = filter (\<lambda>k. k \<noteq> a_nfc F hostId) (config_ids F config)"
    by (simp add: config_ids_def host_ids_def hosts filter_map comp_def)
qed

interpretation hosts: keyed_list "config_ids F" "hosts_step F" for F :: "'w file_sys"
proof
  fix config config' assume "hosts_step F config config'"
  then show "(\<exists>k. k \<notin> set (config_ids F config) \<and> config_ids F config' = config_ids F config @ [k]) \<or>
      (\<exists>k. config_ids F config' = filter (\<lambda>x. x \<noteq> k) (config_ids F config))"
    by cases (blast dest: hosts_add_ids hosts_remove_ids)+
qed

text \<open>Removing a host that was added restores the hosts.\<close>

lemma hosts_remove_added:
  assumes "hosts_add F config host = Ok config'"
  shows "hosts_remove F config' (ah_hostId host) = Ok (config\<lparr>ac_hosts := Some (config_hosts config)\<rparr>)"
proof -
  have "\<forall>h \<in> set (config_hosts config). a_nfc F (ah_hostId h) \<noteq> a_nfc F (ah_hostId host)"
    using hosts_add_ids(1) [OF assms] by (auto simp: config_ids_def host_ids_def image_iff)
  then have "filter (\<lambda>h. a_nfc F (ah_hostId h) \<noteq> a_nfc F (ah_hostId host)) (config_hosts config) = config_hosts config"
    by (simp add: filter_id_conv)
  moreover have "config' = config\<lparr>ac_hosts := Some (config_hosts config @ [host])\<rparr>"
    using assms by (simp add: hosts_add_def split: if_splits)
  ultimately show ?thesis
    using hosts_add_ids(2) [OF assms] by (simp add: hosts_remove_def same_text_def Let_def)
qed

text \<open>
  A server finds a key for every host of a list with distinct identifiers when the keys can be read, so that
  it starts after any commands on the hosts.
\<close>

definition keys_readable :: "'w file_sys \<Rightarrow> AllowedHost list \<Rightarrow> bool" where
  "keys_readable F hosts \<longleftrightarrow> (\<forall>host \<in> set hosts. \<forall>w. \<exists>h key w'.
    readKeyMaterial F (ah_publicKeyHex host) (ah_publicKeyFile host) (''host public key for '' @ ah_hostId host) False w =
      (Ok h, w') \<and> key_of_hex F (f_public_key F) h = Ok key)"

lemma host_verifiers_loop_finds:
  assumes "keys_readable F hosts" and "distinct (host_ids F hosts)" and "dom verifiers \<inter> set (host_ids F hosts) = {}"
  shows "\<exists>verifiers' w'. host_verifiers_loop F hosts verifiers w = (Ok verifiers', w')"
  using assms
proof (induction hosts arbitrary: verifiers w)
  case (Cons host hosts)
  let ?id = "a_nfc F (ah_hostId host)"
  from Cons.prems(1) obtain h key v where
    "readKeyMaterial F (ah_publicKeyHex host) (ah_publicKeyFile host) (''host public key for '' @ ah_hostId host) False w =
      (Ok h, v)" "key_of_hex F (f_public_key F) h = Ok key"
    by (fastforce simp: keys_readable_def)
  moreover have ids: "host_ids F (host # hosts) = ?id # host_ids F hosts" by (simp add: host_ids_def)
  then have "verifiers ?id = None" using Cons.prems(3) by auto
  moreover have "keys_readable F hosts" using Cons.prems(1) by (simp add: keys_readable_def)
  moreover have "distinct (host_ids F hosts)"
    "dom (verifiers(?id \<mapsto> \<lparr>hv_hostId = ah_hostId host, hv_publicKey = key\<rparr>)) \<inter> set (host_ids F hosts) = {}"
    using Cons.prems(2,3) unfolding ids dom_fun_upd by auto
  moreover note Cons.IH
  ultimately show ?case by simp
qed simp

lemma hosts_commands_startable:
  assumes "(hosts_step F)\<^sup>*\<^sup>* config config'" and "distinct (config_ids F config)"
    and "config_hosts config' \<noteq> []" and "keys_readable F (config_hosts config')"
  shows "\<exists>verifiers w'. hostVerifiers F config' w = (Ok verifiers, w')"
proof -
  have "distinct (host_ids F (config_hosts config'))"
    using hosts.distinct_kept [OF assms(1,2)] by (simp add: config_ids_def)
  moreover have "ac_hosts config' = Some (config_hosts config')"
    using assms(3) by (cases "ac_hosts config'") (simp_all add: config_hosts_def)
  ultimately show ?thesis
    using host_verifiers_loop_finds [OF assms(4), of Map.empty w] assms(3) by (simp add: hostVerifiers_def)
qed

end
