(* ===== verification/Agent_Options.thy ===== *)
theory Agent_Options
  imports Agent_Commands
begin

text \<open>
  The command lines of the macOS agent (the parsers of \<open>main.swift\<close>). Every parser loops over its
  arguments with one local variable per option; \<open>parse_loop\<close> is that loop, and its state maps an option
  to the value it was last given, or to empty text when it takes none. Each parser then checks its
  variables. The lines that \<open>usage\<close> describes are read back as the options they spell.
\<close>

section \<open>The loop\<close>

type_synonym vars = "string \<rightharpoonup> string"

fun parse_loop :: "string list \<Rightarrow> string list \<Rightarrow> string list \<Rightarrow> vars \<Rightarrow> (vars, AgentError) result" where
  "parse_loop valued flags [] vars = Ok vars"
| "parse_loop valued flags (arg # rest) vars =
    (if arg \<in> set valued then
       (case rest of
          [] \<Rightarrow> Err (Usage (''missing value for '' @ arg))
        | v # rest \<Rightarrow> parse_loop valued flags rest (vars(arg \<mapsto> v)))
     else if arg \<in> set flags then parse_loop valued flags rest (vars(arg \<mapsto> []))
     else Err (Usage (''unknown option '' @ arg)))"

text \<open>A \<open>guard\<close> that throws a usage error.\<close>

definition required :: "'a option \<Rightarrow> string \<Rightarrow> ('a, AgentError) result" where
  "required x message = ok_or x (Usage message)"

definition refuse :: "bool \<Rightarrow> string \<Rightarrow> (unit, AgentError) result" where
  "refuse c message = (if c then Err (Usage message) else Ok ())"

section \<open>The parsers\<close>

record ServeOptions =
  so_configPath :: string
  so_once :: bool

definition check_hosts :: "string \<Rightarrow> vars \<Rightarrow> (unit, AgentError) result" where
  "check_hosts subcommand vars =
    (if subcommand = ''list'' then Ok ()
     else if subcommand = ''add'' then
       and_then (required (vars ''--host-id'') ''hosts add requires --host-id'') (\<lambda>_.
       and_then (refuse (vars ''--public-key-hex'' = None \<and> vars ''--public-key-file'' = None)
         ''hosts add requires --public-key-hex or --public-key-file'') (\<lambda>_.
       refuse (vars ''--public-key-hex'' \<noteq> None \<and> vars ''--public-key-file'' \<noteq> None)
         ''provide only one public key source''))
     else if subcommand = ''remove'' then
       and_then (required (vars ''--host-id'') ''hosts remove requires --host-id'') (\<lambda>_. Ok ())
     else Err (Usage (''unknown hosts subcommand '' @ subcommand)))"

definition parseHostsOptions :: "string list \<Rightarrow> (HostsOptions, AgentError) result" where
  "parseHostsOptions args =
    (case args of
       [] \<Rightarrow> Err (Usage ''missing hosts subcommand'')
     | subcommand # args \<Rightarrow>
         and_then (parse_loop [''--config'', ''--host-id'', ''--public-key-hex'', ''--public-key-file''] [] args Map.empty) (\<lambda>vars.
         and_then (required (vars ''--config'') ''missing --config'') (\<lambda>configPath.
         and_then (check_hosts subcommand vars) (\<lambda>_.
         Ok \<lparr>ho_command = subcommand, ho_configPath = configPath, ho_hostId = vars ''--host-id'',
             ho_publicKeyHex = vars ''--public-key-hex'', ho_publicKeyFile = vars ''--public-key-file''\<rparr>))))"

definition decision_of_rawValue :: "string \<Rightarrow> Decision option" where
  "decision_of_rawValue s = find (\<lambda>d. decision_rawValue d = s) [Approved, Denied, Unavailable, Cancelled, Failed]"

definition fake_agent_options :: "string list" where
  "fake_agent_options = [''--socket'', ''--host-pubkey-hex'', ''--host-pubkey-file'', ''--agent-key-hex'',
    ''--agent-key-file'', ''--agent-key-id'', ''--decision'']"

definition parseFakeAgentOptions :: "string list \<Rightarrow> (FakeAgentOptions, AgentError) result" where
  "parseFakeAgentOptions args =
    and_then (parse_loop fake_agent_options [''--once''] args Map.empty) (\<lambda>vars.
    let decision = unwrap_or (vars ''--decision'') ''approved'' in
    and_then (required (decision_of_rawValue decision) (''invalid decision '' @ decision)) (\<lambda>decision.
    and_then (required (vars ''--socket'') ''missing --socket'') (\<lambda>socketPath.
    and_then (refuse (vars ''--host-pubkey-hex'' = None \<and> vars ''--host-pubkey-file'' = None)
      ''missing --host-pubkey-hex or --host-pubkey-file'') (\<lambda>_.
    and_then (refuse (vars ''--host-pubkey-hex'' \<noteq> None \<and> vars ''--host-pubkey-file'' \<noteq> None)
      ''provide only one of --host-pubkey-hex or --host-pubkey-file'') (\<lambda>_.
    and_then (refuse (vars ''--agent-key-hex'' = None \<and> vars ''--agent-key-file'' = None)
      ''missing --agent-key-hex or --agent-key-file'') (\<lambda>_.
    and_then (refuse (vars ''--agent-key-hex'' \<noteq> None \<and> vars ''--agent-key-file'' \<noteq> None)
      ''provide only one of --agent-key-hex or --agent-key-file'') (\<lambda>_.
    Ok \<lparr>fo_socketPath = socketPath, fo_hostPublicKeyHex = vars ''--host-pubkey-hex'',
        fo_hostPublicKeyFile = vars ''--host-pubkey-file'', fo_agentKeyHex = vars ''--agent-key-hex'',
        fo_agentKeyFile = vars ''--agent-key-file'', fo_agentKeyId = unwrap_or (vars ''--agent-key-id'') ''agent-key-1'',
        fo_decision = decision, fo_once = (vars ''--once'' \<noteq> None)\<rparr>)))))))"

definition parseServeOptions :: "string list \<Rightarrow> (ServeOptions, AgentError) result" where
  "parseServeOptions args =
    and_then (parse_loop [''--config''] [''--once''] args Map.empty) (\<lambda>vars.
    and_then (required (vars ''--config'') ''missing --config'') (\<lambda>configPath.
    Ok \<lparr>so_configPath = configPath, so_once = (vars ''--once'' \<noteq> None)\<rparr>))"

definition parseInitKeyOptions :: "string list \<Rightarrow> (InitKeyOptions, AgentError) result" where
  "parseInitKeyOptions args =
    and_then (parse_loop [''--private-key-file'', ''--public-key-file''] [] args Map.empty) (\<lambda>vars.
    and_then (required (vars ''--private-key-file'') ''missing --private-key-file'') (\<lambda>privateKeyFile.
    Ok \<lparr>ik_privateKeyFile = privateKeyFile, ik_publicKeyFile = vars ''--public-key-file''\<rparr>))"

definition parsePrintPublicKeyOptions :: "string list \<Rightarrow> (PrintPublicKeyOptions, AgentError) result" where
  "parsePrintPublicKeyOptions args =
    and_then (parse_loop [''--agent-key-hex'', ''--agent-key-file'', ''--keychain-service'', ''--keychain-account'']
      [] args Map.empty) (\<lambda>vars.
    let agentKeyHex = vars ''--agent-key-hex''; agentKeyFile = vars ''--agent-key-file'';
        keychainService = vars ''--keychain-service''; keychainAccount = vars ''--keychain-account'';
        fileOrHexCount = length (filter (\<lambda>x. x \<noteq> None) [agentKeyHex, agentKeyFile]);
        hasKeychain = (keychainService \<noteq> None \<or> keychainAccount \<noteq> None)
    in
    and_then (refuse (fileOrHexCount = 0 \<and> \<not> hasKeychain) ''missing private key source'') (\<lambda>_.
    and_then (refuse (fileOrHexCount > 0 \<and> hasKeychain)
      ''provide either file/hex key or keychain key, not both'') (\<lambda>_.
    and_then (refuse (hasKeychain \<and> (keychainService = None \<or> keychainAccount = None))
      ''keychain source requires --keychain-service and --keychain-account'') (\<lambda>_.
    and_then (refuse (fileOrHexCount > 1) ''provide only one of --agent-key-file or --agent-key-hex'') (\<lambda>_.
    Ok \<lparr>pk_agentKeyHex = agentKeyHex, pk_agentKeyFile = agentKeyFile,
        pk_keychainService = keychainService, pk_keychainAccount = keychainAccount\<rparr>)))))"

definition parseKeychainInitOptions :: "string list \<Rightarrow> (KeychainInitOptions, AgentError) result" where
  "parseKeychainInitOptions args =
    and_then (parse_loop [''--service'', ''--account''] [''--overwrite''] args Map.empty) (\<lambda>vars.
    and_then (required (vars ''--service'') ''missing --service'') (\<lambda>service.
    and_then (required (vars ''--account'') ''missing --account'') (\<lambda>account.
    Ok \<lparr>ki_service = service, ki_account = account, ki_overwrite = (vars ''--overwrite'' \<noteq> None)\<rparr>)))"

definition parseVerifyVectorOptions :: "string list \<Rightarrow> (VerifyVectorOptions, AgentError) result" where
  "parseVerifyVectorOptions args =
    and_then (parse_loop [''--path''] [] args Map.empty) (\<lambda>vars.
    and_then (required (vars ''--path'') ''missing --path'') (\<lambda>path. Ok \<lparr>vv_path = path\<rparr>))"

definition parseKeychainPublicKeyOptions :: "string list \<Rightarrow> (KeychainPublicKeyOptions, AgentError) result" where
  "parseKeychainPublicKeyOptions args =
    and_then (parse_loop [''--service'', ''--account''] [] args Map.empty) (\<lambda>vars.
    and_then (required (vars ''--service'') ''missing --service'') (\<lambda>service.
    and_then (required (vars ''--account'') ''missing --account'') (\<lambda>account.
    Ok \<lparr>kp_service = service, kp_account = account\<rparr>)))"

section \<open>Command lines\<close>

text \<open>The lines of \<open>usage\<close> for given options.\<close>

definition given :: "string \<Rightarrow> string option \<Rightarrow> string list" where
  "given key x = (case x of None \<Rightarrow> [] | Some v \<Rightarrow> [key, v])"

definition given_flag :: "string \<Rightarrow> bool \<Rightarrow> string list" where
  "given_flag key b = (if b then [key] else [])"

lemma opt_or_None [simp]: "opt_or x None = x"
  by (cases x) simp_all

lemma parse_given [simp]:
  assumes "key \<in> set valued"
  shows "parse_loop valued flags (given key x @ rest) vars = parse_loop valued flags rest (vars(key := opt_or x (vars key)))"
    and "parse_loop valued flags (given key x) vars = Ok (vars(key := opt_or x (vars key)))"
  using assms by (simp_all add: given_def split: option.splits)

lemma parse_given_flag [simp]:
  assumes "key \<in> set flags" and "key \<notin> set valued"
  shows "parse_loop valued flags (given_flag key b) vars = Ok (vars(key := if b then Some [] else vars key))"
  using assms by (simp add: given_flag_def)

definition hosts_line :: "HostsOptions \<Rightarrow> string list" where
  "hosts_line p = ho_command p # given ''--config'' (Some (ho_configPath p)) @ given ''--host-id'' (ho_hostId p) @
    given ''--public-key-hex'' (ho_publicKeyHex p) @ given ''--public-key-file'' (ho_publicKeyFile p)"

definition fake_agent_line :: "FakeAgentOptions \<Rightarrow> string list" where
  "fake_agent_line p = given ''--socket'' (Some (fo_socketPath p)) @
    given ''--host-pubkey-hex'' (fo_hostPublicKeyHex p) @ given ''--host-pubkey-file'' (fo_hostPublicKeyFile p) @
    given ''--agent-key-hex'' (fo_agentKeyHex p) @ given ''--agent-key-file'' (fo_agentKeyFile p) @
    given ''--agent-key-id'' (Some (fo_agentKeyId p)) @
    given ''--decision'' (Some (decision_rawValue (fo_decision p))) @ given_flag ''--once'' (fo_once p)"

definition serve_line :: "ServeOptions \<Rightarrow> string list" where
  "serve_line p = given ''--config'' (Some (so_configPath p)) @ given_flag ''--once'' (so_once p)"

definition init_key_line :: "InitKeyOptions \<Rightarrow> string list" where
  "init_key_line p = given ''--private-key-file'' (Some (ik_privateKeyFile p)) @
    given ''--public-key-file'' (ik_publicKeyFile p)"

definition print_public_key_line :: "PrintPublicKeyOptions \<Rightarrow> string list" where
  "print_public_key_line p = given ''--agent-key-file'' (pk_agentKeyFile p) @ given ''--agent-key-hex'' (pk_agentKeyHex p) @
    given ''--keychain-service'' (pk_keychainService p) @ given ''--keychain-account'' (pk_keychainAccount p)"

definition keychain_init_line :: "KeychainInitOptions \<Rightarrow> string list" where
  "keychain_init_line p = given ''--service'' (Some (ki_service p)) @ given ''--account'' (Some (ki_account p)) @
    given_flag ''--overwrite'' (ki_overwrite p)"

definition keychain_public_key_line :: "KeychainPublicKeyOptions \<Rightarrow> string list" where
  "keychain_public_key_line p = given ''--service'' (Some (kp_service p)) @ given ''--account'' (Some (kp_account p))"

definition verify_vector_line :: "VerifyVectorOptions \<Rightarrow> string list" where
  "verify_vector_line p = given ''--path'' (Some (vv_path p))"

text \<open>Exactly one of two sources.\<close>

definition one_source :: "'a option \<Rightarrow> 'b option \<Rightarrow> bool" where
  "one_source a b \<longleftrightarrow> (a = None) \<noteq> (b = None)"

definition hosts_valid :: "HostsOptions \<Rightarrow> bool" where
  "hosts_valid p \<longleftrightarrow> ho_command p = ''list'' \<or>
    ho_command p = ''add'' \<and> ho_hostId p \<noteq> None \<and> one_source (ho_publicKeyHex p) (ho_publicKeyFile p) \<or>
    ho_command p = ''remove'' \<and> ho_hostId p \<noteq> None"

definition fake_agent_valid :: "FakeAgentOptions \<Rightarrow> bool" where
  "fake_agent_valid p \<longleftrightarrow> one_source (fo_hostPublicKeyHex p) (fo_hostPublicKeyFile p) \<and>
    one_source (fo_agentKeyHex p) (fo_agentKeyFile p)"

definition print_public_key_valid :: "PrintPublicKeyOptions \<Rightarrow> bool" where
  "print_public_key_valid p \<longleftrightarrow>
    one_source (pk_agentKeyHex p) (pk_agentKeyFile p) \<and> pk_keychainService p = None \<and> pk_keychainAccount p = None \<or>
    pk_agentKeyHex p = None \<and> pk_agentKeyFile p = None \<and> pk_keychainService p \<noteq> None \<and> pk_keychainAccount p \<noteq> None"

lemmas parser_simps = required_def refuse_def one_source_def Let_def

lemma decision_of_rawValue: "decision_of_rawValue (decision_name d) = Some d"
  by (cases d) (simp_all add: decision_of_rawValue_def)

lemma parse_hosts_line: "hosts_valid p \<Longrightarrow> parseHostsOptions (hosts_line p) = Ok p"
  by (auto simp: parseHostsOptions_def hosts_line_def check_hosts_def hosts_valid_def parser_simps)

lemma parse_fake_agent_line: "fake_agent_valid p \<Longrightarrow> parseFakeAgentOptions (fake_agent_line p) = Ok p"
  by (simp add: parseFakeAgentOptions_def fake_agent_line_def fake_agent_options_def fake_agent_valid_def
      decision_of_rawValue parser_simps) auto

lemma parse_print_public_key_line:
  "print_public_key_valid p \<Longrightarrow> parsePrintPublicKeyOptions (print_public_key_line p) = Ok p"
  by (auto simp: parsePrintPublicKeyOptions_def print_public_key_line_def print_public_key_valid_def parser_simps)

lemma parse_plain_lines:
  "parseServeOptions (serve_line s) = Ok s" "parseInitKeyOptions (init_key_line i) = Ok i"
  "parseKeychainInitOptions (keychain_init_line k) = Ok k"
  "parseKeychainPublicKeyOptions (keychain_public_key_line q) = Ok q"
  "parseVerifyVectorOptions (verify_vector_line v) = Ok v"
  by (simp_all add: parseServeOptions_def serve_line_def parseInitKeyOptions_def init_key_line_def
      parseKeychainInitOptions_def keychain_init_line_def parseKeychainPublicKeyOptions_def
      keychain_public_key_line_def parseVerifyVectorOptions_def verify_vector_line_def parser_simps)

text \<open>What the parsers let through satisfies the checks.\<close>

lemma parsed_options_valid:
  "parseHostsOptions args = Ok p \<Longrightarrow> hosts_valid p"
  "parseFakeAgentOptions args = Ok f \<Longrightarrow> fake_agent_valid f"
  "parsePrintPublicKeyOptions args = Ok k \<Longrightarrow> print_public_key_valid k"
  by (auto simp: parseHostsOptions_def check_hosts_def hosts_valid_def parseFakeAgentOptions_def fake_agent_valid_def
      parsePrintPublicKeyOptions_def print_public_key_valid_def parser_simps result_simps split: list.splits if_splits)

end
