(* ===== verification/Agent_Listener.thy ===== *)
theory Agent_Listener
  imports Agent_Files
begin

text \<open>
  The listening socket of the macOS agent (\<open>UnixSocketListener\<close> of \<open>Transport.swift\<close>): it is bound in a
  directory that only root or the user controls, takes the place of a socket only when that is stale,
  and is unlinked only while it is still the one that was bound.
\<close>

unbundle bit_operations_syntax

section \<open>The system\<close>

text \<open>
  \<open>l_join\<close> appends a component to a path. The lock around \<open>bind\<close> is that of the class; \<open>l_umask\<close> gives the
  mask it replaces.
\<close>

record 'w listen_sys = "'w file_sys" +
  l_join :: "string \<Rightarrow> string \<Rightarrow> string"
  l_lstat :: "string \<Rightarrow> 'w \<Rightarrow> (stat, errno) result \<times> 'w"
  l_socket :: "'w \<Rightarrow> (fd, errno) result \<times> 'w"
  l_nosigpipe :: "fd \<Rightarrow> 'w \<Rightarrow> (unit, errno) result \<times> 'w"
  l_nonblock :: "fd \<Rightarrow> 'w \<Rightarrow> (unit, errno) result \<times> 'w"
  l_cloexec :: "fd \<Rightarrow> 'w \<Rightarrow> (unit, errno) result \<times> 'w"
  l_connect :: "fd \<Rightarrow> string \<Rightarrow> 'w \<Rightarrow> (unit, errno) result \<times> 'w"
  l_bind_lock :: "'w \<Rightarrow> 'w"
  l_bind_unlock :: "'w \<Rightarrow> 'w"
  l_umask :: "u32 \<Rightarrow> 'w \<Rightarrow> u32 \<times> 'w"
  l_bind :: "fd \<Rightarrow> string \<Rightarrow> 'w \<Rightarrow> (unit, errno) result \<times> 'w"
  l_chmod :: "string \<Rightarrow> u32 \<Rightarrow> 'w \<Rightarrow> (unit, errno) result \<times> 'w"
  l_listen :: "fd \<Rightarrow> nat \<Rightarrow> 'w \<Rightarrow> (unit, errno) result \<times> 'w"
  l_unlink :: "string \<Rightarrow> 'w \<Rightarrow> (unit, errno) result \<times> 'w"
  l_accept :: "fd \<Rightarrow> 'w \<Rightarrow> (fd, errno) result \<times> 'w"

record UnixSocketListener =
  li_fd :: "fd option"
  li_path :: string
  li_identity :: "stat option"

section \<open>Opening\<close>

definition socket_call :: "'w listen_sys \<Rightarrow> ('a, errno) result \<times> 'w \<Rightarrow> ('a, AgentError) result \<times> 'w" where
  "socket_call S p = map_err_w (\<lambda>e. SocketError (a_strerror S e)) p"

definition configureConnectedSocket :: "'w listen_sys \<Rightarrow> fd \<Rightarrow> 'w \<Rightarrow> (unit, AgentError) result \<times> 'w" where
  "configureConnectedSocket S fd w =
    socket_call S (bind_w (l_nosigpipe S fd w) (\<lambda>_ w. bind_w (l_nonblock S fd w) (\<lambda>_ w. l_cloexec S fd w)))"

text \<open>The path in \<open>sockaddr_un\<close>, which has room for 104 bytes.\<close>

definition address :: "string \<Rightarrow> (string, AgentError) result" where
  "address path =
    (if CHR 0x00 \<in> set path \<or> \<not> length (path @ [CHR 0x00]) \<le> 104 then
       Err (SocketError ''invalid or overlong socket path'')
     else Ok path)"

definition trusted_parent :: "u32 \<Rightarrow> (stat, errno) result \<Rightarrow> bool" where
  "trusted_parent euid r = (case r of Inl _ \<Rightarrow> False
    | Inr st \<Rightarrow> md_type st = Directory \<and> (md_uid st = euid \<or> md_uid st = 0) \<and>
        (md_mode st AND 18 = 0 \<or> md_uid st = 0 \<and> md_mode st AND 512 \<noteq> 0))"

text \<open>\<open>removeStaleSocket\<close> with its part on the probing socket, which its \<open>defer\<close> statement closes.\<close>

definition probe_stale ::
    "'w listen_sys \<Rightarrow> fd \<Rightarrow> string \<Rightarrow> string \<Rightarrow> stat \<Rightarrow> 'w \<Rightarrow> (unit, AgentError) result \<times> 'w" where
  "probe_stale S probe path addr st w =
    bind_w (configureConnectedSocket S probe w) (\<lambda>_ w.
    case l_connect S probe addr w of (result, w) \<Rightarrow>
    if result \<noteq> Err ECONNREFUSED then
      (Err (SocketError (''socket already active or cannot safely establish staleness: '' @ path)), w)
    else (case l_lstat S path w of (current, w) \<Rightarrow>
      if (case current of Inl _ \<Rightarrow> True | Inr c \<Rightarrow> \<not> sameFile st c) then
        (Err (SocketError ''socket changed while checking staleness''), w)
      else map_err_w (\<lambda>_. SocketError ''socket changed while checking staleness'') (l_unlink S path w)))"

definition removeStaleSocket :: "'w listen_sys \<Rightarrow> string \<Rightarrow> string \<Rightarrow> 'w \<Rightarrow> (unit, AgentError) result \<times> 'w" where
  "removeStaleSocket S path addr w =
    (case l_lstat S path w of
       (Inl e, w) \<Rightarrow> if e = ENOENT then (Ok (), w) else (Err (SocketError (a_strerror S e)), w)
     | (Inr st, w) \<Rightarrow>
         if \<not> (md_type st = SocketFile \<and> md_uid st = f_geteuid S) then
           (Err (SocketError (''refusing to replace non-socket or foreign socket '' @ path)), w)
         else bind_w (socket_call S (l_socket S w)) (\<lambda>probe w.
           finally_w (probe_stale S probe path addr st w) (\<lambda>w. snd (f_close S probe w))))"

definition bind_private :: "'w listen_sys \<Rightarrow> fd \<Rightarrow> string \<Rightarrow> 'w \<Rightarrow> (unit, errno) result \<times> 'w" where
  "bind_private S fd addr w =
    (case l_umask S 63 (l_bind_lock S w) of (previousMask, w) \<Rightarrow>
     case l_bind S fd addr w of (result, w) \<Rightarrow>
     case l_umask S previousMask w of (_, w) \<Rightarrow> (result, l_bind_unlock S w))"

definition closeAndUnlink :: "'w listen_sys \<Rightarrow> UnixSocketListener \<Rightarrow> 'w \<Rightarrow> UnixSocketListener \<times> 'w" where
  "closeAndUnlink S listener w =
    (let w = (case li_fd listener of None \<Rightarrow> w | Some fd \<Rightarrow> snd (f_close S fd w));
         w = (case li_identity listener of None \<Rightarrow> w
           | Some identity \<Rightarrow> (case l_lstat S (li_path listener) w of (current, w) \<Rightarrow>
               if (case current of Inl _ \<Rightarrow> False | Inr c \<Rightarrow> sameFile identity c)
               then snd (l_unlink S (li_path listener) w) else w))
     in (listener\<lparr>li_fd := None, li_identity := None\<rparr>, w))"

text \<open>The \<open>do\<close> block of the initializer, with the state of \<open>identity\<close> in its result.\<close>

definition bind_and_listen ::
    "'w listen_sys \<Rightarrow> fd \<Rightarrow> string \<Rightarrow> string \<Rightarrow> 'w \<Rightarrow> ((unit, AgentError) result \<times> stat option) \<times> 'w" where
  "bind_and_listen S fd path addr w =
    (case socket_call S (bind_w (l_cloexec S fd w) (\<lambda>_ w. bind_private S fd addr w)) of
       (Inl e, w) \<Rightarrow> ((Err e, None), w)
     | (Inr _, w) \<Rightarrow> (case l_lstat S path w of
         (Inl _, w) \<Rightarrow> ((Err (SocketError ''cannot identify bound socket''), None), w)
       | (Inr st, w) \<Rightarrow>
           if \<not> (md_type st = SocketFile \<and> md_uid st = f_geteuid S) then
             ((Err (SocketError ''cannot identify bound socket''), None), w)
           else (case socket_call S (bind_w (l_chmod S path 384 w) (\<lambda>_ w. l_listen S fd 16 w)) of
             (r, w) \<Rightarrow> ((r, Some st), w))))"

text \<open>The rest of the initializer after the stale socket, and the initializer.\<close>

definition start_listener ::
    "'w listen_sys \<Rightarrow> string \<Rightarrow> string \<Rightarrow> 'w \<Rightarrow> (UnixSocketListener, AgentError) result \<times> 'w" where
  "start_listener S path addr w =
    bind_w (socket_call S (l_socket S w)) (\<lambda>fd w.
    case bind_and_listen S fd path addr w of ((r, identity), w) \<Rightarrow>
    let listener = \<lparr>li_fd = Some fd, li_path = path, li_identity = identity\<rparr> in
    case r of
      Inl e \<Rightarrow> (Err e, snd (closeAndUnlink S listener w))
    | Inr _ \<Rightarrow> (Ok listener, w))"

definition listener_init ::
    "'w listen_sys \<Rightarrow> string \<Rightarrow> 'w \<Rightarrow> (UnixSocketListener, AgentError) result \<times> 'w" where
  "listener_init S path w =
    (if CHR 0x00 \<in> set path then (Err (SocketError ''invalid socket path''), w)
     else (case f_parent_path S path w of (parent, w) \<Rightarrow>
     let path = l_join S parent (f_last_component S path) in
     bind_w (address path, w) (\<lambda>addr w.
     case l_lstat S parent w of (directory, w) \<Rightarrow>
     if \<not> trusted_parent (f_geteuid S) directory then
       (Err (SocketError ''socket parent must be a trusted directory''), w)
     else bind_w (removeStaleSocket S path addr w) (\<lambda>_ w.
     start_listener S path addr w))))"

section \<open>Accepting\<close>

partial_function (option) accept_retry ::
    "'w listen_sys \<Rightarrow> fd \<Rightarrow> 'w \<Rightarrow> ((fd, errno) result \<times> 'w) option" where
  "accept_retry S fd w =
    (case l_accept S fd w of (r, w) \<Rightarrow>
      if r = Err EINTR then accept_retry S fd w else Some (r, w))"

text \<open>On a listener that is closed, \<open>accept\<close> is called with the descriptor -1.\<close>

definition acceptFileHandle ::
    "'w listen_sys \<Rightarrow> UnixSocketListener \<Rightarrow> 'w \<Rightarrow> ((fd, AgentError) result \<times> 'w) option" where
  "acceptFileHandle S listener w =
    bind_io (case li_fd listener of
        None \<Rightarrow> Some (socket_call S (Err EBADF, w))
      | Some fd \<Rightarrow> map_option (socket_call S) (accept_retry S fd w)) (\<lambda>client w.
    Some (on_error_w
      (bind_w (configureConnectedSocket S client w) (\<lambda>_ w. (Ok client, w)))
      (\<lambda>w. snd (f_close S client w))))"

section \<open>The directory of the socket\<close>

text \<open>
  \<open>view w\<close> is what the calls above show and change: the files by path, and the file mode creation mask.
\<close>

type_synonym 'w socket_view = "'w \<Rightarrow> (string \<Rightarrow> stat option) \<times> u32"

definition quiet_calls :: "'w listen_sys \<Rightarrow> 'w socket_view \<Rightarrow> bool" where
  "quiet_calls S view \<longleftrightarrow>
    (\<forall>p w. view (snd (f_parent_path S p w)) = view w) \<and> (\<forall>p w. view (snd (l_lstat S p w)) = view w) \<and>
    (\<forall>w. view (snd (l_socket S w)) = view w) \<and> (\<forall>f w. view (snd (l_nosigpipe S f w)) = view w) \<and>
    (\<forall>f w. view (snd (l_nonblock S f w)) = view w) \<and> (\<forall>f w. view (snd (l_cloexec S f w)) = view w) \<and>
    (\<forall>f a w. view (snd (l_connect S f a w)) = view w) \<and> (\<forall>w. view (l_bind_lock S w) = view w) \<and>
    (\<forall>w. view (l_bind_unlock S w) = view w) \<and> (\<forall>f n w. view (snd (l_listen S f n w)) = view w) \<and>
    (\<forall>f w. view (snd (f_close S f w)) = view w)"

text \<open>A call on the path \<open>p\<close>: without effect when it fails, and with the effect \<open>g\<close> on its file otherwise.\<close>

definition path_call ::
    "'w socket_view \<Rightarrow> (stat option \<Rightarrow> u32 \<Rightarrow> stat option \<Rightarrow> bool) \<Rightarrow> (string \<Rightarrow> 'w \<Rightarrow> (unit, errno) result \<times> 'w) \<Rightarrow> bool" where
  "path_call view g f \<longleftrightarrow>
    (\<forall>p w r w'. f p w = (r, w') \<longrightarrow>
      (case r of Inl _ \<Rightarrow> view w' = view w
       | Inr _ \<Rightarrow> \<exists>x. g (fst (view w) p) (snd (view w)) x \<and> view w' = ((fst (view w))(p := x), snd (view w))))"

definition socket_directory :: "'w listen_sys \<Rightarrow> 'w socket_view \<Rightarrow> bool" where
  "socket_directory S view \<longleftrightarrow>
    quiet_calls S view \<and>
    (\<forall>p w r w'. l_lstat S p w = (r, w') \<longrightarrow>
      (case r of Inl e \<Rightarrow> e = ENOENT \<longrightarrow> fst (view w) p = None | Inr st \<Rightarrow> fst (view w) p = Some st)) \<and>
    (\<forall>m w. fst (l_umask S m w) = snd (view w) \<and> view (snd (l_umask S m w)) = (fst (view w), m)) \<and>
    (\<forall>fd. path_call view (\<lambda>old mask new. old = None \<and> (\<exists>st. new = Some st \<and> md_mode st AND mask = 0)) (l_bind S fd)) \<and>
    (\<forall>m. path_call view (\<lambda>old _ new. \<exists>st. old = Some st \<and> new = Some (st\<lparr>md_mode := m\<rparr>)) (\<lambda>p. l_chmod S p m)) \<and>
    path_call view (\<lambda>old _ new. old \<noteq> None \<and> new = None) (l_unlink S)"

lemma quiet:
  assumes "socket_directory S view"
  shows "view (snd (f_parent_path S p w)) = view w" "view (snd (l_lstat S p w)) = view w"
    "view (snd (l_socket S w)) = view w" "view (snd (l_nosigpipe S f w)) = view w"
    "view (snd (l_nonblock S f w)) = view w" "view (snd (l_cloexec S f w)) = view w"
    "view (snd (l_connect S f a w)) = view w" "view (l_bind_lock S w) = view w"
    "view (l_bind_unlock S w) = view w" "view (snd (l_listen S f n w)) = view w"
    "view (snd (f_close S f w)) = view w"
  using assms by (simp_all add: socket_directory_def quiet_calls_def)

lemma quiet_bind:
  assumes "view (snd p) = view w" and "\<And>x v. view (snd (g x v)) = view v"
  shows "view (snd (bind_w p g)) = view w"
  using assms by (cases p; cases "fst p") auto

lemma quiet_socket_call: "view (snd p) = view w \<Longrightarrow> view (snd (socket_call S p)) = view w"
  by (cases p) (simp add: socket_call_def map_err_w_def)

lemma quiet_configure:
  assumes "socket_directory S view"
  shows "view (snd (configureConnectedSocket S fd w)) = view w"
  unfolding configureConnectedSocket_def
  by (intro quiet_socket_call quiet_bind quiet [OF assms])

lemma lstat_shows:
  assumes "socket_directory S view" and "l_lstat S p w = (Inr st, w')"
  shows "fst (view w) p = Some st" and "view w' = view w"
proof -
  have "\<forall>p w r w'. l_lstat S p w = (r, w') \<longrightarrow>
      (case r of Inl e \<Rightarrow> e = ENOENT \<longrightarrow> fst (view w) p = None | Inr st \<Rightarrow> fst (view w) p = Some st)"
    using assms(1) by (simp add: socket_directory_def)
  with assms(2) show "fst (view w) p = Some st" by fastforce
  show "view w' = view w" using quiet(2) [OF assms(1), of p w] assms(2) by simp
qed

lemma lstat_ENOENT:
  assumes "socket_directory S view" and "l_lstat S p w = (Inl ENOENT, w')"
  shows "fst (view w) p = None"
proof -
  have "\<forall>p w r w'. l_lstat S p w = (r, w') \<longrightarrow>
      (case r of Inl e \<Rightarrow> e = ENOENT \<longrightarrow> fst (view w) p = None | Inr st \<Rightarrow> fst (view w) p = Some st)"
    using assms(1) by (simp add: socket_directory_def)
  with assms(2) show ?thesis by fastforce
qed

lemma path_callD:
  assumes "path_call view g f" and "f p w = (r, w')"
  shows "case r of Inl _ \<Rightarrow> view w' = view w
    | Inr _ \<Rightarrow> \<exists>x. g (fst (view w) p) (snd (view w)) x \<and> view w' = ((fst (view w))(p := x), snd (view w))"
  using assms unfolding path_call_def by blast

lemma socket_path_calls:
  assumes "socket_directory S view"
  shows "path_call view (\<lambda>old mask new. old = None \<and> (\<exists>st. new = Some st \<and> md_mode st AND mask = 0)) (l_bind S fd)"
    and "path_call view (\<lambda>old _ new. \<exists>st. old = Some st \<and> new = Some (st\<lparr>md_mode := m\<rparr>)) (\<lambda>p. l_chmod S p m)"
    and "path_call view (\<lambda>old _ new. old \<noteq> None \<and> new = None) (l_unlink S)"
  using assms by (simp_all add: socket_directory_def)

section \<open>What the listener changes\<close>

text \<open>The file that a new listener may remove: a socket of the user that refuses connections.\<close>

definition stale_socket :: "'w listen_sys \<Rightarrow> string \<Rightarrow> stat \<Rightarrow> bool" where
  "stale_socket S addr st \<longleftrightarrow> md_type st = SocketFile \<and> md_uid st = f_geteuid S \<and>
    (\<exists>probe v v'. l_connect S probe addr v = (Err ECONNREFUSED, v'))"

text \<open>A file at \<open>path\<close> is removed, or nothing changes.\<close>

definition removes :: "'w socket_view \<Rightarrow> string \<Rightarrow> 'w \<Rightarrow> 'w \<Rightarrow> bool" where
  "removes view path w w' \<longleftrightarrow> view w' = ((fst (view w))(path := None), snd (view w))"

lemma probe_stale_view:
  assumes dir: "socket_directory S view" and run: "probe_stale S probe path addr st w = (r, w')"
  shows "view w' = view w \<and> r \<noteq> Ok () \<or>
    removes view path w w' \<and> r = Ok () \<and> (\<exists>v v'. l_connect S probe addr v = (Err ECONNREFUSED, v'))"
proof -
  note q = quiet [OF dir]
  obtain c v1 where 1: "configureConnectedSocket S probe w = (c, v1)" by fastforce
  obtain k v2 where 2: "l_connect S probe addr v1 = (k, v2)" by fastforce
  obtain cur v3 where 3: "l_lstat S path v2 = (cur, v3)" by fastforce
  obtain u v4 where 4: "l_unlink S path v3 = (u, v4)" by fastforce
  have v: "view v1 = view w" "view v2 = view w" "view v3 = view w"
    using quiet_configure [OF dir, of probe w] q(7) [of probe addr v1] q(2) [of path v2] 1 2 3 by simp_all
  note unlinked = path_callD [OF socket_path_calls(3) [OF dir] 4, unfolded v]
  show ?thesis
  proof (cases "c = Ok () \<and> k = Err ECONNREFUSED")
    case True
    then have "(r, w') = (if (case cur of Inl _ \<Rightarrow> True | Inr c \<Rightarrow> \<not> sameFile st c)
        then (Err (SocketError ''socket changed while checking staleness''), v3)
        else map_err_w (\<lambda>_. SocketError ''socket changed while checking staleness'') (u, v4))"
      using run by (auto simp: probe_stale_def 1 2 3 4)
    with unlinked v True 2 show ?thesis
      by (cases u) (auto simp: removes_def map_err_w_def split: if_splits)
  next
    case False
    then show ?thesis using run v by (cases c) (auto simp: probe_stale_def 1 2 split: if_splits)
  qed
qed

lemma removeStaleSocket_view:
  assumes dir: "socket_directory S view" and run: "removeStaleSocket S path addr w = (r, w')"
  shows "(view w' = view w \<or>
      removes view path w w' \<and> (\<exists>st. fst (view w) path = Some st \<and> stale_socket S addr st)) \<and>
    (r = Ok () \<longrightarrow> fst (view w') path = None)"
proof -
  note q = quiet [OF dir]
  obtain s v where s: "l_lstat S path w = (s, v)" by fastforce
  have v: "view v = view w" using q(2) [of path w] s by simp
  show ?thesis
  proof (cases s)
    case (Inl e)
    with run s v lstat_ENOENT [OF dir, of path w v] show ?thesis
      by (auto simp: removeStaleSocket_def split: if_splits)
  next
    case (Inr st)
    then have st: "fst (view w) path = Some st" using lstat_shows(1) [OF dir] s by blast
    obtain p v1 where p: "socket_call S (l_socket S v) = (p, v1)" by fastforce
    have v1: "view v1 = view w" using quiet_socket_call [OF q(3) [of v], of S] p v by simp
    obtain r1 v2 where r1: "probe_stale S (projr p) path addr st v1 = (r1, v2)" by fastforce
    note probed = probe_stale_view [OF dir r1]
    show ?thesis
    proof (cases "md_type st = SocketFile \<and> md_uid st = f_geteuid S \<and> \<not> is_err p")
      case True
      then have "r = r1" "view w' = view v2"
        using run s Inr p r1 q(11) by (cases p; auto simp: removeStaleSocket_def finally_w_def)+
      with probed v1 st True show ?thesis by (auto simp: removes_def stale_socket_def)
    next
      case False
      then have "view w' = view w" "r \<noteq> Ok ()"
        using run s Inr p v v1 by (cases p; auto simp: removeStaleSocket_def split: if_splits)+
      then show ?thesis by simp
    qed
  qed
qed

lemma bind_private_view:
  assumes dir: "socket_directory S view" and run: "bind_private S fd path w = (r, w')"
  shows "case r of Inl _ \<Rightarrow> view w' = view w
    | Inr _ \<Rightarrow> fst (view w) path = None \<and>
        (\<exists>st. view w' = ((fst (view w))(path \<mapsto> st), snd (view w)) \<and> md_mode st AND 63 = 0)"
proof -
  have mask: "fst (l_umask S m v) = snd (view v)" "view (snd (l_umask S m v)) = (fst (view v), m)" for m v
    using dir by (simp_all add: socket_directory_def)
  obtain m1 v1 where 1: "l_umask S 63 (l_bind_lock S w) = (m1, v1)" by fastforce
  obtain q v2 where 2: "l_bind S fd path v1 = (q, v2)" by fastforce
  obtain m3 v3 where 3: "l_umask S m1 v2 = (m3, v3)" by fastforce
  have v1: "m1 = snd (view w)" "view v1 = (fst (view w), 63)"
    using mask [of 63 "l_bind_lock S w"] 1 quiet(8) [OF dir, of w] by simp_all
  have v3: "view w' = (fst (view v2), m1)"
    using mask(2) [of m1 v2] 3 run 1 2 quiet(9) [OF dir, of v3] by (simp add: bind_private_def)
  have "r = q" using run 1 2 3 by (simp add: bind_private_def)
  with path_callD [OF socket_path_calls(1) [OF dir] 2] v1 v3 show ?thesis
    by (cases q) (auto simp: prod_eq_iff)
qed

text \<open>The socket of a listener: one of the user, which nobody else may use.\<close>

definition own_socket :: "'w listen_sys \<Rightarrow> stat option \<Rightarrow> stat \<Rightarrow> bool" where
  "own_socket S identity st \<longleftrightarrow> md_type st = SocketFile \<and> md_uid st = f_geteuid S \<and> md_mode st AND 63 = 0 \<and>
    (\<exists>i. identity = Some i \<and> sameFile i st)"

lemma sameFile_mode: "sameFile st (st\<lparr>md_mode := m\<rparr>)" "sameFile st st"
  by (simp_all add: sameFile_def)

lemma own_socket_chmod: "own_socket S i st \<Longrightarrow> own_socket S i (st\<lparr>md_mode := 384\<rparr>)"
  by (auto simp: own_socket_def sameFile_def)

lemma bind_and_listen_view:
  assumes dir: "socket_directory S view" and run: "bind_and_listen S fd path path w = ((r, identity), w')"
  shows "snd (view w') = snd (view w) \<and> (\<forall>p. p \<noteq> path \<longrightarrow> fst (view w') p = fst (view w) p) \<and>
    (fst (view w') path = fst (view w) path \<or> fst (view w) path = None) \<and>
    (r = Ok () \<or> identity \<noteq> None \<longrightarrow> (\<exists>st. fst (view w') path = Some st \<and> own_socket S identity st))"
proof -
  note q = quiet [OF dir]
  obtain c v1 where 1: "l_cloexec S fd w = (c, v1)" by fastforce
  have v1: "view v1 = view w" using q(6) [of fd w] 1 by simp
  obtain b v2 where 2: "bind_private S fd path v1 = (b, v2)" by fastforce
  note bound = bind_private_view [OF dir 2, unfolded v1]
  obtain s v3 where 3: "l_lstat S path v2 = (s, v3)" by fastforce
  have v3: "view v3 = view v2" using q(2) [of path v2] 3 by simp
  obtain m v4 where 4: "l_chmod S path 384 v3 = (m, v4)" by fastforce
  note chmod = path_callD [OF socket_path_calls(2) [OF dir] 4, unfolded v3]
  obtain l v5 where 5: "l_listen S fd 16 v4 = (l, v5)" by fastforce
  have v5: "view v5 = view v4" using q(10) [of fd 16 v4] 5 by simp
  note steps = bind_and_listen_def socket_call_def map_err_w_def 1 2 3 4 5
  show ?thesis
  proof (cases "c = Ok () \<and> b = Ok ()")
    case False
    then show ?thesis using run v1 bound by (cases c; cases b) (auto simp: steps)
  next
    case True
    with bound obtain st where st: "fst (view w) path = None" "view v2 = ((fst (view w))(path \<mapsto> st), snd (view w))"
      "md_mode st AND 63 = 0" by auto
    show ?thesis
    proof (cases "s = Ok st \<and> md_type st = SocketFile \<and> md_uid st = f_geteuid S")
      case own: True
      then have o: "own_socket S (Some st) st" using st(3) by (simp add: own_socket_def sameFile_mode)
      from own run True have "identity = Some st" "w' = (if m = Ok () then v5 else v4)"
        by (cases m; simp add: steps)+
      then show ?thesis
        using chmod st o own_socket_chmod [OF o] v5 by (cases m) auto
    next
      case False
      moreover have "s = Ok x \<Longrightarrow> x = st" for x using lstat_shows(1) [OF dir] 3 st(2) by fastforce
      ultimately show ?thesis using run True v3 st by (cases s) (auto simp: steps)
    qed
  qed
qed

lemma closeAndUnlink_view:
  assumes dir: "socket_directory S view" and run: "closeAndUnlink S listener w = (listener', w')"
  shows "view w' = view w \<or>
    view w' = ((fst (view w))(li_path listener := None), snd (view w)) \<and>
    (\<exists>i st. li_identity listener = Some i \<and> fst (view w) (li_path listener) = Some st \<and> sameFile i st)"
proof -
  define v where "v = (case li_fd listener of None \<Rightarrow> w | Some fd \<Rightarrow> snd (f_close S fd w))"
  have v: "view v = view w" using quiet(11) [OF dir] by (simp add: v_def split: option.splits)
  obtain s v1 where 1: "l_lstat S (li_path listener) v = (s, v1)" by fastforce
  have v1: "view v1 = view w" using quiet(2) [OF dir, of "li_path listener" v] 1 v by simp
  obtain u v2 where 2: "l_unlink S (li_path listener) v1 = (u, v2)" by fastforce
  note unlinked = path_callD [OF socket_path_calls(3) [OF dir] 2, unfolded v1]
  have st: "s = Ok x \<Longrightarrow> fst (view w) (li_path listener) = Some x" for x
    using lstat_shows(1) [OF dir, of "li_path listener" v] 1 v by simp
  have "w' = (case li_identity listener of None \<Rightarrow> v | Some i \<Rightarrow>
      if (case s of Inl _ \<Rightarrow> False | Inr c \<Rightarrow> sameFile i c) then v2 else v1)"
    using run by (cases "li_identity listener") (auto simp: closeAndUnlink_def Let_def 1 2 simp flip: v_def)
  with unlinked v v1 st show ?thesis
    by (cases u) (auto split: option.splits if_splits sum.splits)
qed

text \<open>The initializer, on every path.\<close>

lemma address_Ok: "address path = Ok addr \<longleftrightarrow> addr = path \<and> CHR 0x00 \<notin> set path \<and> length path < 104"
  by (auto simp: address_def)

lemma start_listener_view:
  assumes dir: "socket_directory S view" and run: "start_listener S path path w = (r, w')"
    and free: "fst (view w) path = None"
  shows "snd (view w') = snd (view w) \<and> (\<forall>p. p \<noteq> path \<longrightarrow> fst (view w') p = fst (view w) p) \<and>
    (r = Ok listener \<longrightarrow> li_path listener = path \<and>
      (\<exists>st. fst (view w') path = Some st \<and> own_socket S (li_identity listener) st))"
proof -
  obtain f v1 where 1: "socket_call S (l_socket S w) = (f, v1)" by fastforce
  have v1: "view v1 = view w" using quiet_socket_call [OF quiet(3) [OF dir, of w], of S] 1 by simp
  obtain b i v2 where 2: "bind_and_listen S (projr f) path path v1 = ((b, i), v2)" by (metis prod.exhaust)
  note bound = bind_and_listen_view [OF dir 2, unfolded v1]
  define l where "l = \<lparr>li_fd = Some (projr f), li_path = path, li_identity = i\<rparr>"
  obtain l' v3 where 3: "closeAndUnlink S l v2 = (l', v3)" by fastforce
  have closed: "view v3 = view v2 \<or> view v3 = ((fst (view v2))(path := None), snd (view v2))"
    using closeAndUnlink_view [OF dir 3] by (auto simp: l_def)
  show ?thesis
  proof (cases "f = Ok (projr f) \<and> b = Ok ()")
    case True
    then have "r = Ok l" "w' = v2" using run 1 2 by (cases f; simp add: start_listener_def l_def)+
    with bound True show ?thesis by (auto simp: l_def)
  next
    case False
    then have "\<exists>e. r = Err e" "view w' = view w \<or> w' = v3"
      using run 1 2 3 v1 by (cases f; cases b; auto simp: start_listener_def Let_def l_def)+
    with closed bound show ?thesis by auto
  qed
qed

lemma listener_init_view:
  assumes dir: "socket_directory S view" and run: "listener_init S path w = (r, w')"
    and socket: "socket = l_join S (fst (f_parent_path S path w)) (f_last_component S path)"
  shows "snd (view w') = snd (view w)" (is ?mask)
    and "\<forall>p. p \<noteq> socket \<longrightarrow> fst (view w') p = fst (view w) p" (is ?others)
    and "fst (view w') socket = fst (view w) socket \<or>
      (\<forall>st. fst (view w) socket = Some st \<longrightarrow> stale_socket S socket st)" (is ?stale)
    and "r = Ok listener \<Longrightarrow> li_path listener = socket \<and> length socket < 104 \<and>
      trusted_parent (f_geteuid S) (ok_or (fst (view w) (fst (f_parent_path S path w))) ENOENT) \<and>
      (\<exists>st. fst (view w') socket = Some st \<and> own_socket S (li_identity listener) st)" (is "_ \<Longrightarrow> ?ok")
proof -
  note q = quiet [OF dir]
  obtain parent v0 where 0: "f_parent_path S path w = (parent, v0)" by fastforce
  obtain d v1 where 1: "l_lstat S parent v0 = (d, v1)" by fastforce
  obtain s v2 where 2: "removeStaleSocket S socket socket v1 = (s, v2)" by fastforce
  have v: "view v0 = view w" "view v1 = view w" using q(1) [of path w] q(2) [of parent v0] 0 1 by simp_all
  note stale = removeStaleSocket_view [OF dir 2, unfolded removes_def v]
  have sock: "l_join S parent (f_last_component S path) = socket" using socket 0 by simp
  have "?mask \<and> ?others \<and> ?stale \<and> (r = Ok listener \<longrightarrow> ?ok)"
  proof (cases "CHR 0x00 \<notin> set path \<and> address socket = Ok socket \<and> trusted_parent (f_geteuid S) d \<and> s = Ok ()")
    case False
    then consider "CHR 0x00 \<in> set path" | e where "CHR 0x00 \<notin> set path" "address socket = Err e"
      | "CHR 0x00 \<notin> set path" "address socket = Ok socket" "\<not> trusted_parent (f_geteuid S) d"
      | e where "CHR 0x00 \<notin> set path" "address socket = Ok socket" "trusted_parent (f_geteuid S) d" "s = Err e"
      by (cases "address socket"; cases s) (auto simp: address_Ok)
    then have "\<exists>e. r = Err e \<and> (view w' = view w \<or> view w' = view v2)"
      by cases (use run v in \<open>auto simp: listener_init_def 0 1 2 sock\<close>)
    with stale show ?thesis by auto
  next
    case True
    then have "start_listener S socket socket v2 = (r, w')" using run by (simp add: listener_init_def 0 1 2 sock)
    moreover have "fst (view v2) socket = None" using stale True by simp
    ultimately have started: "snd (view w') = snd (view v2)" "\<forall>p. p \<noteq> socket \<longrightarrow> fst (view w') p = fst (view v2) p"
      "r = Ok listener \<Longrightarrow> li_path listener = socket \<and>
        (\<exists>st. fst (view w') socket = Some st \<and> own_socket S (li_identity listener) st)"
      using start_listener_view [OF dir, of socket v2 r w' listener] by simp_all
    have "trusted_parent (f_geteuid S) (ok_or (fst (view w) parent) ENOENT)"
      using True lstat_shows(1) [OF dir, of parent v0] 1 v by (cases d) (auto simp: trusted_parent_def)
    with started stale True 0 show ?thesis by (auto simp: address_Ok)
  qed
  then show ?mask ?others ?stale "r = Ok listener \<Longrightarrow> ?ok" by blast+
qed

end
