(* ===== verification/Agent_Main.thy ===== *)
theory Agent_Main
  imports Agent_Options Agent_Listener Agent_Server
begin

text \<open>
  The program of the macOS agent (\<open>main.swift\<close>): \<open>serve\<close>, \<open>fake-agent\<close>, the dispatch on the command and
  the exit status. The JSON coders are collected in \<open>json_coders\<close>. The threads of \<open>runSocketServer\<close>
  are those of \<open>Agent_Server\<close>; here the server is a function \<open>server\<close> of the listener, \<open>once\<close> and the
  handler, and \<open>server_runs\<close> says that its result is a completion that those threads reach.
\<close>

section \<open>Servers\<close>

record json_coders =
  jc_config :: "bytes \<Rightarrow> (AgentConfig, string) result"
  jc_to_config :: "AgentConfig \<Rightarrow> (bytes, string) result"
  jc_request :: "bytes \<Rightarrow> (SwiftSignedRequest, string) result"
  jc_response :: "SwiftSignedResponse \<Rightarrow> (bytes, string) result"
  jc_vector :: "bytes \<Rightarrow> (ProtocolTestVector, string) result"

type_synonym 'w handler = "fd \<Rightarrow> deadline \<Rightarrow> 'w \<Rightarrow> ((unit, AgentError) result \<times> 'w) option"
type_synonym 'w socket_server =
  "UnixSocketListener \<Rightarrow> bool \<Rightarrow> 'w handler \<Rightarrow> 'w \<Rightarrow> ((unit, AgentError) result \<times> 'w) option"

text \<open>What the two servers share: the listener, closed at the end, and the line on standard error.\<close>

definition run_listening ::
    "'w listen_sys \<Rightarrow> 'w socket_server \<Rightarrow> string \<Rightarrow> string \<Rightarrow> bool \<Rightarrow> 'w handler \<Rightarrow> 'w \<Rightarrow>
     ((unit, AgentError) result \<times> 'w) option" where
  "run_listening S server socketPath message once handler w =
    bind_io (Some (listener_init S socketPath w)) (\<lambda>listener w.
    finally_io (server listener once handler (a_log S (message @ socketPath @ [newline]) w))
      (\<lambda>w. snd (closeAndUnlink S listener w)))"

definition runServe ::
    "'z crypto_scheme \<Rightarrow> 'w listen_sys \<Rightarrow> json_coders \<Rightarrow> 'w socket_server \<Rightarrow> ServeOptions \<Rightarrow> 'w \<Rightarrow>
     ((unit, AgentError) result \<times> 'w) option" where
  "runServe C S J server options w =
    bind_io (Some (loadAgentConfig (file_sys.truncate S) (jc_config J) (so_configPath options) w)) (\<lambda>config w.
    bind_io (Some (runtime (file_sys.truncate S) config w)) (\<lambda>rt w.
    run_listening S server (ac_socketPath config) ''macos-auth-agent serving on '' (so_once options)
      (handleServeRequest C (agent_sys.truncate S) (jc_request J) (jc_response J) rt) w))"

definition runFakeAgent ::
    "'z crypto_scheme \<Rightarrow> 'w listen_sys \<Rightarrow> json_coders \<Rightarrow> 'w socket_server \<Rightarrow> FakeAgentOptions \<Rightarrow> 'w \<Rightarrow>
     ((unit, AgentError) result \<times> 'w) option" where
  "runFakeAgent C S J server options w =
    (let F = file_sys.truncate S in
    bind_io (Some (readKeyMaterial F (fo_hostPublicKeyHex options) (fo_hostPublicKeyFile options)
      ''host public key'' False w)) (\<lambda>hostPublicKeyHex w.
    bind_io (Some (readKeyMaterial F (fo_agentKeyHex options) (fo_agentKeyFile options)
      ''agent private key'' True w)) (\<lambda>agentKeyHex w.
    bind_io (Some (key_of_hex F (f_public_key F) hostPublicKeyHex, w)) (\<lambda>hostPublicKey w.
    bind_io (Some (key_of_hex F (f_private_key F) agentKeyHex, w)) (\<lambda>agentPrivateKey w.
    run_listening S server (fo_socketPath options) ''macos-auth-agent fake-agent listening on '' (fo_once options)
      (handleRequest C (agent_sys.truncate S) (jc_request J) (jc_response J) hostPublicKey agentPrivateKey options)
      w)))))"

section \<open>The program\<close>

definition usage_lines :: "string list" where
  "usage_lines =
    [''Usage:'',
     ''  macos-auth-agent fake-agent --socket PATH (--host-pubkey-hex HEX | --host-pubkey-file PATH) (--agent-key-hex HEX | --agent-key-file PATH) [--agent-key-id ID] [--decision approved|denied|unavailable|cancelled|failed] [--once]'',
     ''  macos-auth-agent serve --config PATH [--once]'',
     ''  macos-auth-agent init-key --private-key-file PATH [--public-key-file PATH]'',
     ''  macos-auth-agent print-public-key (--agent-key-file PATH | --agent-key-hex HEX | --keychain-service SERVICE --keychain-account ACCOUNT)'',
     ''  macos-auth-agent keychain-init --service SERVICE --account ACCOUNT [--overwrite]'',
     ''  macos-auth-agent keychain-public-key --service SERVICE --account ACCOUNT'',
     ''  macos-auth-agent verify-vector --path PATH'',
     ''  macos-auth-agent hosts list --config PATH'',
     ''  macos-auth-agent hosts add --config PATH --host-id ID (--public-key-file PATH | --public-key-hex HEX)'',
     ''  macos-auth-agent hosts remove --config PATH --host-id ID'']"

definition usage :: string where
  "usage = joined_lines usage_lines"

definition run_command ::
    "'z crypto_scheme \<Rightarrow> 'w listen_sys \<Rightarrow> json_coders \<Rightarrow> 'w socket_server \<Rightarrow> string \<Rightarrow> string list \<Rightarrow> 'w \<Rightarrow>
     ((unit, AgentError) result \<times> 'w) option" where
  "run_command C S J server command args w =
    (let F = file_sys.truncate S
     in
     if command = ''fake-agent'' then
       bind_io (Some (parseFakeAgentOptions args, w)) (runFakeAgent C S J server)
     else if command = ''serve'' then
       bind_io (Some (parseServeOptions args, w)) (runServe C S J server)
     else if command = ''init-key'' then
       bind_io (Some (parseInitKeyOptions args, w)) (runInitKey F)
     else if command = ''print-public-key'' then
       bind_io (Some (parsePrintPublicKeyOptions args, w)) (\<lambda>options w. Some (runPrintPublicKey F options w))
     else if command = ''keychain-init'' then
       bind_io (Some (parseKeychainInitOptions args, w)) (\<lambda>options w. Some (runKeychainInit F options w))
     else if command = ''keychain-public-key'' then
       bind_io (Some (parseKeychainPublicKeyOptions args, w)) (\<lambda>options w. Some (runKeychainPublicKey F options w))
     else if command = ''verify-vector'' then
       bind_io (Some (parseVerifyVectorOptions args, w)) (\<lambda>options w. Some (runVerifyVector C F (jc_vector J) options w))
     else if command = ''hosts'' then
       bind_io (Some (parseHostsOptions args, w)) (runHosts F (jc_config J) (jc_to_config J))
     else if command \<in> {''help'', ''--help'', ''-h''} then Some (Ok (), f_print S usage w)
     else Some (Err (Usage (''unknown command '' @ command @ [newline, newline] @ usage)), w))"

definition agent_run ::
    "'z crypto_scheme \<Rightarrow> 'w listen_sys \<Rightarrow> json_coders \<Rightarrow> 'w socket_server \<Rightarrow> string list \<Rightarrow> 'w \<Rightarrow>
     ((unit, AgentError) result \<times> 'w) option" where
  "agent_run C S J server args w =
    (case args of
       [] \<Rightarrow> Some (Err (Usage usage), w)
     | command # args \<Rightarrow> run_command C S J server command args w)"

fun error_description :: "AgentError \<Rightarrow> string" where
  "error_description (Usage message) = message"
| "error_description (InvalidHex message) = ''invalid hex: '' @ message"
| "error_description (InvalidKeyLength message) = ''invalid key length: '' @ message"
| "error_description (InvalidPayload message) = ''invalid payload: '' @ message"
| "error_description InvalidSignature = ''signature verification failed''"
| "error_description (SocketError message) = ''socket error: '' @ message"
| "error_description (AgentIo message) = ''io error: '' @ message"
| "error_description AgentTimeout = ''request deadline exceeded''"
| "error_description (Thrown message) = message"
| "error_description Trap = []"

text \<open>A trap is not caught: it ends the process without an exit status.\<close>

datatype exit = Exited nat | Trapped

definition agent_main ::
    "'z crypto_scheme \<Rightarrow> 'w listen_sys \<Rightarrow> json_coders \<Rightarrow> 'w socket_server \<Rightarrow> string list \<Rightarrow> 'w \<Rightarrow> (exit \<times> 'w) option" where
  "agent_main C S J server args w =
    map_option (\<lambda>(r, w). case r of
        Inr _ \<Rightarrow> (Exited 0, w)
      | Inl e \<Rightarrow>
          if e = Trap then (Trapped, w)
          else (Exited 1, a_log S (''macos-auth-agent: '' @ error_description e @ [newline]) w))
      (agent_run C S J server args w)"

section \<open>Commands\<close>

lemma agent_main_success:
  "agent_main C S J server args w = Some (Exited 0, w') \<longleftrightarrow> agent_run C S J server args w = Some (Ok (), w')"
proof (cases "agent_run C S J server args w")
  case (Some p)
  then show ?thesis by (cases p; cases "fst p") (auto simp: agent_main_def)
qed (simp add: agent_main_def)

lemma agent_main_returns:
  "agent_run C S J server args w = Some p \<Longrightarrow> \<exists>e w'. agent_main C S J server args w = Some (e, w')"
  by (cases p; cases "fst p") (auto simp: agent_main_def)

text \<open>The result of a server is a completion that its threads reach.\<close>

definition server_runs :: "'w socket_server \<Rightarrow> bool" where
  "server_runs server \<longleftrightarrow>
    (\<forall>listener once handler w r w'. server listener once handler w = Some (r, w') \<longrightarrow>
      (\<exists>s. server_step\<^sup>*\<^sup>* (server_start once) s \<and> sv_completion s = Some r))"

lemma run_listening_permanent:
  assumes "server_runs server" and "run_listening S server path message False handler w = Some (r, w')"
  shows "r \<noteq> Ok ()"
proof
  assume "r = Ok ()"
  with assms(2) obtain listener v v' where "server listener False handler v = Some (Ok (), v')"
    by (auto simp: run_listening_def result_simps)
  with assms(1) obtain s where "server_step\<^sup>*\<^sup>* (server_start False) s" "sv_completion s = Some (Ok ())"
    unfolding server_runs_def by blast
  with server_reachable [of False s] show False by (simp add: server_inv_def)
qed

lemma runServe_permanent:
  assumes "server_runs server" and "runServe C S J server options w = Some (r, w')" and "\<not> so_once options"
  shows "r \<noteq> Ok ()"
  using assms(2,3) run_listening_permanent [OF assms(1)]
  by (auto simp: runServe_def result_simps) blast

text \<open>The documented lines reach the commands they name.\<close>

lemma run_documented_lines:
  "fake_agent_valid f \<Longrightarrow> agent_run C S J server (''fake-agent'' # fake_agent_line f) w = runFakeAgent C S J server f w"
  "agent_run C S J server (''serve'' # serve_line s) w = runServe C S J server s w"
  "agent_run C S J server (''init-key'' # init_key_line i) w = runInitKey (file_sys.truncate S) i w"
  "print_public_key_valid p \<Longrightarrow> agent_run C S J server (''print-public-key'' # print_public_key_line p) w =
    Some (runPrintPublicKey (file_sys.truncate S) p w)"
  "agent_run C S J server (''keychain-init'' # keychain_init_line k) w = Some (runKeychainInit (file_sys.truncate S) k w)"
  "agent_run C S J server (''keychain-public-key'' # keychain_public_key_line q) w =
    Some (runKeychainPublicKey (file_sys.truncate S) q w)"
  "agent_run C S J server (''verify-vector'' # verify_vector_line v) w =
    Some (runVerifyVector C (file_sys.truncate S) (jc_vector J) v w)"
  "hosts_valid h \<Longrightarrow> agent_run C S J server (''hosts'' # hosts_line h) w =
    runHosts (file_sys.truncate S) (jc_config J) (jc_to_config J) h w"
  by (simp_all add: agent_run_def run_command_def Let_def parse_plain_lines parse_fake_agent_line
      parse_print_public_key_line parse_hosts_line)

end
