(* ===== verification/Agent_File_Demo.thy ===== *)
theory Agent_File_Demo
  imports Agent_Main Agent_Demo
begin

text \<open>
  A concrete Mac for the witnesses on files: one directory, with a descriptor of its own, whose files
  the user owns, sockets by path, and a mask. \<open>write\<close> takes two bytes at a time.
\<close>

unbundle bit_operations_syntax

section \<open>The system\<close>

record directory_world =
  dw_files :: "string \<Rightarrow> bytes option"
  dw_fds :: "fd \<Rightarrow> string option"
  dw_sockets :: "string \<Rightarrow> stat option"
  dw_mask :: u32
  dw_out :: "string list"

text \<open>What the world has of a directory, and how it changes; a world without one never changes.\<close>

record 'w place =
  pl_get :: "'w \<Rightarrow> directory_world"
  pl_put :: "directory_world \<Rightarrow> 'w \<Rightarrow> 'w"

definition mac_stat :: stat where
  "mac_stat = \<lparr>md_type = RegularFile, md_uid = 501, md_mode = 384, st_gid = 20, st_dev = 1, st_ino = 7\<rparr>"

definition directory_stat :: stat where
  "directory_stat = \<lparr>md_type = Directory, md_uid = 501, md_mode = 493, st_gid = 20, st_dev = 1, st_ino = 2\<rparr>"

definition socket_stat :: "u32 \<Rightarrow> stat" where
  "socket_stat mode = \<lparr>md_type = SocketFile, md_uid = 501, md_mode = mode, st_gid = 20, st_dev = 1, st_ino = 9\<rparr>"

definition last_component :: "string \<Rightarrow> string" where
  "last_component p = rev (takeWhile (\<lambda>c. c \<noteq> CHR ''/'') (rev p))"

text \<open>The calls on a directory; an open file is named by its descriptor, 4 for reading and 5 for writing.\<close>

definition dir_open :: "string \<Rightarrow> directory_world \<Rightarrow> (fd, errno) result \<times> directory_world" where
  "dir_open n d = (if dw_files d n = None then (Err ENOENT, d) else (Ok 4, d\<lparr>dw_fds := (dw_fds d)(4 \<mapsto> n)\<rparr>))"

definition dir_create :: "string \<Rightarrow> directory_world \<Rightarrow> (fd, errno) result \<times> directory_world" where
  "dir_create n d = (if dw_files d n \<noteq> None then (Err EEXIST, d)
    else (Ok 5, d\<lparr>dw_files := (dw_files d)(n \<mapsto> []), dw_fds := (dw_fds d)(5 \<mapsto> n)\<rparr>))"

definition dir_read :: "fd \<Rightarrow> directory_world \<Rightarrow> (bytes, string) result" where
  "dir_read f d = (case Option.bind (dw_fds d f) (dw_files d) of None \<Rightarrow> Err ''unreadable'' | Some c \<Rightarrow> Ok c)"

definition dir_write :: "fd \<Rightarrow> bytes \<Rightarrow> directory_world \<Rightarrow> (nat, errno) result \<times> directory_world" where
  "dir_write f bs d = (case dw_fds d f of None \<Rightarrow> (Err EBADF, d)
    | Some n \<Rightarrow> (case dw_files d n of None \<Rightarrow> (Err EBADF, d)
      | Some c \<Rightarrow> (Ok (min 2 (length bs)), d\<lparr>dw_files := (dw_files d)(n \<mapsto> c @ take 2 bs)\<rparr>)))"

definition dir_rename :: "string \<Rightarrow> string \<Rightarrow> directory_world \<Rightarrow> (unit, errno) result \<times> directory_world" where
  "dir_rename a b d = (if dw_files d a = None then (Err ENOENT, d)
    else (Ok (), d\<lparr>dw_files := (dw_files d)(a := None, b := dw_files d a)\<rparr>))"

definition at_place :: "'w place \<Rightarrow> (directory_world \<Rightarrow> 'r \<times> directory_world) \<Rightarrow> 'w \<Rightarrow> 'r \<times> 'w" where
  "at_place P f w = (case f (pl_get P w) of (r, d) \<Rightarrow> (r, pl_put P d w))"

definition key_of_32 :: "bytes \<Rightarrow> (bytes, string) result" where
  "key_of_32 b = (if length b = 32 then Ok b else Err ''incorrect key size'')"

definition file_calls :: "'w agent_sys \<Rightarrow> 'w place \<Rightarrow> 'w file_sys" where
  "file_calls A P = agent_sys.extend A (file_sys.fields
    501
    (\<lambda>p w. (''/etc'', w))
    last_component
    (\<lambda>w. (''U'', w))
    (\<lambda>p fl. if O_DIRECTORY \<in> fl then (\<lambda>w. (Ok 3, w)) else at_place P (dir_open (last_component p)))
    (\<lambda>p _ _. at_place P (dir_create (last_component p)))
    (\<lambda>_ n _. at_place P (dir_open n))
    (\<lambda>_ n _ _. at_place P (dir_create n))
    (\<lambda>f w. (Ok (if f = 3 then directory_stat else mac_stat), w))
    (\<lambda>_ _ w. (Ok mac_stat, w))
    (\<lambda>p w. (case dw_files (pl_get P w) (last_component p) of None \<Rightarrow> Err ''no such file'' | Some c \<Rightarrow> Ok c, w))
    (\<lambda>f w. (dir_read f (pl_get P w), w))
    (\<lambda>f bs. at_place P (dir_write f bs))
    (\<lambda>_ _ _ w. (Ok (), w)) (\<lambda>_ _ w. (Ok (), w)) (\<lambda>_ w. (Ok (), w)) (\<lambda>_ w. (Ok (), w))
    (\<lambda>_ a b. at_place P (dir_rename a b))
    (\<lambda>_ n w. let d = pl_get P w in pl_put P (d\<lparr>dw_files := (dw_files d)(n := None)\<rparr>) w)
    (\<lambda>s w. let d = pl_get P w in pl_put P (d\<lparr>dw_out := dw_out d @ [s]\<rparr>) w)
    trim
    key_of_32
    key_of_32
    (\<lambda>w. (replicate 32 7, w))
    (pad 32)
    (\<lambda>_ _ _ w. (errSecItemNotFound, w))
    (\<lambda>_ _ _ w. (errSecSuccess, w))
    (\<lambda>_ _ w. ((errSecItemNotFound, None), w))
    (\<lambda>_. None))"

text \<open>An agent without peers, and the Mac with its directory.\<close>

definition idle_agent :: "'w agent_sys" where
  "idle_agent =
    \<lparr>a_uptime_ns = (\<lambda>w. (0, w)), a_wall_ms = (\<lambda>w. (0, w)), a_strerror = (\<lambda>_. ''error''),
     a_poll = (\<lambda>_ _ _ w. (PollTimeout, w)), a_recv = (\<lambda>_ _ w. (Err EBADF, w)), a_peek = (\<lambda>_ w. (Err EBADF, w)),
     a_send = (\<lambda>_ _ w. (Err EBADF, w)), a_log = (\<lambda>_ w. w), a_new_flag = (\<lambda>w. (0, w)), a_flag = (\<lambda>_ w. (True, w)),
     a_set_flag = (\<lambda>_ w. w), a_lock_events = (\<lambda>w. (\<lambda>_. [], w)), a_unlock_events = (\<lambda>_ w. w),
     a_nfc = (\<lambda>s. s), a_characters = map (\<lambda>c. [c]), a_isValidSignature = (\<lambda>pk sig m. sig = pad 64 (pk @ m)),
     a_sign = (\<lambda>_ _ w. (Err ''no key'', w)), a_slot_wait = (\<lambda>w. (False, w)), a_slot_signal = (\<lambda>w. w),
     a_session_start = (\<lambda>_ _ _ w. (0, w)), a_session_result = (\<lambda>_ w. (None, w)), a_ready_wait = (\<lambda>_ w. w),
     a_session_cancel = (\<lambda>_ w. w), a_run_modal = (\<lambda>_ w. (False, w)), a_can_evaluate = (\<lambda>w. (False, w)),
     a_evaluate = (\<lambda>_ w. (LAFailure None, w))\<rparr>"

definition demo_files :: "directory_world file_sys" where
  "demo_files = file_calls idle_agent \<lparr>pl_get = \<lambda>w. w, pl_put = \<lambda>d _. d\<rparr>"

definition demo_listen :: "directory_world listen_sys" where
  "demo_listen = file_sys.extend demo_files (listen_sys.fields
    (\<lambda>p n. p @ ''/'' @ n)
    (\<lambda>p d. (case dw_sockets d p of None \<Rightarrow> Err ENOENT | Some st \<Rightarrow> Ok st, d))
    (\<lambda>d. (Ok 7, d))
    (\<lambda>_ d. (Ok (), d)) (\<lambda>_ d. (Ok (), d)) (\<lambda>_ d. (Ok (), d))
    (\<lambda>_ _ d. (Err ECONNREFUSED, d))
    (\<lambda>d. d) (\<lambda>d. d)
    (\<lambda>m d. (dw_mask d, d\<lparr>dw_mask := m\<rparr>))
    (\<lambda>_ p d. if dw_sockets d p \<noteq> None then (Err EEXIST, d)
      else (Ok (), d\<lparr>dw_sockets := (dw_sockets d)(p \<mapsto> socket_stat (511 AND NOT (dw_mask d)))\<rparr>))
    (\<lambda>p m d. case dw_sockets d p of None \<Rightarrow> (Err ENOENT, d)
      | Some st \<Rightarrow> (Ok (), d\<lparr>dw_sockets := (dw_sockets d)(p \<mapsto> st\<lparr>md_mode := m\<rparr>)\<rparr>))
    (\<lambda>_ _ d. (Ok (), d))
    (\<lambda>p d. if dw_sockets d p = None then (Err ENOENT, d) else (Ok (), d\<lparr>dw_sockets := (dw_sockets d)(p := None)\<rparr>))
    (\<lambda>_ d. (Ok 8, d)))"

definition demo_directory :: directory_world where
  "demo_directory =
    \<lparr>dw_files = [''agent.json'' \<mapsto> [0], ''agent.key'' \<mapsto> as_bytes (private_key_line (hexEncode host_secret))],
     dw_fds = Map.empty, dw_sockets = [''/etc'' \<mapsto> directory_stat, ''/etc/agent.sock'' \<mapsto> socket_stat 384],
     dw_mask = 18, dw_out = []\<rparr>"

section \<open>The laws\<close>

lemmas demo_files_defs = demo_files_def file_calls_def agent_sys.extend_def idle_agent_def file_sys.defs

lemma demo_files_text: "swift_text demo_files"
  by (simp add: swift_text_def demo_files_defs)

lemma demo_files_directory: "config_directory demo_files 3 dw_files dw_fds"
proof -
  have "keeps_entries demo_files dw_files"
    by (simp add: keeps_entries_def demo_files_defs at_place_def dir_open_def)
  moreover have "config_creates demo_files 3 dw_files dw_fds"
    by (auto simp: config_creates_def demo_files_defs at_place_def dir_create_def split: if_splits)
  moreover have "config_writes demo_files dw_files dw_fds"
    by (auto simp: config_writes_def demo_files_defs at_place_def dir_write_def take_eq_Nil min_def)
  moreover have "config_renames demo_files 3 dw_files"
    by (auto simp: config_renames_def demo_files_defs at_place_def dir_rename_def split: if_splits)
  moreover have "dw_files (f_unlinkat demo_files 3 n w) = (dw_files w)(n := None)" for n w
    by (simp add: demo_files_defs Let_def)
  ultimately show ?thesis unfolding config_directory_def by blast
qed

lemma demo_files_interrupts: "interrupts_end demo_files (\<lambda>_. 0)"
  by (auto simp: interrupts_end_def demo_files_defs at_place_def dir_write_def split: option.splits)

lemma demo_files_parent: "config_parent demo_files path 3"
  by (auto simp: config_parent_def demo_files_defs directory_flags_def)

definition demo_view :: "directory_world socket_view" where
  "demo_view d = (dw_sockets d, dw_mask d)"

lemmas demo_listen_defs = demo_listen_def file_sys.extend_def listen_sys.defs

lemma demo_listen_directory: "socket_directory demo_listen demo_view"
proof -
  have mask: "(511 AND NOT m) AND m = 0" for m :: u32
    by (rule bit_word_eqI) (auto simp: bit_simps)
  have "quiet_calls demo_listen demo_view"
    by (simp add: quiet_calls_def demo_listen_defs demo_files_defs demo_view_def)
  moreover have "\<forall>p w r w'. l_lstat demo_listen p w = (r, w') \<longrightarrow>
      (case r of Inl e \<Rightarrow> e = ENOENT \<longrightarrow> fst (demo_view w) p = None | Inr st \<Rightarrow> fst (demo_view w) p = Some st)"
    by (auto simp: demo_listen_defs demo_view_def split: option.splits)
  moreover have "\<forall>m w. fst (l_umask demo_listen m w) = snd (demo_view w) \<and>
      demo_view (snd (l_umask demo_listen m w)) = (fst (demo_view w), m)"
    by (simp add: demo_listen_defs demo_view_def)
  moreover have "\<forall>fd. path_call demo_view (\<lambda>old mask new. old = None \<and> (\<exists>st. new = Some st \<and> md_mode st AND mask = 0))
      (l_bind demo_listen fd)"
    by (auto simp: path_call_def demo_listen_defs demo_view_def split: if_splits)
      (rule exI, rule conjI [rotated], rule refl, simp add: socket_stat_def mask)
  moreover have "\<forall>m. path_call demo_view (\<lambda>old _ new. \<exists>st. old = Some st \<and> new = Some (st\<lparr>md_mode := m\<rparr>))
      (\<lambda>p. l_chmod demo_listen p m)"
    by (auto simp: path_call_def demo_listen_defs demo_view_def split: option.splits)
  moreover have "path_call demo_view (\<lambda>old _ new. old \<noteq> None \<and> new = None) (l_unlink demo_listen)"
    by (auto simp: path_call_def demo_listen_defs demo_view_def split: if_splits)
  ultimately show ?thesis unfolding socket_directory_def by blast
qed

end
