(* ===== verification/Unit_Tests.thy ===== *)
theory Unit_Tests
  imports Command_Props
begin

text \<open>
  The unit tests of \<open>crates/protocol/src/lib.rs\<close> and those of the frames and of the transport
  errors in \<open>crates/helper/src\<close>, written over the model, and the fuzz targets. A test ends with
  \<open>Some ()\<close>; a panic, of an \<open>unwrap\<close> or of an assertion, is \<open>None\<close>. The tests run with whatever
  libraries keep the documented laws, and the two tests of the committed test vectors run on what
  \<open>build_test_vector\<close> generates.
\<close>

section \<open>Panics\<close>

definition unwrap :: "('a, 'e) result \<Rightarrow> 'a option" where
  "unwrap r = (case r of Inr x \<Rightarrow> Some x | Inl _ \<Rightarrow> None)"

definition assert_that :: "bool \<Rightarrow> unit option" where
  "assert_that b = (if b then Some () else None)"

fun for_each :: "('a \<Rightarrow> unit option) \<Rightarrow> 'a list \<Rightarrow> unit option" where
  "for_each f [] = Some ()"
| "for_each f (x # xs) = Option.bind (f x) (\<lambda>_. for_each f xs)"

lemma unwrap_simps [simp]: "unwrap (Inr x) = Some x" "unwrap (Inl e) = None"
  by (simp_all add: unwrap_def)

lemma assert_that_simps [simp]: "assert_that b = Some () \<longleftrightarrow> b" "assert_that True = Some ()"
  by (simp_all add: assert_that_def)

lemma for_each_Some: "(\<And>x. x \<in> set xs \<Longrightarrow> f x = Some ()) \<Longrightarrow> for_each f xs = Some ()"
  by (induction xs) auto

section \<open>Tests of the protocol crate\<close>

definition test_signing_key :: "u8 \<Rightarrow> bytes" where
  "test_signing_key byte = replicate 32 byte"

definition test_request :: AuthRequestBody where
  "test_request =
    \<lparr>rq_protocol_version = PROTOCOL_VERSION,
     rq_request_id = ''req-123'',
     rq_nonce = replicate NONCE_LEN 0x42,
     rq_created_at_ms = 1700000000000,
     rq_expires_at_ms = 1700000030000,
     rq_linux_host_id = ''host-abc'',
     rq_linux_hostname = ''linux.example.com'',
     rq_pam_service = ''sudo'',
     rq_pam_user = ''alice'',
     rq_pam_ruser = Some ''alice'',
     rq_pam_rhost = None,
     rq_pam_tty = Some ''pts/3'',
     rq_sudo_command = None,
     rq_client_pid = Some 12345,
     rq_key_id = ''host-key-1'',
     rq_alg = Ed25519\<rparr>"

definition request_canonical_bytes_are_deterministic :: "unit option" where
  "request_canonical_bytes_are_deterministic = do {
     bytes_a \<leftarrow> unwrap (request_canonical_bytes test_request);
     bytes_b \<leftarrow> unwrap (request_canonical_bytes test_request);
     assert_that (bytes_a = bytes_b);
     assert_that (take 4 bytes_a = nat_to_be 4 (length REQUEST_DOMAIN)) }"

definition request_freshness_accepts_valid_time :: "unit option" where
  "request_freshness_accepts_valid_time =
    unwrap (request_verify_freshness test_request 1700000001000 30000)"

definition request_freshness_accepts_exact_expiry_boundary :: "unit option" where
  "request_freshness_accepts_exact_expiry_boundary =
    unwrap (request_verify_freshness test_request (rq_expires_at_ms test_request) 30000)"

definition request_freshness_rejects_expired :: "unit option" where
  "request_freshness_rejects_expired =
    assert_that (request_verify_freshness test_request (rq_expires_at_ms test_request + 1) 30000 =
      Err Expired)"

definition request_freshness_accepts_future_within_skew :: "unit option" where
  "request_freshness_accepts_future_within_skew =
    unwrap (request_verify_freshness test_request (rq_created_at_ms test_request - 30000) 30000)"

definition request_freshness_rejects_future_beyond_skew :: "unit option" where
  "request_freshness_rejects_future_beyond_skew =
    assert_that (request_verify_freshness test_request (rq_created_at_ms test_request - 30001) 30000 =
      Err CreatedInFuture)"

text \<open>The response that the tests build for a request.\<close>

definition test_response ::
    "'z crypto_scheme \<Rightarrow> AuthRequestBody \<Rightarrow> (AuthResponseBody, ProtocolError) result" where
  "test_response C request =
    for_request C request Approved BiometricOrWatch 1700000001000 1700000011000 ''agent-key-1''"

definition response_freshness_accepts_valid_time :: "'z crypto_scheme \<Rightarrow> unit option" where
  "response_freshness_accepts_valid_time C = do {
     response \<leftarrow> unwrap (test_response C test_request);
     unwrap (response_verify_freshness response 1700000002000 30000) }"

definition response_freshness_accepts_exact_expiry_boundary :: "'z crypto_scheme \<Rightarrow> unit option" where
  "response_freshness_accepts_exact_expiry_boundary C = do {
     response \<leftarrow> unwrap (test_response C test_request);
     unwrap (response_verify_freshness response (rs_expires_at_ms response) 30000) }"

definition response_freshness_rejects_expired :: "'z crypto_scheme \<Rightarrow> unit option" where
  "response_freshness_rejects_expired C = do {
     response \<leftarrow> unwrap (test_response C test_request);
     assert_that (response_verify_freshness response (rs_expires_at_ms response + 1) 30000 =
       Err Expired) }"

definition response_freshness_rejects_future_beyond_skew :: "'z crypto_scheme \<Rightarrow> unit option" where
  "response_freshness_rejects_future_beyond_skew C = do {
     response \<leftarrow> unwrap (test_response C test_request);
     assert_that (response_verify_freshness response (rs_created_at_ms response - 30001) 30000 =
       Err CreatedInFuture) }"

definition request_signature_verifies :: "'z crypto_scheme \<Rightarrow> unit option" where
  "request_signature_verifies C = do {
     request \<leftarrow> unwrap (request_sign C test_request (test_signing_key 7));
     unwrap (signed_request_verify C request (ed25519_public C (test_signing_key 7))) }"

definition request_signature_rejects_tampering :: "'z crypto_scheme \<Rightarrow> unit option" where
  "request_signature_rejects_tampering C = do {
     request \<leftarrow> unwrap (request_sign C test_request (test_signing_key 7));
     let request = request\<lparr>srq_body := (srq_body request)\<lparr>rq_pam_user := ''mallory''\<rparr>\<rparr>;
     assert_that (signed_request_verify C request (ed25519_public C (test_signing_key 7)) =
       Err SignatureVerificationFailed) }"

definition response_binds_to_request :: "'z crypto_scheme \<Rightarrow> unit option" where
  "response_binds_to_request C = do {
     body \<leftarrow> unwrap (test_response C test_request);
     response \<leftarrow> unwrap (response_sign C body (test_signing_key 9));
     unwrap (verify_for_request C response test_request (ed25519_public C (test_signing_key 9))) }"

definition response_rejects_wrong_request :: "'z crypto_scheme \<Rightarrow> unit option" where
  "response_rejects_wrong_request C = do {
     let other_request = test_request\<lparr>rq_request_id := ''req-other''\<rparr>;
     body \<leftarrow> unwrap (test_response C test_request);
     response \<leftarrow> unwrap (response_sign C body (test_signing_key 9));
     assert_that (verify_for_request C response other_request (ed25519_public C (test_signing_key 9)) =
       Err ResponseBindingMismatch) }"

section \<open>Tests of the test vectors\<close>

text \<open>The struct \<open>Vector\<close> of the tests; \<open>vector_of\<close> finds its fields by name, as the derived decoder does.\<close>

record Vector =
  host_public_key_hex :: string
  agent_private_key_hex :: string
  agent_public_key_hex :: string
  request_hash_hex :: string
  vector_signed_request :: SignedAuthRequest
  vector_signed_response :: SignedAuthResponse

fun json_text :: "json_field option \<Rightarrow> string option" where
  "json_text (Some (JsonText s)) = Some s"
| "json_text _ = None"

fun json_request :: "json_field option \<Rightarrow> SignedAuthRequest option" where
  "json_request (Some (JsonRequest r)) = Some r"
| "json_request _ = None"

fun json_response :: "json_field option \<Rightarrow> SignedAuthResponse option" where
  "json_response (Some (JsonResponse r)) = Some r"
| "json_response _ = None"

fun vector_of :: "json_value \<Rightarrow> Vector option" where
  "vector_of (JsonObject entries) = do {
     host_public \<leftarrow> json_text (map_of entries ''host_public_key_hex'');
     agent_private \<leftarrow> json_text (map_of entries ''agent_private_key_hex'');
     agent_public \<leftarrow> json_text (map_of entries ''agent_public_key_hex'');
     request_hash \<leftarrow> json_text (map_of entries ''request_hash_hex'');
     request \<leftarrow> json_request (map_of entries ''request'');
     response \<leftarrow> json_response (map_of entries ''response'');
     Some \<lparr>host_public_key_hex = host_public, agent_private_key_hex = agent_private,
       agent_public_key_hex = agent_public, request_hash_hex = request_hash,
       vector_signed_request = request, vector_signed_response = response\<rparr> }"
| "vector_of (JsonSigned _) = None"

definition test_vector_v1_approval_verifies :: "'z helper_lib_scheme \<Rightarrow> Vector \<Rightarrow> unit option" where
  "test_vector_v1_approval_verifies L v = do {
     host_public_key \<leftarrow> unwrap (hex_decode L (host_public_key_hex v));
     agent_public_key \<leftarrow> unwrap (hex_decode L (agent_public_key_hex v));
     unwrap (signed_request_verify L (vector_signed_request v) host_public_key);
     h \<leftarrow> unwrap (request_sha256 L (srq_body (vector_signed_request v)));
     assert_that (hex_encode L h = request_hash_hex v);
     unwrap (verify_for_request L (vector_signed_response v) (srq_body (vector_signed_request v))
       agent_public_key) }"

definition all_decisions :: "Decision list" where
  "all_decisions = [Approved, Denied, Unavailable, Cancelled, Failed]"

definition all_methods :: "AuthMethod list" where
  "all_methods = [Watch, TouchId, BiometricOrWatch, UnknownMethod, NoMethod]"

definition matrix_body :: "Vector \<Rightarrow> Decision \<Rightarrow> AuthMethod \<Rightarrow> AuthResponseBody" where
  "matrix_body v decision auth_method =
    (srs_body (vector_signed_response v))\<lparr>rs_decision := decision, rs_auth_method := auth_method\<rparr>"

definition matrix_case ::
    "'z helper_lib_scheme \<Rightarrow> Vector \<Rightarrow> SignedAuthResponse list \<Rightarrow> bytes \<Rightarrow> bytes \<Rightarrow>
     Decision \<Rightarrow> AuthMethod \<Rightarrow> unit option" where
  "matrix_case L v responses public_key signing_key decision auth_method = do {
     let matching = filter (\<lambda>response. rs_decision (srs_body response) = decision \<and>
       rs_auth_method (srs_body response) = auth_method) responses;
     assert_that (length matching = 1);
     let response = hd matching;
     let request = srq_body (vector_signed_request v);
     unwrap (verify_for_request L response request public_key);
     let expected = matrix_body v decision auth_method;
     a \<leftarrow> unwrap (response_canonical_bytes expected);
     b \<leftarrow> unwrap (response_canonical_bytes (srs_body response));
     assert_that (a = b);
     resigned \<leftarrow> unwrap (response_sign L expected signing_key);
     assert_that (srs_body resigned = srs_body response);
     unwrap (verify_for_request L resigned request public_key);
     bytes \<leftarrow> unwrap (json_of_response L response);
     round_trip \<leftarrow> unwrap (json_to_response L bytes);
     assert_that (round_trip = response) }"

definition test_vector_v1_response_enum_matrix_verifies ::
    "'z helper_lib_scheme \<Rightarrow> Vector \<Rightarrow> SignedAuthResponse list \<Rightarrow> unit option" where
  "test_vector_v1_response_enum_matrix_verifies L v responses = do {
     public_key \<leftarrow> unwrap (hex_decode L (agent_public_key_hex v));
     private_key \<leftarrow> unwrap (hex_decode L (agent_private_key_hex v));
     assert_that (length private_key = 32);
     assert_that (length responses = 25);
     for_each (\<lambda>decision. for_each
       (matrix_case L v responses public_key private_key decision) all_methods) all_decisions }"

section \<open>The tests of the protocol crate pass\<close>

text \<open>A signature by \<open>sk\<close> for \<open>m\<close> is not one for another message \<open>n\<close>.\<close>

definition signature_binds :: "'z crypto_scheme \<Rightarrow> bytes \<Rightarrow> bytes \<Rightarrow> bytes \<Rightarrow> bool" where
  "signature_binds C sk m n \<longleftrightarrow>
    (ed25519_verify C (ed25519_public C sk) n (ed25519_sign C sk m) \<longrightarrow> m = n)"

definition tampered_request :: AuthRequestBody where
  "tampered_request = test_request\<lparr>rq_pam_user := ''mallory''\<rparr>"

lemma test_request_canonical:
  "request_canonical_bytes test_request = Ok (request_fields test_request)"
  "request_canonical_bytes tampered_request = Ok (request_fields tampered_request)"
  by (simp_all add: request_canonical_bytes_Ok request_validate_Ok request_fits_def tampered_request_def
      test_request_def fits_def opt_fits_def NONCE_LEN_def)

lemma request_freshness_tests:
  "request_freshness_accepts_valid_time = Some ()"
  "request_freshness_accepts_exact_expiry_boundary = Some ()"
  "request_freshness_rejects_expired = Some ()"
  "request_freshness_accepts_future_within_skew = Some ()"
  "request_freshness_rejects_future_beyond_skew = Some ()"
  by (simp_all add: request_freshness_accepts_valid_time_def
      request_freshness_accepts_exact_expiry_boundary_def request_freshness_rejects_expired_def
      request_freshness_accepts_future_within_skew_def request_freshness_rejects_future_beyond_skew_def
      request_verify_freshness_def test_request_def saturating_add_def)

lemma response_freshness_tests:
  "response_freshness_accepts_valid_time C = Some ()"
  "response_freshness_accepts_exact_expiry_boundary C = Some ()"
  "response_freshness_rejects_expired C = Some ()"
  "response_freshness_rejects_future_beyond_skew C = Some ()"
  by (simp_all add: response_freshness_accepts_valid_time_def
      response_freshness_accepts_exact_expiry_boundary_def response_freshness_rejects_expired_def
      response_freshness_rejects_future_beyond_skew_def test_response_def for_request_def
      request_sha256_def test_request_canonical response_verify_freshness_def saturating_add_def)

lemma canonical_bytes_test: "request_canonical_bytes_are_deterministic = Some ()"
  by (simp add: request_canonical_bytes_are_deterministic_def test_request_canonical)
    (simp add: request_fields_def bytes_field_def)

lemma tampering_test:
  assumes "ed25519_correct C"
    and "signature_binds C (test_signing_key 7) (request_fields test_request) (request_fields tampered_request)"
  shows "request_signature_rejects_tampering C = Some ()"
proof -
  have "request_fields test_request \<noteq> request_fields tampered_request"
  proof
    assume "request_fields test_request = request_fields tampered_request"
    then have "Some test_request = Some tampered_request"
      unfolding test_request_canonical [THEN request_canonical_roundtrip, symmetric] by (rule arg_cong)
    then have "rq_pam_user test_request = rq_pam_user tampered_request" by simp
    then show False by (simp add: tampered_request_def test_request_def)
  qed
  with assms(2) have "\<not> ed25519_verify C (ed25519_public C (test_signing_key 7)) (request_fields tampered_request)
      (ed25519_sign C (test_signing_key 7) (request_fields test_request))"
    by (simp add: signature_binds_def)
  then have "signed_request_verify C \<lparr>srq_body = tampered_request, srq_signature =
      ed25519_sign C (test_signing_key 7) (request_fields test_request)\<rparr>
      (ed25519_public C (test_signing_key 7)) = Err SignatureVerificationFailed"
    using assms(1)
    by (simp add: signed_request_verify_def test_request_canonical(2) verify_ed25519_def
        ed25519_correct_def ED25519_PUBLIC_KEY_LEN_def ED25519_SIGNATURE_LEN_def)
  then show ?thesis
    by (simp add: request_signature_rejects_tampering_def request_sign_def test_request_canonical(1)
        flip: tampered_request_def)
qed

lemma test_reply:
  assumes "ed25519_correct C" and "\<And>m. length (sha256_digest C m) = 32"
  obtains body s where "test_response C test_request = Ok body"
    and "response_sign C body (test_signing_key 9) = Ok s" and "srs_body s = body"
    and "verify_for_request C s test_request (ed25519_public C (test_signing_key 9)) = Ok ()"
proof -
  have "fits ''agent-key-1''" by (simp add: fits_def)
  from signed_reply_accepted [OF assms(1) test_request_canonical(1) assms(2) _ this, of 1700000001000
      1700000011000 Approved BiometricOrWatch "test_signing_key 9"] that
  show ?thesis by (auto simp: test_response_def)
qed

lemma wrong_request_refused:
  assumes "test_response C test_request = Ok body" and "response_sign C body sk = Ok s"
    and "srs_body s = body" and "verify_for_request C s test_request pk = Ok ()"
  shows "verify_for_request C s (test_request\<lparr>rq_request_id := ''req-other''\<rparr>) pk = Err ResponseBindingMismatch"
proof -
  let ?other = "test_request\<lparr>rq_request_id := ''req-other''\<rparr>"
  have "request_canonical_bytes ?other = Ok (request_fields ?other)"
    by (simp add: request_canonical_bytes_Ok request_validate_Ok request_fits_def test_request_def
        fits_def opt_fits_def NONCE_LEN_def)
  moreover have "rs_request_id body = rq_request_id test_request"
    using assms(1) by (auto simp: test_response_def for_request_def result_simps)
  moreover have "rq_request_id test_request \<noteq> rq_request_id ?other" by (simp add: test_request_def)
  ultimately have "verify_binding C body ?other = Err ResponseBindingMismatch"
    by (simp add: verify_binding_def request_sha256_def)
  with assms(3,4) show ?thesis
    by (auto simp: verify_for_request_def result_simps)
qed

text \<open>The tests of the crate that need no committed file.\<close>

definition protocol_tests :: "'z crypto_scheme \<Rightarrow> unit option list" where
  "protocol_tests C =
    [request_canonical_bytes_are_deterministic, request_freshness_accepts_valid_time,
     request_freshness_accepts_exact_expiry_boundary, request_freshness_rejects_expired,
     request_freshness_accepts_future_within_skew, request_freshness_rejects_future_beyond_skew,
     response_freshness_accepts_valid_time C, response_freshness_accepts_exact_expiry_boundary C,
     response_freshness_rejects_expired C, response_freshness_rejects_future_beyond_skew C,
     request_signature_verifies C, request_signature_rejects_tampering C,
     response_binds_to_request C, response_rejects_wrong_request C]"

text \<open>
  The unit tests of the protocol crate pass on the model with every library that keeps the
  documented laws of Ed25519 and SHA-256 and whose signature for the test's request is not one for
  the request with another user.
\<close>

lemma protocol_tests_pass:
  assumes "ed25519_correct C" and "\<And>m. length (sha256_digest C m) = 32"
    and "signature_binds C (test_signing_key 7) (request_fields test_request) (request_fields tampered_request)"
  shows "list_all (\<lambda>t. t = Some ()) (protocol_tests C)"
proof -
  have "request_signature_verifies C = Some ()"
    using signed_request.signed_verifies [OF assms(1), of test_request "test_signing_key 7"]
    by (simp add: request_signature_verifies_def request_sign_def test_request_canonical(1))
  moreover obtain body s where r: "test_response C test_request = Ok body"
      "response_sign C body (test_signing_key 9) = Ok s" "srs_body s = body"
      "verify_for_request C s test_request (ed25519_public C (test_signing_key 9)) = Ok ()"
    using assms(1,2) by (rule test_reply)
  moreover have "response_binds_to_request C = Some ()"
    using r by (simp add: response_binds_to_request_def)
  moreover have "response_rejects_wrong_request C = Some ()"
    using r(1,2) wrong_request_refused [OF r] by (simp add: response_rejects_wrong_request_def)
  note passed = calculation(1) this \<open>response_binds_to_request C = Some ()\<close> canonical_bytes_test
    request_freshness_tests response_freshness_tests tampering_test [OF assms(1,3)]
  show ?thesis
    unfolding protocol_tests_def by (intro list.pred_inject(1) list.pred_inject(2) [THEN iffD2] conjI) (rule passed)+
qed

section \<open>The generated test vector passes\<close>

text \<open>The responses of the vector with every decision and method, signed again.\<close>

definition response_matrix :: "'z crypto_scheme \<Rightarrow> Vector \<Rightarrow> bytes \<Rightarrow> SignedAuthResponse list option" where
  "response_matrix C v signing_key =
    those (map (\<lambda>(d, am). unwrap (response_sign C (matrix_body v d am) signing_key))
      (List.product all_decisions all_methods))"

lemma those_map_Some:
  "(\<And>x. x \<in> set xs \<Longrightarrow> f x = Some (g x)) \<Longrightarrow> those (map f xs) = Some (map g xs)"
  by (induction xs) auto

lemma matrix_filter:
  assumes "\<And>d am. rs_decision (srs_body (s d am)) = d" and "\<And>d am. rs_auth_method (srs_body (s d am)) = am"
  shows "filter (\<lambda>r. rs_decision (srs_body r) = d \<and> rs_auth_method (srs_body r) = am)
    (map (\<lambda>(d, am). s d am) (List.product all_decisions all_methods)) = [s d am]"
  by (cases d; cases am) (simp_all add: assms all_decisions_def all_methods_def)

lemma for_request_other:
  assumes "for_request C r d am issued expires key_id = Ok body"
  shows "for_request C r d' am' issued expires key_id =
    Ok (body\<lparr>rs_decision := d', rs_auth_method := am'\<rparr>)"
  using assms by (auto simp: for_request_def result_simps)

lemma generated_vector:
  assumes "ed25519_correct L" and "\<And>m. length (sha256_digest L m) = 32"
  obtains json v s where "build_test_vector L = Ok json" and "vector_of json = Some v"
    and "host_public_key_hex v = hex_encode L (ed25519_public L (replicate 32 7))"
    and "agent_private_key_hex v = hex_encode L (replicate 32 9)"
    and "agent_public_key_hex v = hex_encode L (ed25519_public L (replicate 32 9))"
    and "request_hash_hex v = hex_encode L (sha256_digest L (request_fields vector_request))"
    and "srq_body (vector_signed_request v) = vector_request"
    and "signed_request_verify L (vector_signed_request v) (ed25519_public L (replicate 32 7)) = Ok ()"
    and "vector_signed_response v = s Approved BiometricOrWatch"
    and "\<And>d am. response_sign L (matrix_body v d am) (replicate 32 9) = Ok (s d am)"
    and "\<And>d am. srs_body (s d am) = matrix_body v d am"
    and "\<And>d am. verify_for_request L (s d am) vector_request (ed25519_public L (replicate 32 9)) = Ok ()"
proof -
  obtain q where q: "request_sign L vector_request (replicate 32 7) = Ok q"
    by (simp add: request_sign_def vector_request_canonical)
  from signed_request.signed_verifies [OF assms(1) q]
  have body: "srq_body q = vector_request"
    and verified: "signed_request_verify L q (ed25519_public L (replicate 32 7)) = Ok ()"
    by simp_all
  let ?reply = "\<lambda>d am. for_request L vector_request d am 1700000001000 1700000011000 ''agent-key-1''"
  have "fits ''agent-key-1''" by (simp add: fits_def)
  note accepted = signed_reply_accepted [OF assms(1) vector_request_canonical assms(2) _ this, of
      1700000001000 1700000011000 _ _ "replicate 32 9"]
  have "(1700000001000 :: u64) < 1700000011000" by simp
  from accepted [OF this] have "\<forall>d am. \<exists>s. \<exists>resp. ?reply d am = Ok resp \<and> response_sign L resp (replicate 32 9) = Ok s \<and>
      srs_body s = resp \<and> verify_for_request L s vector_request (ed25519_public L (replicate 32 9)) = Ok ()"
    by blast
  then obtain s where s: "\<And>d am. ?reply d am = Ok (srs_body (s d am))"
      "\<And>d am. response_sign L (srs_body (s d am)) (replicate 32 9) = Ok (s d am)"
      "\<And>d am. verify_for_request L (s d am) vector_request (ed25519_public L (replicate 32 9)) = Ok ()"
    by metis
  define v where "v = \<lparr>host_public_key_hex = hex_encode L (ed25519_public L (replicate 32 7)),
    agent_private_key_hex = hex_encode L (replicate 32 9),
    agent_public_key_hex = hex_encode L (ed25519_public L (replicate 32 9)),
    request_hash_hex = hex_encode L (sha256_digest L (request_fields vector_request)),
    vector_signed_request = q, vector_signed_response = s Approved BiometricOrWatch\<rparr>"
  have "\<exists>json. build_test_vector L = Ok json \<and> vector_of json = Some v"
    using q body s by (simp add: build_test_vector_def request_sha256_def vector_request_canonical v_def Let_def)
  then obtain json where json: "build_test_vector L = Ok json" "vector_of json = Some v" by blast
  have m: "srs_body (s d am) = matrix_body v d am" for d am
    using for_request_other [OF s(1) [of Approved BiometricOrWatch], of d am] s(1) [of d am]
    by (simp add: matrix_body_def v_def)
  show ?thesis
    using that [of json v s] json m s(2,3) body verified by (simp add: v_def)
qed

text \<open>
  The generated test vector passes the tests of the committed one: \<open>build_test_vector\<close> returns
  an object with the fields of the tests' \<open>Vector\<close>; its request verifies under its host key, its
  digest is the one printed, and its response is accepted for the request under its agent key. The
  25 responses with every decision and method, signed again, exist and pass the matrix test where
  \<open>serde_json\<close> reads back what it writes for them.
\<close>

lemma generated_vector_passes:
  assumes "ed25519_correct L" and "\<And>m. length (sha256_digest L m) = 32" and "hex_lawful L"
  shows "\<exists>json v responses. build_test_vector L = Ok json \<and> vector_of json = Some v \<and>
    test_vector_v1_approval_verifies L v = Some () \<and>
    response_matrix L v (replicate 32 9) = Some responses \<and>
    ((\<forall>r \<in> set responses. \<exists>b. json_of_response L r = Ok b \<and> json_to_response L b = Ok r) \<longrightarrow>
      test_vector_v1_response_enum_matrix_verifies L v responses = Some ())"
  using assms(1,2)
proof (rule generated_vector)
  fix json v and s :: "Decision \<Rightarrow> AuthMethod \<Rightarrow> SignedAuthResponse"
  let ?sk = "replicate 32 (9 :: u8)" and ?pk = "ed25519_public L (replicate 32 9)"
  let ?responses = "map (\<lambda>(d, am). s d am) (List.product all_decisions all_methods)"
  assume json: "build_test_vector L = Inr json" "vector_of json = Some v"
    and v: "host_public_key_hex v = hex_encode L (ed25519_public L (replicate 32 7))"
      "agent_private_key_hex v = hex_encode L ?sk" "agent_public_key_hex v = hex_encode L ?pk"
      "request_hash_hex v = hex_encode L (sha256_digest L (request_fields vector_request))"
      "srq_body (vector_signed_request v) = vector_request"
      "signed_request_verify L (vector_signed_request v) (ed25519_public L (replicate 32 7)) = Inr ()"
      "vector_signed_response v = s Approved BiometricOrWatch"
    and s: "\<And>d am. response_sign L (matrix_body v d am) ?sk = Inr (s d am)"
      "\<And>d am. srs_body (s d am) = matrix_body v d am"
      "\<And>d am. verify_for_request L (s d am) vector_request ?pk = Inr ()"
  have hex: "hex_decode L (hex_encode L b) = Ok b" for b using assms(3) by (simp add: hex_lawful_def)
  have "test_vector_v1_approval_verifies L v = Some ()"
    by (simp add: test_vector_v1_approval_verifies_def v hex s request_sha256_def vector_request_canonical)
  moreover have "response_matrix L v ?sk = Some ?responses"
    unfolding response_matrix_def by (rule those_map_Some) (auto simp: s)
  moreover have "matrix_case L v ?responses ?pk ?sk d am = Some ()"
    if j: "\<forall>r \<in> set ?responses. \<exists>b. json_of_response L r = Ok b \<and> json_to_response L b = Ok r"
      and d: "d \<in> set all_decisions" "am \<in> set all_methods" for d am
  proof -
    have "s d am \<in> set ?responses" using d by auto
    then obtain b where b: "json_of_response L (s d am) = Ok b" "json_to_response L b = Ok (s d am)"
      using j by blast
    obtain m where m: "response_canonical_bytes (matrix_body v d am) = Ok m"
      using s(1) [of d am] by (auto simp: response_sign_def result_simps)
    have "rs_decision (srs_body (s d am)) = d" "rs_auth_method (srs_body (s d am)) = am" for d am
      by (simp_all add: s(2) matrix_body_def)
    from matrix_filter [where s = s, OF this] show ?thesis
      by (simp add: matrix_case_def v s b m)
  qed
  then have "(\<forall>r \<in> set ?responses. \<exists>b. json_of_response L r = Ok b \<and> json_to_response L b = Ok r) \<longrightarrow>
      test_vector_v1_response_enum_matrix_verifies L v ?responses = Some ()"
    by (simp add: test_vector_v1_response_enum_matrix_verifies_def v hex for_each_Some)
      (simp add: all_decisions_def all_methods_def)
  ultimately show ?thesis using json by blast
qed

end
