(* ===== verification/Frame_Tests.thy ===== *)
theory Frame_Tests
  imports Unit_Tests
begin

text \<open>
  The tests of frames and of transport errors in \<open>crates/helper/src\<close>, over a connected pair of
  streams, and the fuzz targets of \<open>fuzz/fuzz_targets\<close>. As in \<open>Unit_Tests\<close>, a test that passes ends
  with \<open>Some ()\<close>.
\<close>

section \<open>A pair of streams\<close>

text \<open>
  \<open>UnixStream::pair\<close>: the state is what was written and not yet read; the write side is shut down
  before the read side is used, so that a read finds what is left, or the end.
\<close>

definition pair_read :: "bytes reader" where
  "pair_read n stream = Some (Ok (take n stream), drop n stream)"

definition pair_write :: "bytes writer" where
  "pair_write bs stream = Some (Ok (length bs), stream @ bs)"

definition write_raw :: "bytes \<Rightarrow> bytes \<Rightarrow> bytes option" where
  "write_raw bs stream = do {
     (r, stream) \<leftarrow> write_all pair_write bs stream;
     unwrap r;
     Some stream }"

definition write_raw_frame :: "bytes \<Rightarrow> bytes \<Rightarrow> bytes option" where
  "write_raw_frame payload stream = do {
     assert_that (length payload < 2 ^ 32);
     stream \<leftarrow> write_raw (nat_to_be 4 (length payload)) stream;
     write_raw payload stream }"

section \<open>The tests\<close>

text \<open>The message of \<open>Oversized\<close> is the one that contains \<open>frame too large\<close>.\<close>

fun is_oversized :: "('a, TransportError) result \<Rightarrow> bool" where
  "is_oversized (Inl (Oversized _)) = True"
| "is_oversized _ = False"

definition frame_reader_rejects_oversized_frame :: "(bytes \<Rightarrow> ('a, string) result) \<Rightarrow> unit option" where
  "frame_reader_rejects_oversized_frame from_slice = do {
     stream \<leftarrow> write_raw (nat_to_be 4 (MAX_FRAME_LEN + 1)) [];
     (r, _) \<leftarrow> read_json_frame from_slice pair_read stream;
     assert_that (is_oversized r) }"

definition frame_reader_rejects_truncated_length :: "(bytes \<Rightarrow> ('a, string) result) \<Rightarrow> unit option" where
  "frame_reader_rejects_truncated_length from_slice = do {
     stream \<leftarrow> write_raw [0, 1] [];
     (r, _) \<leftarrow> read_json_frame from_slice pair_read stream;
     assert_that (isl r) }"

definition frame_reader_rejects_truncated_body :: "(bytes \<Rightarrow> ('a, string) result) \<Rightarrow> unit option" where
  "frame_reader_rejects_truncated_body from_slice = do {
     stream \<leftarrow> write_raw (nat_to_be 4 10) [];
     stream \<leftarrow> write_raw (as_bytes ''{}'') stream;
     (r, _) \<leftarrow> read_json_frame from_slice pair_read stream;
     assert_that (isl r) }"

definition frame_reader_rejects_invalid_json :: "(bytes \<Rightarrow> ('a, string) result) \<Rightarrow> unit option" where
  "frame_reader_rejects_invalid_json from_slice = do {
     stream \<leftarrow> write_raw_frame (as_bytes ''not-json'') [];
     (r, _) \<leftarrow> read_json_frame from_slice pair_read stream;
     assert_that (isl r) }"

definition frame_reader_rejects_wrong_schema :: "'z helper_lib_scheme \<Rightarrow> unit option" where
  "frame_reader_rejects_wrong_schema L = do {
     stream \<leftarrow> write_raw_frame (as_bytes ''{}'') [];
     (r, _) \<leftarrow> read_json_frame (json_to_response L) pair_read stream;
     assert_that (isl r) }"

definition frame_round_trip_json_value ::
    "('a \<Rightarrow> (bytes, string) result) \<Rightarrow> (bytes \<Rightarrow> ('a, string) result) \<Rightarrow> 'a \<Rightarrow> unit option" where
  "frame_round_trip_json_value to_vec from_slice json = do {
     (r, stream) \<leftarrow> write_json_frame to_vec pair_write json [];
     unwrap r;
     (r, _) \<leftarrow> read_json_frame from_slice pair_read stream;
     decoded \<leftarrow> unwrap r;
     assert_that (decoded = json) }"

fun is_io :: "TransportError \<Rightarrow> bool" where
  "is_io (TransportIo _) = True"
| "is_io _ = False"

definition timeout_error_kinds_are_not_protocol_errors :: "unit option" where
  "timeout_error_kinds_are_not_protocol_errors = do {
     for_each (\<lambda>k. assert_that (transport_error_from (Simple k) = Timeout)) [WouldBlock, TimedOut];
     assert_that (is_io (transport_error_from (Simple UnexpectedEof))) }"

section \<open>The tests pass\<close>

lemma write_all_pair: "write_all pair_write bs stream = Some (Ok (), stream @ bs)"
  by (cases bs) (simp_all add: write_all.simps pair_write_def)

lemma write_raw_eq [simp]: "write_raw bs stream = Some (stream @ bs)"
  by (simp add: write_raw_def write_all_pair)

lemma read_exact_pair:
  "read_exact pair_read got n stream =
    Some (if n \<le> length stream then (Ok (got @ take n stream), drop n stream)
          else (Err (Simple UnexpectedEof), []))"
  by (cases "stream = []") (auto simp: read_exact.simps pair_read_def)

lemma read_frame_pair:
  assumes "length payload \<le> MAX_FRAME_LEN"
  shows "read_json_frame from_slice pair_read (nat_to_be 4 (length payload) @ payload) =
    Some (map_err Json (from_slice payload), [])"
  using assms by (simp add: read_json_frame_def read_exact_pair nat_from_be_to_be MAX_FRAME_LEN_def Let_def
        del: nat_to_be_numeral)

text \<open>
  The tests of frames and transport errors pass with every JSON library that refuses the text
  \<open>not-json\<close>, and \<open>{}\<close> as a response, and reads back the value of the round trip.
\<close>

lemma frame_tests_pass:
  assumes "isl (from_slice (as_bytes ''not-json''))" and "isl (json_to_response L (as_bytes ''{}''))"
    and "to_vec json = Ok payload" and "from_slice payload = Ok json" and "length payload \<le> MAX_FRAME_LEN"
  shows "frame_reader_rejects_oversized_frame from_slice = Some ()"
    and "frame_reader_rejects_truncated_length from_slice = Some ()"
    and "frame_reader_rejects_truncated_body from_slice = Some ()"
    and "frame_reader_rejects_invalid_json from_slice = Some ()"
    and "frame_reader_rejects_wrong_schema L = Some ()"
    and "frame_round_trip_json_value to_vec from_slice json = Some ()"
    and "timeout_error_kinds_are_not_protocol_errors = Some ()"
proof -
  show "frame_reader_rejects_oversized_frame from_slice = Some ()"
    by (simp add: frame_reader_rejects_oversized_frame_def read_json_frame_def read_exact_pair
        nat_from_be_to_be MAX_FRAME_LEN_def Let_def
        del: nat_to_be_numeral)
  show "frame_reader_rejects_truncated_length from_slice = Some ()"
    by (simp add: frame_reader_rejects_truncated_length_def read_json_frame_def read_exact_pair)
  show "frame_reader_rejects_truncated_body from_slice = Some ()"
    by (simp add: frame_reader_rejects_truncated_body_def read_json_frame_def read_exact_pair
        nat_from_be_to_be MAX_FRAME_LEN_def Let_def
        del: nat_to_be_numeral)
  show "frame_reader_rejects_invalid_json from_slice = Some ()"
    using assms(1) read_frame_pair [of "as_bytes ''not-json''" from_slice]
    by (auto simp: frame_reader_rejects_invalid_json_def write_raw_frame_def isl_def MAX_FRAME_LEN_def
        simp del: nat_to_be_numeral)
  show "frame_reader_rejects_wrong_schema L = Some ()"
    using assms(2) read_frame_pair [of "as_bytes ''{}''" "json_to_response L"]
    by (auto simp: frame_reader_rejects_wrong_schema_def write_raw_frame_def isl_def MAX_FRAME_LEN_def
        simp del: nat_to_be_numeral)
  have "write_json_frame to_vec pair_write json [] = Some (Ok (), nat_to_be 4 (length payload) @ payload)"
    using assms(3,5)
    by (simp add: write_json_frame_def write_all_pair Let_def unat_of_nat MAX_FRAME_LEN_def
        del: nat_to_be_numeral)
  then show "frame_round_trip_json_value to_vec from_slice json = Some ()"
    using read_frame_pair [OF assms(5), of from_slice] assms(4)
    by (simp add: frame_round_trip_json_value_def del: nat_to_be_numeral)
  show "timeout_error_kinds_are_not_protocol_errors = Some ()"
    by (simp add: timeout_error_kinds_are_not_protocol_errors_def transport_error_from_def)
qed

section \<open>Fuzz targets\<close>

text \<open>
  The targets \<open>signed_request_json\<close> and \<open>signed_response_json\<close>: \<open>None\<close> for bytes that are not a
  message, otherwise the result of \<open>canonical_bytes\<close>, which the target drops.
\<close>

definition signed_request_json :: "'z helper_lib_scheme \<Rightarrow> bytes \<Rightarrow> (bytes, ProtocolError) result option" where
  "signed_request_json L data =
    (case json_to_request L data of
       Inr request \<Rightarrow> Some (request_canonical_bytes (srq_body request))
     | Inl _ \<Rightarrow> None)"

definition signed_response_json :: "'z helper_lib_scheme \<Rightarrow> bytes \<Rightarrow> (bytes, ProtocolError) result option" where
  "signed_response_json L data =
    (case json_to_response L data of
       Inr response \<Rightarrow> Some (response_canonical_bytes (srs_body response))
     | Inl _ \<Rightarrow> None)"

text \<open>Whatever bytes are fed to the two targets, equal canonical bytes come from equal messages of one kind.\<close>

lemma signed_request_json_inject:
  assumes "signed_request_json L data = Some (Ok b)" and "signed_request_json L data' = Some (Ok b)"
  shows "\<exists>r r'. json_to_request L data = Ok r \<and> json_to_request L data' = Ok r' \<and> srq_body r = srq_body r'"
  using assms by (auto simp: signed_request_json_def split: sum.splits dest!: request_canonical_roundtrip)

lemma signed_response_json_inject:
  assumes "signed_response_json L data = Some (Ok b)" and "signed_response_json L data' = Some (Ok b)"
  shows "\<exists>r r'. json_to_response L data = Ok r \<and> json_to_response L data' = Ok r' \<and> srs_body r = srs_body r'"
  using assms by (auto simp: signed_response_json_def split: sum.splits dest!: response_canonical_roundtrip)

lemma fuzz_targets_separate:
  "signed_request_json L data = Some (Ok b) \<Longrightarrow> signed_response_json L data' \<noteq> Some (Ok b)"
  using request_response_domains_separate
  by (fastforce simp: signed_request_json_def signed_response_json_def split: sum.splits)

end
