(* ===== verification/Agent_File_Props.thy ===== *)
theory Agent_File_Props
  imports Agent_File_Demo Helper_Props Frame_Tests
begin

text \<open>
  Properties of the files, keys, hosts and the listening socket of the macOS agent, and where they meet
  the helper: key files and test vectors.
\<close>

section \<open>Hosts\<close>

lemma loadAgentConfig_entries:
  assumes "config_directory F parent files fds"
  shows "files (snd (loadAgentConfig F decode path w)) = files w"
proof -
  obtain r v where r: "readSafeFile F path ''agent config'' False w = (r, v)" by fastforce
  then have "files v = files w"
    using readSafeFile_entries [OF assms, of path "''agent config''" False w] by simp
  then show ?thesis
    by (cases r; cases "decode (fst (projr r))";
        cases "validateFileMetadata (snd (projr r)) ''agent config with inline private key'' True (f_geteuid F)")
      (auto simp: loadAgentConfig_def r split: prod.splits)
qed

text \<open>The configuration that \<open>hosts add\<close> and \<open>hosts remove\<close> write.\<close>

definition changed_config :: "'w file_sys \<Rightarrow> HostsOptions \<Rightarrow> AgentConfig \<Rightarrow> (AgentConfig, AgentError) result" where
  "changed_config F options config =
    and_then (unwrapped (ho_hostId options)) (\<lambda>hostId.
    if ho_command options = ''add'' then
      hosts_add F config \<lparr>ah_hostId = hostId, ah_publicKeyHex = ho_publicKeyHex options,
        ah_publicKeyFile = ho_publicKeyFile options\<rparr>
    else hosts_remove F config hostId)"

lemma runHosts_change:
  assumes "ho_command options = ''add'' \<or> ho_command options = ''remove''"
    and "loadAgentConfig F decode (ho_configPath options) w = (r, v)"
  shows "runHosts F decode encode options w =
    (case and_then r (changed_config F options) of
       Inl e \<Rightarrow> Some (Err e, v)
     | Inr new \<Rightarrow> writeAgentConfig F encode new (ho_configPath options) v)"
proof (cases r)
  case (Inl e)
  then show ?thesis by (simp add: runHosts_def assms(2))
next
  case (Inr config)
  show ?thesis
  proof (cases "ho_hostId options")
    case None
    then show ?thesis using assms Inr by (auto simp: runHosts_def changed_config_def unwrapped_def)
  next
    case (Some i)
    then show ?thesis using assms Inr
      by (auto simp: runHosts_def changed_config_def unwrapped_def split: sum.splits)
  qed
qed

text \<open>
  C29. \<open>hosts add\<close> and \<open>hosts remove\<close> replace the configuration file as a whole: when interruptions of \<open>write\<close>
  run out the command returns, and the directory then has either all its old entries, and the command
  failed, or the configuration holds the complete encoding of the changed configuration and every other
  entry is as before. No partial file is left, under the name of the configuration or another.
\<close>

theorem hosts_update_atomic:
  assumes dir: "config_directory F parent files fds" and ends: "interrupts_end F I"
    and parent: "config_parent F (ho_configPath options) parent"
    and "ho_command options = ''add'' \<or> ho_command options = ''remove''"
  shows "\<exists>r w'. runHosts F decode encode options w = Some (r, w') \<and>
    (files w' = files w \<and> r \<noteq> Ok () \<or>
     (\<exists>config v new data. loadAgentConfig F decode (ho_configPath options) w = (Ok config, v) \<and>
       changed_config F options config = Ok new \<and> encode new = Ok data \<and>
       files w' = (files w)(f_last_component F (ho_configPath options) \<mapsto> data)))"
proof -
  obtain r v where r: "loadAgentConfig F decode (ho_configPath options) w = (r, v)" by fastforce
  then have v: "files v = files w"
    using loadAgentConfig_entries [OF dir, of decode "ho_configPath options" w] by simp
  note run = runHosts_change [OF assms(4) r, of encode]
  show ?thesis
  proof (cases "\<exists>config new data. r = Ok config \<and> changed_config F options config = Ok new \<and> encode new = Ok data")
    case True
    then obtain config new data
      where ok: "r = Ok config" "changed_config F options config = Ok new" "encode new = Ok data" by blast
    with run replaceConfigFile_entries [OF dir ends parent, of data "ac_agentKeyHex new \<noteq> None" v]
    show ?thesis using r v by (auto simp: writeAgentConfig_def)
  next
    case False
    then have "\<exists>e. runHosts F decode encode options w = Some (Err e, v)"
      using run by (cases r; cases "changed_config F options (projr r)";
          cases "encode (projr (changed_config F options (projr r)))") (auto simp: writeAgentConfig_def)
    with v show ?thesis by auto
  qed
qed

definition mac_config :: AgentConfig where
  "mac_config = \<lparr>ac_socketPath = ''/etc/agent.sock'', ac_hosts = None, ac_hostPublicKeyHex = None,
    ac_hostPublicKeyFile = None, ac_agentKeyHex = Some (hexEncode agent_secret), ac_agentKeyFile = None,
    ac_agentKeychainService = None, ac_agentKeychainAccount = None, ac_agentKeyId = None,
    ac_allowedFutureSkewMs = None, ac_requireConfirmation = Some True, ac_rateLimitWindowSeconds = None,
    ac_rateLimitMaxRequests = None\<rparr>"

definition mac_host :: AllowedHost where
  "mac_host = \<lparr>ah_hostId = ''host-abc'', ah_publicKeyHex = Some (hexEncode host_secret), ah_publicKeyFile = None\<rparr>"

definition mac_add :: HostsOptions where
  "mac_add = \<lparr>ho_command = ''add'', ho_configPath = ''/etc/agent.json'', ho_hostId = Some ''host-abc'',
    ho_publicKeyHex = Some (hexEncode host_secret), ho_publicKeyFile = None\<rparr>"

theorem hosts_update_atomic_witness:
  "\<exists>r w'. runHosts demo_files (\<lambda>_. Ok mac_config) (\<lambda>c. Ok [word_of_nat (length (config_hosts c)), 9, 9])
      mac_add demo_directory = Some (r, w') \<and>
    (dw_files w' = dw_files demo_directory \<and> r \<noteq> Ok () \<or>
     dw_files w' = (dw_files demo_directory)(''agent.json'' \<mapsto> [1, 9, 9]))"
proof -
  have "changed_config demo_files mac_add mac_config = Ok (mac_config\<lparr>ac_hosts := Some [mac_host]\<rparr>)"
    by (simp add: changed_config_def mac_add_def unwrapped_def hosts_add_def mac_config_def config_hosts_def
        mac_host_def)
  moreover have "f_last_component demo_files ''/etc/agent.json'' = ''agent.json''"
    by (simp add: demo_files_defs last_component_def)
  moreover have "ho_configPath mac_add = ''/etc/agent.json''" "ho_command mac_add = ''add''"
    by (simp_all add: mac_add_def)
  moreover have load: "\<exists>v. loadAgentConfig demo_files (\<lambda>_. Ok mac_config) ''/etc/agent.json'' demo_directory = (Ok mac_config, v)"
    by (simp add: loadAgentConfig_def readSafeFile_def openSafeFile_def fstat_labelled_def demo_files_defs at_place_def
        dir_open_def demo_directory_def last_component_def safe_flags_def mac_stat_def validateFileMetadata_def
        finally_w_def on_error_w_def dir_read_def)
  ultimately show ?thesis
    using hosts_update_atomic [OF demo_files_directory demo_files_interrupts demo_files_parent, of mac_add
        "\<lambda>_. Ok mac_config" "\<lambda>c. Ok [word_of_nat (length (config_hosts c)), 9, 9]" demo_directory]
    by (auto simp: config_hosts_def)
qed

section \<open>Keys\<close>





definition mac_host_config :: AgentConfig where
  "mac_host_config = mac_config\<lparr>ac_hosts := Some [mac_host]\<rparr>"



text \<open>\<open>UInt8(_, radix: 16)\<close> takes a sign, and so does the agent's hex where a first digit is expected.\<close>

lemma hexDecode_accepts_signs: "hexDecode demo_files ''+f-0'' = Ok [15, 0]"
proof -
  have "list_all graphic ''+f-0''" by (simp add: graphic_def)
  from swift_text_graphic [OF demo_files_text this] show ?thesis
    by (simp add: hexDecode_def uint8_radix16_def hex_digit_value_def Let_def)
qed

text \<open>
  C28. Key files serve both programs: what either program writes for a 32-byte key, as a private or as a
  public key, the agent reads as that key from a file that passes its checks, and the helper loads it as
  that key from a trusted file. \<open>hex\<close> writes the digits that the agent writes.
\<close>

theorem key_files_interoperate:
  assumes "hex_lawful L" and "\<And>b. hex_encode L b = hexEncode b" and "swift_text F" and "length key = 32"
    and "private = key_text ''private_key_hex'' key @ [newline]" and "public = key_text ''public_key_hex'' key @ [newline]"
  shows "private = private_key_line (hex_encode L key) \<and> public = public_key_line (hex_encode L key) \<and>
    (\<forall>path label pm line st u u'. (line = private \<or> line = public) \<and>
      readSafeFile F path label pm u = (Ok (as_bytes line, st), u') \<longrightarrow>
      (\<exists>h. readKeyMaterial F None (Some path) label pm u = (Ok h, u') \<and>
        (\<forall>mk. key_of_hex F mk h = map_err Thrown (mk key)))) \<and>
    (open_trusted S path ro False True w = (Ok f, w1) \<and>
      sys_read_to_end S f (MAX_FRAME_LEN + 1) w1 = (Ok (as_bytes private), w') \<longrightarrow>
      load_signing_key L S None (Some path) ro w = (Ok key, w')) \<and>
    (open_trusted S path ro False False w = (Ok f, w1) \<and>
      sys_read_to_end S f (MAX_FRAME_LEN + 1) w1 = (Ok (as_bytes public), w') \<longrightarrow>
      load_public_key L S None (Some path) label ro w = (Ok key, w'))"
proof -
  have lines: "private = private_key_line (hex_encode L key)" "public = public_key_line (hex_encode L key)"
    by (simp_all add: assms(2,5,6) key_text_def private_key_line_def public_key_line_def)
  have read: "\<exists>h. readKeyMaterial F None (Some path) label pm u = (Ok h, u') \<and>
      (\<forall>mk. key_of_hex F mk h = map_err Thrown (mk key))"
    if "line = private \<or> line = public" "readSafeFile F path label pm u = (Ok (as_bytes line, st), u')"
    for path label pm line st u u'
    using key_file_read [OF assms(3) that(2), of key] that(1) by (auto simp: lines assms(2))
  show ?thesis
    unfolding lines [symmetric]
    by (intro conjI allI impI refl; elim conjE)
      (rule read private_key_file_roundtrip [OF assms(1,4), folded lines]
        public_key_file_roundtrip [OF assms(1,4), folded lines]; assumption)+
qed

text \<open>The digits of the helper's hex in \<open>Demo\<close>, and the key file of the Mac.\<close>

lemma demo_lib_digits: "hex_encode demo_lib b = hexEncode b"
  by (simp add: demo_lib_def demo_hex_encode_def hexEncode_def hex_digit_def hex_digits_def)

lemma mac_key_file: "\<exists>u'. readSafeFile demo_files ''/etc/agent.key'' ''agent private key'' True demo_directory =
    (Ok (as_bytes (private_key_line (hexEncode host_secret)), mac_stat), u')"
  by (simp add: readSafeFile_def openSafeFile_def fstat_labelled_def demo_files_defs at_place_def dir_open_def
      demo_directory_def last_component_def safe_flags_def mac_stat_def validateFileMetadata_def
      finally_w_def on_error_w_def dir_read_def)

theorem key_files_interoperate_witness:
  "(\<exists>h u'. readKeyMaterial demo_files None (Some ''/etc/agent.key'') ''agent private key'' True demo_directory = (Ok h, u') \<and>
      key_of_hex demo_files key_of_32 h = Ok host_secret) \<and>
   load_signing_key demo_lib demo_sys None (Some ''/etc/host.key'') True demo_world = (Ok host_secret, demo_world)"
proof -
  have len: "length host_secret = 32" by (simp add: host_secret_def)
  note interop = key_files_interoperate [OF demo_lib_hex demo_lib_digits demo_files_text len refl refl,
      of demo_sys "''/etc/host.key''" True demo_world 2 demo_world demo_world]
  let ?private = "key_text ''private_key_hex'' host_secret @ [newline]"
  have line: "?private = private_key_line (hexEncode host_secret)"
    by (simp add: key_text_def private_key_line_def)
  have "open_trusted demo_sys ''/etc/host.key'' True False True demo_world = (Ok 2, demo_world)"
    by (rule demo_open(1))
  moreover have "sys_read_to_end demo_sys 2 (MAX_FRAME_LEN + 1) demo_world =
      (Ok (as_bytes (private_key_line (hex_encode demo_lib host_secret))), demo_world)"
    by (simp add: host_secret_def demo_sys_def demo_read_def demo_world_def demo_contents_def
      demo_lib_def MAX_FRAME_LEN_def private_key_line_def demo_hex_length)
  ultimately have "load_signing_key demo_lib demo_sys None (Some ''/etc/host.key'') True demo_world = (Ok host_secret, demo_world)"
    using interop by (simp add: line demo_lib_digits)
  moreover obtain u' where "readSafeFile demo_files ''/etc/agent.key'' ''agent private key'' True demo_directory =
      (Ok (as_bytes ?private, mac_stat), u')" using mac_key_file by (auto simp: line)
  with interop have "\<exists>h. readKeyMaterial demo_files None (Some ''/etc/agent.key'') ''agent private key'' True demo_directory = (Ok h, u') \<and>
      (\<forall>mk. key_of_hex demo_files mk h = map_err Thrown (mk host_secret))" by blast
  moreover have "key_of_32 host_secret = Ok host_secret" by (simp add: key_of_32_def len)
  ultimately show ?thesis by auto
qed

section \<open>Test vectors\<close>

text \<open>What \<open>JSONDecoder\<close> gives for a vector of the helper.\<close>

definition to_swift_response :: "AuthResponseBody \<Rightarrow> SwiftResponseBody" where
  "to_swift_response r =
    \<lparr>resp_protocolVersion = rs_protocol_version r, resp_requestId = rs_request_id r,
     resp_nonce = rs_nonce r, resp_requestHash = rs_request_hash r,
     resp_linuxHostId = rs_linux_host_id r, resp_pamService = rs_pam_service r,
     resp_pamUser = rs_pam_user r, resp_decision = rs_decision r, resp_authMethod = rs_auth_method r,
     resp_createdAtMs = rs_created_at_ms r, resp_expiresAtMs = rs_expires_at_ms r,
     resp_agentKeyId = rs_agent_key_id r, resp_alg = ''ed25519'', resp_errorCode = rs_error_code r,
     resp_errorMessage = rs_error_message r\<rparr>"

definition swift_vector :: "Vector \<Rightarrow> ProtocolTestVector" where
  "swift_vector v =
    \<lparr>ptv_hostPublicKeyHex = host_public_key_hex v, ptv_agentPublicKeyHex = agent_public_key_hex v,
     ptv_requestHashHex = request_hash_hex v,
     ptv_request = \<lparr>sreq_body = to_swift_request (srq_body (vector_signed_request v)),
       sreq_signature = srq_signature (vector_signed_request v)\<rparr>,
     ptv_response = \<lparr>sresp_body = to_swift_response (srs_body (vector_signed_response v)),
       sresp_signature = srs_signature (vector_signed_response v)\<rparr>\<rparr>"

lemma of_to_swift_response [simp]: "of_swift_response (to_swift_response r) = r"
  by (cases "rs_alg r") (simp add: of_swift_response_def to_swift_response_def)

lemma swift_canonical_of_rust:
  "request_canonical_bytes r = Ok b \<Longrightarrow> swift_request_canonicalBytes (to_swift_request r) = Ok b"
  "response_canonical_bytes s = Ok b \<Longrightarrow> swift_response_canonicalBytes (to_swift_response s) = Ok b"
  by (simp_all add: swift_request_canonical swift_response_canonical)
    (simp_all add: to_swift_request_def to_swift_response_def)

text \<open>CryptoKit and \<open>ed25519-dalek\<close> agree: the same keys, and what the one verifies the other does.\<close>

definition cryptokit_verifies :: "'w file_sys \<Rightarrow> 'z crypto_scheme \<Rightarrow> bool" where
  "cryptokit_verifies F C \<longleftrightarrow>
    (\<forall>sk. f_public_key F (ed25519_public C sk) = Ok (ed25519_public C sk)) \<and>
    (\<forall>pk m sig. verify_ed25519 C pk m sig = Ok () \<longrightarrow> a_isValidSignature F pk sig m)"

text \<open>
  C39. The test vector that the helper generates passes in both programs: it satisfies the test of the
  committed vector in the protocol crate, and \<open>verify-vector\<close> accepts what the agent decodes
  from it.
\<close>

theorem generated_vector_verifies:
  assumes "ed25519_correct L" and "\<And>m. length (sha256_digest L m) = 32" and "hex_lawful L"
    and "\<And>b. hex_encode L b = hexEncode b" and F: "swift_text F" and crypto: "cryptokit_verifies F L"
  shows "\<exists>json v. build_test_vector L = Ok json \<and> vector_of json = Some v \<and>
    test_vector_v1_approval_verifies L v = Some () \<and> check_vector L F (swift_vector v) = Ok ()"
  using assms(1,2)
proof (rule generated_vector)
  fix json v and s :: "Decision \<Rightarrow> AuthMethod \<Rightarrow> SignedAuthResponse"
  let ?host = "ed25519_public L (replicate 32 7)" and ?agent = "ed25519_public L (replicate 32 9)"
  let ?s = "s Approved BiometricOrWatch"
  assume json: "build_test_vector L = Inr json" "vector_of json = Some v"
    and v: "host_public_key_hex v = hex_encode L ?host" "agent_public_key_hex v = hex_encode L ?agent"
      "request_hash_hex v = hex_encode L (sha256_digest L (request_fields vector_request))"
      "srq_body (vector_signed_request v) = vector_request"
      "signed_request_verify L (vector_signed_request v) ?host = Inr ()" "vector_signed_response v = ?s"
    and s: "\<And>d am. verify_for_request L (s d am) vector_request ?agent = Inr ()"
  have hex: "hex_decode L (hex_encode L b) = Ok b" for b using assms(3) by (simp add: hex_lawful_def)
  have "test_vector_v1_approval_verifies L v = Some ()"
    by (simp add: test_vector_v1_approval_verifies_def v hex s request_sha256_def vector_request_canonical)
  moreover have "check_vector L F (swift_vector v) = Ok ()"
  proof -
    obtain m where m: "response_canonical_bytes (srs_body ?s) = Ok m" "verify_ed25519 L ?agent m (srs_signature ?s) = Ok ()"
      using s [of Approved BiometricOrWatch]
      by (auto simp: verify_for_request_def signed_response_verify_def result_simps)
    have "verify_ed25519 L ?host (request_fields vector_request) (srq_signature (vector_signed_request v)) = Ok ()"
      using v(5) by (simp add: signed_request_verify_def v(4) vector_request_canonical)
    then have "a_isValidSignature F ?host (srq_signature (vector_signed_request v)) (request_fields vector_request)"
      "a_isValidSignature F ?agent (srs_signature ?s) m"
      using crypto m(2) by (auto simp: cryptokit_verifies_def)
    moreover have "key_of_hex F (f_public_key F) (hexEncode (ed25519_public L sk)) = Ok (ed25519_public L sk)" for sk
      using crypto by (simp add: key_of_hex_def hexDecode_hexEncode [OF F] cryptokit_verifies_def)
    moreover have "response_bound F (to_swift_request vector_request)
        (sha256_digest L (request_fields vector_request)) (to_swift_response (srs_body ?s))"
      using s [of Approved BiometricOrWatch]
      by (simp add: verify_for_request_Ok verify_binding_Ok request_sha256_def vector_request_canonical
          response_bound_def same_text_def to_swift_response_def to_swift_request_def)
    ultimately show ?thesis
      by (simp add: check_vector_def swift_vector_def v assms(4) swift_request_sha256_def Let_def same_text_def
          swift_canonical_of_rust(1) [OF vector_request_canonical] swift_canonical_of_rust(2) [OF m(1)])
  qed
  ultimately show ?thesis using json by blast
qed

lemma demo_cryptokit_verifies: "cryptokit_verifies demo_files demo_lib"
proof -
  have "verify_ed25519 demo_lib pk m sig = Ok () \<Longrightarrow> sig = pad 64 (pk @ m)" for pk m sig
    by (auto simp: verify_ed25519_def demo_lib_def Let_def split: if_splits)
  moreover have "f_public_key demo_files = key_of_32" "a_isValidSignature demo_files = (\<lambda>pk sig m. sig = pad 64 (pk @ m))"
    by (simp_all add: demo_files_defs)
  moreover have "key_of_32 (ed25519_public demo_lib sk) = Ok (ed25519_public demo_lib sk)" for sk
    using demo_lib_crypto by (simp add: key_of_32_def ed25519_correct_def)
  ultimately show ?thesis by (simp add: cryptokit_verifies_def)
qed

theorem generated_vector_verifies_witness:
  "\<exists>json v. build_test_vector demo_lib = Ok json \<and> vector_of json = Some v \<and>
    test_vector_v1_approval_verifies demo_lib v = Some () \<and> check_vector demo_lib demo_files (swift_vector v) = Ok ()"
  by (rule generated_vector_verifies [OF demo_lib_crypto _ demo_lib_hex demo_lib_digits demo_files_text
        demo_cryptokit_verifies]) (simp add: demo_lib_def)

section \<open>The listening socket\<close>

text \<open>
  C30. A listener touches nothing but its socket: the initializer restores the mask and leaves every other
  path alone, and it removes a file at the path of the socket only when that is a socket of the user that
  refuses connections. A listener that it returns has a short enough path in a trusted directory and a
  socket of the user without permissions for anyone else. Closing a listener removes what is at its path
  only while that is the socket it bound.
\<close>

theorem listener_touches_own_socket:
  assumes dir: "socket_directory S view" and run: "listener_init S path w = (r, w')"
    and "f_parent_path S path w = (parent, w1)" and "socket = l_join S parent (f_last_component S path)"
  shows "snd (view w') = snd (view w) \<and> (\<forall>p. p \<noteq> socket \<longrightarrow> fst (view w') p = fst (view w) p) \<and>
    (fst (view w') socket = fst (view w) socket \<or>
      (\<forall>st. fst (view w) socket = Some st \<longrightarrow> stale_socket S socket st)) \<and>
    (\<forall>listener. r = Ok listener \<longrightarrow> li_path listener = socket \<and> length socket < 104 \<and>
      trusted_parent (f_geteuid S) (ok_or (fst (view w) parent) ENOENT) \<and>
      (\<exists>st. fst (view w') socket = Some st \<and> own_socket S (li_identity listener) st) \<and>
      (\<forall>v listener' v'. closeAndUnlink S listener v = (listener', v') \<longrightarrow>
        view v' = view v \<or> view v' = ((fst (view v))(socket := None), snd (view v)) \<and>
          (\<exists>i st. li_identity listener = Some i \<and> fst (view v) socket = Some st \<and> sameFile i st)))"
proof -
  have socket: "socket = l_join S (fst (f_parent_path S path w)) (f_last_component S path)" using assms(3,4) by simp
  note init = listener_init_view [OF dir run socket]
  have "view v' = view v \<or> view v' = ((fst (view v))(socket := None), snd (view v)) \<and>
      (\<exists>i st. li_identity listener = Some i \<and> fst (view v) socket = Some st \<and> sameFile i st)"
    if "r = Ok listener" "closeAndUnlink S listener v = (listener', v')" for listener v listener' v'
    using closeAndUnlink_view [OF dir that(2)] init(4) [OF that(1)] by simp
  with init(1-3) init(4) show ?thesis by (simp add: assms(3))
qed

theorem listener_touches_own_socket_witness:
  "\<exists>listener w'. listener_init demo_listen ''/etc/agent.sock'' demo_directory = (Ok listener, w') \<and>
    li_path listener = ''/etc/agent.sock'' \<and> dw_mask w' = 18 \<and>
    (\<exists>st. dw_sockets w' ''/etc/agent.sock'' = Some st \<and> own_socket demo_listen (li_identity listener) st)"
proof -
  have calls: "f_parent_path demo_listen ''/etc/agent.sock'' w = (''/etc'', w)"
    "f_last_component demo_listen ''/etc/agent.sock'' = ''agent.sock''"
    "l_join demo_listen ''/etc'' ''agent.sock'' = ''/etc/agent.sock''" for w
    by (simp_all add: demo_listen_defs demo_files_defs last_component_def)
  have "\<exists>listener w'. listener_init demo_listen ''/etc/agent.sock'' demo_directory = (Ok listener, w')"
    by (simp add: listener_init_def calls address_def Let_def)
      (simp add: demo_listen_defs demo_files_defs demo_directory_def trusted_parent_def directory_stat_def
        removeStaleSocket_def probe_stale_def start_listener_def socket_stat_def socket_call_def map_err_w_def configureConnectedSocket_def
        finally_w_def sameFile_def bind_and_listen_def bind_private_def)
  then obtain listener w' where run: "listener_init demo_listen ''/etc/agent.sock'' demo_directory = (Ok listener, w')"
    by blast
  from listener_touches_own_socket [OF demo_listen_directory run calls(1), of "''/etc/agent.sock''"] calls(2,3) run
  show ?thesis by (auto simp: demo_view_def demo_directory_def)
qed

section \<open>The program\<close>

text \<open>
  C40. The lines that \<open>usage\<close> documents run the commands they name, with the options they spell, and options
  that a parser lets through satisfy the rules that \<open>usage\<close> states: one source for each key, a host for
  \<open>hosts add\<close> and \<open>hosts remove\<close>. An agent that serves without \<open>--once\<close> never exits with status zero.
\<close>

theorem documented_commands_run:
  shows "(hosts_valid h \<longrightarrow> agent_run C S J server (''hosts'' # hosts_line h) w =
      runHosts (file_sys.truncate S) (jc_config J) (jc_to_config J) h w) \<and>
    (fake_agent_valid f \<longrightarrow> agent_run C S J server (''fake-agent'' # fake_agent_line f) w = runFakeAgent C S J server f w) \<and>
    (print_public_key_valid p \<longrightarrow> agent_run C S J server (''print-public-key'' # print_public_key_line p) w =
      Some (runPrintPublicKey (file_sys.truncate S) p w)) \<and>
    agent_run C S J server (''serve'' # serve_line s) w = runServe C S J server s w \<and>
    agent_run C S J server (''init-key'' # init_key_line i) w = runInitKey (file_sys.truncate S) i w \<and>
    agent_run C S J server (''keychain-init'' # keychain_init_line k) w = Some (runKeychainInit (file_sys.truncate S) k w) \<and>
    agent_run C S J server (''keychain-public-key'' # keychain_public_key_line q) w =
      Some (runKeychainPublicKey (file_sys.truncate S) q w) \<and>
    agent_run C S J server (''verify-vector'' # verify_vector_line v) w =
      Some (runVerifyVector C (file_sys.truncate S) (jc_vector J) v w) \<and>
    (parseHostsOptions args = Ok h \<longrightarrow> hosts_valid h) \<and> (parseFakeAgentOptions args = Ok f \<longrightarrow> fake_agent_valid f) \<and>
    (parsePrintPublicKeyOptions args = Ok p \<longrightarrow> print_public_key_valid p) \<and>
    (server_runs server \<and> \<not> so_once s \<and> agent_main C S J server (''serve'' # serve_line s) w = Some (e, w') \<longrightarrow>
      e \<noteq> Exited 0)"
proof -
  have "e \<noteq> Exited 0"
    if "server_runs server" "\<not> so_once s" "agent_main C S J server (''serve'' # serve_line s) w = Some (e, w')"
    using that agent_main_success [of C S J server "''serve'' # serve_line s" w w'] runServe_permanent
    by (metis run_documented_lines(2))
  then show ?thesis by (simp add: run_documented_lines parsed_options_valid)
qed

text \<open>A server whose first \<open>accept\<close> fails.\<close>

definition failing_server :: "directory_world socket_server" where
  "failing_server = (\<lambda>_ _ _ w. Some (Err (SocketError ''error''), w))"

definition mac_coders :: json_coders where
  "mac_coders = \<lparr>jc_config = (\<lambda>_. Ok mac_host_config), jc_to_config = (\<lambda>c. Ok [word_of_nat (length (config_hosts c))]),
    jc_request = demo_decode, jc_response = demo_encode, jc_vector = (\<lambda>_. Err ''not a vector'')\<rparr>"

lemma failing_server_runs: "server_runs failing_server"
proof -
  have "\<exists>s. server_step\<^sup>*\<^sup>* (server_start once) s \<and> sv_completion s = Some (Err x)" for once x
  proof -
    let ?s = "server_start once\<lparr>sv_accepting := False, sv_completion := complete (Err x) (sv_completion (server_start once))\<rparr>"
    have "server_step (server_start once) ?s" by (rule server_step.accept_fails) (simp add: server_start_def)
    moreover have "sv_completion ?s = Some (Err x)" by (simp add: server_start_def complete_def)
    ultimately show ?thesis by blast
  qed
  then show ?thesis by (auto simp: server_runs_def failing_server_def)
qed

lemma failing_serve_returns: "\<exists>r w'. runServe C S J failing_server s w = Some (r, w')"
  by (cases "loadAgentConfig (file_sys.truncate S) (jc_config J) (so_configPath s) w";
      cases "fst (loadAgentConfig (file_sys.truncate S) (jc_config J) (so_configPath s) w)")
    (auto simp: runServe_def run_listening_def failing_server_def finally_io_def finally_w_def bind_io_def bind_w_def
      split: prod.splits sum.splits)

theorem documented_commands_run_witness:
  "agent_run demo_lib demo_listen mac_coders failing_server (''hosts'' # hosts_line mac_add) demo_directory =
    runHosts (file_sys.truncate demo_listen) (jc_config mac_coders) (jc_to_config mac_coders) mac_add demo_directory \<and>
   (\<exists>e w'. agent_main demo_lib demo_listen mac_coders failing_server [''serve'', ''--config'', ''/etc/agent.json''] demo_directory =
     Some (e, w') \<and> e \<noteq> Exited 0)"
proof -
  let ?s = "\<lparr>so_configPath = ''/etc/agent.json'', so_once = False\<rparr>"
  note commands = documented_commands_run [of mac_add demo_lib demo_listen mac_coders failing_server demo_directory _ _ ?s]
  have "hosts_valid mac_add" by (simp add: hosts_valid_def mac_add_def one_source_def)
  moreover have "serve_line ?s = [''--config'', ''/etc/agent.json'']"
    by (simp add: serve_line_def given_def given_flag_def)
  moreover obtain e w' where
    "agent_main demo_lib demo_listen mac_coders failing_server (''serve'' # serve_line ?s) demo_directory = Some (e, w')"
    using failing_serve_returns [of demo_lib demo_listen mac_coders ?s demo_directory] agent_main_returns
    by (metis run_documented_lines(2))
  ultimately show ?thesis using commands failing_server_runs by (metis ServeOptions.select_convs(2))
qed

end
