(* ===== verification/Spec2Isabelle.thy ===== *)
theory Spec2Isabelle
  imports Pam_Props Agent_Props Agent_File_Props
begin

text \<open>
  macos-auth lets a Linux host ask a Mac to approve an authentication (\<open>sudo\<close>, through PAM) with
  Touch ID or a watch. The Linux side is the crate \<open>protocol\<close> (signed requests and responses with
  canonical bytes), the crate \<open>helper\<close> (the program the PAM module starts) and the PAM module itself,
  in C; on the Mac runs an agent in Swift. This development models the four programs, except for the
  argument parser of the helper and some of the tests.

  \<^bold>\<open>How the parts interact.\<close> The PAM module validates the helper's executable, runs it as
  \<open>macos-auth-helper request\<close> in a child process and waits for it with a timeout. The helper loads its
  configuration and keys through \<open>trust.rs\<close>, signs a request with a fresh nonce, connects to the
  agent's socket through \<open>transport.rs\<close>, exchanges one frame each way, verifies the response and
  its binding to the request, checks freshness and the replay cache, and exits with a code that the
  PAM module maps to success, fallback or failure. The agent reads its configuration and keys from
  files that only its user controls, listens on a socket that only its user can reach, verifies the request under the key
  configured for its host, asks the owner through LocalAuthentication, one request at a time, and
  signs the decision, as long as the request has not expired and the peer is connected.

  \<^bold>\<open>Theories.\<close>
  \<^item> \<open>Prelude\<close>, \<open>Rust_Str\<close>, \<open>System\<close>: what the code uses of Rust and its standard library: fixed-width
    integers, \<open>Result\<close> and the \<open>?\<close> operator, strings as UTF-8 code units, paths, time, \<open>io::Error\<close>, and
    the operating system as the record \<open>sys\<close> of calls on an arbitrary type of worlds.
  \<^item> \<open>Protocol_Types\<close>, \<open>Codec\<close>, \<open>Messages\<close>, \<open>Protocol\<close> (\<open>crates/protocol/src/lib.rs\<close>): the messages,
    the \<open>encode_*\<close> functions, and every method of the four message types. \<open>Codec\<close> has a reader for
    each encoder and the locale \<open>prefix_codec\<close>, interpreted for each field type; \<open>Protocol\<close> has decoders
    for the canonical bytes and the locales \<open>signable\<close> (signed messages) and \<open>validity_window\<close>
    (messages that expire), interpreted for requests and for responses.
  \<^item> \<open>Trust\<close> (\<open>crates/helper/src/trust.rs\<close>): \<open>open_trusted\<close> is \<open>open\<close>; \<open>trusted_open\<close> with the inductive
    \<open>trusted_walk\<close> is its specification. \<open>create_marker\<close> and \<open>cleanup_markers\<close> keep replay markers.
  \<^item> \<open>Transport\<close> (\<open>crates/helper/src/transport.rs\<close>): \<open>connect\<close>, \<open>wait\<close>, \<open>transfer\<close> and the stream that
    gives up at a deadline.
  \<^item> \<open>Frame\<close>: \<open>write_json_frame\<close> and \<open>read_json_frame\<close> of \<open>main.rs\<close> over any reader and writer; the
    inductive \<open>receives\<close> and \<open>sends\<close> are the fragmented transfers, the locales \<open>byte_reader\<close> and
    \<open>byte_writer\<close> the contract of a stream, interpreted for the deadline stream and for the plain
    socket of the development agent.
  \<^item> \<open>Helper_Lib\<close>, \<open>Keys\<close>, \<open>Config\<close>, \<open>Replay\<close>, \<open>Request\<close> (\<open>crates/helper/src/main.rs\<close>): constants and
    errors, key files, configuration, the replay cache, and \<open>run_request\<close>, split at the points where
    it changes subject into \<open>load_settings\<close>, \<open>sign_request\<close>, \<open>exchange\<close> and \<open>accept_response\<close>.
  \<^item> \<open>Replay_Race\<close>: several helpers on one replay cache, their system calls interleaved; \<open>race_step\<close> is
    one call of one process, \<open>race_inv\<close> the invariant of the reachable states. \<open>Replay_Cleanup\<close>: expired
    markers do not survive a cleanup.
  \<^item> \<open>Fake_Agent\<close>, \<open>Commands\<close> (\<open>main.rs\<close>): the development agent, the other commands, and the exit
    status of the process.
  \<^item> \<open>Demo\<close>, \<open>Demo_Run\<close>: a concrete system and concrete libraries that satisfy the hypotheses, and one
    complete request on them; the witnesses evaluate there.
  \<^item> \<open>Pam\<close> (\<open>pam/pam_macos_auth.c\<close>): every function of the module over \<open>pam_sys\<close>, which extends \<open>sys\<close> by
    PAM, processes, signals and the C library. A forked child is the value of \<open>helper_child\<close>, run on the
    locals that \<open>fork\<close> copies. \<open>Pam_Process\<close> has the waiting loops and the laws of processes and clocks,
    \<open>Pam_Descriptors\<close> the accounting of open descriptors, \<open>Pam_Compose\<close> the helper as the program that the
    child executes, and \<open>Pam_Demo\<close> a concrete system.
  \<^item> \<open>Agent_Messages\<close> (\<open>main.swift\<close> of \<open>agent/Sources/MacosAuthAgent\<close>): the Swift messages and their
    encoders; \<open>of_swift_request\<close> and \<open>of_swift_response\<close> take them to the Rust ones. \<open>Agent_Transport\<close>
    (\<open>Transport.swift\<close>): deadlines, frames and the lifetime of a request over the record \<open>agent_sys\<close>,
    with interpretations of \<open>byte_reader\<close> and \<open>byte_writer\<close>. \<open>Agent_Limit\<close>: the rate limiter and its
    histories. \<open>Agent_Auth\<close> (\<open>Authentication.swift\<close>): the coordinator and the closure of a session,
    \<open>session_block\<close>. \<open>Agent_Serve\<close>: the request handlers; \<open>agent_signs\<close> are the responses signed on a
    connection, \<open>owner_approved\<close> what an approval needs. \<open>Agent_Server\<close>: the threads of the server as the step
    relation \<open>server_step\<close>, with the locale \<open>semaphore\<close> interpreted for the pool and for the
    authentication slot. \<open>Agent_Demo\<close>: a concrete agent that answers the request of \<open>Demo_Run\<close>.
  \<^item> \<open>Agent_Files\<close> (\<open>SecureFiles.swift\<close>): checked reading and the replacement of the configuration file, over
    \<open>file_sys\<close>, which extends \<open>agent_sys\<close> by files, keys and the keychain. \<open>Agent_Config\<close> (\<open>main.swift\<close>): hex,
    key files, the keychain, \<open>AgentConfig\<close> and the \<open>AgentRuntime\<close> that it gives. \<open>Agent_Commands\<close>: the
    commands on parsed options, with the locale \<open>keyed_list\<close> interpreted for the hosts of a configuration.
    \<open>Agent_Listener\<close> (\<open>Transport.swift\<close>): \<open>UnixSocketListener\<close> over \<open>listen_sys\<close>, which extends \<open>file_sys\<close> by
    sockets. \<open>Agent_Options\<close>: the parsers. \<open>Agent_Main\<close>: \<open>serve\<close>, \<open>fake-agent\<close>, the dispatch and the exit
    status. \<open>Agent_File_Demo\<close>: a concrete directory with keys, configuration and socket.
  \<^item> \<open>Unit_Tests\<close>, \<open>Frame_Tests\<close>: unit tests of both crates and the fuzz targets over the model.
  \<^item> \<open>Protocol_Props\<close>, \<open>Helper_Props\<close>, \<open>Command_Props\<close>, \<open>Pam_Props\<close>, \<open>Agent_Props\<close>,
    \<open>Agent_File_Props\<close> and this theory: the properties. This theory holds those that span components.

  \<^bold>\<open>What is shown.\<close> A success of PAM means that the owner of the Mac authenticated for a request of
  this user and service: the agent signs an approval only for a verified, fresh, rate-limited
  request for which LocalAuthentication succeeded, signs the same bytes that the helper verifies,
  and answers in time or not at all; its handlers return, at most eight connections are handled and
  one asks the owner, and the rate limit holds in every window. It accepts requests only under keys
  of its configuration, replaces that file as a whole or not at all, and removes no socket but a stale
  one or its own. That success comes only from a
  helper that root controls, started with a fixed command line and environment and without
  inherited descriptors; the module returns within its timeouts, leaks no descriptor, and its codes
  agree with the helper's. An approval is reported only for a response the agent signed for this
  user, service, host and nonce, in time, and for no other decision; with root ownership required every
  input comes from files that root controls; the helper always returns when time passes, and with the
  decision of an honest agent that answers in time. Canonical
  bytes determine their message, requests and responses cannot be confused, and what an honest
  agent signs is accepted. A trusted path is opened exactly when every object on it is as required;
  a recorded response is rejected until it expires, also when helpers run concurrently, and its marker
  removed after that; frames survive any fragmentation, between the programs too, oversized and late ones are
  refused; key files and test vectors serve both programs; markers and generated configurations are read
  back as written, and the documented command lines of the agent run the commands they name.

  \<^bold>\<open>Modelling.\<close> Every effect is a field of \<open>sys\<close>, which takes and returns the world, so that other
  processes, the peer and the passing of time are part of the world; a theorem that needs a law of
  the system names it (\<open>time_passes\<close>, \<open>listing_ends\<close>, \<open>marker_directory\<close>, \<open>lists_entry\<close>, \<open>clears_entry\<close>,
  \<open>process_table\<close>, \<open>helper_clock\<close>, \<open>descriptor_table\<close>, \<open>child_descriptors\<close>, and for the agent
  \<open>agent_time\<close>, \<open>session_table\<close>, \<open>cryptokit_signs\<close>, \<open>cryptokit_verifies\<close>, \<open>swift_text\<close>,
  \<open>config_directory\<close>, \<open>config_parent\<close>, \<open>interrupts_end\<close>, \<open>socket_directory\<close> and \<open>server_runs\<close>). Third-party crates are the
  fields of \<open>crypto\<close>, \<open>helper_lib\<close> and \<open>toml_lib\<close>, with their documented behaviour as
  the hypotheses \<open>ed25519_correct\<close>, \<open>no_collision\<close>, \<open>signature_binds\<close>, \<open>hex_lawful\<close> and \<open>toml_lawful\<close>; clap is
  a function from the argument vector to a command with the law \<open>clap_request\<close>, which includes that a
  value that looks like an option is refused. Loops that need not
  end are partial functions into \<open>option\<close>, where \<open>None\<close> is divergence and \<open>returns\<close> says that there is
  a result; no fuel is used. Integers keep their width; \<open>+\<close> wraps as in a release build. The length
  of a socket path is that of Linux. Closing of descriptors on drop, messages on standard error and
  the modes of poll other than readiness are not modelled, and a formatted line is one write.

  \<^bold>\<open>Not modelled.\<close> Argument parsing by clap and the derived JSON and TOML formats of the programs, which
  are parameters, as are CryptoKit, the keychain, AppKit and LocalAuthentication; the branch of
  \<open>close_inherited_fds\<close> for builds outside Linux; the tests that prepare files, block on real sockets
  or run the binary; packaging and scripts. In the listing of \<open>/proc/self/fd\<close> the number of a
  descriptor is a natural number: the names there are those of descriptors, which fit an \<open>int\<close>.
\<close>

section \<open>From PAM to the agent\<close>






section \<open>An approval\<close>





section \<open>An honest agent\<close>

text \<open>
  C5. The decision of an honest agent arrives: when the settings load and the request is signed,
  the agent answers with a response that it builds for this request and signs with the key whose
  public half is pinned, the exchange delivers it, the clocks show that the deadline and the
  validity of both messages have not passed, and the response can be recorded, then \<open>run_request\<close>
  returns with the exit code of exactly that decision.
\<close>

theorem honest_decision_reported:
  assumes "ed25519_correct L"
    and "load_settings L S args w = (Ok st, w1)"
    and "sign_request L S st w1 = (Ok (deadline, request), w2)"
    and "for_request L (srq_body request) d method issued expires key_id = Ok body"
    and "response_sign L body agent_key = Ok response"
    and "st_agent_pubkey st = ed25519_public L agent_key"
    and "exchange L S (st_socket st) deadline request w2 = Some (Ok response, w3)"
    and "unix_time_ms S w3 = (Ok now, w4)" and "sys_instant_now S w4 = (t, w5)" and "t < deadline"
    and "request_verify_freshness (srq_body request) now (st_allowed_future_skew_ms st) = Ok ()"
    and "response_verify_freshness body now (st_allowed_future_skew_ms st) = Ok ()"
    and "record_if_cached L S (st_replay_cache st) response w5 = Some (Ok (), w6)"
    and "sys_instant_now S w6 = (t', w7)" and "t' < deadline" and "unix_time_ms S w7 = (Ok now', w')"
    and "request_verify_freshness (srq_body request) now' (st_allowed_future_skew_ms st) = Ok ()"
  shows "run_request L S args w = Some (Ok (exit_code_for_decision d), w')"
proof -
  have signed: "srs_body response = body"
      "signed_response_verify L response (ed25519_public L agent_key) = Ok ()"
    using signed_response.signed_verifies [OF assms(1,5)] by simp_all
  then have "verify_for_request L response (srq_body request) (st_agent_pubkey st) = Ok ()"
    using for_request_Ok [OF assms(4)] assms(6) by (simp add: verify_for_request_Ok)
  moreover have "rs_decision body = d"
    using assms(4) by (auto simp: for_request_def result_simps)
  ultimately show ?thesis
    using assms signed(1)
    by (simp add: run_request_def request_steps_def accept_response_def check_deadline_def)
qed

theorem honest_decision_reported_witness:
  "\<exists>(L :: helper_lib) w'. ed25519_correct L \<and> run_request L demo_sys demo_args demo_world = Some (Ok EXIT_DENIED, w')"
proof -
  let ?s = "demo_response Denied"
  let ?L = "delivering_lib (ed25519_verify demo_lib) ?s"
  let ?w = "demo_world\<lparr>d_clock := 9, d_inbox := [], d_sent := [0, 0, 0, 1, 1]\<rparr>"
  have correct: "ed25519_correct ?L"
    using demo_lib_crypto by (simp add: ed25519_correct_def delivering_lib_def)
  obtain body where f: "for_request demo_lib demo_request Denied BiometricOrWatch 1700000000000
      1700000010000 ''agent-key-1'' = Ok body" "response_sign demo_lib body agent_secret = Ok ?s"
    using demo_response_ok(1) [of Denied] by (auto simp: demo_reply_def result_simps)
  have b: "body = srs_body ?s"
    using signed_response.signed_verifies [OF demo_lib_crypto f(2)] by simp
  have reply: "for_request ?L demo_request Denied BiometricOrWatch 1700000000000 1700000010000
      ''agent-key-1'' = Ok body" "response_sign ?L body agent_secret = Ok ?s"
    using f by (simp_all add: for_request_def response_sign_def request_sha256_def delivering_lib_def)
  have "CHR 0x00 \<notin> set (marker_name_of ?L ?s)"
    using demo_hex_chars [of "CHR 0x00"]
    by (auto simp: marker_name_of_def delivering_lib_def demo_lib_def)
  then obtain w6 where recorded: "record_replay_marker ?L demo_sys 4 ?s (?w\<lparr>d_clock := 10\<rparr>) = Some (Ok (), w6)"
      "d_clock w6 = 10"
    using demo_record [of "?w\<lparr>d_clock := 10\<rparr>" ?L ?s] by (auto simp: demo_world_def)
  have fresh: "request_verify_freshness demo_request 1700000000000 30000 = Ok ()"
      "response_verify_freshness body 1700000000000 30000 = Ok ()"
    by (simp_all add: request_verify_freshness_def response_verify_freshness_def demo_request_def
        demo_response_ok saturating_add_def b)
  have settings: "st_agent_pubkey demo_settings = ed25519_public ?L agent_secret"
      "st_socket demo_settings = ''/run/agent.sock''" "st_allowed_future_skew_ms demo_settings = 30000"
      "st_replay_cache demo_settings = Some 4" "srq_body demo_signed_request = demo_request"
    by (simp_all add: demo_settings_def demo_signed_request_def delivering_lib_def demo_lib_def
        pad_def agent_secret_def)
  have "run_request ?L demo_sys demo_args demo_world =
      Some (Ok (exit_code_for_decision Denied), w6\<lparr>d_clock := Suc 10\<rparr>)"
    using recorded fresh reply
    by (intro honest_decision_reported [OF correct demo_load_settings demo_sign_request, where
          ?w3.0 = ?w and ?w4.0 = ?w and ?w5.0 = "?w\<lparr>d_clock := 10\<rparr>" and ?w6.0 = w6 and t = 9 and t' = 10 and
          ?w7.0 = "w6\<lparr>d_clock := Suc 10\<rparr>" and now = 1700000000000 and now' = 1700000000000])
      (simp_all only: settings demo_exchange demo_now demo_clock record_if_cached_def option.case, simp_all)
  then show ?thesis using correct by (intro exI conjI) simp_all
qed

section \<open>Every outcome\<close>

text \<open>
  C7. The exit code that reports a decision of the agent is backed by one: approved, denied,
  cancelled and failed are reported only for a response that verifies for the request of this
  run under the pinned key and carries that decision.
\<close>

theorem decisive_exit_is_verified:
  assumes "run_request L S args w = Some (Ok code, w')"
    and "code \<in> {EXIT_APPROVED, EXIT_DENIED, EXIT_CANCELLED, EXIT_FAILED}"
  shows "\<exists>st w1 deadline request w2 response w3. load_settings L S args w = (Ok st, w1) \<and>
    sign_request L S st w1 = (Ok (deadline, request), w2) \<and>
    exchange L S (st_socket st) deadline request w2 = Some (Ok response, w3) \<and>
    verify_for_request L response (srq_body request) (st_agent_pubkey st) = Ok () \<and>
    code = exit_code_for_decision (rs_decision (srs_body response))"
proof -
  have "request_steps L S args w = Some (Inr code, w')"
    using assms request_steps_Err by (fastforce simp: run_request_Ok exit_code_defs)
  then show ?thesis by (blast elim: request_steps_Ok accept_response_Ok)
qed

theorem decisive_exit_is_verified_witness:
  "\<exists>(st :: request_settings) request response.
    verify_for_request (agent_lib Denied) response request (st_agent_pubkey st) = Ok () \<and>
    exit_code_for_decision (rs_decision (srs_body response)) = EXIT_DENIED"
proof -
  obtain w' where "run_request (agent_lib Denied) demo_sys demo_args demo_world = Some (Ok EXIT_DENIED, w')"
    using demo_run [of Denied] by auto
  from decisive_exit_is_verified [OF this] obtain st :: request_settings and response and request :: SignedAuthRequest
    where "verify_for_request (agent_lib Denied) response (srq_body request) (st_agent_pubkey st) = Ok ()"
      and "EXIT_DENIED = exit_code_for_decision (rs_decision (srs_body response))"
    by blast
  then show ?thesis by metis
qed

text \<open>
  C10. A request always ends: when time passes and a directory listing is finite, \<open>run_request\<close>
  returns, whatever the agent sends or withholds.
\<close>

theorem run_request_returns:
  assumes "time_passes S T" and "listing_ends S M"
  shows "returns (run_request L S args w)"
  using assms by (rule run_request_ends)

theorem run_request_returns_witness:
  "returns (run_request (agent_lib Approved) demo_sys demo_args (demo_world\<lparr>d_inbox := []\<rparr>))"
  by (rule run_request_returns [OF demo_time demo_listing])

text \<open>
  C34. A response that does not verify for the request under the pinned key ends the request with
  the exit code for tampering, before the clock or the replay cache is touched again.
\<close>

theorem unverified_response_is_tampering:
  assumes "load_settings L S args w = (Ok st, w1)"
    and "sign_request L S st w1 = (Ok (deadline, request), w2)"
    and "exchange L S (st_socket st) deadline request w2 = Some (Ok response, w3)"
    and "verify_for_request L response (srq_body request) (st_agent_pubkey st) \<noteq> Ok ()"
  shows "run_request L S args w = Some (Ok EXIT_TAMPER, w3)"
proof -
  obtain e where "verify_for_request L response (srq_body request) (st_agent_pubkey st) = Inl e"
    using assms(4) by (cases "verify_for_request L response (srq_body request) (st_agent_pubkey st)") auto
  with assms(1-3) show ?thesis
    by (simp add: run_request_def request_steps_def accept_response_def)
qed

theorem unverified_response_is_tampering_witness:
  "\<exists>w3. run_request (delivering_lib (only_reply Approved) (demo_response Denied)) demo_sys demo_args demo_world =
    Some (Ok EXIT_TAMPER, w3)"
proof -
  let ?L = "delivering_lib (only_reply Approved) (demo_response Denied)"
  have st: "st_socket demo_settings = ''/run/agent.sock''" by (simp add: demo_settings_def)
  have "response_fields (srs_body (demo_response Denied)) \<noteq>
    response_fields (srs_body (demo_response Approved))"
    using response_canonical_inject [of "srs_body (demo_response Denied)" _ "srs_body (demo_response Approved)"]
      demo_response_canonical demo_response_ok(2) by (metis Decision.distinct(1))
  then have "verify_for_request ?L (demo_response Denied) (srq_body demo_signed_request)
      (st_agent_pubkey demo_settings) \<noteq> Ok ()"
    by (simp add: verify_for_request_Ok signed_response.verify_Ok verify_ed25519_Ok
        demo_response_canonical delivering_lib_def only_reply_def)
  then show ?thesis
    using unverified_response_is_tampering [OF demo_load_settings demo_sign_request, unfolded st,
        OF demo_exchange] by blast
qed

section \<open>Production\<close>

text \<open>
  C9. With root ownership required, keys never come from the command line: the signing key and
  the pinned key are read from files that root controls, the signing key from a private one, and
  so is the configuration when there is one.
\<close>

theorem production_inputs_root_controlled:
  assumes "load_settings L S args w = (Ok st, w')" and "ra_require_root_owned args"
  shows "ra_key_hex args = None \<and> ra_agent_pubkey_hex args = None \<and>
    (\<exists>path contents material. root_controlled S path True contents \<and>
      key_material_of_lines (lines contents) = Some material \<and>
      hex_decode L (trim material) = Ok (st_signing_key st)) \<and>
    (\<exists>path contents material. root_controlled S path False contents \<and>
      key_material_of_lines (lines contents) = Some material \<and>
      hex_decode L material = Ok (st_agent_pubkey st)) \<and>
    (\<forall>path. ra_config args = Some path \<longrightarrow> (\<exists>contents. root_controlled S path False contents))"
  using assms by (rule root_owned_settings)

theorem production_inputs_root_controlled_witness:
  "\<exists>path contents. root_controlled demo_sys path True contents"
  using production_inputs_root_controlled [OF demo_load_settings [of "only_reply Approved" "demo_response Approved"]]
  by (auto simp: demo_args_def)

end
